(* ===== verification/Prelude.thy ===== *)
theory Prelude
  imports Main "HOL-Library.Word"
begin

text \<open>
  What every component of the development shares: the machine integer types of the C
  sources, the flat little-endian byte memory that the frame handlers work on, and the
  lemmas about words, rotations and memory that carry the component proofs.

  The target (CH32V307, RV32IMAC) is a 32-bit little-endian machine: an \<open>unsigned\<close>, an
  \<open>int\<close> and a pointer have 32 bits.  Addresses are 32-bit words and memory is a function
  from addresses to bytes, so pointer arithmetic wraps as it does on the machine, two
  pointers into one buffer alias, and a write past the end of an object changes whatever
  lies there.
\<close>

unbundle bit_operations_syntax

section \<open>Machine integers\<close>

type_synonym u8 = "8 word"
type_synonym u16 = "16 word"
type_synonym u32 = "32 word"
type_synonym u64 = "64 word"
type_synonym u128 = "128 word"

named_theorems mem_simps
  \<open>loads after stores, stores as function updates\<close>
named_theorems frame_intros
  \<open>stores that keep a frame condition\<close>
named_theorems field_defs
  \<open>the offsets of the header fields\<close>

section \<open>Words\<close>

lemma drop_bit_word_ge [simp]:
  "LENGTH('a) \<le> n \<Longrightarrow> drop_bit n (w :: 'a::len word) = 0"
  by (rule bit_word_eqI) (auto simp: bit_drop_bit_eq dest: bit_imp_le_length)

lemma push_bit_word_ge [simp]:
  "LENGTH('a) \<le> n \<Longrightarrow> push_bit n (w :: 'a::len word) = 0"
  by (rule bit_word_eqI) (simp add: bit_push_bit_iff)

lemma take_bit_word_mult:
  "take_bit n (take_bit n x * take_bit n y) = take_bit n (x * y :: 'a::len word)"
  by transfer (simp add: take_bit_mult)

lemma unat_take_bit_minus:
  fixes x :: "'a::len word"
  assumes "n \<le> LENGTH('a)"
  shows "unat (take_bit n (- x)) = (2 ^ n - unat x mod 2 ^ n) mod 2 ^ n"
proof -
  have "uint (take_bit n (- x)) = ((- uint x) mod 2 ^ LENGTH('a)) mod 2 ^ n"
    by (subst unsigned_take_bit_eq) (simp only: take_bit_eq_mod uint_word_ariths)
  also have "\<dots> = (- uint x) mod 2 ^ n"
    using assms by (intro mod_mod_cancel) (simp add: le_imp_power_dvd)
  also have "\<dots> = (2 ^ n - uint x mod 2 ^ n) mod 2 ^ n"
    by (simp add: mod_minus_eq)
  finally have "nat (uint (take_bit n (- x))) = nat ((2 ^ n - uint x mod 2 ^ n) mod 2 ^ n)"
    by simp
  also have "\<dots> = nat (2 ^ n - uint x mod 2 ^ n) mod nat (2 ^ n)"
    by (rule nat_mod_distrib) (simp_all add: less_imp_le)
  also have "\<dots> = (2 ^ n - nat (uint x) mod 2 ^ n) mod 2 ^ n"
    by (subst nat_diff_distrib) (simp_all add: less_imp_le nat_mod_distrib nat_power_eq)
  finally show ?thesis by simp
qed

lemma unat_drop_bit_less:
  fixes x :: "'a::len word"
  assumes "n \<le> LENGTH('a)"
  shows "unat (drop_bit n x) < 2 ^ (LENGTH('a) - n)"
proof -
  have "unat x < 2 ^ LENGTH('a)" by (rule unsigned_less)
  also have "(2 :: nat) ^ LENGTH('a) = 2 ^ (LENGTH('a) - n) * 2 ^ n"
    using assms by (simp flip: power_add)
  finally have "unat x div 2 ^ n < 2 ^ (LENGTH('a) - n)" by (rule less_mult_imp_div_less)
  then show ?thesis by (subst unat_drop_bit_eq) (simp only: drop_bit_eq_div)
qed

text \<open>Exclusive or with a fixed word undoes itself.\<close>

lemma xor_cancel_right [simp]: "((x :: 'a::len word) XOR k) XOR k = x"
  by (rule bit_word_eqI) (auto simp: bit_xor_iff)

lemma xor_cancel_left [simp]: "k XOR (k XOR (x :: 'a::len word)) = x"
  by (rule bit_word_eqI) (auto simp: bit_xor_iff)

lemma xor_right_inject [simp]: "(x :: 'a::len word) XOR k = y XOR k \<longleftrightarrow> x = y"
  by (metis xor_cancel_right)

lemma xor_left_inject [simp]: "k XOR (x :: 'a::len word) = k XOR y \<longleftrightarrow> x = y"
  by (metis xor_cancel_left)

text \<open>A word is determined by the exclusive or of itself and itself shifted right.\<close>

lemma drop_bit_fixed_0:
  fixes z :: "'a::len word"
  assumes "0 < k" "drop_bit k z = z"
  shows "z = 0"
proof (rule ccontr)
  assume "z \<noteq> 0"
  then have "0 < unat z" by (simp add: unat_gt_0)
  then have "unat z div 2 ^ k < unat z" using assms(1) by (intro div_less_dividend one_less_power) simp_all
  moreover have "unat (drop_bit k z) = unat z div 2 ^ k"
    by (subst unat_drop_bit_eq) (simp only: drop_bit_eq_div)
  ultimately show False using assms(2) by simp
qed

lemma inj_xorshift:
  assumes "0 < k"
  shows "inj (\<lambda>x :: 'a::len word. drop_bit k x XOR x)"
proof (rule injI)
  fix x y :: "'a word"
  assume eq: "drop_bit k x XOR x = drop_bit k y XOR y"
  have "drop_bit k (x XOR y) XOR (x XOR y) = (drop_bit k x XOR x) XOR (drop_bit k y XOR y)"
    by (simp add: ac_simps)
  also have "\<dots> = 0" by (simp add: eq)
  finally have "drop_bit k (x XOR y) = x XOR y" by (metis xor_cancel_left xor.right_neutral)
  with assms have "x XOR y = 0" by (rule drop_bit_fixed_0)
  then show "x = y" by (metis xor_cancel_left xor.right_neutral)
qed

lemma inj_mult_unit:
  fixes m :: "'a::len word"
  assumes "m * m' = 1"
  shows "inj (\<lambda>x. x * m)"
proof (rule injI)
  fix x y assume "x * m = y * m"
  then have "x * (m * m') = y * (m * m')" by (metis mult.assoc)
  then show "x = y" by (simp add: assms)
qed

lemma bij_word_inj: "inj (f :: 'a::len word \<Rightarrow> 'a word) \<Longrightarrow> bij f"
  by (simp add: bij_def finite_UNIV_inj_surj)

lemma word_rotr_0 [simp]: "word_rotr 0 w = w"
  by (rule bit_word_eqI) (simp add: bit_word_rotr_iff)

lemma word_rotl_0 [simp]: "word_rotl 0 w = w"
  using word_rot_rl [of 0 w] by simp

text \<open>
  The rotation idiom of C: two shifts joined by an inclusive or.  For an amount below the
  width it is the rotation of HOL-Library.Word.
\<close>

lemma word_rotr_idiom:
  fixes w :: "'a::len word"
  assumes "n < LENGTH('a)"
  shows "drop_bit n w OR push_bit ((LENGTH('a) - n) mod LENGTH('a)) w = word_rotr n w"
proof (rule bit_word_eqI)
  fix k assume k: "k < LENGTH('a)"
  show "bit (drop_bit n w OR push_bit ((LENGTH('a) - n) mod LENGTH('a)) w) k
      = bit (word_rotr n w) k"
  proof (cases "n = 0")
    case True
    then show ?thesis by (simp add: bit_or_iff)
  next
    case False
    then have m: "(LENGTH('a) - n) mod LENGTH('a) = LENGTH('a) - n" by simp
    show ?thesis
    proof (cases "k + n < LENGTH('a)")
      case True
      then have "\<not> LENGTH('a) - n \<le> k" by simp
      with True k show ?thesis
        by (simp add: m bit_or_iff bit_drop_bit_eq bit_push_bit_iff bit_word_rotr_iff ac_simps)
    next
      case F: False
      then have "(k + n) mod LENGTH('a) = k + n - LENGTH('a)"
        using assms k by (simp add: mod_if)
      moreover have "\<not> bit w (n + k)" using F by (auto dest: bit_imp_le_length)
      moreover have "LENGTH('a) - n \<le> k" "k - (LENGTH('a) - n) = k + n - LENGTH('a)"
        using F assms by simp_all
      ultimately show ?thesis
        using k by (simp add: m bit_or_iff bit_drop_bit_eq bit_push_bit_iff bit_word_rotr_iff)
    qed
  qed
qed

lemma word_rotl_idiom:
  fixes w :: "'a::len word"
  assumes "n < LENGTH('a)"
  shows "drop_bit ((LENGTH('a) - n) mod LENGTH('a)) w OR push_bit n w = word_rotl n w"
proof (cases "n = 0")
  case True
  then show ?thesis by simp
next
  case False
  define m where "m = LENGTH('a) - n"
  from False assms have m: "m < LENGTH('a)" "(LENGTH('a) - n) mod LENGTH('a) = m"
    "(LENGTH('a) - m) mod LENGTH('a) = n"
    by (simp_all add: m_def)
  show ?thesis
    using word_rotr_idiom [OF m(1), of w] assms m
    by (simp add: word_rotl_eq_word_rotr m_def)
qed

section \<open>Memory\<close>

type_synonym mem = "u32 \<Rightarrow> u8"

definition ld16 :: "mem \<Rightarrow> u32 \<Rightarrow> u16" where
  "ld16 m a = ucast (m a) OR push_bit 8 (ucast (m (a + 1)))"

definition ld32 :: "mem \<Rightarrow> u32 \<Rightarrow> u32" where
  "ld32 m a = ucast (m a) OR push_bit 8 (ucast (m (a + 1)))
     OR push_bit 16 (ucast (m (a + 2))) OR push_bit 24 (ucast (m (a + 3)))"

definition st8 :: "mem \<Rightarrow> u32 \<Rightarrow> u8 \<Rightarrow> mem" where
  "st8 m a v = m(a := v)"

definition st16 :: "mem \<Rightarrow> u32 \<Rightarrow> u16 \<Rightarrow> mem" where
  "st16 m a v = m(a := ucast v, a + 1 := ucast (drop_bit 8 v))"

definition st32 :: "mem \<Rightarrow> u32 \<Rightarrow> u32 \<Rightarrow> mem" where
  "st32 m a v = m(a := ucast v, a + 1 := ucast (drop_bit 8 v),
     a + 2 := ucast (drop_bit 16 v), a + 3 := ucast (drop_bit 24 v))"

text \<open>
  \<open>memcpy\<close> and \<open>memset\<close> on \<open>n\<close> bytes.  The source of \<open>memcpy\<close> is read in the memory
  before the call, which is what C promises for the disjoint objects it is called on.
  \<open>mem_put\<close> copies an object that lives outside the modelled memory (a global of the
  firmware) into it, and \<open>mem_bytes\<close> reads bytes as \<open>memcmp\<close> does.
\<close>

definition memcpy :: "mem \<Rightarrow> u32 \<Rightarrow> u32 \<Rightarrow> nat \<Rightarrow> mem" where
  "memcpy m dst src n = (\<lambda>x. if unat (x - dst) < n then m (src + (x - dst)) else m x)"

definition memset :: "mem \<Rightarrow> u32 \<Rightarrow> u8 \<Rightarrow> nat \<Rightarrow> mem" where
  "memset m dst v n = (\<lambda>x. if unat (x - dst) < n then v else m x)"

definition mem_put :: "mem \<Rightarrow> u32 \<Rightarrow> u8 list \<Rightarrow> mem" where
  "mem_put m dst bs = (\<lambda>x. if unat (x - dst) < length bs then bs ! unat (x - dst) else m x)"

definition mem_bytes :: "mem \<Rightarrow> u32 \<Rightarrow> nat \<Rightarrow> u8 list" where
  "mem_bytes m a n = map (\<lambda>i. m (a + of_nat i)) [0..<n]"

definition bytes32 :: "u32 \<Rightarrow> u8 list" where
  "bytes32 v = [ucast v, ucast (drop_bit 8 v), ucast (drop_bit 16 v), ucast (drop_bit 24 v)]"

lemma st8_apply [mem_simps]: "st8 m a v x = (if x = a then v else m x)"
  by (simp add: st8_def)

lemma st16_apply [mem_simps]:
  "st16 m a v x = (if x = a + 1 then ucast (drop_bit 8 v) else if x = a then ucast v else m x)"
  by (simp add: st16_def)

lemma st32_apply [mem_simps]:
  "st32 m a v x = (if x = a + 3 then ucast (drop_bit 24 v)
     else if x = a + 2 then ucast (drop_bit 16 v)
     else if x = a + 1 then ucast (drop_bit 8 v) else if x = a then ucast v else m x)"
  by (simp add: st32_def)

lemma memcpy_apply [mem_simps]:
  "memcpy m dst src n x = (if unat (x - dst) < n then m (src + (x - dst)) else m x)"
  by (simp add: memcpy_def)

lemma memset_apply [mem_simps]:
  "memset m dst v n x = (if unat (x - dst) < n then v else m x)"
  by (simp add: memset_def)

lemma mem_put_apply [mem_simps]:
  "mem_put m dst bs x = (if unat (x - dst) < length bs then bs ! unat (x - dst) else m x)"
  by (simp add: mem_put_def)

lemma join16 [simp]:
  "(ucast (ucast v :: u8) :: u16) OR push_bit 8 (ucast (ucast (drop_bit 8 v) :: u8)) = v"
  by (rule bit_word_eqI) (auto simp: bit_simps)

lemma join32 [simp]:
  "(ucast (ucast v :: u8) :: u32) OR push_bit 8 (ucast (ucast (drop_bit 8 v) :: u8))
     OR push_bit 16 (ucast (ucast (drop_bit 16 v) :: u8))
     OR push_bit 24 (ucast (ucast (drop_bit 24 v) :: u8)) = v"
  proof (rule bit_word_eqI)
  fix n :: nat assume "n < LENGTH(32)"
  then consider "n < 8" | "8 \<le> n" "n < 16" | "16 \<le> n" "n < 24" | "24 \<le> n" "n < 32"
    by fastforce
  then show "bit ((ucast (ucast v :: u8) :: u32) OR push_bit 8 (ucast (ucast (drop_bit 8 v) :: u8))
      OR push_bit 16 (ucast (ucast (drop_bit 16 v) :: u8))
      OR push_bit 24 (ucast (ucast (drop_bit 24 v) :: u8))) n = bit v n"
    by cases (auto simp: bit_simps)
qed

lemma split16:
  fixes a b :: u8
  shows "ucast (ucast a OR push_bit 8 (ucast b) :: u16) = a"
    and "ucast (drop_bit 8 (ucast a OR push_bit 8 (ucast b) :: u16)) = b"
  by (rule bit_word_eqI; auto simp: bit_simps dest: bit_imp_le_length)+

lemma split32:
  fixes a b c d :: u8
  defines "w \<equiv> (ucast a OR push_bit 8 (ucast b) OR push_bit 16 (ucast c)
      OR push_bit 24 (ucast d)) :: u32"
  shows "ucast w = a" and "ucast (drop_bit 8 w) = b"
    and "ucast (drop_bit 16 w) = c" and "ucast (drop_bit 24 w) = d"
  unfolding w_def
  by (rule bit_word_eqI; auto simp: bit_simps dest: bit_imp_le_length)+

lemma ld16_st16 [mem_simps]: "ld16 (st16 m a v) a = v"
  by (simp add: ld16_def st16_apply)

lemma ld32_st32 [mem_simps]: "ld32 (st32 m a v) a = v"
  by (simp add: ld32_def st32_apply)

lemma st16_ld16: "st16 m a (ld16 m a) = m"
  by (auto simp: fun_eq_iff st16_apply ld16_def split16 simp del: drop_bit_or)

lemma memcpy_bytes: "n \<le> 2 ^ 32 \<Longrightarrow> i < n \<Longrightarrow> memcpy m d s n (d + of_nat i) = m (s + of_nat i)"
  by (simp add: memcpy_apply unat_of_nat take_bit_nat_eq_self)

lemma length_mem_bytes [simp]: "length (mem_bytes m a n) = n"
  by (simp add: mem_bytes_def)

lemma mem_bytes_nth: "i < n \<Longrightarrow> mem_bytes m a n ! i = m (a + of_nat i)"
  by (simp add: mem_bytes_def)

lemma bytes32_ld32: "mem_bytes m a 4 = bytes32 (ld32 m a)"
proof -
  have "[0..<4] = [0, 1, 2, 3 :: nat]" by (simp add: upt_rec)
  then show ?thesis
    by (simp add: mem_bytes_def bytes32_def ld32_def split32 del: drop_bit_or)
qed

lemma bytes32_inject [simp]: "bytes32 v = bytes32 w \<longleftrightarrow> v = w"
proof
  assume *: "bytes32 v = bytes32 w"
  show "v = w"
    by (subst join32 [of v, symmetric], subst join32 [of w, symmetric])
      (use * in \<open>simp only: bytes32_def list.inject\<close>)
qed simp

text \<open>
  \<open>same_outside m m' a n\<close>: the two memories agree except on the \<open>n\<close> bytes from \<open>a\<close>.
  This is the frame condition of everything that writes memory.
\<close>

definition same_outside :: "mem \<Rightarrow> mem \<Rightarrow> u32 \<Rightarrow> nat \<Rightarrow> bool" where
  "same_outside m m' a n \<longleftrightarrow> (\<forall>x. n \<le> unat (x - a) \<longrightarrow> m' x = m x)"

lemma same_outside_refl [simp]: "same_outside m m a n"
  by (simp add: same_outside_def)

lemma same_outside_trans:
  "same_outside m m' a n \<Longrightarrow> same_outside m' m'' a n \<Longrightarrow> same_outside m m'' a n"
  by (simp add: same_outside_def)

lemma same_outside_D: "same_outside m m' a n \<Longrightarrow> n \<le> unat (x - a) \<Longrightarrow> m' x = m x"
  by (simp add: same_outside_def)

lemma same_outside_mono: "same_outside m m' a k \<Longrightarrow> k \<le> n \<Longrightarrow> same_outside m m' a n"
  by (simp add: same_outside_def)

text \<open>An address \<open>a + k\<close> is the only one at distance \<open>k\<close> from \<open>a\<close>.\<close>

lemma unat_dist: "k < 2 ^ 32 \<Longrightarrow> unat ((a + of_nat k) - a :: u32) = k"
  by (simp add: unat_of_nat take_bit_nat_eq_self)

text \<open>
  The stores of a function body, one after another, keep the frame: each is within \<open>n\<close> bytes
  of \<open>a\<close>.  The rules are resolved with backwards, from the last store to the first.
\<close>

lemma unat_of_nat_32: "k < 2 ^ 32 \<Longrightarrow> unat (of_nat k :: u32) = k"
  by (simp add: unat_of_nat take_bit_nat_eq_self)

lemma unat_minus_1_32: "unat (- 1 :: u32) = 4294967295"
  by (simp add: unsigned_minus_1_eq_mask mask_eq_exp_minus_1)

lemma unat_add_le: "unat (x + y :: 'a::len word) \<le> unat x + unat y"
  by (simp add: unat_word_ariths)

lemma unat_dist_add:
  fixes x a y :: u32
  assumes "unat (x - a) + k \<le> n" "unat (y - x) < k"
  shows "unat (y - a) < n"
proof -
  have "y - a = (x - a) + (y - x)" by simp
  then have "unat (y - a) \<le> unat (x - a) + unat (y - x)" by (simp only: unat_add_le)
  with assms show ?thesis by linarith
qed

lemma same_outside_st8 [frame_intros]:
  "unat (x - a) + 1 \<le> n \<Longrightarrow> same_outside m m' a n \<Longrightarrow> same_outside m (st8 m' x v) a n"
  by (auto simp: same_outside_def st8_apply)

lemma same_outside_st16 [frame_intros]:
  assumes "unat (x - a) + 2 \<le> n" "same_outside m m' a n"
  shows "same_outside m (st16 m' x v) a n"
  using assms(2) unat_dist_add [OF assms(1), of x] unat_dist_add [OF assms(1), of "x + 1"]
  by (fastforce simp: same_outside_def st16_apply)

lemma same_outside_st32 [frame_intros]:
  assumes "unat (x - a) + 4 \<le> n" "same_outside m m' a n"
  shows "same_outside m (st32 m' x v) a n"
  using assms(2) unat_dist_add [OF assms(1), of x] unat_dist_add [OF assms(1), of "x + 1"]
    unat_dist_add [OF assms(1), of "x + 2"] unat_dist_add [OF assms(1), of "x + 3"]
  by (fastforce simp: same_outside_def st32_apply)

lemma same_outside_mem_put [frame_intros]:
  assumes "unat (x - a) + length bs \<le> n" "same_outside m m' a n"
  shows "same_outside m (mem_put m' x bs) a n"
  using assms(2) unat_dist_add [OF assms(1)] by (fastforce simp: same_outside_def mem_put_apply)

lemma same_outside_memcpy [frame_intros]:
  assumes "unat (x - a) + k \<le> n" "same_outside m m' a n"
  shows "same_outside m (memcpy m' x s k) a n"
  using assms(2) unat_dist_add [OF assms(1)] by (fastforce simp: same_outside_def memcpy_apply)

lemma same_outside_shift:
  assumes "unat (x - a) + k \<le> n" "same_outside m m' x k"
  shows "same_outside m m' a n"
  using assms(2) unat_dist_add [OF assms(1)] by (metis linorder_not_less same_outside_def)

section \<open>Runs of bytes\<close>

lemma mem_bytes_Suc: "mem_bytes m a (Suc n) = m a # mem_bytes m (a + 1) n"
  by (rule nth_equalityI) (auto simp: mem_bytes_nth nth_Cons ac_simps split: nat.splits)

lemma mem_bytes_0: "mem_bytes m a 0 = []"
  by (simp add: mem_bytes_def)

lemma mem_bytes_numeral:
  "mem_bytes m a (numeral n) = m a # mem_bytes m (a + 1) (pred_numeral n)"
  by (simp only: numeral_eq_Suc mem_bytes_Suc)

lemmas mem_bytes_simps = mem_bytes_0 mem_bytes_Suc mem_bytes_numeral

lemma mem_put_Nil [simp]: "mem_put m a [] = m"
  by (simp add: mem_put_def)

lemma mem_put_append:
  assumes "length xs + length ys \<le> 2 ^ 32"
  shows "mem_put (mem_put m a xs) (a + of_nat (length xs)) ys = mem_put m a (xs @ ys)"
proof
  fix y :: u32
  define d where "d = unat (y - a)"
  have d: "d < 2 ^ 32" unfolding d_def using unsigned_less [of "y - a", where 'a = nat] by simp
  show "mem_put (mem_put m a xs) (a + of_nat (length xs)) ys y = mem_put m a (xs @ ys) y"
  proof (cases "ys = []")
    case False
    then have l: "length xs < 2 ^ 32" using assms by (cases ys) auto
    have n: "unat (of_nat (length xs) :: u32) = length xs" using l by (rule unat_of_nat_32)
    have e: "y - (a + of_nat (length xs)) = (y - a) - of_nat (length xs)" by simp
    show ?thesis
    proof (cases "length xs \<le> d")
      case True
      then have "unat (y - (a + of_nat (length xs))) = d - length xs"
        unfolding e d_def using n by (subst unat_sub) (simp_all add: word_le_nat_alt)
      with True show ?thesis by (auto simp: mem_put_apply nth_append simp flip: d_def)
    next
      case F: False
      then have "unat (y - (a + of_nat (length xs))) = d + 2 ^ 32 - length xs"
        unfolding e d_def using n by (simp add: unat_sub_if_size word_size d_def word_le_nat_alt)
      with F assms show ?thesis by (auto simp: mem_put_apply nth_append simp flip: d_def)
    qed
  qed simp
qed

lemma mem_bytes_mem_put:
  assumes "length bs \<le> 2 ^ 32"
  shows "mem_bytes (mem_put m a bs) a (length bs) = bs"
proof (rule nth_equalityI)
  fix i assume "i < length (mem_bytes (mem_put m a bs) a (length bs))"
  then have "i < length bs" "i < 2 ^ 32" using assms by simp_all
  then show "mem_bytes (mem_put m a bs) a (length bs) ! i = bs ! i"
    by (simp add: mem_bytes_nth mem_put_apply unat_of_nat_32)
qed simp

lemma mem_bytes_append: "mem_bytes m a (j + k) = mem_bytes m a j @ mem_bytes m (a + of_nat j) k"
  by (induction j arbitrary: a) (simp_all add: mem_bytes_simps ac_simps)

lemma mem_bytes_part:
  assumes "mem_bytes m a n = bs" "i + k \<le> n"
  shows "mem_bytes m (a + of_nat i) k = take k (drop i bs)"
proof -
  have "n = i + (k + (n - (i + k)))" using assms(2) by simp
  then have "bs = mem_bytes m a i @ mem_bytes m (a + of_nat i) k @ mem_bytes m (a + of_nat i + of_nat k) (n - (i + k))"
    using assms(1) mem_bytes_append by metis
  then show ?thesis by simp
qed

lemma mem_put_Cons: "length bs < 2 ^ 32 \<Longrightarrow> mem_put m a (b # bs) = mem_put (m(a := b)) (a + 1) bs"
  using mem_put_append [of "[b]" bs m a]
  by (simp add: mem_put_def fun_upd_def unat_eq_0 cong: if_cong)

lemma st32_mem_put: "st32 m a v = mem_put m a (bytes32 v)"
  by (simp add: st32_def bytes32_def mem_put_Cons add.assoc)

lemma length_bytes32 [simp]: "length (bytes32 v) = 4"
  by (simp add: bytes32_def)

lemma length_concat_bytes32: "length (concat (map bytes32 ws)) = 4 * length ws"
  by (induction ws) simp_all

definition bytes16 :: "u16 \<Rightarrow> u8 list" where
  "bytes16 v = [ucast v, ucast (drop_bit 8 v)]"

lemma length_bytes16 [simp]: "length (bytes16 v) = 2"
  by (simp add: bytes16_def)

lemma length_concat_bytes16: "length (concat (map bytes16 ws)) = 2 * length ws"
  by (induction ws) simp_all

lemma st16_mem_put: "st16 m a v = mem_put m a (bytes16 v)"
  by (simp add: st16_def bytes16_def mem_put_Cons)

text \<open>Bytes that a frame condition keeps.\<close>

lemma same_outside_mem_bytes:
  assumes "same_outside m m' a n" "\<And>i. i < k \<Longrightarrow> n \<le> unat (x + of_nat i - a)"
  shows "mem_bytes m' x k = mem_bytes m x k"
  using assms by (auto intro!: nth_equalityI simp: mem_bytes_nth same_outside_def)

end
