(* ===== verification/Trng.thy ===== *)
theory Trng
  imports Prelude "HOL-Library.Monad_Syntax"
begin

text \<open>
  The devices that the firmware reads, and the true random number generator of
  \<open>src/random.c\<close>.

  The vendor library (\<open>ch32v30x\<close>) is not part of the repository: what its calls return is
  the parameter \<open>board\<close>, a record of functions of the hardware state, and nothing is
  assumed of it but in named hypotheses.  The hardware state counts the accesses to device
  registers, so that two reads of one register may differ, and remembers that the random
  number generator was switched on.
\<close>

record hw =
  clk :: nat
  ahb_rng :: bool
  rng_en :: bool

record board =
  RNG_DRDY :: "hw \<Rightarrow> bool"
  RNG_DATA :: "hw \<Rightarrow> u32"
  SysTick_CNT :: "hw \<Rightarrow> u64"

definition tick :: "hw \<Rightarrow> hw" where
  "tick h = h\<lparr>clk := Suc (clk h)\<rparr>"

lemma clk_tick [simp]: "clk (tick h) = Suc (clk h)"
  by (simp add: tick_def)

lemma clk_tick_pow [simp]: "clk ((tick ^^ n) h) = clk h + n"
  by (induction n) simp_all

lemma enabled_tick [simp]: "ahb_rng (tick h) = ahb_rng h" "rng_en (tick h) = rng_en h"
  by (simp_all add: tick_def)

lemma tick_pow_Suc: "(tick ^^ Suc n) h = (tick ^^ n) (tick h)"
  by (simp only: funpow_Suc_right comp_apply)

section \<open>The generator\<close>

text \<open>Both calls write an enable bit of the device: a clock gate and the generator's own.\<close>

definition RandomInitialize :: "hw \<Rightarrow> hw" where
  "RandomInitialize h = (let h = tick h\<lparr>ahb_rng := True\<rparr> in tick h\<lparr>rng_en := True\<rparr>)"

text \<open>The loop polls the data-ready flag without a bound; not returning is \<open>None\<close>.\<close>

partial_function (option) RandomUInt32 :: "board \<Rightarrow> hw \<Rightarrow> (u32 \<times> hw) option" where
  "RandomUInt32 b h =
     (if \<not> RNG_DRDY b h then RandomUInt32 b (tick h)
      else Some (RNG_DATA b (tick h), tick (tick h)))"

lemma RandomUInt32_ready:
  "RNG_DRDY b h \<Longrightarrow> RandomUInt32 b h = Some (RNG_DATA b (tick h), tick (tick h))"
  by (subst RandomUInt32.simps) simp

lemma RandomUInt32_busy: "\<not> RNG_DRDY b h \<Longrightarrow> RandomUInt32 b h = RandomUInt32 b (tick h)"
  by (subst RandomUInt32.simps) simp

lemma RandomUInt32_at:
  assumes "RNG_DRDY b ((tick ^^ n) h)" "\<And>k. k < n \<Longrightarrow> \<not> RNG_DRDY b ((tick ^^ k) h)"
  shows "RandomUInt32 b h = Some (RNG_DATA b ((tick ^^ Suc n) h), (tick ^^ Suc (Suc n)) h)"
  using assms
proof (induction n arbitrary: h)
  case 0
  then show ?case by (simp add: RandomUInt32_ready)
next
  case (Suc n)
  have "\<not> RNG_DRDY b h" using Suc.prems(2) [of 0] by simp
  then have "RandomUInt32 b h = RandomUInt32 b (tick h)" by (rule RandomUInt32_busy)
  also have "\<dots> = Some (RNG_DATA b ((tick ^^ Suc n) (tick h)), (tick ^^ Suc (Suc n)) (tick h))"
  proof (rule Suc.IH)
    show "RNG_DRDY b ((tick ^^ n) (tick h))" using Suc.prems(1) by (simp only: tick_pow_Suc)
    show "\<not> RNG_DRDY b ((tick ^^ k) (tick h))" if "k < n" for k
      using Suc.prems(2) [of "Suc k"] that by (simp only: tick_pow_Suc Suc_less_eq not_False_eq_True)
  qed
  finally show ?case by (simp only: tick_pow_Suc)
qed

lemma RandomUInt32_Some:
  assumes "RandomUInt32 b h = Some y"
  shows "\<exists>n. RNG_DRDY b ((tick ^^ n) h)"
  using assms
proof (rule RandomUInt32.raw_induct [where P = "\<lambda>b h y. \<exists>n. RNG_DRDY b ((tick ^^ n) h)", rotated])
  fix f b h y
  assume IH: "\<And>b h y. f b h = Some y \<Longrightarrow> \<exists>n. RNG_DRDY b ((tick ^^ n) h)"
    and eq: "(if \<not> RNG_DRDY b h then f b (tick h) else Some (RNG_DATA b (tick h), tick (tick h))) = Some y"
  show "\<exists>n. RNG_DRDY b ((tick ^^ n) h)"
  proof (cases "RNG_DRDY b h")
    case True
    then have "RNG_DRDY b ((tick ^^ 0) h)" by simp
    then show ?thesis ..
  next
    case False
    with eq have "f b (tick h) = Some y" by simp
    then obtain n where "RNG_DRDY b ((tick ^^ n) (tick h))" using IH by blast
    then have "RNG_DRDY b ((tick ^^ Suc n) h)" by (simp only: tick_pow_Suc)
    then show ?thesis ..
  qed
qed

text \<open>
  C23. \<open>RandomUInt32\<close> returns exactly when the data-ready flag is ever seen set, and then it
  returns the data register as it is right after the first time the flag is seen set, having
  made one access per poll and one for the data.
\<close>

theorem RandomUInt32_returns:
  "RandomUInt32 b h =
     (if \<exists>n. RNG_DRDY b ((tick ^^ n) h)
      then let n = LEAST n. RNG_DRDY b ((tick ^^ n) h)
           in Some (RNG_DATA b ((tick ^^ Suc n) h), (tick ^^ Suc (Suc n)) h)
      else None)"
proof (cases "\<exists>n. RNG_DRDY b ((tick ^^ n) h)")
  case True
  define n where "n = (LEAST n. RNG_DRDY b ((tick ^^ n) h))"
  have "RNG_DRDY b ((tick ^^ n) h)" using True unfolding n_def by (rule LeastI_ex)
  moreover have "\<not> RNG_DRDY b ((tick ^^ k) h)" if "k < n" for k
    using that unfolding n_def by (rule not_less_Least)
  ultimately have "RandomUInt32 b h = Some (RNG_DATA b ((tick ^^ Suc n) h), (tick ^^ Suc (Suc n)) h)"
    by (rule RandomUInt32_at)
  with True show ?thesis by (simp only: n_def [symmetric] Let_def simp_thms if_True)
next
  case False
  with RandomUInt32_Some [of b h] show ?thesis by (cases "RandomUInt32 b h") auto
qed

section \<open>Sources of numbers\<close>

text \<open>
  The interface the clients of a generator rely on: from a valid state a draw returns and
  leaves a valid state.  \<open>draws\<close> is the loop that fills an array with consecutive draws.
\<close>

fun draws :: "('s \<Rightarrow> ('a \<times> 's) option) \<Rightarrow> nat \<Rightarrow> 's \<Rightarrow> ('a list \<times> 's) option" where
  "draws draw 0 s = Some ([], s)"
| "draws draw (Suc n) s = do {
     (x, s) \<leftarrow> draw s;
     (xs, s) \<leftarrow> draws draw n s;
     Some (x # xs, s)
   }"

lemma length_draws: "draws draw n s = Some (xs, s') \<Longrightarrow> length xs = n"
  by (induction n arbitrary: s xs) (auto simp: Option.bind_eq_Some_conv)

locale number_source =
  fixes draw :: "'s \<Rightarrow> ('a \<times> 's) option" and valid :: "'s \<Rightarrow> bool"
  assumes draw_returns: "valid s \<Longrightarrow> \<exists>x s'. draw s = Some (x, s') \<and> valid s'"
begin

lemma draws_return: "valid s \<Longrightarrow> \<exists>xs s'. draws draw n s = Some (xs, s') \<and> length xs = n \<and> valid s'"
proof (induction n arbitrary: s)
  case (Suc n)
  from Suc.prems obtain x s1 where 1: "draw s = Some (x, s1)" "valid s1"
    using draw_returns by blast
  then obtain xs s2 where "draws draw n s1 = Some (xs, s2)" "length xs = n" "valid s2"
    using Suc.IH by blast
  with 1 show ?case by simp
qed simp

lemma draw_result:
  assumes "valid s" "draw s = Some (x, s')"
  shows "valid s'"
  using draw_returns [OF assms(1)] assms(2) by auto

lemma map_source: "number_source (\<lambda>s. do { (x, s) \<leftarrow> draw s; Some (g x, s) }) valid"
  by unfold_locales (use draw_returns in fastforce)

end

text \<open>
  The generator of \<open>src/random.c\<close> is such a source, once it is switched on and as long as
  the hardware keeps setting its flag.
\<close>

definition trng_live :: "board \<Rightarrow> hw \<Rightarrow> bool" where
  "trng_live b h \<longleftrightarrow> ahb_rng h \<and> rng_en h \<and> (\<forall>n. \<exists>m\<ge>n. RNG_DRDY b ((tick ^^ m) h))"

lemma trng_live_tick:
  assumes "trng_live b h"
  shows "trng_live b (tick h)"
proof -
  have "\<exists>m\<ge>n. RNG_DRDY b ((tick ^^ m) (tick h))" for n
  proof -
    obtain m where m: "Suc n \<le> m" "RNG_DRDY b ((tick ^^ m) h)"
      using assms unfolding trng_live_def by blast
    then obtain k where "m = Suc k" by (cases m) simp_all
    with m have "n \<le> k" "RNG_DRDY b ((tick ^^ k) (tick h))" by (simp_all add: funpow_swap1)
    then show ?thesis by blast
  qed
  then show ?thesis using assms by (simp add: trng_live_def)
qed

lemma trng_live_pow: "trng_live b h \<Longrightarrow> trng_live b ((tick ^^ n) h)"
  by (induction n) (simp_all add: trng_live_tick)

lemma trng_live_returns:
  assumes "trng_live b h"
  shows "\<exists>x h'. RandomUInt32 b h = Some (x, h') \<and> trng_live b h'"
proof -
  have "\<exists>n. RNG_DRDY b ((tick ^^ n) h)" using assms unfolding trng_live_def by blast
  then show ?thesis
    using trng_live_pow [OF assms] exists_least_iff [of "\<lambda>n. RNG_DRDY b ((tick ^^ n) h)"]
      RandomUInt32_at [of b _ h] by blast
qed

interpretation trng: number_source "RandomUInt32 b" "trng_live b" for b
  by unfold_locales (rule trng_live_returns)

end
