(* ===== verification/SysTick.thy ===== *)
theory SysTick
  imports Trng
begin

text \<open>
  The 64-bit system counter of \<open>src/systick.h\<close>, which the CPU reads in 32-bit halves, and
  the loop of \<open>src/systick.c\<close> that reports irregular ticks.
\<close>

definition cnt_lo :: "board \<Rightarrow> hw \<Rightarrow> u32" where
  "cnt_lo b h = ucast (SysTick_CNT b h)"

definition cnt_hi :: "board \<Rightarrow> hw \<Rightarrow> u32" where
  "cnt_hi b h = ucast (drop_bit 32 (SysTick_CNT b h))"

definition SysTickCnt32 :: "board \<Rightarrow> hw \<Rightarrow> u32 \<times> hw" where
  "SysTickCnt32 b h = (cnt_lo b h, tick h)"

definition SysTickCnt64 :: "board \<Rightarrow> hw \<Rightarrow> u64 \<times> hw" where
  "SysTickCnt64 b h =
     (let hiBefore = cnt_hi b h; h = tick h;
          lo = cnt_lo b h; h = tick h;
          hiAfter = cnt_hi b h; h = tick h;
          hi = (if lo AND 0x80000000 \<noteq> 0 then hiBefore else hiAfter)
      in (push_bit 32 (ucast hi) OR ucast lo, h))"

text \<open>The two readings that the comment in the source rejects.\<close>

definition cnt_lo_hi :: "board \<Rightarrow> hw \<Rightarrow> u64" where
  "cnt_lo_hi b h = push_bit 32 (ucast (cnt_hi b (tick h))) OR ucast (cnt_lo b h)"

definition cnt_hi_lo :: "board \<Rightarrow> hw \<Rightarrow> u64" where
  "cnt_hi_lo b h = push_bit 32 (ucast (cnt_hi b h)) OR ucast (cnt_lo b (tick h))"

section \<open>The value that is read\<close>

lemma unat_push_bit_32:
  fixes hi lo :: u32
  shows "unat (push_bit 32 (ucast hi) OR ucast lo :: u64) = unat hi * 2 ^ 32 + unat lo"
proof -
  have "push_bit 32 (ucast hi) OR ucast lo = (push_bit 32 (ucast hi) + ucast lo :: u64)"
    by (rule disjunctive_add [symmetric]) (auto simp: bit_simps dest: bit_imp_le_length)
  moreover have "unat (push_bit 32 (ucast hi) :: u64) = unat hi * 2 ^ 32"
  proof -
    have "unat hi < 2 ^ 32" using unsigned_less [of hi, where 'a = nat] by simp
    then show ?thesis
      by (simp add: push_bit_eq_mult unat_word_ariths unsigned_ucast_eq take_bit_nat_eq_self)
  qed
  moreover have "unat (ucast lo :: u64) = unat lo"
    using unsigned_less [of lo, where 'a = nat] by (simp add: unsigned_ucast_eq take_bit_nat_eq_self)
  moreover have "unat hi * 2 ^ 32 + unat lo < 2 ^ 64"
    using unsigned_less [of hi, where 'a = nat] unsigned_less [of lo, where 'a = nat] by simp
  ultimately show ?thesis by (simp add: unat_word_ariths)
qed

lemma hi_lo_cancel: "push_bit 32 (ucast (ucast (drop_bit 32 c) :: u32)) OR ucast (ucast (c :: u64) :: u32) = c"
  (is "?l = c")
proof (rule bit_word_eqI)
  fix n :: nat assume "n < LENGTH(64)"
  then show "bit ?l n = bit c n"
    by (cases "n < 32") (auto simp: bit_simps)
qed

lemma unat_lo: "unat (ucast c :: u32) = unat (c :: u64) mod 2 ^ 32"
  by (simp add: unsigned_ucast_eq take_bit_eq_mod)

lemma unat_hi: "unat (ucast (drop_bit 32 c) :: u32) = unat (c :: u64) div 2 ^ 32"
proof -
  have "unat (drop_bit 32 c) < 2 ^ 32" using unat_drop_bit_less [of 32 c] by simp
  then have "unat (ucast (drop_bit 32 c) :: u32) = unat (drop_bit 32 c)"
    unfolding unsigned_ucast_eq by (intro take_bit_nat_eq_self) simp
  also have "\<dots> = drop_bit 32 (unat c)" by (rule unat_drop_bit_eq)
  finally show ?thesis by (simp only: drop_bit_eq_div)
qed

lemma top_bit_32: "(lo :: u32) AND 0x80000000 \<noteq> 0 \<longleftrightarrow> 2 ^ 31 \<le> unat lo"
proof -
  have "(0x80000000 :: u32) = 2 ^ 31" by simp
  then have "lo AND 0x80000000 \<noteq> 0 \<longleftrightarrow> bit lo 31"
    by (simp only: and_exp_eq_0_iff_not_bit not_not)
  also have "\<dots> \<longleftrightarrow> odd (unat lo div 2 ^ 31)"
  proof -
    have "bit (unat lo) 31 \<longleftrightarrow> bit lo 31" by (simp add: bit_unsigned_iff)
    then show ?thesis by (simp only: bit_iff_odd [of "unat lo"])
  qed
  also have "\<dots> \<longleftrightarrow> 2 ^ 31 \<le> unat lo"
  proof -
    have "unat lo < 2 ^ 31 * 2" using unsigned_less [of lo, where 'a = nat] by simp
    then have "unat lo div 2 ^ 31 < 2" by (intro less_mult_imp_div_less) simp
    then show ?thesis by (auto simp: less_2_cases_iff div_eq_0_iff)
  qed
  finally show ?thesis .
qed

text \<open>Small steps away from a value do not leave its half of the range of the low word.\<close>

lemma hi_minus:
  fixes c d :: u64
  assumes "unat d \<le> unat c mod 2 ^ 32"
  shows "unat (c - d) div 2 ^ 32 = unat c div 2 ^ 32"
proof -
  have "unat c mod 2 ^ 32 \<le> unat c" by simp
  with assms have "unat (c - d) = unat c - unat d" by (intro unat_sub) (simp add: word_le_nat_alt)
  also have "\<dots> = unat c div 2 ^ 32 * 2 ^ 32 + (unat c mod 2 ^ 32 - unat d)"
    using assms div_mult_mod_eq [of "unat c" "2 ^ 32"] by linarith
  finally show ?thesis by (simp add: less_imp_diff_less)
qed

lemma div_high: "r < 2 ^ 32 \<Longrightarrow> (k * 2 ^ 32 + r) div 2 ^ 32 = (k :: nat)"
  by simp

lemma hi_plus:
  fixes c d :: u64
  assumes "unat c mod 2 ^ 32 + unat d < 2 ^ 32"
  shows "unat (c + d) div 2 ^ 32 = unat c div 2 ^ 32"
proof -
  have c: "unat c + unat d = unat c div 2 ^ 32 * 2 ^ 32 + (unat c mod 2 ^ 32 + unat d)" by simp
  have "unat c div 2 ^ 32 < 2 ^ 32"
    using unsigned_less [of c, where 'a = nat] by (intro less_mult_imp_div_less) simp
  then have "unat c div 2 ^ 32 * 2 ^ 32 \<le> (2 ^ 32 - 1) * 2 ^ 32" by (intro mult_le_mono1) linarith
  with c assms have "unat c + unat d < (2 ^ 32 - 1) * 2 ^ 32 + 2 ^ 32" by linarith
  then have "unat c + unat d < 2 ^ 64" by simp
  then have "unat (c + d) = unat c + unat d" by (simp add: unat_word_ariths)
  from trans [OF this c]
  have "unat (c + d) = unat c div 2 ^ 32 * 2 ^ 32 + (unat c mod 2 ^ 32 + unat d)" .
  from arg_cong [OF this, of "\<lambda>x. x div 2 ^ 32"] div_high [OF assms] show ?thesis
    by (rule trans)
qed

text \<open>
  C24. \<open>SysTickCnt64\<close> returns the value that the 64-bit counter has at the middle of its three
  accesses, whenever fewer than \<open>2 ^ 31\<close> ticks pass between one access and the next: a carry
  into the high word between two accesses is never seen half.
\<close>

theorem SysTickCnt64_consistent:
  assumes "unat (SysTick_CNT b (tick h) - SysTick_CNT b h) < 2 ^ 31"
    and "unat (SysTick_CNT b (tick (tick h)) - SysTick_CNT b (tick h)) < 2 ^ 31"
  shows "SysTickCnt64 b h = (SysTick_CNT b (tick h), tick (tick (tick h)))"
proof -
  define c where "c = SysTick_CNT b (tick h)"
  define d where "d = c - SysTick_CNT b h"
  define e where "e = SysTick_CNT b (tick (tick h)) - c"
  have d: "unat d < 2 ^ 31" "SysTick_CNT b h = c - d" using assms(1) by (simp_all add: d_def c_def)
  have e: "unat e < 2 ^ 31" "SysTick_CNT b (tick (tick h)) = c + e"
    using assms(2) by (simp_all add: e_def c_def)
  have lo: "unat c mod 2 ^ 32 < 2 ^ 32" by simp
  have "(if (ucast c :: u32) AND 0x80000000 \<noteq> 0 then ucast (drop_bit 32 (c - d))
      else ucast (drop_bit 32 (c + e))) = (ucast (drop_bit 32 c) :: u32)"
  proof (cases "(ucast c :: u32) AND 0x80000000 \<noteq> 0")
    case True
    then have "2 ^ 31 \<le> unat c mod 2 ^ 32" by (simp only: top_bit_32 unat_lo)
    with d(1) have "unat (c - d) div 2 ^ 32 = unat c div 2 ^ 32" by (intro hi_minus) simp
    then have "(ucast (drop_bit 32 (c - d)) :: u32) = ucast (drop_bit 32 c)"
      by (simp only: word_unat_eq_iff unat_hi)
    with True show ?thesis by simp
  next
    case False
    then have "unat c mod 2 ^ 32 < 2 ^ 31" by (simp only: top_bit_32 unat_lo not_not not_le)
    with e(1) have "unat (c + e) div 2 ^ 32 = unat c div 2 ^ 32" by (intro hi_plus) simp
    then have "(ucast (drop_bit 32 (c + e)) :: u32) = ucast (drop_bit 32 c)"
      by (simp only: word_unat_eq_iff unat_hi)
    with False show ?thesis by simp
  qed
  then show ?thesis
    by (simp only: SysTickCnt64_def cnt_lo_def cnt_hi_def Let_def c_def [symmetric] d(2) e(2) hi_lo_cancel)
qed

text \<open>
  A counter that carries between the second and the third access: the firmware reads the
  middle value, and reading the low half first, as the compiler does for the whole register,
  gives a value \<open>2 ^ 32\<close> ticks ahead.
\<close>

definition carry_board :: board where
  "carry_board = \<lparr>RNG_DRDY = \<lambda>_. True, RNG_DATA = \<lambda>_. 0,
     SysTick_CNT = \<lambda>h. of_nat (0xFFFFFFEE + 9 * clk h)\<rparr>"

theorem SysTickCnt64_consistent_witness:
  "SysTickCnt64 carry_board \<lparr>clk = 0, ahb_rng = False, rng_en = False\<rparr>
     = (0xFFFFFFF7, \<lparr>clk = 3, ahb_rng = False, rng_en = False\<rparr>)"
  using SysTickCnt64_consistent [of carry_board "\<lparr>clk = 0, ahb_rng = False, rng_en = False\<rparr>"]
  by (simp add: carry_board_def tick_def)

lemma cnt_lo_hi_torn:
  "cnt_lo_hi carry_board \<lparr>clk = 1, ahb_rng = False, rng_en = False\<rparr> = 0x1FFFFFFF7"
  by (simp add: cnt_lo_hi_def cnt_lo_def cnt_hi_def carry_board_def tick_def)

section \<open>The tick report\<close>

text \<open>
  One iteration of the endless loop of \<open>SysTickDebugMain\<close>: from the previous reading and the
  flag \<open>skip_one\<close> to the next ones, with the line that is printed, if any, as the numbers
  \<open>dt\<close>, \<open>prev\<close> and \<open>next\<close>.
\<close>

record tick_report =
  prev :: u64
  skip_one :: bool

definition SysTickDebug_iter ::
  "board \<Rightarrow> tick_report \<Rightarrow> hw \<Rightarrow> (u64 \<times> u64 \<times> u64) option \<times> tick_report \<times> hw" where
  "SysTickDebug_iter b t h =
     (let (nxt, h) = SysTickCnt64 b h;
          dt = nxt - prev t;
          hiDt = ucast (drop_bit 32 dt) :: u32; loDt = ucast dt :: u32;
          hiPrev = ucast (drop_bit 32 (prev t)) :: u32;
          hiNext = ucast (drop_bit 32 nxt) :: u32
      in if \<not> skip_one t \<and> (hiDt > 0 \<or> loDt > 0x20 \<or> hiPrev \<noteq> hiNext)
         then (Some (dt, prev t, nxt), \<lparr>prev = nxt, skip_one = True\<rparr>, h)
         else (None, \<lparr>prev = nxt, skip_one = False\<rparr>, h))"

fun SysTickDebug_loop ::
  "board \<Rightarrow> nat \<Rightarrow> tick_report \<Rightarrow> hw \<Rightarrow> (u64 \<times> u64 \<times> u64) option list" where
  "SysTickDebug_loop b 0 t h = []"
| "SysTickDebug_loop b (Suc n) t h =
     (let (out, t, h) = SysTickDebug_iter b t h in out # SysTickDebug_loop b n t h)"

lemma SysTickDebug_skips:
  assumes "SysTickDebug_iter b t h = (Some l, t', h')"
  shows "fst (SysTickDebug_iter b t' h'') = None"
  using assms by (auto simp: SysTickDebug_iter_def Let_def split: prod.splits if_splits)

end
