(* ===== verification/Inline.thy ===== *)
theory Inline
  imports Prelude
begin

text \<open>
  The macros and inline functions of \<open>src/inline.h\<close>: rotation of a 32-bit word, byte order
  conversion on a little-endian host, and the address constructor \<open>MkIPv4Net\<close>.
\<close>

definition IS_POW2 :: "u32 \<Rightarrow> bool" where
  "IS_POW2 x \<longleftrightarrow> x AND (x - 1) = 0"

definition rotlu32 :: "u32 \<Rightarrow> u32 \<Rightarrow> u32" where
  "rotlu32 arg bits =
     push_bit (unat (bits mod 32)) arg OR drop_bit (unat ((- bits) mod 32)) arg"

definition MkIPv4Net :: "u32 \<Rightarrow> u32 \<Rightarrow> u32 \<Rightarrow> u32 \<Rightarrow> u32" where
  "MkIPv4Net a b c d = a OR push_bit 8 b OR push_bit 16 c OR push_bit 24 d"

definition hton16 :: "u16 \<Rightarrow> u16" where
  "hton16 x = drop_bit 8 x OR push_bit 8 x"

definition ntoh16 :: "u16 \<Rightarrow> u16" where
  "ntoh16 x = hton16 x"

section \<open>Rotation\<close>

text \<open>The macro is the left rotation for every amount: no shift is by 32 or more.\<close>

lemma neg_mod_32: "unat ((- bits) mod 32 :: u32) = (32 - unat (bits mod 32)) mod 32"
  using unat_take_bit_minus [of 5 bits] by (simp add: take_bit_eq_mod unat_mod)

lemma rotlu32_eq: "rotlu32 arg bits = word_rotl (unat (bits mod 32)) arg"
proof -
  have "unat (bits mod 32) < LENGTH(32)"
    by (simp add: unat_mod)
  from word_rotl_idiom [OF this, of arg] show ?thesis
    by (simp add: rotlu32_def neg_mod_32 or.commute)
qed

section \<open>Byte order\<close>

lemma hton16_hton16 [simp]: "hton16 (hton16 x) = x"
proof (rule bit_word_eqI)
  fix n :: nat assume "n < LENGTH(16)"
  then show "bit (hton16 (hton16 x)) n = bit x n"
    by (cases "n < 8") (auto simp: hton16_def bit_simps dest: bit_imp_le_length)
qed

lemma hton16_inject [simp]: "hton16 x = hton16 y \<longleftrightarrow> x = y"
  by (metis hton16_hton16)

lemma ntoh16_hton16 [simp]: "ntoh16 (hton16 x) = x"
  by (simp add: ntoh16_def)

lemma hton16_ntoh16 [simp]: "hton16 (ntoh16 x) = x"
  by (simp add: ntoh16_def)

text \<open>A 16-bit field stored in network order is read back in network order.\<close>

lemma hton16_bytes:
  "ucast (hton16 x) = (ucast (drop_bit 8 x) :: u8)"
  "ucast (drop_bit 8 (hton16 x)) = (ucast x :: u8)"
  unfolding hton16_def
  by (rule bit_word_eqI; auto simp: bit_simps dest: bit_imp_le_length)+

lemma MkIPv4Net_bytes:
  "bytes32 (MkIPv4Net (ucast a) (ucast b) (ucast c) (ucast d)) = [a, b, c, d]"
  by (simp add: bytes32_def MkIPv4Net_def split32 del: drop_bit_or)

end
