(* ===== verification/Chaskey.thy ===== *)
theory Chaskey
  imports Prelude
begin

text \<open>
  The Chaskey-8 permutation of \<open>src/chaskey.c\<close> and its two register-only variants.  The
  state of the cipher is four 32-bit words; a key is an array of four words.  The round
  function is the loop body, shared by the three C functions.
\<close>

type_synonym chaskey_state = "u32 \<times> u32 \<times> u32 \<times> u32"

definition ROTL :: "u32 \<Rightarrow> nat \<Rightarrow> u32" where
  "ROTL x b = drop_bit (32 - b) x OR push_bit b x"

definition chaskey_round :: "chaskey_state \<Rightarrow> chaskey_state" where
  "chaskey_round = (\<lambda>(v0, v1, v2, v3).
     let v0 = v0 + v1; v1 = ROTL v1 5; v1 = v1 XOR v0; v0 = ROTL v0 16;
         v2 = v2 + v3; v3 = ROTL v3 8; v3 = v3 XOR v2;
         v0 = v0 + v3; v3 = ROTL v3 13; v3 = v3 XOR v0;
         v2 = v2 + v1; v1 = ROTL v1 7; v1 = v1 XOR v2; v2 = ROTL v2 16
     in (v0, v1, v2, v3))"

fun chaskey_rounds :: "nat \<Rightarrow> chaskey_state \<Rightarrow> chaskey_state" where
  "chaskey_rounds 0 v = v"
| "chaskey_rounds (Suc i) v = chaskey_rounds i (chaskey_round v)"

definition chaskey8 :: "u32 list \<Rightarrow> u32 list \<Rightarrow> u32 list" where
  "chaskey8 v key =
     (let k0 = key ! 0; k1 = key ! 1; k2 = key ! 2; k3 = key ! 3;
          (v0, v1, v2, v3) = chaskey_rounds 8
            (v ! 0 XOR k0, v ! 1 XOR k1, v ! 2 XOR k2, v ! 3 XOR k3)
      in [v0 XOR k0, v1 XOR k1, v2 XOR k2, v3 XOR k3])"

definition chaskey8_64x64 :: "u32 \<Rightarrow> u32 \<Rightarrow> u32 list \<Rightarrow> u64" where
  "chaskey8_64x64 v0 v1 key =
     (let k0 = key ! 0; k1 = key ! 1; k2 = key ! 2; k3 = key ! 3;
          (v0, v1, v2, v3) = chaskey_rounds 8 (v0 XOR k0, v1 XOR k1, k2, k3);
          hi = ucast (v0 XOR k0 XOR v1 XOR k1) :: u64;
          lo = v2 XOR k2 XOR v3 XOR k3
      in push_bit 32 hi OR ucast lo)"

text \<open>The result is the 64-bit return value and the two words stored through \<open>dst\<close>.\<close>

definition chaskey8_64x128 :: "u32 \<Rightarrow> u32 \<Rightarrow> u32 list \<Rightarrow> u64 \<times> u32 list" where
  "chaskey8_64x128 v0 v1 key =
     (let k0 = key ! 0; k1 = key ! 1; k2 = key ! 2; k3 = key ! 3;
          (v0, v1, v2, v3) = chaskey_rounds 8 (v0 XOR k0, v1 XOR k1, k2, k3);
          hi = ucast (v0 XOR k0) :: u64;
          lo = v1 XOR k1
      in (push_bit 32 hi OR ucast lo, [v2 XOR k2, v3 XOR k3]))"

section \<open>The permutation can be undone\<close>

lemma ROTL_eq: "0 < b \<Longrightarrow> b < 32 \<Longrightarrow> ROTL x b = word_rotl b x"
  using word_rotl_idiom [of b x] by (simp add: ROTL_def)

definition chaskey_unround :: "chaskey_state \<Rightarrow> chaskey_state" where
  "chaskey_unround = (\<lambda>(v0, v1, v2, v3).
     let v2 = word_rotr 16 v2; v1 = v1 XOR v2; v1 = word_rotr 7 v1; v2 = v2 - v1;
         v3 = v3 XOR v0; v3 = word_rotr 13 v3; v0 = v0 - v3;
         v3 = v3 XOR v2; v3 = word_rotr 8 v3; v2 = v2 - v3;
         v0 = word_rotr 16 v0; v1 = v1 XOR v0; v1 = word_rotr 5 v1; v0 = v0 - v1
     in (v0, v1, v2, v3))"

lemma unround_round [simp]: "chaskey_unround (chaskey_round v) = v"
  by (cases v) (simp add: chaskey_round_def chaskey_unround_def ROTL_eq Let_def)

lemma round_unround [simp]: "chaskey_round (chaskey_unround v) = v"
  by (cases v) (simp add: chaskey_round_def chaskey_unround_def ROTL_eq Let_def)

fun chaskey_unrounds :: "nat \<Rightarrow> chaskey_state \<Rightarrow> chaskey_state" where
  "chaskey_unrounds 0 v = v"
| "chaskey_unrounds (Suc i) v = chaskey_unround (chaskey_unrounds i v)"

lemma unrounds_rounds [simp]: "chaskey_unrounds n (chaskey_rounds n v) = v"
  by (induction n arbitrary: v) simp_all

lemma rounds_unrounds [simp]: "chaskey_rounds n (chaskey_unrounds n v) = v"
  by (induction n arbitrary: v) simp_all

lemma rounds_inject: "chaskey_rounds n v = chaskey_rounds n w \<longleftrightarrow> v = w"
  by (metis unrounds_rounds)

definition chaskey8_inv :: "u32 list \<Rightarrow> u32 list \<Rightarrow> u32 list" where
  "chaskey8_inv c key =
     (let k0 = key ! 0; k1 = key ! 1; k2 = key ! 2; k3 = key ! 3;
          (v0, v1, v2, v3) = chaskey_unrounds 8
            (c ! 0 XOR k0, c ! 1 XOR k1, c ! 2 XOR k2, c ! 3 XOR k3)
      in [v0 XOR k0, v1 XOR k1, v2 XOR k2, v3 XOR k3])"

lemma length_4_cases: "length v = 4 \<Longrightarrow> \<exists>a b c d. v = [a, b, c, d]"
  by (auto simp: numeral_eq_Suc length_Suc_conv)

lemma length_chaskey8 [simp]: "length (chaskey8 v key) = 4"
  by (simp add: chaskey8_def Let_def split: prod.split)

lemma chaskey8_inv_chaskey8:
  assumes "length v = 4"
  shows "chaskey8_inv (chaskey8 v key) key = v"
proof -
  from assms obtain a b c d where v: "v = [a, b, c, d]" by (blast dest: length_4_cases)
  obtain e f g h where r: "chaskey_rounds 8 (a XOR key ! 0, b XOR key ! 1, c XOR key ! 2, d XOR key ! 3)
      = (e, f, g, h)" by (metis prod_cases4)
  then have u: "chaskey_unrounds 8 (e, f, g, h)
      = (a XOR key ! 0, b XOR key ! 1, c XOR key ! 2, d XOR key ! 3)"
    by (metis unrounds_rounds)
  show ?thesis
    using r u by (simp add: v chaskey8_def chaskey8_inv_def Let_def)
qed

lemma chaskey8_chaskey8_inv:
  assumes "length c = 4"
  shows "chaskey8 (chaskey8_inv c key) key = c"
proof -
  from assms obtain a b c' d where v: "c = [a, b, c', d]" by (blast dest: length_4_cases)
  obtain e f g h where r: "chaskey_unrounds 8 (a XOR key ! 0, b XOR key ! 1, c' XOR key ! 2, d XOR key ! 3)
      = (e, f, g, h)" by (metis prod_cases4)
  then have u: "chaskey_rounds 8 (e, f, g, h)
      = (a XOR key ! 0, b XOR key ! 1, c' XOR key ! 2, d XOR key ! 3)"
    by (metis rounds_unrounds)
  show ?thesis
    using r u by (simp add: v chaskey8_def chaskey8_inv_def Let_def)
qed

lemma length_chaskey8_inv [simp]: "length (chaskey8_inv v key) = 4"
  by (simp add: chaskey8_inv_def Let_def split: prod.split)

section \<open>Block ciphers\<close>

text \<open>
  What the clients of the cipher rely on: on blocks of four words it is a permutation for
  every key, which the function \<open>dec\<close> inverts.
\<close>

definition blocks :: "u32 list set" where
  "blocks = {v. length v = 4}"

locale block_cipher =
  fixes enc dec :: "u32 list \<Rightarrow> u32 list \<Rightarrow> u32 list"
  assumes enc_block: "length (enc v key) = 4"
    and dec_block: "length (dec v key) = 4"
    and dec_enc: "length v = 4 \<Longrightarrow> dec (enc v key) key = v"
    and enc_dec: "length v = 4 \<Longrightarrow> enc (dec v key) key = v"
begin

lemma enc_inject: "length v = 4 \<Longrightarrow> length w = 4 \<Longrightarrow> enc v key = enc w key \<longleftrightarrow> v = w"
  by (metis dec_enc)

lemma enc_bij: "bij_betw (\<lambda>v. enc v key) blocks blocks"
proof (rule bij_betw_byWitness [where f' = "\<lambda>v. dec v key"])
  show "\<forall>v\<in>blocks. dec (enc v key) key = v" by (simp add: blocks_def dec_enc)
  show "\<forall>v\<in>blocks. enc (dec v key) key = v" by (simp add: blocks_def enc_dec)
qed (auto simp: blocks_def enc_block dec_block)

text \<open>So is encrypting with several keys in turn.\<close>

lemma length_foldl_enc: "length v = 4 \<Longrightarrow> length (foldl enc v keys) = 4"
  by (induction keys arbitrary: v) (simp_all add: enc_block)

lemma foldl_enc_bij: "bij_betw (\<lambda>v. foldl enc v keys) blocks blocks"
proof (induction keys)
  case Nil
  then show ?case by (simp add: bij_betw_def)
next
  case (Cons key keys)
  from bij_betw_trans [OF enc_bij [of key] Cons.IH] show ?case by (simp add: comp_def)
qed

end

interpretation chaskey: block_cipher chaskey8 chaskey8_inv
  by unfold_locales (simp_all add: chaskey8_inv_chaskey8 chaskey8_chaskey8_inv)

text \<open>
  C29. \<open>chaskey8\<close> is a permutation of the blocks of four words for every key.
\<close>

theorem chaskey8_permutation: "bij_betw (\<lambda>v. chaskey8 v key) blocks blocks"
  by (rule chaskey.enc_bij)

section \<open>The variants\<close>

lemma hi_lo_64:
  fixes a b :: u32
  shows "ucast (drop_bit 32 (push_bit 32 (ucast a) OR ucast b :: u64)) = a"
    and "ucast (push_bit 32 (ucast a) OR ucast b :: u64) = b"
  by (rule bit_word_eqI; auto simp: bit_simps dest: bit_imp_le_length)+

lemma chaskey8_64x128_outputs:
  "(let (r, dst) = chaskey8_64x128 v0 v1 key
    in [ucast (drop_bit 32 r), ucast r] @ dst) = chaskey8 [v0, v1, 0, 0] key"
  by (simp add: chaskey8_64x128_def chaskey8_def Let_def hi_lo_64 del: drop_bit_or split: prod.split)

lemma chaskey8_64x64_folds:
  "chaskey8_64x64 v0 v1 key =
     (let c = chaskey8 [v0, v1, 0, 0] key
      in push_bit 32 (ucast (c ! 0 XOR c ! 1)) OR ucast (c ! 2 XOR c ! 3))"
  by (simp add: chaskey8_64x64_def chaskey8_def Let_def xor.assoc split: prod.split)

text \<open>
  The two register-only variants compute the permutation on the block \<open>v0, v1, 0, 0\<close>:
  \<open>chaskey8_64x128\<close> returns its four words unchanged, and \<open>chaskey8_64x64\<close> the exclusive or
  of its first and of its last two words.
\<close>

lemma chaskey8_variants:
  "(let (r, dst) = chaskey8_64x128 v0 v1 key
    in [ucast (drop_bit 32 r), ucast r] @ dst) = chaskey8 [v0, v1, 0, 0] key
   \<and> chaskey8_64x64 v0 v1 key =
     (let c = chaskey8 [v0, v1, 0, 0] key
      in push_bit 32 (ucast (c ! 0 XOR c ! 1)) OR ucast (c ! 2 XOR c ! 3))"
  by (simp only: chaskey8_64x128_outputs chaskey8_64x64_folds simp_thms)

text \<open>Different messages give different 128-bit results.\<close>

lemma chaskey8_64x128_inject:
  "chaskey8_64x128 v0 v1 key = chaskey8_64x128 w0 w1 key \<longleftrightarrow> v0 = w0 \<and> v1 = w1"
proof
  assume "chaskey8_64x128 v0 v1 key = chaskey8_64x128 w0 w1 key"
  then have "chaskey8 [v0, v1, 0, 0] key = chaskey8 [w0, w1, 0, 0] key"
    by (simp only: chaskey8_64x128_outputs [symmetric])
  then show "v0 = w0 \<and> v1 = w1" by (simp add: chaskey.enc_inject)
qed simp

end
