(* ===== verification/Pcg_Variants.thy ===== *)
theory Pcg_Variants
  imports Prelude
begin

text \<open>
  The generator library \<open>src/pcg_variants.h\<close>: the rotation helpers, the output functions,
  the states of the four generator styles (\<open>oneseq\<close>, \<open>mcg\<close>, \<open>unique\<close>, \<open>setseq\<close>) at each
  width, and the functions that step, advance and seed them.  There is one definition for
  each function of the header, under its name.

  The header's \<open>struct pcg_state_8\<close> to \<open>struct pcg_state_128\<close> are instances of one record
  over the width, and so are the \<open>setseq\<close> states.  The \<open>unique\<close> style derives its increment
  from the address of the state object, which is the argument \<open>addr\<close>: 32 bits on the target,
  where \<open>intptr_t | 1u\<close> is an \<open>unsigned int\<close> and widens with zeros.  The 128-bit functions
  exist only where the compiler has \<open>__int128\<close>, hence on hosts with 64-bit pointers, where
  \<open>intptr_t | 1u\<close> is signed and widens with its sign.  The jump-ahead functions
  \<open>pcg_advance_lcg_8\<close> to \<open>pcg_advance_lcg_128\<close> are only declared in the header and are
  defined nowhere in the repository: each \<open>advance_r\<close> function takes them as a parameter.
\<close>

section \<open>Rotation\<close>

definition pcg_rotr_8 :: "u8 \<Rightarrow> u32 \<Rightarrow> u8" where
  "pcg_rotr_8 value rot =
     drop_bit (unat rot) value OR push_bit (unat ((- rot) AND 7)) value"

definition pcg_rotr_16 :: "u16 \<Rightarrow> u32 \<Rightarrow> u16" where
  "pcg_rotr_16 value rot =
     drop_bit (unat rot) value OR push_bit (unat ((- rot) AND 15)) value"

definition pcg_rotr_32 :: "u32 \<Rightarrow> u32 \<Rightarrow> u32" where
  "pcg_rotr_32 value rot =
     drop_bit (unat rot) value OR push_bit (unat ((- rot) AND 31)) value"

definition pcg_rotr_64 :: "u64 \<Rightarrow> u32 \<Rightarrow> u64" where
  "pcg_rotr_64 value rot =
     drop_bit (unat rot) value OR push_bit (unat ((- rot) AND 63)) value"

definition pcg_rotr_128 :: "u128 \<Rightarrow> u32 \<Rightarrow> u128" where
  "pcg_rotr_128 value rot =
     drop_bit (unat rot) value OR push_bit (unat ((- rot) AND 127)) value"

definition PCG_128BIT_CONSTANT :: "u64 \<Rightarrow> u64 \<Rightarrow> u128" where
  "PCG_128BIT_CONSTANT high low = push_bit 64 (ucast high) + ucast low"

section \<open>Output functions\<close>

definition pcg_output_xsh_rs_16_8 :: "u16 \<Rightarrow> u8" where
  "pcg_output_xsh_rs_16_8 state =
     ucast (drop_bit (unat (drop_bit 14 state + 3)) (drop_bit 7 state XOR state))"

definition pcg_output_xsh_rs_32_16 :: "u32 \<Rightarrow> u16" where
  "pcg_output_xsh_rs_32_16 state =
     ucast (drop_bit (unat (drop_bit 30 state + 11)) (drop_bit 11 state XOR state))"

definition pcg_output_xsh_rs_64_32 :: "u64 \<Rightarrow> u32" where
  "pcg_output_xsh_rs_64_32 state =
     ucast (drop_bit (unat (drop_bit 61 state + 22)) (drop_bit 22 state XOR state))"

definition pcg_output_xsh_rs_128_64 :: "u128 \<Rightarrow> u64" where
  "pcg_output_xsh_rs_128_64 state =
     ucast (drop_bit (unat (drop_bit 124 state + 45)) (drop_bit 43 state XOR state))"

definition pcg_output_xsh_rr_16_8 :: "u16 \<Rightarrow> u8" where
  "pcg_output_xsh_rr_16_8 state =
     pcg_rotr_8 (ucast (drop_bit 5 (drop_bit 5 state XOR state))) (ucast (drop_bit 13 state))"

definition pcg_output_xsh_rr_32_16 :: "u32 \<Rightarrow> u16" where
  "pcg_output_xsh_rr_32_16 state =
     pcg_rotr_16 (ucast (drop_bit 12 (drop_bit 10 state XOR state))) (ucast (drop_bit 28 state))"

definition pcg_output_xsh_rr_64_32 :: "u64 \<Rightarrow> u32" where
  "pcg_output_xsh_rr_64_32 state =
     pcg_rotr_32 (ucast (drop_bit 27 (drop_bit 18 state XOR state))) (ucast (drop_bit 59 state))"

definition pcg_output_xsh_rr_128_64 :: "u128 \<Rightarrow> u64" where
  "pcg_output_xsh_rr_128_64 state =
     pcg_rotr_64 (ucast (drop_bit 58 (drop_bit 29 state XOR state))) (ucast (drop_bit 122 state))"

definition pcg_output_rxs_m_xs_8_8 :: "u8 \<Rightarrow> u8" where
  "pcg_output_rxs_m_xs_8_8 state =
     (let word = (drop_bit (unat (drop_bit 6 state + 2)) state XOR state) * 217
      in drop_bit 6 word XOR word)"

definition pcg_output_rxs_m_xs_16_16 :: "u16 \<Rightarrow> u16" where
  "pcg_output_rxs_m_xs_16_16 state =
     (let word = (drop_bit (unat (drop_bit 13 state + 3)) state XOR state) * 62169
      in drop_bit 11 word XOR word)"

definition pcg_output_rxs_m_xs_32_32 :: "u32 \<Rightarrow> u32" where
  "pcg_output_rxs_m_xs_32_32 state =
     (let word = (drop_bit (unat (drop_bit 28 state + 4)) state XOR state) * 277803737
      in drop_bit 22 word XOR word)"

definition pcg_output_rxs_m_xs_64_64 :: "u64 \<Rightarrow> u64" where
  "pcg_output_rxs_m_xs_64_64 state =
     (let word = (drop_bit (unat (drop_bit 59 state + 5)) state XOR state) * 12605985483714917081
      in drop_bit 43 word XOR word)"

definition pcg_output_rxs_m_xs_128_128 :: "u128 \<Rightarrow> u128" where
  "pcg_output_rxs_m_xs_128_128 state =
     (let word = (drop_bit (unat (drop_bit 122 state + 6)) state XOR state)
            * PCG_128BIT_CONSTANT 17766728186571221404 12605985483714917081
      in drop_bit 86 word XOR word)"

definition pcg_output_xsl_rr_64_32 :: "u64 \<Rightarrow> u32" where
  "pcg_output_xsl_rr_64_32 state =
     pcg_rotr_32 (ucast (drop_bit 32 state) XOR ucast state) (ucast (drop_bit 59 state))"

definition pcg_output_xsl_rr_128_64 :: "u128 \<Rightarrow> u64" where
  "pcg_output_xsl_rr_128_64 state =
     pcg_rotr_64 (ucast (drop_bit 64 state) XOR ucast state) (ucast (drop_bit 122 state))"

definition pcg_output_xsl_rr_rr_64_64 :: "u64 \<Rightarrow> u64" where
  "pcg_output_xsl_rr_rr_64_64 state =
     (let rot1 = ucast (drop_bit 59 state) :: u32;
          high = ucast (drop_bit 32 state) :: u32;
          low = ucast state :: u32;
          xored = high XOR low;
          newlow = pcg_rotr_32 xored rot1;
          newhigh = pcg_rotr_32 high (newlow AND 31)
      in push_bit 32 (ucast newhigh) OR ucast newlow)"

definition pcg_output_xsl_rr_rr_128_128 :: "u128 \<Rightarrow> u128" where
  "pcg_output_xsl_rr_rr_128_128 state =
     (let rot1 = ucast (drop_bit 122 state) :: u32;
          high = ucast (drop_bit 64 state) :: u64;
          low = ucast state :: u64;
          xored = high XOR low;
          newlow = pcg_rotr_64 xored rot1;
          newhigh = pcg_rotr_64 high (ucast (newlow AND 63))
      in push_bit 64 (ucast newhigh) OR ucast newlow)"

section \<open>Multipliers and increments\<close>

definition PCG_DEFAULT_MULTIPLIER_8 :: u8 where "PCG_DEFAULT_MULTIPLIER_8 = 141"
definition PCG_DEFAULT_MULTIPLIER_16 :: u16 where "PCG_DEFAULT_MULTIPLIER_16 = 12829"
definition PCG_DEFAULT_MULTIPLIER_32 :: u32 where "PCG_DEFAULT_MULTIPLIER_32 = 747796405"
definition PCG_DEFAULT_MULTIPLIER_64 :: u64 where
  "PCG_DEFAULT_MULTIPLIER_64 = 6364136223846793005"
definition PCG_DEFAULT_MULTIPLIER_128 :: u128 where
  "PCG_DEFAULT_MULTIPLIER_128 = PCG_128BIT_CONSTANT 2549297995355413924 4865540595714422341"

definition PCG_DEFAULT_INCREMENT_8 :: u8 where "PCG_DEFAULT_INCREMENT_8 = 77"
definition PCG_DEFAULT_INCREMENT_16 :: u16 where "PCG_DEFAULT_INCREMENT_16 = 47989"
definition PCG_DEFAULT_INCREMENT_32 :: u32 where "PCG_DEFAULT_INCREMENT_32 = 2891336453"
definition PCG_DEFAULT_INCREMENT_64 :: u64 where
  "PCG_DEFAULT_INCREMENT_64 = 1442695040888963407"
definition PCG_DEFAULT_INCREMENT_128 :: u128 where
  "PCG_DEFAULT_INCREMENT_128 = PCG_128BIT_CONSTANT 6364136223846793005 1442695040888963407"

lemmas pcg_constants =
  PCG_DEFAULT_MULTIPLIER_8_def PCG_DEFAULT_MULTIPLIER_16_def PCG_DEFAULT_MULTIPLIER_32_def
  PCG_DEFAULT_MULTIPLIER_64_def PCG_DEFAULT_MULTIPLIER_128_def PCG_DEFAULT_INCREMENT_8_def
  PCG_DEFAULT_INCREMENT_16_def PCG_DEFAULT_INCREMENT_32_def PCG_DEFAULT_INCREMENT_64_def
  PCG_DEFAULT_INCREMENT_128_def PCG_128BIT_CONSTANT_def

section \<open>States\<close>

record 'w pcg_state =
  state :: 'w

record 'w pcg_state_setseq =
  sq_state :: 'w
  sq_inc :: 'w

type_synonym pcg_state_8 = "u8 pcg_state"
type_synonym pcg_state_16 = "u16 pcg_state"
type_synonym pcg_state_32 = "u32 pcg_state"
type_synonym pcg_state_64 = "u64 pcg_state"
type_synonym pcg_state_128 = "u128 pcg_state"
type_synonym pcg_state_setseq_8 = "u8 pcg_state_setseq"
type_synonym pcg_state_setseq_16 = "u16 pcg_state_setseq"
type_synonym pcg_state_setseq_32 = "u32 pcg_state_setseq"
type_synonym pcg_state_setseq_64 = "u64 pcg_state_setseq"
type_synonym pcg_state_setseq_128 = "u128 pcg_state_setseq"

text \<open>
  \<open>pcg_advance_lcg_w\<close> takes the state, the number of steps, the multiplier and the increment.
\<close>

type_synonym 'w advance_lcg = "'w \<Rightarrow> 'w \<Rightarrow> 'w \<Rightarrow> 'w \<Rightarrow> 'w"

section \<open>Stepping the generators\<close>

definition pcg_oneseq_8_step_r :: "pcg_state_8 \<Rightarrow> pcg_state_8" where
  "pcg_oneseq_8_step_r rng =
     rng\<lparr>state := state rng * PCG_DEFAULT_MULTIPLIER_8 + PCG_DEFAULT_INCREMENT_8\<rparr>"

definition pcg_mcg_8_step_r :: "pcg_state_8 \<Rightarrow> pcg_state_8" where
  "pcg_mcg_8_step_r rng = rng\<lparr>state := state rng * PCG_DEFAULT_MULTIPLIER_8\<rparr>"

definition pcg_unique_8_step_r :: "u32 \<Rightarrow> pcg_state_8 \<Rightarrow> pcg_state_8" where
  "pcg_unique_8_step_r addr rng =
     rng\<lparr>state := state rng * PCG_DEFAULT_MULTIPLIER_8 + ucast (addr OR 1)\<rparr>"

definition pcg_setseq_8_step_r :: "pcg_state_setseq_8 \<Rightarrow> pcg_state_setseq_8" where
  "pcg_setseq_8_step_r rng = rng\<lparr>sq_state := sq_state rng * PCG_DEFAULT_MULTIPLIER_8 + sq_inc rng\<rparr>"

definition pcg_oneseq_16_step_r :: "pcg_state_16 \<Rightarrow> pcg_state_16" where
  "pcg_oneseq_16_step_r rng =
     rng\<lparr>state := state rng * PCG_DEFAULT_MULTIPLIER_16 + PCG_DEFAULT_INCREMENT_16\<rparr>"

definition pcg_mcg_16_step_r :: "pcg_state_16 \<Rightarrow> pcg_state_16" where
  "pcg_mcg_16_step_r rng = rng\<lparr>state := state rng * PCG_DEFAULT_MULTIPLIER_16\<rparr>"

definition pcg_unique_16_step_r :: "u32 \<Rightarrow> pcg_state_16 \<Rightarrow> pcg_state_16" where
  "pcg_unique_16_step_r addr rng =
     rng\<lparr>state := state rng * PCG_DEFAULT_MULTIPLIER_16 + ucast (addr OR 1)\<rparr>"

definition pcg_setseq_16_step_r :: "pcg_state_setseq_16 \<Rightarrow> pcg_state_setseq_16" where
  "pcg_setseq_16_step_r rng = rng\<lparr>sq_state := sq_state rng * PCG_DEFAULT_MULTIPLIER_16 + sq_inc rng\<rparr>"

definition pcg_oneseq_32_step_r :: "pcg_state_32 \<Rightarrow> pcg_state_32" where
  "pcg_oneseq_32_step_r rng =
     rng\<lparr>state := state rng * PCG_DEFAULT_MULTIPLIER_32 + PCG_DEFAULT_INCREMENT_32\<rparr>"

definition pcg_mcg_32_step_r :: "pcg_state_32 \<Rightarrow> pcg_state_32" where
  "pcg_mcg_32_step_r rng = rng\<lparr>state := state rng * PCG_DEFAULT_MULTIPLIER_32\<rparr>"

definition pcg_unique_32_step_r :: "u32 \<Rightarrow> pcg_state_32 \<Rightarrow> pcg_state_32" where
  "pcg_unique_32_step_r addr rng =
     rng\<lparr>state := state rng * PCG_DEFAULT_MULTIPLIER_32 + ucast (addr OR 1)\<rparr>"

definition pcg_setseq_32_step_r :: "pcg_state_setseq_32 \<Rightarrow> pcg_state_setseq_32" where
  "pcg_setseq_32_step_r rng = rng\<lparr>sq_state := sq_state rng * PCG_DEFAULT_MULTIPLIER_32 + sq_inc rng\<rparr>"

definition pcg_oneseq_64_step_r :: "pcg_state_64 \<Rightarrow> pcg_state_64" where
  "pcg_oneseq_64_step_r rng =
     rng\<lparr>state := state rng * PCG_DEFAULT_MULTIPLIER_64 + PCG_DEFAULT_INCREMENT_64\<rparr>"

definition pcg_mcg_64_step_r :: "pcg_state_64 \<Rightarrow> pcg_state_64" where
  "pcg_mcg_64_step_r rng = rng\<lparr>state := state rng * PCG_DEFAULT_MULTIPLIER_64\<rparr>"

definition pcg_unique_64_step_r :: "u32 \<Rightarrow> pcg_state_64 \<Rightarrow> pcg_state_64" where
  "pcg_unique_64_step_r addr rng =
     rng\<lparr>state := state rng * PCG_DEFAULT_MULTIPLIER_64 + ucast (addr OR 1)\<rparr>"

definition pcg_setseq_64_step_r :: "pcg_state_setseq_64 \<Rightarrow> pcg_state_setseq_64" where
  "pcg_setseq_64_step_r rng = rng\<lparr>sq_state := sq_state rng * PCG_DEFAULT_MULTIPLIER_64 + sq_inc rng\<rparr>"

definition pcg_oneseq_128_step_r :: "pcg_state_128 \<Rightarrow> pcg_state_128" where
  "pcg_oneseq_128_step_r rng =
     rng\<lparr>state := state rng * PCG_DEFAULT_MULTIPLIER_128 + PCG_DEFAULT_INCREMENT_128\<rparr>"

definition pcg_mcg_128_step_r :: "pcg_state_128 \<Rightarrow> pcg_state_128" where
  "pcg_mcg_128_step_r rng = rng\<lparr>state := state rng * PCG_DEFAULT_MULTIPLIER_128\<rparr>"

definition pcg_unique_128_step_r :: "u64 \<Rightarrow> pcg_state_128 \<Rightarrow> pcg_state_128" where
  "pcg_unique_128_step_r addr rng =
     rng\<lparr>state := state rng * PCG_DEFAULT_MULTIPLIER_128 + scast (addr OR 1)\<rparr>"

definition pcg_setseq_128_step_r :: "pcg_state_setseq_128 \<Rightarrow> pcg_state_setseq_128" where
  "pcg_setseq_128_step_r rng = rng\<lparr>sq_state := sq_state rng * PCG_DEFAULT_MULTIPLIER_128 + sq_inc rng\<rparr>"

section \<open>Jumping ahead\<close>

definition pcg_oneseq_8_advance_r :: "u8 advance_lcg \<Rightarrow> pcg_state_8 \<Rightarrow> u8 \<Rightarrow> pcg_state_8" where
  "pcg_oneseq_8_advance_r pcg_advance_lcg_8 rng delta =
     rng\<lparr>state := pcg_advance_lcg_8 (state rng) delta PCG_DEFAULT_MULTIPLIER_8 PCG_DEFAULT_INCREMENT_8\<rparr>"

definition pcg_mcg_8_advance_r :: "u8 advance_lcg \<Rightarrow> pcg_state_8 \<Rightarrow> u8 \<Rightarrow> pcg_state_8" where
  "pcg_mcg_8_advance_r pcg_advance_lcg_8 rng delta =
     rng\<lparr>state := pcg_advance_lcg_8 (state rng) delta PCG_DEFAULT_MULTIPLIER_8 0\<rparr>"

definition pcg_unique_8_advance_r :: "u8 advance_lcg \<Rightarrow> u32 \<Rightarrow> pcg_state_8 \<Rightarrow> u8 \<Rightarrow> pcg_state_8" where
  "pcg_unique_8_advance_r pcg_advance_lcg_8 addr rng delta =
     rng\<lparr>state := pcg_advance_lcg_8 (state rng) delta PCG_DEFAULT_MULTIPLIER_8 (ucast (addr OR 1))\<rparr>"

definition pcg_setseq_8_advance_r :: "u8 advance_lcg \<Rightarrow> pcg_state_setseq_8 \<Rightarrow> u8 \<Rightarrow> pcg_state_setseq_8" where
  "pcg_setseq_8_advance_r pcg_advance_lcg_8 rng delta =
     rng\<lparr>sq_state := pcg_advance_lcg_8 (sq_state rng) delta PCG_DEFAULT_MULTIPLIER_8 (sq_inc rng)\<rparr>"

definition pcg_oneseq_16_advance_r :: "u16 advance_lcg \<Rightarrow> pcg_state_16 \<Rightarrow> u16 \<Rightarrow> pcg_state_16" where
  "pcg_oneseq_16_advance_r pcg_advance_lcg_16 rng delta =
     rng\<lparr>state := pcg_advance_lcg_16 (state rng) delta PCG_DEFAULT_MULTIPLIER_16 PCG_DEFAULT_INCREMENT_16\<rparr>"

definition pcg_mcg_16_advance_r :: "u16 advance_lcg \<Rightarrow> pcg_state_16 \<Rightarrow> u16 \<Rightarrow> pcg_state_16" where
  "pcg_mcg_16_advance_r pcg_advance_lcg_16 rng delta =
     rng\<lparr>state := pcg_advance_lcg_16 (state rng) delta PCG_DEFAULT_MULTIPLIER_16 0\<rparr>"

definition pcg_unique_16_advance_r :: "u16 advance_lcg \<Rightarrow> u32 \<Rightarrow> pcg_state_16 \<Rightarrow> u16 \<Rightarrow> pcg_state_16" where
  "pcg_unique_16_advance_r pcg_advance_lcg_16 addr rng delta =
     rng\<lparr>state := pcg_advance_lcg_16 (state rng) delta PCG_DEFAULT_MULTIPLIER_16 (ucast (addr OR 1))\<rparr>"

definition pcg_setseq_16_advance_r :: "u16 advance_lcg \<Rightarrow> pcg_state_setseq_16 \<Rightarrow> u16 \<Rightarrow> pcg_state_setseq_16" where
  "pcg_setseq_16_advance_r pcg_advance_lcg_16 rng delta =
     rng\<lparr>sq_state := pcg_advance_lcg_16 (sq_state rng) delta PCG_DEFAULT_MULTIPLIER_16 (sq_inc rng)\<rparr>"

definition pcg_oneseq_32_advance_r :: "u32 advance_lcg \<Rightarrow> pcg_state_32 \<Rightarrow> u32 \<Rightarrow> pcg_state_32" where
  "pcg_oneseq_32_advance_r pcg_advance_lcg_32 rng delta =
     rng\<lparr>state := pcg_advance_lcg_32 (state rng) delta PCG_DEFAULT_MULTIPLIER_32 PCG_DEFAULT_INCREMENT_32\<rparr>"

definition pcg_mcg_32_advance_r :: "u32 advance_lcg \<Rightarrow> pcg_state_32 \<Rightarrow> u32 \<Rightarrow> pcg_state_32" where
  "pcg_mcg_32_advance_r pcg_advance_lcg_32 rng delta =
     rng\<lparr>state := pcg_advance_lcg_32 (state rng) delta PCG_DEFAULT_MULTIPLIER_32 0\<rparr>"

definition pcg_unique_32_advance_r :: "u32 advance_lcg \<Rightarrow> u32 \<Rightarrow> pcg_state_32 \<Rightarrow> u32 \<Rightarrow> pcg_state_32" where
  "pcg_unique_32_advance_r pcg_advance_lcg_32 addr rng delta =
     rng\<lparr>state := pcg_advance_lcg_32 (state rng) delta PCG_DEFAULT_MULTIPLIER_32 (ucast (addr OR 1))\<rparr>"

definition pcg_setseq_32_advance_r :: "u32 advance_lcg \<Rightarrow> pcg_state_setseq_32 \<Rightarrow> u32 \<Rightarrow> pcg_state_setseq_32" where
  "pcg_setseq_32_advance_r pcg_advance_lcg_32 rng delta =
     rng\<lparr>sq_state := pcg_advance_lcg_32 (sq_state rng) delta PCG_DEFAULT_MULTIPLIER_32 (sq_inc rng)\<rparr>"

definition pcg_oneseq_64_advance_r :: "u64 advance_lcg \<Rightarrow> pcg_state_64 \<Rightarrow> u64 \<Rightarrow> pcg_state_64" where
  "pcg_oneseq_64_advance_r pcg_advance_lcg_64 rng delta =
     rng\<lparr>state := pcg_advance_lcg_64 (state rng) delta PCG_DEFAULT_MULTIPLIER_64 PCG_DEFAULT_INCREMENT_64\<rparr>"

definition pcg_mcg_64_advance_r :: "u64 advance_lcg \<Rightarrow> pcg_state_64 \<Rightarrow> u64 \<Rightarrow> pcg_state_64" where
  "pcg_mcg_64_advance_r pcg_advance_lcg_64 rng delta =
     rng\<lparr>state := pcg_advance_lcg_64 (state rng) delta PCG_DEFAULT_MULTIPLIER_64 0\<rparr>"

definition pcg_unique_64_advance_r :: "u64 advance_lcg \<Rightarrow> u32 \<Rightarrow> pcg_state_64 \<Rightarrow> u64 \<Rightarrow> pcg_state_64" where
  "pcg_unique_64_advance_r pcg_advance_lcg_64 addr rng delta =
     rng\<lparr>state := pcg_advance_lcg_64 (state rng) delta PCG_DEFAULT_MULTIPLIER_64 (ucast (addr OR 1))\<rparr>"

definition pcg_setseq_64_advance_r :: "u64 advance_lcg \<Rightarrow> pcg_state_setseq_64 \<Rightarrow> u64 \<Rightarrow> pcg_state_setseq_64" where
  "pcg_setseq_64_advance_r pcg_advance_lcg_64 rng delta =
     rng\<lparr>sq_state := pcg_advance_lcg_64 (sq_state rng) delta PCG_DEFAULT_MULTIPLIER_64 (sq_inc rng)\<rparr>"

definition pcg_oneseq_128_advance_r :: "u128 advance_lcg \<Rightarrow> pcg_state_128 \<Rightarrow> u128 \<Rightarrow> pcg_state_128" where
  "pcg_oneseq_128_advance_r pcg_advance_lcg_128 rng delta =
     rng\<lparr>state := pcg_advance_lcg_128 (state rng) delta PCG_DEFAULT_MULTIPLIER_128 PCG_DEFAULT_INCREMENT_128\<rparr>"

definition pcg_mcg_128_advance_r :: "u128 advance_lcg \<Rightarrow> pcg_state_128 \<Rightarrow> u128 \<Rightarrow> pcg_state_128" where
  "pcg_mcg_128_advance_r pcg_advance_lcg_128 rng delta =
     rng\<lparr>state := pcg_advance_lcg_128 (state rng) delta PCG_DEFAULT_MULTIPLIER_128 0\<rparr>"

definition pcg_unique_128_advance_r :: "u128 advance_lcg \<Rightarrow> u64 \<Rightarrow> pcg_state_128 \<Rightarrow> u128 \<Rightarrow> pcg_state_128" where
  "pcg_unique_128_advance_r pcg_advance_lcg_128 addr rng delta =
     rng\<lparr>state := pcg_advance_lcg_128 (state rng) delta PCG_DEFAULT_MULTIPLIER_128 (scast (addr OR 1))\<rparr>"

definition pcg_setseq_128_advance_r :: "u128 advance_lcg \<Rightarrow> pcg_state_setseq_128 \<Rightarrow> u128 \<Rightarrow> pcg_state_setseq_128" where
  "pcg_setseq_128_advance_r pcg_advance_lcg_128 rng delta =
     rng\<lparr>sq_state := pcg_advance_lcg_128 (sq_state rng) delta PCG_DEFAULT_MULTIPLIER_128 (sq_inc rng)\<rparr>"

section \<open>Seeding\<close>

definition pcg_oneseq_8_srandom_r :: "pcg_state_8 \<Rightarrow> u8 \<Rightarrow> pcg_state_8" where
  "pcg_oneseq_8_srandom_r rng initstate =
     (let rng = rng\<lparr>state := 0\<rparr>;
          rng = pcg_oneseq_8_step_r rng;
          rng = rng\<lparr>state := state rng + initstate\<rparr>
      in pcg_oneseq_8_step_r rng)"

definition pcg_mcg_8_srandom_r :: "pcg_state_8 \<Rightarrow> u8 \<Rightarrow> pcg_state_8" where
  "pcg_mcg_8_srandom_r rng initstate = rng\<lparr>state := initstate OR 1\<rparr>"

definition pcg_unique_8_srandom_r :: "u32 \<Rightarrow> pcg_state_8 \<Rightarrow> u8 \<Rightarrow> pcg_state_8" where
  "pcg_unique_8_srandom_r addr rng initstate =
     (let rng = rng\<lparr>state := 0\<rparr>;
          rng = pcg_unique_8_step_r addr rng;
          rng = rng\<lparr>state := state rng + initstate\<rparr>
      in pcg_unique_8_step_r addr rng)"

definition pcg_setseq_8_srandom_r ::
  "pcg_state_setseq_8 \<Rightarrow> u8 \<Rightarrow> u8 \<Rightarrow> pcg_state_setseq_8" where
  "pcg_setseq_8_srandom_r rng initstate initseq =
     (let rng = rng\<lparr>sq_state := 0\<rparr>;
          rng = rng\<lparr>sq_inc := push_bit 1 initseq OR 1\<rparr>;
          rng = pcg_setseq_8_step_r rng;
          rng = rng\<lparr>sq_state := sq_state rng + initstate\<rparr>
      in pcg_setseq_8_step_r rng)"

definition pcg_oneseq_16_srandom_r :: "pcg_state_16 \<Rightarrow> u16 \<Rightarrow> pcg_state_16" where
  "pcg_oneseq_16_srandom_r rng initstate =
     (let rng = rng\<lparr>state := 0\<rparr>;
          rng = pcg_oneseq_16_step_r rng;
          rng = rng\<lparr>state := state rng + initstate\<rparr>
      in pcg_oneseq_16_step_r rng)"

definition pcg_mcg_16_srandom_r :: "pcg_state_16 \<Rightarrow> u16 \<Rightarrow> pcg_state_16" where
  "pcg_mcg_16_srandom_r rng initstate = rng\<lparr>state := initstate OR 1\<rparr>"

definition pcg_unique_16_srandom_r :: "u32 \<Rightarrow> pcg_state_16 \<Rightarrow> u16 \<Rightarrow> pcg_state_16" where
  "pcg_unique_16_srandom_r addr rng initstate =
     (let rng = rng\<lparr>state := 0\<rparr>;
          rng = pcg_unique_16_step_r addr rng;
          rng = rng\<lparr>state := state rng + initstate\<rparr>
      in pcg_unique_16_step_r addr rng)"

definition pcg_setseq_16_srandom_r ::
  "pcg_state_setseq_16 \<Rightarrow> u16 \<Rightarrow> u16 \<Rightarrow> pcg_state_setseq_16" where
  "pcg_setseq_16_srandom_r rng initstate initseq =
     (let rng = rng\<lparr>sq_state := 0\<rparr>;
          rng = rng\<lparr>sq_inc := push_bit 1 initseq OR 1\<rparr>;
          rng = pcg_setseq_16_step_r rng;
          rng = rng\<lparr>sq_state := sq_state rng + initstate\<rparr>
      in pcg_setseq_16_step_r rng)"

definition pcg_oneseq_32_srandom_r :: "pcg_state_32 \<Rightarrow> u32 \<Rightarrow> pcg_state_32" where
  "pcg_oneseq_32_srandom_r rng initstate =
     (let rng = rng\<lparr>state := 0\<rparr>;
          rng = pcg_oneseq_32_step_r rng;
          rng = rng\<lparr>state := state rng + initstate\<rparr>
      in pcg_oneseq_32_step_r rng)"

definition pcg_mcg_32_srandom_r :: "pcg_state_32 \<Rightarrow> u32 \<Rightarrow> pcg_state_32" where
  "pcg_mcg_32_srandom_r rng initstate = rng\<lparr>state := initstate OR 1\<rparr>"

definition pcg_unique_32_srandom_r :: "u32 \<Rightarrow> pcg_state_32 \<Rightarrow> u32 \<Rightarrow> pcg_state_32" where
  "pcg_unique_32_srandom_r addr rng initstate =
     (let rng = rng\<lparr>state := 0\<rparr>;
          rng = pcg_unique_32_step_r addr rng;
          rng = rng\<lparr>state := state rng + initstate\<rparr>
      in pcg_unique_32_step_r addr rng)"

definition pcg_setseq_32_srandom_r ::
  "pcg_state_setseq_32 \<Rightarrow> u32 \<Rightarrow> u32 \<Rightarrow> pcg_state_setseq_32" where
  "pcg_setseq_32_srandom_r rng initstate initseq =
     (let rng = rng\<lparr>sq_state := 0\<rparr>;
          rng = rng\<lparr>sq_inc := push_bit 1 initseq OR 1\<rparr>;
          rng = pcg_setseq_32_step_r rng;
          rng = rng\<lparr>sq_state := sq_state rng + initstate\<rparr>
      in pcg_setseq_32_step_r rng)"

definition pcg_oneseq_64_srandom_r :: "pcg_state_64 \<Rightarrow> u64 \<Rightarrow> pcg_state_64" where
  "pcg_oneseq_64_srandom_r rng initstate =
     (let rng = rng\<lparr>state := 0\<rparr>;
          rng = pcg_oneseq_64_step_r rng;
          rng = rng\<lparr>state := state rng + initstate\<rparr>
      in pcg_oneseq_64_step_r rng)"

definition pcg_mcg_64_srandom_r :: "pcg_state_64 \<Rightarrow> u64 \<Rightarrow> pcg_state_64" where
  "pcg_mcg_64_srandom_r rng initstate = rng\<lparr>state := initstate OR 1\<rparr>"

definition pcg_unique_64_srandom_r :: "u32 \<Rightarrow> pcg_state_64 \<Rightarrow> u64 \<Rightarrow> pcg_state_64" where
  "pcg_unique_64_srandom_r addr rng initstate =
     (let rng = rng\<lparr>state := 0\<rparr>;
          rng = pcg_unique_64_step_r addr rng;
          rng = rng\<lparr>state := state rng + initstate\<rparr>
      in pcg_unique_64_step_r addr rng)"

definition pcg_setseq_64_srandom_r ::
  "pcg_state_setseq_64 \<Rightarrow> u64 \<Rightarrow> u64 \<Rightarrow> pcg_state_setseq_64" where
  "pcg_setseq_64_srandom_r rng initstate initseq =
     (let rng = rng\<lparr>sq_state := 0\<rparr>;
          rng = rng\<lparr>sq_inc := push_bit 1 initseq OR 1\<rparr>;
          rng = pcg_setseq_64_step_r rng;
          rng = rng\<lparr>sq_state := sq_state rng + initstate\<rparr>
      in pcg_setseq_64_step_r rng)"

definition pcg_oneseq_128_srandom_r :: "pcg_state_128 \<Rightarrow> u128 \<Rightarrow> pcg_state_128" where
  "pcg_oneseq_128_srandom_r rng initstate =
     (let rng = rng\<lparr>state := 0\<rparr>;
          rng = pcg_oneseq_128_step_r rng;
          rng = rng\<lparr>state := state rng + initstate\<rparr>
      in pcg_oneseq_128_step_r rng)"

definition pcg_mcg_128_srandom_r :: "pcg_state_128 \<Rightarrow> u128 \<Rightarrow> pcg_state_128" where
  "pcg_mcg_128_srandom_r rng initstate = rng\<lparr>state := initstate OR 1\<rparr>"

definition pcg_unique_128_srandom_r :: "u64 \<Rightarrow> pcg_state_128 \<Rightarrow> u128 \<Rightarrow> pcg_state_128" where
  "pcg_unique_128_srandom_r addr rng initstate =
     (let rng = rng\<lparr>state := 0\<rparr>;
          rng = pcg_unique_128_step_r addr rng;
          rng = rng\<lparr>state := state rng + initstate\<rparr>
      in pcg_unique_128_step_r addr rng)"

definition pcg_setseq_128_srandom_r ::
  "pcg_state_setseq_128 \<Rightarrow> u128 \<Rightarrow> u128 \<Rightarrow> pcg_state_setseq_128" where
  "pcg_setseq_128_srandom_r rng initstate initseq =
     (let rng = rng\<lparr>sq_state := 0\<rparr>;
          rng = rng\<lparr>sq_inc := push_bit 1 initseq OR 1\<rparr>;
          rng = pcg_setseq_128_step_r rng;
          rng = rng\<lparr>sq_state := sq_state rng + initstate\<rparr>
      in pcg_setseq_128_step_r rng)"

end
