(* ===== verification/Lcg.thy ===== *)
theory Lcg
  imports Prelude
begin

text \<open>
  The number theory behind \<open>src/pcg_variants.h\<close>: a linear congruential generator modulo
  \<open>2 ^ w\<close> whose multiplier is \<open>1\<close> modulo \<open>4\<close> and whose increment is odd runs through all
  words before it repeats, and a multiplicative one whose multiplier is \<open>5\<close> modulo \<open>8\<close>
  runs through all words of the residue class modulo \<open>4\<close> of its odd state.  The two facts
  are stated as locales for a step function; every step function of the generator library
  is an instance.
\<close>

section \<open>Iterating a permutation\<close>

lemma funpow_fix: "f x = x \<Longrightarrow> (f ^^ n) x = x"
  by (induction n) simp_all

lemma funpow_mult_fix: "(f ^^ p) x = x \<Longrightarrow> (f ^^ (p * k)) x = x"
  using funpow_fix [of "f ^^ p" x k] by (simp add: funpow_mult mult.commute)

lemma funpow_inj_diff:
  assumes "inj f" "i \<le> j" "(f ^^ i) x = (f ^^ j) x"
  shows "(f ^^ (j - i)) x = x"
proof -
  have "(f ^^ i) ((f ^^ (j - i)) x) = (f ^^ i) x"
    using assms(2,3) by (simp flip: funpow_add [unfolded comp_def, THEN fun_cong])
  moreover have "inj (f ^^ i)" using assms(1) by (rule inj_fn)
  ultimately show ?thesis by (simp add: inj_eq)
qed

lemma funpow_gcd_fix:
  assumes "(f ^^ p) x = x" "(f ^^ q) x = x" "p \<noteq> 0"
  shows "(f ^^ gcd p q) x = x"
proof -
  obtain u v where "p * u = q * v + gcd p q"
    using bezout_nat [OF \<open>p \<noteq> 0\<close>] by blast
  then have "(f ^^ (p * u)) x = (f ^^ gcd p q) ((f ^^ (q * v)) x)"
    by (simp add: add.commute funpow_add)
  then show ?thesis
    using assms(1,2) by (simp add: funpow_mult_fix)
qed

lemma dvd_two_power: "d dvd 2 ^ n \<Longrightarrow> \<exists>k\<le>n. d = (2 :: nat) ^ k"
proof (induction n arbitrary: d)
  case 0
  then show ?case by simp
next
  case (Suc n)
  show ?case
  proof (cases "even d")
    case True
    then obtain d' where d: "d = 2 * d'" by (auto elim: evenE)
    with Suc.prems have "d' dvd 2 ^ n" by simp
    then obtain k where "k \<le> n" "d' = 2 ^ k" using Suc.IH by blast
    with d have "Suc k \<le> Suc n" "d = 2 ^ Suc k" by simp_all
    then show ?thesis by blast
  next
    case False
    then have "d dvd 2 ^ n"
      using Suc.prems by (simp add: coprime_dvd_mult_right_iff)
    then show ?thesis using Suc.IH le_SucI by blast
  qed
qed

text \<open>
  A point with period \<open>2 ^ Suc m\<close>, which does not have period \<open>2 ^ m\<close>, has no smaller
  period: its orbit has \<open>2 ^ Suc m\<close> elements.
\<close>

lemma orbit_inj_on:
  assumes inj: "inj f" and per: "(f ^^ (2 ^ Suc m)) x = x" and half: "(f ^^ (2 ^ m)) x \<noteq> x"
  shows "inj_on (\<lambda>k. (f ^^ k) x) {..<2 ^ Suc m}"
proof (rule linorder_inj_onI)
  fix i j :: nat
  assume ij: "i < j" and j: "j \<in> {..<2 ^ Suc m}"
  show "(f ^^ i) x \<noteq> (f ^^ j) x"
  proof
    assume "(f ^^ i) x = (f ^^ j) x"
    with inj ij have d: "(f ^^ (j - i)) x = x" by (intro funpow_inj_diff) simp_all
    let ?g = "gcd (2 ^ Suc m) (j - i)"
    have "(f ^^ ?g) x = x" using per d by (rule funpow_gcd_fix) simp
    obtain k where k: "?g = 2 ^ k" "k \<le> Suc m"
      using dvd_two_power [of ?g "Suc m"] by auto
    have "?g \<le> j - i" using ij by (intro gcd_le2_nat) simp
    also have "\<dots> < 2 ^ Suc m" using j by auto
    finally have "k \<noteq> Suc m" using k by auto
    with k have "2 ^ m = ?g * 2 ^ (m - k)" by (simp flip: power_add)
    with \<open>(f ^^ ?g) x = x\<close> half show False by (metis funpow_mult_fix)
  qed
qed (auto simp: linorder_not_less)

section \<open>The linear congruential step\<close>

text \<open>In any commutative ring, \<open>2 ^ n\<close> steps add \<open>2 ^ n\<close> times an odd element.\<close>

lemma lcg_funpow_2:
  fixes f :: "'a::comm_ring_1 \<Rightarrow> 'a"
  assumes step: "\<And>x. f x = x + (1 + 2 * e + 4 * b * x)"
  shows "\<exists>e b. \<forall>x. (f ^^ (2 ^ n)) x = x + 2 ^ n * (1 + 2 * e + 4 * b * x)"
proof (induction n)
  case 0
  have "\<forall>x. (f ^^ (2 ^ 0)) x = x + 2 ^ 0 * (1 + 2 * e + 4 * b * x)"
    by (simp add: step)
  then show ?case by blast
next
  case (Suc n)
  then obtain e b where IH: "\<And>x. (f ^^ (2 ^ n)) x = x + 2 ^ n * (1 + 2 * e + 4 * b * x)"
    by blast
  define p :: 'a where "p = 2 ^ n"
  have "(f ^^ (2 ^ Suc n)) x = x + 2 ^ Suc n *
      (1 + 2 * (e + b * p * (1 + 2 * e)) + 4 * (b + 2 * b * b * p) * x)" for x
  proof -
    have "(f ^^ (2 ^ Suc n)) x = (f ^^ (2 ^ n)) ((f ^^ (2 ^ n)) x)"
      by (simp add: mult_2 funpow_add)
    then show ?thesis
      unfolding IH p_def [symmetric] power_Suc by (simp add: algebra_simps)
  qed
  then show ?case by blast
qed

locale full_period =
  fixes step :: "'a::len word \<Rightarrow> 'a word" and a c :: "'a word"
  assumes step_eq: "step s = a * s + c"
    and a_mod_4: "take_bit 2 a = 1"
    and c_odd: "odd c"
begin

lemma step_shape: "\<exists>e b. \<forall>x. step x = x + (1 + 2 * e + 4 * b * x)"
proof -
  have "a = 4 * drop_bit 2 a + 1"
    using bits_ident [of 2 a] a_mod_4 by (simp add: push_bit_eq_mult mult.commute)
  moreover have "c = 2 * drop_bit 1 c + 1"
    using bits_ident [of 1 c] c_odd by (simp add: push_bit_eq_mult mult.commute mod_2_eq_odd)
  ultimately have "step x = x + (1 + 2 * drop_bit 1 c + 4 * drop_bit 2 a * x)" for x
    unfolding step_eq by (metis (no_types, lifting) add.assoc add.commute distrib_right mult_1)
  then show ?thesis by blast
qed

lemma step_pow_2: "\<exists>e b. \<forall>x. (step ^^ (2 ^ n)) x = x + 2 ^ n * (1 + 2 * e + 4 * b * x)"
  using step_shape lcg_funpow_2 by metis

lemma two_pow_len [simp]: "(2 :: 'a word) ^ LENGTH('a) = 0"
  by (simp add: word_pow_0)

lemma period: "(step ^^ (2 ^ LENGTH('a))) s = s"
  using step_pow_2 [of "LENGTH('a)"] by auto

lemma half_period: "(step ^^ (2 ^ (LENGTH('a) - 1))) s \<noteq> s"
proof -
  obtain n where n: "LENGTH('a) = Suc n" by (cases "LENGTH('a)") auto
  have two: "x * (2 * 2 ^ n) = (0 :: 'a word)" for x
    using word_pow_0 [where 'a = 'a] by (simp add: n)
  obtain e b where "(step ^^ (2 ^ n)) s = s + 2 ^ n * (1 + 2 * e + 4 * b * s)"
    using step_pow_2 by blast
  also have "\<dots> = s + (2 ^ n + (e + 2 * b * s) * (2 * 2 ^ n))"
    by (simp add: algebra_simps)
  also have "\<dots> = s + 2 ^ n" by (simp only: two) simp
  finally have "(step ^^ (2 ^ n)) s = s + 2 ^ n" .
  moreover have "(2 :: 'a word) ^ n \<noteq> 0" using n by simp
  ultimately show ?thesis by (simp add: n)
qed

lemma inj_step: "inj step"
proof (rule injI)
  fix x y assume eq: "step x = step y"
  obtain n where n: "2 ^ LENGTH('a) = Suc n"
    using not0_implies_Suc [of "2 ^ LENGTH('a)"] by auto
  have "(step ^^ n) (step z) = z" for z
    using period [of z] unfolding n by (simp only: funpow_Suc_right comp_apply)
  with eq show "x = y" by metis
qed

lemma orbit_inj: "inj_on (\<lambda>k. (step ^^ k) s) {..<2 ^ LENGTH('a)}"
proof -
  have "LENGTH('a) = Suc (LENGTH('a) - 1)" by simp
  then show ?thesis
    using orbit_inj_on [OF inj_step, of "LENGTH('a) - 1" s] period [of s] half_period [of s] by simp
qed

lemma orbit_bij: "bij_betw (\<lambda>k. (step ^^ k) s) {..<2 ^ LENGTH('a)} UNIV"
proof -
  have "card ((\<lambda>k. (step ^^ k) s) ` {..<2 ^ LENGTH('a)}) = 2 ^ LENGTH('a)"
    using orbit_inj [of s] by (simp add: card_image)
  then have "(\<lambda>k. (step ^^ k) s) ` {..<2 ^ LENGTH('a)} = UNIV"
    by (intro card_subset_eq) (simp_all add: card_word)
  then show ?thesis using orbit_inj by (simp add: bij_betw_def)
qed

lemma reaches: "\<exists>k < 2 ^ LENGTH('a). (step ^^ k) s = t"
proof -
  have "t \<in> (\<lambda>k. (step ^^ k) s) ` {..<2 ^ LENGTH('a)}"
    using orbit_bij [of s] by (simp add: bij_betw_def)
  then show ?thesis by auto
qed

lemma no_smaller_period:
  assumes "0 < k" "k < 2 ^ LENGTH('a)"
  shows "(step ^^ k) s \<noteq> s"
  using inj_onD [OF orbit_inj [of s], of k 0] assms by auto

end

section \<open>The multiplicative step\<close>

lemma mcg_power_2:
  fixes u :: "'a::comm_ring_1"
  shows "\<exists>e. (1 + 4 * (1 + 2 * u)) ^ (2 ^ n) = 1 + 2 ^ (n + 2) * (1 + 2 * e)"
proof (induction n)
  case 0
  have "(1 + 4 * (1 + 2 * u)) ^ (2 ^ 0) = 1 + 2 ^ (0 + 2) * (1 + 2 * u)" by simp
  then show ?case by blast
next
  case (Suc n)
  then obtain e where IH: "(1 + 4 * (1 + 2 * u)) ^ (2 ^ n) = 1 + 2 ^ (n + 2) * (1 + 2 * e)"
    by blast
  define p :: 'a where "p = 2 ^ n"
  have "x ^ (2 ^ Suc n) = (x ^ (2 ^ n)) ^ 2" for x :: 'a
    by (simp add: mult.commute flip: power_mult)
  then have "(1 + 4 * (1 + 2 * u)) ^ (2 ^ Suc n) = (1 + 2 ^ (n + 2) * (1 + 2 * e)) ^ 2"
    by (simp only: IH)
  also have "\<dots> = 1 + 2 ^ (Suc n + 2) * (1 + 2 * (e + p * (1 + 2 * e) ^ 2))"
    by (simp add: power_add power2_eq_square p_def [symmetric] algebra_simps)
  finally show ?case by blast
qed

locale mult_period =
  fixes step :: "'a::len word \<Rightarrow> 'a word" and a :: "'a word"
  assumes step_eq: "step s = s * a"
    and a_mod_8: "take_bit 3 a = 5"
    and wide: "3 < LENGTH('a)"
begin

lemma funpow_step: "(step ^^ k) s = s * a ^ k"
  by (induction k) (simp_all add: step_eq mult.assoc mult.commute [of a])

lemma a_power_2: "\<exists>e. a ^ (2 ^ n) = 1 + 2 ^ (n + 2) * (1 + 2 * e)"
proof -
  have "a = 8 * drop_bit 3 a + 5"
    using bits_ident [of 3 a] a_mod_8 by (simp add: push_bit_eq_mult mult.commute)
  then have "a = 1 + 4 * (1 + 2 * drop_bit 3 a)" by (simp add: algebra_simps)
  then show ?thesis using mcg_power_2 by metis
qed

lemma period: "(step ^^ (2 ^ (LENGTH('a) - 2))) s = s"
proof -
  obtain e where e: "a ^ (2 ^ (LENGTH('a) - 2)) = 1 + 2 ^ (LENGTH('a) - 2 + 2) * (1 + 2 * e)"
    using a_power_2 by blast
  moreover have "LENGTH('a) - 2 + 2 = LENGTH('a)" using wide by simp
  ultimately have "a ^ (2 ^ (LENGTH('a) - 2)) = 1" by (simp only: word_pow_0) simp
  then show ?thesis by (simp add: funpow_step)
qed

lemma half_period:
  assumes "odd s"
  shows "(step ^^ (2 ^ (LENGTH('a) - 3))) s \<noteq> s"
proof -
  obtain n where n: "LENGTH('a) = Suc n" by (cases "LENGTH('a)") auto
  have n': "LENGTH('a) - 3 + 2 = n" using wide n by simp
  obtain e where e: "a ^ (2 ^ (LENGTH('a) - 3)) = 1 + 2 ^ n * (1 + 2 * e)"
    using a_power_2 [of "LENGTH('a) - 3"] unfolding n' by blast
  obtain t where t: "s = 1 + 2 * t" using assms by (auto elim: oddE simp: add.commute)
  have "2 * (2 :: 'a word) ^ n = 0" using word_pow_0 [where 'a = 'a] by (simp add: n)
  then have two: "2 * x * (2 :: 'a word) ^ n = 0" for x by (simp add: mult.assoc mult.left_commute)
  have "s * (1 + 2 ^ n * (1 + 2 * e)) = s + 2 ^ n + 2 * (t + e + 2 * t * e) * 2 ^ n"
    by (simp add: t algebra_simps)
  also have "\<dots> = s + 2 ^ n" by (simp only: two) simp
  finally have "(step ^^ (2 ^ (LENGTH('a) - 3))) s = s + 2 ^ n"
    by (simp only: funpow_step e)
  moreover have "(2 :: 'a word) ^ n \<noteq> 0" using n by simp
  ultimately show ?thesis by simp
qed

lemma inj_step: "inj step"
proof (rule injI)
  fix x y assume eq: "step x = step y"
  obtain n where n: "2 ^ (LENGTH('a) - 2) = Suc n"
    using not0_implies_Suc [of "2 ^ (LENGTH('a) - 2)"] by auto
  have "(step ^^ n) (step z) = z" for z
    using period [of z] unfolding n by (simp only: funpow_Suc_right comp_apply)
  with eq show "x = y" by metis
qed

lemma orbit_inj:
  assumes "odd s"
  shows "inj_on (\<lambda>k. (step ^^ k) s) {..<2 ^ (LENGTH('a) - 2)}"
proof -
  have "LENGTH('a) - 2 = Suc (LENGTH('a) - 3)" using wide by simp
  then show ?thesis
    using orbit_inj_on [OF inj_step, of "LENGTH('a) - 3" s] period [of s] half_period [OF assms]
    by simp
qed

text \<open>The two low bits never change, so the orbit stays in the residue class of the seed.\<close>

lemma residue: "take_bit 2 ((step ^^ k) s) = take_bit 2 s"
proof (induction k)
  case (Suc k)
  have "take_bit 2 a = take_bit 2 (take_bit 3 a)" by (simp add: min_def)
  also have "\<dots> = 1" by (simp add: a_mod_8)
  finally have "take_bit 2 a = 1" .
  have "take_bit 2 ((step ^^ Suc k) s) = take_bit 2 (take_bit 2 ((step ^^ k) s) * take_bit 2 a)"
    by (simp only: funpow.simps comp_apply step_eq take_bit_word_mult)
  also have "\<dots> = take_bit 2 s" by (simp add: \<open>take_bit 2 a = 1\<close> Suc)
  finally show ?case .
qed simp

lemma card_residue: "card {t :: 'a word. take_bit 2 t = r} \<le> 2 ^ (LENGTH('a) - 2)"
proof -
  let ?f = "\<lambda>k. push_bit 2 (of_nat k) OR r :: 'a word"
  have "{t. take_bit 2 t = r} \<subseteq> ?f ` {..<2 ^ (LENGTH('a) - 2)}"
  proof
    fix t :: "'a word" assume "t \<in> {t. take_bit 2 t = r}"
    then have "push_bit 2 (drop_bit 2 t) OR r = t"
      by (auto intro!: bit_word_eqI simp: bit_simps not_less dest!: le_Suc_ex)
    then have "t = ?f (unat (drop_bit 2 t))" by simp
    moreover have "unat (drop_bit 2 t) < 2 ^ (LENGTH('a) - 2)"
    proof -
      have "unat t < 2 ^ LENGTH('a)" by (rule unsigned_less)
      also have "(2 :: nat) ^ LENGTH('a) = 2 ^ (LENGTH('a) - 2) * 2 ^ 2"
        by (subst power_add [symmetric], rule arg_cong [where f = "(^) 2"]) (use wide in simp)
      finally have "unat t < 2 ^ (LENGTH('a) - 2) * 2 ^ 2" .
      then have "unat t div 2 ^ 2 < 2 ^ (LENGTH('a) - 2)" by (rule less_mult_imp_div_less)
      then show ?thesis by (subst unat_drop_bit_eq) (simp only: drop_bit_eq_div)
    qed
    ultimately show "t \<in> ?f ` {..<2 ^ (LENGTH('a) - 2)}" by blast
  qed
  then have "card {t :: 'a word. take_bit 2 t = r} \<le> card (?f ` {..<2 ^ (LENGTH('a) - 2)})"
    by (intro card_mono) auto
  also have "\<dots> \<le> 2 ^ (LENGTH('a) - 2)"
    using card_image_le [of "{..<2 ^ (LENGTH('a) - 2)}" ?f] by simp
  finally show ?thesis .
qed

lemma orbit_bij:
  assumes "odd s"
  shows "bij_betw (\<lambda>k. (step ^^ k) s) {..<2 ^ (LENGTH('a) - 2)} {t. take_bit 2 t = take_bit 2 s}"
proof -
  let ?O = "(\<lambda>k. (step ^^ k) s) ` {..<2 ^ (LENGTH('a) - 2)}"
  have "card ?O = 2 ^ (LENGTH('a) - 2)" using orbit_inj [OF assms] by (simp add: card_image)
  moreover have "?O \<subseteq> {t. take_bit 2 t = take_bit 2 s}" by (auto simp: residue)
  ultimately have "?O = {t. take_bit 2 t = take_bit 2 s}"
    using card_residue [of "take_bit 2 s"] by (intro card_seteq) auto
  then show ?thesis using orbit_inj [OF assms] by (simp add: bij_betw_def)
qed

lemma reaches:
  assumes "odd s" "take_bit 2 t = take_bit 2 s"
  shows "\<exists>k < 2 ^ (LENGTH('a) - 2). (step ^^ k) s = t"
proof -
  from assms(2) have "t \<in> (\<lambda>k. (step ^^ k) s) ` {..<2 ^ (LENGTH('a) - 2)}"
    using orbit_bij [OF assms(1)] by (simp add: bij_betw_def)
  then show ?thesis by auto
qed

end

end
