(* ===== verification/Pcg_Random.thy ===== *)
theory Pcg_Random
  imports Pcg_Variants Lcg
begin

text \<open>
  The generation functions of \<open>src/pcg_variants.h\<close>.  A \<open>random_r\<close> function steps the state
  and returns an output of the old state (or, for 128-bit states, of the new one).  A
  \<open>boundedrand_r\<close> function draws until the number is not below a threshold and returns its
  remainder; all of them have the same body over their own \<open>random_r\<close>, which is
  \<open>boundedrand_loop\<close>.  Its value is \<open>None\<close> when the loop does not end, and when \<open>bound\<close>
  is \<open>0\<close>, where the C code divides by zero.
\<close>

partial_function (option) draw_until ::
    "('s \<Rightarrow> 'b::len word \<times> 's) \<Rightarrow> 'b word \<Rightarrow> 's \<Rightarrow> ('b word \<times> 's) option" where
  "draw_until random threshold rng =
     (let r = fst (random rng); rng = snd (random rng)
      in if threshold \<le> r then Some (r, rng) else draw_until random threshold rng)"

definition boundedrand_loop ::
    "('s \<Rightarrow> 'b::len word \<times> 's) \<Rightarrow> 'b word \<Rightarrow> 's \<Rightarrow> ('b word \<times> 's) option" where
  "boundedrand_loop random bound rng =
     (if bound = 0 then None
      else let threshold = (- bound) mod bound
           in map_option (\<lambda>(r, rng). (r mod bound, rng)) (draw_until random threshold rng))"

text \<open>The number that draw \<open>k\<close> of a generator returns, counting from \<open>0\<close>.\<close>

definition nth_draw :: "('s \<Rightarrow> 'b \<times> 's) \<Rightarrow> nat \<Rightarrow> 's \<Rightarrow> 'b" where
  "nth_draw random k s = fst (random (((\<lambda>s. snd (random s)) ^^ k) s))"

section \<open>Generation functions for XSH RS\<close>

definition pcg_oneseq_16_xsh_rs_8_random_r :: "pcg_state_16 \<Rightarrow> u8 \<times> pcg_state_16" where
  "pcg_oneseq_16_xsh_rs_8_random_r rng =
     (let oldstate = state rng; rng = pcg_oneseq_16_step_r rng
      in (pcg_output_xsh_rs_16_8 oldstate, rng))"

definition pcg_oneseq_16_xsh_rs_8_boundedrand_r ::
  "pcg_state_16 \<Rightarrow> u8 \<Rightarrow> (u8 \<times> pcg_state_16) option" where
  "pcg_oneseq_16_xsh_rs_8_boundedrand_r rng bound =
     boundedrand_loop pcg_oneseq_16_xsh_rs_8_random_r bound rng"

definition pcg_oneseq_32_xsh_rs_16_random_r :: "pcg_state_32 \<Rightarrow> u16 \<times> pcg_state_32" where
  "pcg_oneseq_32_xsh_rs_16_random_r rng =
     (let oldstate = state rng; rng = pcg_oneseq_32_step_r rng
      in (pcg_output_xsh_rs_32_16 oldstate, rng))"

definition pcg_oneseq_32_xsh_rs_16_boundedrand_r ::
  "pcg_state_32 \<Rightarrow> u16 \<Rightarrow> (u16 \<times> pcg_state_32) option" where
  "pcg_oneseq_32_xsh_rs_16_boundedrand_r rng bound =
     boundedrand_loop pcg_oneseq_32_xsh_rs_16_random_r bound rng"

definition pcg_oneseq_64_xsh_rs_32_random_r :: "pcg_state_64 \<Rightarrow> u32 \<times> pcg_state_64" where
  "pcg_oneseq_64_xsh_rs_32_random_r rng =
     (let oldstate = state rng; rng = pcg_oneseq_64_step_r rng
      in (pcg_output_xsh_rs_64_32 oldstate, rng))"

definition pcg_oneseq_64_xsh_rs_32_boundedrand_r ::
  "pcg_state_64 \<Rightarrow> u32 \<Rightarrow> (u32 \<times> pcg_state_64) option" where
  "pcg_oneseq_64_xsh_rs_32_boundedrand_r rng bound =
     boundedrand_loop pcg_oneseq_64_xsh_rs_32_random_r bound rng"

definition pcg_oneseq_128_xsh_rs_64_random_r :: "pcg_state_128 \<Rightarrow> u64 \<times> pcg_state_128" where
  "pcg_oneseq_128_xsh_rs_64_random_r rng =
     (let rng = pcg_oneseq_128_step_r rng in (pcg_output_xsh_rs_128_64 (state rng), rng))"

definition pcg_oneseq_128_xsh_rs_64_boundedrand_r ::
  "pcg_state_128 \<Rightarrow> u64 \<Rightarrow> (u64 \<times> pcg_state_128) option" where
  "pcg_oneseq_128_xsh_rs_64_boundedrand_r rng bound =
     boundedrand_loop pcg_oneseq_128_xsh_rs_64_random_r bound rng"

definition pcg_unique_16_xsh_rs_8_random_r :: "u32 \<Rightarrow> pcg_state_16 \<Rightarrow> u8 \<times> pcg_state_16" where
  "pcg_unique_16_xsh_rs_8_random_r addr rng =
     (let oldstate = state rng; rng = pcg_unique_16_step_r addr rng
      in (pcg_output_xsh_rs_16_8 oldstate, rng))"

definition pcg_unique_16_xsh_rs_8_boundedrand_r ::
  "u32 \<Rightarrow> pcg_state_16 \<Rightarrow> u8 \<Rightarrow> (u8 \<times> pcg_state_16) option" where
  "pcg_unique_16_xsh_rs_8_boundedrand_r addr rng bound =
     boundedrand_loop (pcg_unique_16_xsh_rs_8_random_r addr) bound rng"

definition pcg_unique_32_xsh_rs_16_random_r :: "u32 \<Rightarrow> pcg_state_32 \<Rightarrow> u16 \<times> pcg_state_32" where
  "pcg_unique_32_xsh_rs_16_random_r addr rng =
     (let oldstate = state rng; rng = pcg_unique_32_step_r addr rng
      in (pcg_output_xsh_rs_32_16 oldstate, rng))"

definition pcg_unique_32_xsh_rs_16_boundedrand_r ::
  "u32 \<Rightarrow> pcg_state_32 \<Rightarrow> u16 \<Rightarrow> (u16 \<times> pcg_state_32) option" where
  "pcg_unique_32_xsh_rs_16_boundedrand_r addr rng bound =
     boundedrand_loop (pcg_unique_32_xsh_rs_16_random_r addr) bound rng"

definition pcg_unique_64_xsh_rs_32_random_r :: "u32 \<Rightarrow> pcg_state_64 \<Rightarrow> u32 \<times> pcg_state_64" where
  "pcg_unique_64_xsh_rs_32_random_r addr rng =
     (let oldstate = state rng; rng = pcg_unique_64_step_r addr rng
      in (pcg_output_xsh_rs_64_32 oldstate, rng))"

definition pcg_unique_64_xsh_rs_32_boundedrand_r ::
  "u32 \<Rightarrow> pcg_state_64 \<Rightarrow> u32 \<Rightarrow> (u32 \<times> pcg_state_64) option" where
  "pcg_unique_64_xsh_rs_32_boundedrand_r addr rng bound =
     boundedrand_loop (pcg_unique_64_xsh_rs_32_random_r addr) bound rng"

definition pcg_unique_128_xsh_rs_64_random_r :: "u64 \<Rightarrow> pcg_state_128 \<Rightarrow> u64 \<times> pcg_state_128" where
  "pcg_unique_128_xsh_rs_64_random_r addr rng =
     (let rng = pcg_unique_128_step_r addr rng in (pcg_output_xsh_rs_128_64 (state rng), rng))"

definition pcg_unique_128_xsh_rs_64_boundedrand_r ::
  "u64 \<Rightarrow> pcg_state_128 \<Rightarrow> u64 \<Rightarrow> (u64 \<times> pcg_state_128) option" where
  "pcg_unique_128_xsh_rs_64_boundedrand_r addr rng bound =
     boundedrand_loop (pcg_unique_128_xsh_rs_64_random_r addr) bound rng"

definition pcg_setseq_16_xsh_rs_8_random_r :: "pcg_state_setseq_16 \<Rightarrow> u8 \<times> pcg_state_setseq_16" where
  "pcg_setseq_16_xsh_rs_8_random_r rng =
     (let oldstate = sq_state rng; rng = pcg_setseq_16_step_r rng
      in (pcg_output_xsh_rs_16_8 oldstate, rng))"

definition pcg_setseq_16_xsh_rs_8_boundedrand_r ::
  "pcg_state_setseq_16 \<Rightarrow> u8 \<Rightarrow> (u8 \<times> pcg_state_setseq_16) option" where
  "pcg_setseq_16_xsh_rs_8_boundedrand_r rng bound =
     boundedrand_loop pcg_setseq_16_xsh_rs_8_random_r bound rng"

definition pcg_setseq_32_xsh_rs_16_random_r :: "pcg_state_setseq_32 \<Rightarrow> u16 \<times> pcg_state_setseq_32" where
  "pcg_setseq_32_xsh_rs_16_random_r rng =
     (let oldstate = sq_state rng; rng = pcg_setseq_32_step_r rng
      in (pcg_output_xsh_rs_32_16 oldstate, rng))"

definition pcg_setseq_32_xsh_rs_16_boundedrand_r ::
  "pcg_state_setseq_32 \<Rightarrow> u16 \<Rightarrow> (u16 \<times> pcg_state_setseq_32) option" where
  "pcg_setseq_32_xsh_rs_16_boundedrand_r rng bound =
     boundedrand_loop pcg_setseq_32_xsh_rs_16_random_r bound rng"

definition pcg_setseq_64_xsh_rs_32_random_r :: "pcg_state_setseq_64 \<Rightarrow> u32 \<times> pcg_state_setseq_64" where
  "pcg_setseq_64_xsh_rs_32_random_r rng =
     (let oldstate = sq_state rng; rng = pcg_setseq_64_step_r rng
      in (pcg_output_xsh_rs_64_32 oldstate, rng))"

definition pcg_setseq_64_xsh_rs_32_boundedrand_r ::
  "pcg_state_setseq_64 \<Rightarrow> u32 \<Rightarrow> (u32 \<times> pcg_state_setseq_64) option" where
  "pcg_setseq_64_xsh_rs_32_boundedrand_r rng bound =
     boundedrand_loop pcg_setseq_64_xsh_rs_32_random_r bound rng"

definition pcg_setseq_128_xsh_rs_64_random_r :: "pcg_state_setseq_128 \<Rightarrow> u64 \<times> pcg_state_setseq_128" where
  "pcg_setseq_128_xsh_rs_64_random_r rng =
     (let rng = pcg_setseq_128_step_r rng in (pcg_output_xsh_rs_128_64 (sq_state rng), rng))"

definition pcg_setseq_128_xsh_rs_64_boundedrand_r ::
  "pcg_state_setseq_128 \<Rightarrow> u64 \<Rightarrow> (u64 \<times> pcg_state_setseq_128) option" where
  "pcg_setseq_128_xsh_rs_64_boundedrand_r rng bound =
     boundedrand_loop pcg_setseq_128_xsh_rs_64_random_r bound rng"

definition pcg_mcg_16_xsh_rs_8_random_r :: "pcg_state_16 \<Rightarrow> u8 \<times> pcg_state_16" where
  "pcg_mcg_16_xsh_rs_8_random_r rng =
     (let oldstate = state rng; rng = pcg_mcg_16_step_r rng
      in (pcg_output_xsh_rs_16_8 oldstate, rng))"

definition pcg_mcg_16_xsh_rs_8_boundedrand_r ::
  "pcg_state_16 \<Rightarrow> u8 \<Rightarrow> (u8 \<times> pcg_state_16) option" where
  "pcg_mcg_16_xsh_rs_8_boundedrand_r rng bound =
     boundedrand_loop pcg_mcg_16_xsh_rs_8_random_r bound rng"

definition pcg_mcg_32_xsh_rs_16_random_r :: "pcg_state_32 \<Rightarrow> u16 \<times> pcg_state_32" where
  "pcg_mcg_32_xsh_rs_16_random_r rng =
     (let oldstate = state rng; rng = pcg_mcg_32_step_r rng
      in (pcg_output_xsh_rs_32_16 oldstate, rng))"

definition pcg_mcg_32_xsh_rs_16_boundedrand_r ::
  "pcg_state_32 \<Rightarrow> u16 \<Rightarrow> (u16 \<times> pcg_state_32) option" where
  "pcg_mcg_32_xsh_rs_16_boundedrand_r rng bound =
     boundedrand_loop pcg_mcg_32_xsh_rs_16_random_r bound rng"

definition pcg_mcg_64_xsh_rs_32_random_r :: "pcg_state_64 \<Rightarrow> u32 \<times> pcg_state_64" where
  "pcg_mcg_64_xsh_rs_32_random_r rng =
     (let oldstate = state rng; rng = pcg_mcg_64_step_r rng
      in (pcg_output_xsh_rs_64_32 oldstate, rng))"

definition pcg_mcg_64_xsh_rs_32_boundedrand_r ::
  "pcg_state_64 \<Rightarrow> u32 \<Rightarrow> (u32 \<times> pcg_state_64) option" where
  "pcg_mcg_64_xsh_rs_32_boundedrand_r rng bound =
     boundedrand_loop pcg_mcg_64_xsh_rs_32_random_r bound rng"

definition pcg_mcg_128_xsh_rs_64_random_r :: "pcg_state_128 \<Rightarrow> u64 \<times> pcg_state_128" where
  "pcg_mcg_128_xsh_rs_64_random_r rng =
     (let rng = pcg_mcg_128_step_r rng in (pcg_output_xsh_rs_128_64 (state rng), rng))"

definition pcg_mcg_128_xsh_rs_64_boundedrand_r ::
  "pcg_state_128 \<Rightarrow> u64 \<Rightarrow> (u64 \<times> pcg_state_128) option" where
  "pcg_mcg_128_xsh_rs_64_boundedrand_r rng bound =
     boundedrand_loop pcg_mcg_128_xsh_rs_64_random_r bound rng"

section \<open>Generation functions for XSH RR\<close>

definition pcg_oneseq_16_xsh_rr_8_random_r :: "pcg_state_16 \<Rightarrow> u8 \<times> pcg_state_16" where
  "pcg_oneseq_16_xsh_rr_8_random_r rng =
     (let oldstate = state rng; rng = pcg_oneseq_16_step_r rng
      in (pcg_output_xsh_rr_16_8 oldstate, rng))"

definition pcg_oneseq_16_xsh_rr_8_boundedrand_r ::
  "pcg_state_16 \<Rightarrow> u8 \<Rightarrow> (u8 \<times> pcg_state_16) option" where
  "pcg_oneseq_16_xsh_rr_8_boundedrand_r rng bound =
     boundedrand_loop pcg_oneseq_16_xsh_rr_8_random_r bound rng"

definition pcg_oneseq_32_xsh_rr_16_random_r :: "pcg_state_32 \<Rightarrow> u16 \<times> pcg_state_32" where
  "pcg_oneseq_32_xsh_rr_16_random_r rng =
     (let oldstate = state rng; rng = pcg_oneseq_32_step_r rng
      in (pcg_output_xsh_rr_32_16 oldstate, rng))"

definition pcg_oneseq_32_xsh_rr_16_boundedrand_r ::
  "pcg_state_32 \<Rightarrow> u16 \<Rightarrow> (u16 \<times> pcg_state_32) option" where
  "pcg_oneseq_32_xsh_rr_16_boundedrand_r rng bound =
     boundedrand_loop pcg_oneseq_32_xsh_rr_16_random_r bound rng"

definition pcg_oneseq_64_xsh_rr_32_random_r :: "pcg_state_64 \<Rightarrow> u32 \<times> pcg_state_64" where
  "pcg_oneseq_64_xsh_rr_32_random_r rng =
     (let oldstate = state rng; rng = pcg_oneseq_64_step_r rng
      in (pcg_output_xsh_rr_64_32 oldstate, rng))"

definition pcg_oneseq_64_xsh_rr_32_boundedrand_r ::
  "pcg_state_64 \<Rightarrow> u32 \<Rightarrow> (u32 \<times> pcg_state_64) option" where
  "pcg_oneseq_64_xsh_rr_32_boundedrand_r rng bound =
     boundedrand_loop pcg_oneseq_64_xsh_rr_32_random_r bound rng"

definition pcg_oneseq_128_xsh_rr_64_random_r :: "pcg_state_128 \<Rightarrow> u64 \<times> pcg_state_128" where
  "pcg_oneseq_128_xsh_rr_64_random_r rng =
     (let rng = pcg_oneseq_128_step_r rng in (pcg_output_xsh_rr_128_64 (state rng), rng))"

definition pcg_oneseq_128_xsh_rr_64_boundedrand_r ::
  "pcg_state_128 \<Rightarrow> u64 \<Rightarrow> (u64 \<times> pcg_state_128) option" where
  "pcg_oneseq_128_xsh_rr_64_boundedrand_r rng bound =
     boundedrand_loop pcg_oneseq_128_xsh_rr_64_random_r bound rng"

definition pcg_unique_16_xsh_rr_8_random_r :: "u32 \<Rightarrow> pcg_state_16 \<Rightarrow> u8 \<times> pcg_state_16" where
  "pcg_unique_16_xsh_rr_8_random_r addr rng =
     (let oldstate = state rng; rng = pcg_unique_16_step_r addr rng
      in (pcg_output_xsh_rr_16_8 oldstate, rng))"

definition pcg_unique_16_xsh_rr_8_boundedrand_r ::
  "u32 \<Rightarrow> pcg_state_16 \<Rightarrow> u8 \<Rightarrow> (u8 \<times> pcg_state_16) option" where
  "pcg_unique_16_xsh_rr_8_boundedrand_r addr rng bound =
     boundedrand_loop (pcg_unique_16_xsh_rr_8_random_r addr) bound rng"

definition pcg_unique_32_xsh_rr_16_random_r :: "u32 \<Rightarrow> pcg_state_32 \<Rightarrow> u16 \<times> pcg_state_32" where
  "pcg_unique_32_xsh_rr_16_random_r addr rng =
     (let oldstate = state rng; rng = pcg_unique_32_step_r addr rng
      in (pcg_output_xsh_rr_32_16 oldstate, rng))"

definition pcg_unique_32_xsh_rr_16_boundedrand_r ::
  "u32 \<Rightarrow> pcg_state_32 \<Rightarrow> u16 \<Rightarrow> (u16 \<times> pcg_state_32) option" where
  "pcg_unique_32_xsh_rr_16_boundedrand_r addr rng bound =
     boundedrand_loop (pcg_unique_32_xsh_rr_16_random_r addr) bound rng"

definition pcg_unique_64_xsh_rr_32_random_r :: "u32 \<Rightarrow> pcg_state_64 \<Rightarrow> u32 \<times> pcg_state_64" where
  "pcg_unique_64_xsh_rr_32_random_r addr rng =
     (let oldstate = state rng; rng = pcg_unique_64_step_r addr rng
      in (pcg_output_xsh_rr_64_32 oldstate, rng))"

definition pcg_unique_64_xsh_rr_32_boundedrand_r ::
  "u32 \<Rightarrow> pcg_state_64 \<Rightarrow> u32 \<Rightarrow> (u32 \<times> pcg_state_64) option" where
  "pcg_unique_64_xsh_rr_32_boundedrand_r addr rng bound =
     boundedrand_loop (pcg_unique_64_xsh_rr_32_random_r addr) bound rng"

definition pcg_unique_128_xsh_rr_64_random_r :: "u64 \<Rightarrow> pcg_state_128 \<Rightarrow> u64 \<times> pcg_state_128" where
  "pcg_unique_128_xsh_rr_64_random_r addr rng =
     (let rng = pcg_unique_128_step_r addr rng in (pcg_output_xsh_rr_128_64 (state rng), rng))"

definition pcg_unique_128_xsh_rr_64_boundedrand_r ::
  "u64 \<Rightarrow> pcg_state_128 \<Rightarrow> u64 \<Rightarrow> (u64 \<times> pcg_state_128) option" where
  "pcg_unique_128_xsh_rr_64_boundedrand_r addr rng bound =
     boundedrand_loop (pcg_unique_128_xsh_rr_64_random_r addr) bound rng"

definition pcg_setseq_16_xsh_rr_8_random_r :: "pcg_state_setseq_16 \<Rightarrow> u8 \<times> pcg_state_setseq_16" where
  "pcg_setseq_16_xsh_rr_8_random_r rng =
     (let oldstate = sq_state rng; rng = pcg_setseq_16_step_r rng
      in (pcg_output_xsh_rr_16_8 oldstate, rng))"

definition pcg_setseq_16_xsh_rr_8_boundedrand_r ::
  "pcg_state_setseq_16 \<Rightarrow> u8 \<Rightarrow> (u8 \<times> pcg_state_setseq_16) option" where
  "pcg_setseq_16_xsh_rr_8_boundedrand_r rng bound =
     boundedrand_loop pcg_setseq_16_xsh_rr_8_random_r bound rng"

definition pcg_setseq_32_xsh_rr_16_random_r :: "pcg_state_setseq_32 \<Rightarrow> u16 \<times> pcg_state_setseq_32" where
  "pcg_setseq_32_xsh_rr_16_random_r rng =
     (let oldstate = sq_state rng; rng = pcg_setseq_32_step_r rng
      in (pcg_output_xsh_rr_32_16 oldstate, rng))"

definition pcg_setseq_32_xsh_rr_16_boundedrand_r ::
  "pcg_state_setseq_32 \<Rightarrow> u16 \<Rightarrow> (u16 \<times> pcg_state_setseq_32) option" where
  "pcg_setseq_32_xsh_rr_16_boundedrand_r rng bound =
     boundedrand_loop pcg_setseq_32_xsh_rr_16_random_r bound rng"

definition pcg_setseq_64_xsh_rr_32_random_r :: "pcg_state_setseq_64 \<Rightarrow> u32 \<times> pcg_state_setseq_64" where
  "pcg_setseq_64_xsh_rr_32_random_r rng =
     (let oldstate = sq_state rng; rng = pcg_setseq_64_step_r rng
      in (pcg_output_xsh_rr_64_32 oldstate, rng))"

definition pcg_setseq_64_xsh_rr_32_boundedrand_r ::
  "pcg_state_setseq_64 \<Rightarrow> u32 \<Rightarrow> (u32 \<times> pcg_state_setseq_64) option" where
  "pcg_setseq_64_xsh_rr_32_boundedrand_r rng bound =
     boundedrand_loop pcg_setseq_64_xsh_rr_32_random_r bound rng"

definition pcg_setseq_128_xsh_rr_64_random_r :: "pcg_state_setseq_128 \<Rightarrow> u64 \<times> pcg_state_setseq_128" where
  "pcg_setseq_128_xsh_rr_64_random_r rng =
     (let rng = pcg_setseq_128_step_r rng in (pcg_output_xsh_rr_128_64 (sq_state rng), rng))"

definition pcg_setseq_128_xsh_rr_64_boundedrand_r ::
  "pcg_state_setseq_128 \<Rightarrow> u64 \<Rightarrow> (u64 \<times> pcg_state_setseq_128) option" where
  "pcg_setseq_128_xsh_rr_64_boundedrand_r rng bound =
     boundedrand_loop pcg_setseq_128_xsh_rr_64_random_r bound rng"

definition pcg_mcg_16_xsh_rr_8_random_r :: "pcg_state_16 \<Rightarrow> u8 \<times> pcg_state_16" where
  "pcg_mcg_16_xsh_rr_8_random_r rng =
     (let oldstate = state rng; rng = pcg_mcg_16_step_r rng
      in (pcg_output_xsh_rr_16_8 oldstate, rng))"

definition pcg_mcg_16_xsh_rr_8_boundedrand_r ::
  "pcg_state_16 \<Rightarrow> u8 \<Rightarrow> (u8 \<times> pcg_state_16) option" where
  "pcg_mcg_16_xsh_rr_8_boundedrand_r rng bound =
     boundedrand_loop pcg_mcg_16_xsh_rr_8_random_r bound rng"

definition pcg_mcg_32_xsh_rr_16_random_r :: "pcg_state_32 \<Rightarrow> u16 \<times> pcg_state_32" where
  "pcg_mcg_32_xsh_rr_16_random_r rng =
     (let oldstate = state rng; rng = pcg_mcg_32_step_r rng
      in (pcg_output_xsh_rr_32_16 oldstate, rng))"

definition pcg_mcg_32_xsh_rr_16_boundedrand_r ::
  "pcg_state_32 \<Rightarrow> u16 \<Rightarrow> (u16 \<times> pcg_state_32) option" where
  "pcg_mcg_32_xsh_rr_16_boundedrand_r rng bound =
     boundedrand_loop pcg_mcg_32_xsh_rr_16_random_r bound rng"

definition pcg_mcg_64_xsh_rr_32_random_r :: "pcg_state_64 \<Rightarrow> u32 \<times> pcg_state_64" where
  "pcg_mcg_64_xsh_rr_32_random_r rng =
     (let oldstate = state rng; rng = pcg_mcg_64_step_r rng
      in (pcg_output_xsh_rr_64_32 oldstate, rng))"

definition pcg_mcg_64_xsh_rr_32_boundedrand_r ::
  "pcg_state_64 \<Rightarrow> u32 \<Rightarrow> (u32 \<times> pcg_state_64) option" where
  "pcg_mcg_64_xsh_rr_32_boundedrand_r rng bound =
     boundedrand_loop pcg_mcg_64_xsh_rr_32_random_r bound rng"

definition pcg_mcg_128_xsh_rr_64_random_r :: "pcg_state_128 \<Rightarrow> u64 \<times> pcg_state_128" where
  "pcg_mcg_128_xsh_rr_64_random_r rng =
     (let rng = pcg_mcg_128_step_r rng in (pcg_output_xsh_rr_128_64 (state rng), rng))"

definition pcg_mcg_128_xsh_rr_64_boundedrand_r ::
  "pcg_state_128 \<Rightarrow> u64 \<Rightarrow> (u64 \<times> pcg_state_128) option" where
  "pcg_mcg_128_xsh_rr_64_boundedrand_r rng bound =
     boundedrand_loop pcg_mcg_128_xsh_rr_64_random_r bound rng"

section \<open>Generation functions for RXS M XS\<close>

definition pcg_oneseq_8_rxs_m_xs_8_random_r :: "pcg_state_8 \<Rightarrow> u8 \<times> pcg_state_8" where
  "pcg_oneseq_8_rxs_m_xs_8_random_r rng =
     (let oldstate = state rng; rng = pcg_oneseq_8_step_r rng
      in (pcg_output_rxs_m_xs_8_8 oldstate, rng))"

definition pcg_oneseq_8_rxs_m_xs_8_boundedrand_r ::
  "pcg_state_8 \<Rightarrow> u8 \<Rightarrow> (u8 \<times> pcg_state_8) option" where
  "pcg_oneseq_8_rxs_m_xs_8_boundedrand_r rng bound =
     boundedrand_loop pcg_oneseq_8_rxs_m_xs_8_random_r bound rng"

definition pcg_oneseq_16_rxs_m_xs_16_random_r :: "pcg_state_16 \<Rightarrow> u16 \<times> pcg_state_16" where
  "pcg_oneseq_16_rxs_m_xs_16_random_r rng =
     (let oldstate = state rng; rng = pcg_oneseq_16_step_r rng
      in (pcg_output_rxs_m_xs_16_16 oldstate, rng))"

definition pcg_oneseq_16_rxs_m_xs_16_boundedrand_r ::
  "pcg_state_16 \<Rightarrow> u16 \<Rightarrow> (u16 \<times> pcg_state_16) option" where
  "pcg_oneseq_16_rxs_m_xs_16_boundedrand_r rng bound =
     boundedrand_loop pcg_oneseq_16_rxs_m_xs_16_random_r bound rng"

definition pcg_oneseq_32_rxs_m_xs_32_random_r :: "pcg_state_32 \<Rightarrow> u32 \<times> pcg_state_32" where
  "pcg_oneseq_32_rxs_m_xs_32_random_r rng =
     (let oldstate = state rng; rng = pcg_oneseq_32_step_r rng
      in (pcg_output_rxs_m_xs_32_32 oldstate, rng))"

definition pcg_oneseq_32_rxs_m_xs_32_boundedrand_r ::
  "pcg_state_32 \<Rightarrow> u32 \<Rightarrow> (u32 \<times> pcg_state_32) option" where
  "pcg_oneseq_32_rxs_m_xs_32_boundedrand_r rng bound =
     boundedrand_loop pcg_oneseq_32_rxs_m_xs_32_random_r bound rng"

definition pcg_oneseq_64_rxs_m_xs_64_random_r :: "pcg_state_64 \<Rightarrow> u64 \<times> pcg_state_64" where
  "pcg_oneseq_64_rxs_m_xs_64_random_r rng =
     (let oldstate = state rng; rng = pcg_oneseq_64_step_r rng
      in (pcg_output_rxs_m_xs_64_64 oldstate, rng))"

definition pcg_oneseq_64_rxs_m_xs_64_boundedrand_r ::
  "pcg_state_64 \<Rightarrow> u64 \<Rightarrow> (u64 \<times> pcg_state_64) option" where
  "pcg_oneseq_64_rxs_m_xs_64_boundedrand_r rng bound =
     boundedrand_loop pcg_oneseq_64_rxs_m_xs_64_random_r bound rng"

definition pcg_oneseq_128_rxs_m_xs_128_random_r :: "pcg_state_128 \<Rightarrow> u128 \<times> pcg_state_128" where
  "pcg_oneseq_128_rxs_m_xs_128_random_r rng =
     (let rng = pcg_oneseq_128_step_r rng in (pcg_output_rxs_m_xs_128_128 (state rng), rng))"

definition pcg_oneseq_128_rxs_m_xs_128_boundedrand_r ::
  "pcg_state_128 \<Rightarrow> u128 \<Rightarrow> (u128 \<times> pcg_state_128) option" where
  "pcg_oneseq_128_rxs_m_xs_128_boundedrand_r rng bound =
     boundedrand_loop pcg_oneseq_128_rxs_m_xs_128_random_r bound rng"

definition pcg_unique_16_rxs_m_xs_16_random_r :: "u32 \<Rightarrow> pcg_state_16 \<Rightarrow> u16 \<times> pcg_state_16" where
  "pcg_unique_16_rxs_m_xs_16_random_r addr rng =
     (let oldstate = state rng; rng = pcg_unique_16_step_r addr rng
      in (pcg_output_rxs_m_xs_16_16 oldstate, rng))"

definition pcg_unique_16_rxs_m_xs_16_boundedrand_r ::
  "u32 \<Rightarrow> pcg_state_16 \<Rightarrow> u16 \<Rightarrow> (u16 \<times> pcg_state_16) option" where
  "pcg_unique_16_rxs_m_xs_16_boundedrand_r addr rng bound =
     boundedrand_loop (pcg_unique_16_rxs_m_xs_16_random_r addr) bound rng"

definition pcg_unique_32_rxs_m_xs_32_random_r :: "u32 \<Rightarrow> pcg_state_32 \<Rightarrow> u32 \<times> pcg_state_32" where
  "pcg_unique_32_rxs_m_xs_32_random_r addr rng =
     (let oldstate = state rng; rng = pcg_unique_32_step_r addr rng
      in (pcg_output_rxs_m_xs_32_32 oldstate, rng))"

definition pcg_unique_32_rxs_m_xs_32_boundedrand_r ::
  "u32 \<Rightarrow> pcg_state_32 \<Rightarrow> u32 \<Rightarrow> (u32 \<times> pcg_state_32) option" where
  "pcg_unique_32_rxs_m_xs_32_boundedrand_r addr rng bound =
     boundedrand_loop (pcg_unique_32_rxs_m_xs_32_random_r addr) bound rng"

definition pcg_unique_64_rxs_m_xs_64_random_r :: "u32 \<Rightarrow> pcg_state_64 \<Rightarrow> u64 \<times> pcg_state_64" where
  "pcg_unique_64_rxs_m_xs_64_random_r addr rng =
     (let oldstate = state rng; rng = pcg_unique_64_step_r addr rng
      in (pcg_output_rxs_m_xs_64_64 oldstate, rng))"

definition pcg_unique_64_rxs_m_xs_64_boundedrand_r ::
  "u32 \<Rightarrow> pcg_state_64 \<Rightarrow> u64 \<Rightarrow> (u64 \<times> pcg_state_64) option" where
  "pcg_unique_64_rxs_m_xs_64_boundedrand_r addr rng bound =
     boundedrand_loop (pcg_unique_64_rxs_m_xs_64_random_r addr) bound rng"

definition pcg_unique_128_rxs_m_xs_128_random_r :: "u64 \<Rightarrow> pcg_state_128 \<Rightarrow> u128 \<times> pcg_state_128" where
  "pcg_unique_128_rxs_m_xs_128_random_r addr rng =
     (let rng = pcg_unique_128_step_r addr rng in (pcg_output_rxs_m_xs_128_128 (state rng), rng))"

definition pcg_unique_128_rxs_m_xs_128_boundedrand_r ::
  "u64 \<Rightarrow> pcg_state_128 \<Rightarrow> u128 \<Rightarrow> (u128 \<times> pcg_state_128) option" where
  "pcg_unique_128_rxs_m_xs_128_boundedrand_r addr rng bound =
     boundedrand_loop (pcg_unique_128_rxs_m_xs_128_random_r addr) bound rng"

definition pcg_setseq_8_rxs_m_xs_8_random_r :: "pcg_state_setseq_8 \<Rightarrow> u8 \<times> pcg_state_setseq_8" where
  "pcg_setseq_8_rxs_m_xs_8_random_r rng =
     (let oldstate = sq_state rng; rng = pcg_setseq_8_step_r rng
      in (pcg_output_rxs_m_xs_8_8 oldstate, rng))"

definition pcg_setseq_8_rxs_m_xs_8_boundedrand_r ::
  "pcg_state_setseq_8 \<Rightarrow> u8 \<Rightarrow> (u8 \<times> pcg_state_setseq_8) option" where
  "pcg_setseq_8_rxs_m_xs_8_boundedrand_r rng bound =
     boundedrand_loop pcg_setseq_8_rxs_m_xs_8_random_r bound rng"

definition pcg_setseq_16_rxs_m_xs_16_random_r :: "pcg_state_setseq_16 \<Rightarrow> u16 \<times> pcg_state_setseq_16" where
  "pcg_setseq_16_rxs_m_xs_16_random_r rng =
     (let oldstate = sq_state rng; rng = pcg_setseq_16_step_r rng
      in (pcg_output_rxs_m_xs_16_16 oldstate, rng))"

definition pcg_setseq_16_rxs_m_xs_16_boundedrand_r ::
  "pcg_state_setseq_16 \<Rightarrow> u16 \<Rightarrow> (u16 \<times> pcg_state_setseq_16) option" where
  "pcg_setseq_16_rxs_m_xs_16_boundedrand_r rng bound =
     boundedrand_loop pcg_setseq_16_rxs_m_xs_16_random_r bound rng"

definition pcg_setseq_32_rxs_m_xs_32_random_r :: "pcg_state_setseq_32 \<Rightarrow> u32 \<times> pcg_state_setseq_32" where
  "pcg_setseq_32_rxs_m_xs_32_random_r rng =
     (let oldstate = sq_state rng; rng = pcg_setseq_32_step_r rng
      in (pcg_output_rxs_m_xs_32_32 oldstate, rng))"

definition pcg_setseq_32_rxs_m_xs_32_boundedrand_r ::
  "pcg_state_setseq_32 \<Rightarrow> u32 \<Rightarrow> (u32 \<times> pcg_state_setseq_32) option" where
  "pcg_setseq_32_rxs_m_xs_32_boundedrand_r rng bound =
     boundedrand_loop pcg_setseq_32_rxs_m_xs_32_random_r bound rng"

definition pcg_setseq_64_rxs_m_xs_64_random_r :: "pcg_state_setseq_64 \<Rightarrow> u64 \<times> pcg_state_setseq_64" where
  "pcg_setseq_64_rxs_m_xs_64_random_r rng =
     (let oldstate = sq_state rng; rng = pcg_setseq_64_step_r rng
      in (pcg_output_rxs_m_xs_64_64 oldstate, rng))"

definition pcg_setseq_64_rxs_m_xs_64_boundedrand_r ::
  "pcg_state_setseq_64 \<Rightarrow> u64 \<Rightarrow> (u64 \<times> pcg_state_setseq_64) option" where
  "pcg_setseq_64_rxs_m_xs_64_boundedrand_r rng bound =
     boundedrand_loop pcg_setseq_64_rxs_m_xs_64_random_r bound rng"

definition pcg_setseq_128_rxs_m_xs_128_random_r :: "pcg_state_setseq_128 \<Rightarrow> u128 \<times> pcg_state_setseq_128" where
  "pcg_setseq_128_rxs_m_xs_128_random_r rng =
     (let rng = pcg_setseq_128_step_r rng in (pcg_output_rxs_m_xs_128_128 (sq_state rng), rng))"

definition pcg_setseq_128_rxs_m_xs_128_boundedrand_r ::
  "pcg_state_setseq_128 \<Rightarrow> u128 \<Rightarrow> (u128 \<times> pcg_state_setseq_128) option" where
  "pcg_setseq_128_rxs_m_xs_128_boundedrand_r rng bound =
     boundedrand_loop pcg_setseq_128_rxs_m_xs_128_random_r bound rng"

section \<open>Generation functions for XSL RR\<close>

definition pcg_oneseq_64_xsl_rr_32_random_r :: "pcg_state_64 \<Rightarrow> u32 \<times> pcg_state_64" where
  "pcg_oneseq_64_xsl_rr_32_random_r rng =
     (let oldstate = state rng; rng = pcg_oneseq_64_step_r rng
      in (pcg_output_xsl_rr_64_32 oldstate, rng))"

definition pcg_oneseq_64_xsl_rr_32_boundedrand_r ::
  "pcg_state_64 \<Rightarrow> u32 \<Rightarrow> (u32 \<times> pcg_state_64) option" where
  "pcg_oneseq_64_xsl_rr_32_boundedrand_r rng bound =
     boundedrand_loop pcg_oneseq_64_xsl_rr_32_random_r bound rng"

definition pcg_oneseq_128_xsl_rr_64_random_r :: "pcg_state_128 \<Rightarrow> u64 \<times> pcg_state_128" where
  "pcg_oneseq_128_xsl_rr_64_random_r rng =
     (let rng = pcg_oneseq_128_step_r rng in (pcg_output_xsl_rr_128_64 (state rng), rng))"

definition pcg_oneseq_128_xsl_rr_64_boundedrand_r ::
  "pcg_state_128 \<Rightarrow> u64 \<Rightarrow> (u64 \<times> pcg_state_128) option" where
  "pcg_oneseq_128_xsl_rr_64_boundedrand_r rng bound =
     boundedrand_loop pcg_oneseq_128_xsl_rr_64_random_r bound rng"

definition pcg_unique_64_xsl_rr_32_random_r :: "u32 \<Rightarrow> pcg_state_64 \<Rightarrow> u32 \<times> pcg_state_64" where
  "pcg_unique_64_xsl_rr_32_random_r addr rng =
     (let oldstate = state rng; rng = pcg_unique_64_step_r addr rng
      in (pcg_output_xsl_rr_64_32 oldstate, rng))"

definition pcg_unique_64_xsl_rr_32_boundedrand_r ::
  "u32 \<Rightarrow> pcg_state_64 \<Rightarrow> u32 \<Rightarrow> (u32 \<times> pcg_state_64) option" where
  "pcg_unique_64_xsl_rr_32_boundedrand_r addr rng bound =
     boundedrand_loop (pcg_unique_64_xsl_rr_32_random_r addr) bound rng"

definition pcg_unique_128_xsl_rr_64_random_r :: "u64 \<Rightarrow> pcg_state_128 \<Rightarrow> u64 \<times> pcg_state_128" where
  "pcg_unique_128_xsl_rr_64_random_r addr rng =
     (let rng = pcg_unique_128_step_r addr rng in (pcg_output_xsl_rr_128_64 (state rng), rng))"

definition pcg_unique_128_xsl_rr_64_boundedrand_r ::
  "u64 \<Rightarrow> pcg_state_128 \<Rightarrow> u64 \<Rightarrow> (u64 \<times> pcg_state_128) option" where
  "pcg_unique_128_xsl_rr_64_boundedrand_r addr rng bound =
     boundedrand_loop (pcg_unique_128_xsl_rr_64_random_r addr) bound rng"

definition pcg_setseq_64_xsl_rr_32_random_r :: "pcg_state_setseq_64 \<Rightarrow> u32 \<times> pcg_state_setseq_64" where
  "pcg_setseq_64_xsl_rr_32_random_r rng =
     (let oldstate = sq_state rng; rng = pcg_setseq_64_step_r rng
      in (pcg_output_xsl_rr_64_32 oldstate, rng))"

definition pcg_setseq_64_xsl_rr_32_boundedrand_r ::
  "pcg_state_setseq_64 \<Rightarrow> u32 \<Rightarrow> (u32 \<times> pcg_state_setseq_64) option" where
  "pcg_setseq_64_xsl_rr_32_boundedrand_r rng bound =
     boundedrand_loop pcg_setseq_64_xsl_rr_32_random_r bound rng"

definition pcg_setseq_128_xsl_rr_64_random_r :: "pcg_state_setseq_128 \<Rightarrow> u64 \<times> pcg_state_setseq_128" where
  "pcg_setseq_128_xsl_rr_64_random_r rng =
     (let rng = pcg_setseq_128_step_r rng in (pcg_output_xsl_rr_128_64 (sq_state rng), rng))"

definition pcg_setseq_128_xsl_rr_64_boundedrand_r ::
  "pcg_state_setseq_128 \<Rightarrow> u64 \<Rightarrow> (u64 \<times> pcg_state_setseq_128) option" where
  "pcg_setseq_128_xsl_rr_64_boundedrand_r rng bound =
     boundedrand_loop pcg_setseq_128_xsl_rr_64_random_r bound rng"

definition pcg_mcg_64_xsl_rr_32_random_r :: "pcg_state_64 \<Rightarrow> u32 \<times> pcg_state_64" where
  "pcg_mcg_64_xsl_rr_32_random_r rng =
     (let oldstate = state rng; rng = pcg_mcg_64_step_r rng
      in (pcg_output_xsl_rr_64_32 oldstate, rng))"

definition pcg_mcg_64_xsl_rr_32_boundedrand_r ::
  "pcg_state_64 \<Rightarrow> u32 \<Rightarrow> (u32 \<times> pcg_state_64) option" where
  "pcg_mcg_64_xsl_rr_32_boundedrand_r rng bound =
     boundedrand_loop pcg_mcg_64_xsl_rr_32_random_r bound rng"

definition pcg_mcg_128_xsl_rr_64_random_r :: "pcg_state_128 \<Rightarrow> u64 \<times> pcg_state_128" where
  "pcg_mcg_128_xsl_rr_64_random_r rng =
     (let rng = pcg_mcg_128_step_r rng in (pcg_output_xsl_rr_128_64 (state rng), rng))"

definition pcg_mcg_128_xsl_rr_64_boundedrand_r ::
  "pcg_state_128 \<Rightarrow> u64 \<Rightarrow> (u64 \<times> pcg_state_128) option" where
  "pcg_mcg_128_xsl_rr_64_boundedrand_r rng bound =
     boundedrand_loop pcg_mcg_128_xsl_rr_64_random_r bound rng"

section \<open>Generation functions for XSL RR RR\<close>

definition pcg_oneseq_64_xsl_rr_rr_64_random_r :: "pcg_state_64 \<Rightarrow> u64 \<times> pcg_state_64" where
  "pcg_oneseq_64_xsl_rr_rr_64_random_r rng =
     (let oldstate = state rng; rng = pcg_oneseq_64_step_r rng
      in (pcg_output_xsl_rr_rr_64_64 oldstate, rng))"

definition pcg_oneseq_64_xsl_rr_rr_64_boundedrand_r ::
  "pcg_state_64 \<Rightarrow> u64 \<Rightarrow> (u64 \<times> pcg_state_64) option" where
  "pcg_oneseq_64_xsl_rr_rr_64_boundedrand_r rng bound =
     boundedrand_loop pcg_oneseq_64_xsl_rr_rr_64_random_r bound rng"

definition pcg_oneseq_128_xsl_rr_rr_128_random_r :: "pcg_state_128 \<Rightarrow> u128 \<times> pcg_state_128" where
  "pcg_oneseq_128_xsl_rr_rr_128_random_r rng =
     (let rng = pcg_oneseq_128_step_r rng in (pcg_output_xsl_rr_rr_128_128 (state rng), rng))"

definition pcg_oneseq_128_xsl_rr_rr_128_boundedrand_r ::
  "pcg_state_128 \<Rightarrow> u128 \<Rightarrow> (u128 \<times> pcg_state_128) option" where
  "pcg_oneseq_128_xsl_rr_rr_128_boundedrand_r rng bound =
     boundedrand_loop pcg_oneseq_128_xsl_rr_rr_128_random_r bound rng"

definition pcg_unique_64_xsl_rr_rr_64_random_r :: "u32 \<Rightarrow> pcg_state_64 \<Rightarrow> u64 \<times> pcg_state_64" where
  "pcg_unique_64_xsl_rr_rr_64_random_r addr rng =
     (let oldstate = state rng; rng = pcg_unique_64_step_r addr rng
      in (pcg_output_xsl_rr_rr_64_64 oldstate, rng))"

definition pcg_unique_64_xsl_rr_rr_64_boundedrand_r ::
  "u32 \<Rightarrow> pcg_state_64 \<Rightarrow> u64 \<Rightarrow> (u64 \<times> pcg_state_64) option" where
  "pcg_unique_64_xsl_rr_rr_64_boundedrand_r addr rng bound =
     boundedrand_loop (pcg_unique_64_xsl_rr_rr_64_random_r addr) bound rng"

definition pcg_unique_128_xsl_rr_rr_128_random_r :: "u64 \<Rightarrow> pcg_state_128 \<Rightarrow> u128 \<times> pcg_state_128" where
  "pcg_unique_128_xsl_rr_rr_128_random_r addr rng =
     (let rng = pcg_unique_128_step_r addr rng in (pcg_output_xsl_rr_rr_128_128 (state rng), rng))"

definition pcg_unique_128_xsl_rr_rr_128_boundedrand_r ::
  "u64 \<Rightarrow> pcg_state_128 \<Rightarrow> u128 \<Rightarrow> (u128 \<times> pcg_state_128) option" where
  "pcg_unique_128_xsl_rr_rr_128_boundedrand_r addr rng bound =
     boundedrand_loop (pcg_unique_128_xsl_rr_rr_128_random_r addr) bound rng"

definition pcg_setseq_64_xsl_rr_rr_64_random_r :: "pcg_state_setseq_64 \<Rightarrow> u64 \<times> pcg_state_setseq_64" where
  "pcg_setseq_64_xsl_rr_rr_64_random_r rng =
     (let oldstate = sq_state rng; rng = pcg_setseq_64_step_r rng
      in (pcg_output_xsl_rr_rr_64_64 oldstate, rng))"

definition pcg_setseq_64_xsl_rr_rr_64_boundedrand_r ::
  "pcg_state_setseq_64 \<Rightarrow> u64 \<Rightarrow> (u64 \<times> pcg_state_setseq_64) option" where
  "pcg_setseq_64_xsl_rr_rr_64_boundedrand_r rng bound =
     boundedrand_loop pcg_setseq_64_xsl_rr_rr_64_random_r bound rng"

definition pcg_setseq_128_xsl_rr_rr_128_random_r :: "pcg_state_setseq_128 \<Rightarrow> u128 \<times> pcg_state_setseq_128" where
  "pcg_setseq_128_xsl_rr_rr_128_random_r rng =
     (let rng = pcg_setseq_128_step_r rng in (pcg_output_xsl_rr_rr_128_128 (sq_state rng), rng))"

definition pcg_setseq_128_xsl_rr_rr_128_boundedrand_r ::
  "pcg_state_setseq_128 \<Rightarrow> u128 \<Rightarrow> (u128 \<times> pcg_state_setseq_128) option" where
  "pcg_setseq_128_xsl_rr_rr_128_boundedrand_r rng bound =
     boundedrand_loop pcg_setseq_128_xsl_rr_rr_128_random_r bound rng"

end
