(* ===== verification/Pcg_Output.thy ===== *)
theory Pcg_Output
  imports Pcg_Variants
begin

text \<open>
  The output functions of \<open>src/pcg_variants.h\<close>: the rotation helpers rotate, every rotation
  amount the output functions use is below the width (so no shift of the C code is out of
  range), and the RXS M XS functions are permutations of the words of their width.
\<close>

section \<open>Rotations\<close>

lemma pcg_rotr_8_eq: "unat rot < 8 \<Longrightarrow> pcg_rotr_8 v rot = word_rotr (unat rot) v"
  using word_rotr_idiom [of "unat rot" v] unat_take_bit_minus [of 3 rot]
  by (simp add: pcg_rotr_8_def take_bit_eq_mask mask_numeral)

lemma pcg_rotr_16_eq: "unat rot < 16 \<Longrightarrow> pcg_rotr_16 v rot = word_rotr (unat rot) v"
  using word_rotr_idiom [of "unat rot" v] unat_take_bit_minus [of 4 rot]
  by (simp add: pcg_rotr_16_def take_bit_eq_mask mask_numeral)

lemma pcg_rotr_32_eq: "unat rot < 32 \<Longrightarrow> pcg_rotr_32 v rot = word_rotr (unat rot) v"
  using word_rotr_idiom [of "unat rot" v] unat_take_bit_minus [of 5 rot]
  by (simp add: pcg_rotr_32_def take_bit_eq_mask mask_numeral)

lemma pcg_rotr_64_eq: "unat rot < 64 \<Longrightarrow> pcg_rotr_64 v rot = word_rotr (unat rot) v"
  using word_rotr_idiom [of "unat rot" v] unat_take_bit_minus [of 6 rot]
  by (simp add: pcg_rotr_64_def take_bit_eq_mask mask_numeral)

lemma pcg_rotr_128_eq: "unat rot < 128 \<Longrightarrow> pcg_rotr_128 v rot = word_rotr (unat rot) v"
  using word_rotr_idiom [of "unat rot" v] unat_take_bit_minus [of 7 rot]
  by (simp add: pcg_rotr_128_def take_bit_eq_mask mask_numeral)

text \<open>The amounts: the top bits of the state, always below the width of the rotated value.\<close>

lemma rotation_amounts:
  "unat (drop_bit 13 (s16 :: u16)) < 8"
  "unat (drop_bit 28 (s32 :: u32)) < 16"
  "unat (drop_bit 59 (s64 :: u64)) < 32"
  "unat (drop_bit 122 (s128 :: u128)) < 64"
  using unat_drop_bit_less [of 13 s16] unat_drop_bit_less [of 28 s32]
    unat_drop_bit_less [of 59 s64] unat_drop_bit_less [of 122 s128] by simp_all

lemma unat_ucast_u32: "unat x < 2 ^ 32 \<Longrightarrow> unat (ucast (x :: 'a::len word) :: u32) = unat x"
  by (simp add: unsigned_ucast_eq take_bit_nat_eq_self)

lemma rotation_casts:
  "unat (ucast (drop_bit 13 (s16 :: u16)) :: u32) = unat (drop_bit 13 s16)"
  "unat (ucast (drop_bit 59 (s64 :: u64)) :: u32) = unat (drop_bit 59 s64)"
  "unat (ucast (drop_bit 122 (s128 :: u128)) :: u32) = unat (drop_bit 122 s128)"
  by (rule unat_ucast_u32, rule less_trans, rule rotation_amounts, simp)+

lemma xsh_rr_rotates:
  "pcg_output_xsh_rr_16_8 s16 = word_rotr (unat (drop_bit 13 s16))
     (ucast (drop_bit 5 (drop_bit 5 s16 XOR s16)))"
  "pcg_output_xsh_rr_32_16 s32 = word_rotr (unat (drop_bit 28 s32))
     (ucast (drop_bit 12 (drop_bit 10 s32 XOR s32)))"
  "pcg_output_xsh_rr_64_32 s64 = word_rotr (unat (drop_bit 59 s64))
     (ucast (drop_bit 27 (drop_bit 18 s64 XOR s64)))"
  "pcg_output_xsh_rr_128_64 s128 = word_rotr (unat (drop_bit 122 s128))
     (ucast (drop_bit 58 (drop_bit 29 s128 XOR s128)))"
  by (simp_all add: rotation_amounts rotation_casts pcg_output_xsh_rr_16_8_def pcg_output_xsh_rr_32_16_def pcg_rotr_16_eq
      pcg_output_xsh_rr_64_32_def pcg_output_xsh_rr_128_64_def pcg_rotr_8_eq pcg_rotr_32_eq pcg_rotr_64_eq)

section \<open>RXS M XS permutes the words\<close>

text \<open>
  A random xorshift keeps the bits that choose its amount, because the amount is at least
  their number.
\<close>

lemma inj_rxs:
  fixes sh :: "'a::len word \<Rightarrow> nat"
  assumes t: "t < LENGTH('a)" and sh: "\<And>s. LENGTH('a) \<le> t + sh (drop_bit t s)"
  shows "inj (\<lambda>s. drop_bit (sh (drop_bit t s)) s XOR s)"
proof (rule injI)
  fix x y
  assume eq: "drop_bit (sh (drop_bit t x)) x XOR x = drop_bit (sh (drop_bit t y)) y XOR y"
  have top: "drop_bit t (drop_bit (sh (drop_bit t z)) z XOR z) = drop_bit t z" for z :: "'a word"
    using sh [of z] by (simp add: drop_bit_drop_bit add.commute)
  have "drop_bit t x = drop_bit t y" using arg_cong [OF eq, of "drop_bit t"] by (simp only: top)
  with eq have "drop_bit (sh (drop_bit t x)) x XOR x = drop_bit (sh (drop_bit t x)) y XOR y"
    by simp
  moreover have "0 < sh (drop_bit t x)" using sh [of x] t by simp
  ultimately show "x = y" using inj_xorshift by (auto dest: injD)
qed

lemma rxs_m_xs_bij:
  fixes m :: "'a::len word"
  assumes out: "\<And>s. out s = (let word = (drop_bit (sh (drop_bit t s)) s XOR s) * m
      in drop_bit k word XOR word)"
    and "t < LENGTH('a)" "\<And>s. LENGTH('a) \<le> t + sh (drop_bit t s)"
    and unit: "m * m' = 1" and k: "0 < k"
  shows "bij out"
proof (rule bij_word_inj)
  have "out = (\<lambda>x. drop_bit k x XOR x) \<circ> (\<lambda>x. x * m) \<circ> (\<lambda>s. drop_bit (sh (drop_bit t s)) s XOR s)"
    by (simp add: fun_eq_iff out Let_def)
  moreover have "inj (\<lambda>s :: 'a word. drop_bit (sh (drop_bit t s)) s XOR s)"
    using assms(2,3) by (rule inj_rxs)
  ultimately show "inj out"
    using inj_compose [OF inj_compose [OF inj_xorshift [OF k] inj_mult_unit [OF unit]]]
    by (simp only:)
qed

lemma rxs_amount:
  fixes s :: "'a::len word"
  assumes "t < LENGTH('a)" "2 ^ (LENGTH('a) - t) + unat c \<le> 2 ^ LENGTH('a)"
    "LENGTH('a) \<le> t + unat c"
  shows "LENGTH('a) \<le> t + unat (drop_bit t s + c)"
proof -
  have "unat (drop_bit t s) + unat c < 2 ^ LENGTH('a)"
    using unat_drop_bit_less [of t s] assms(1,2) by simp
  then have "unat (drop_bit t s + c) = unat (drop_bit t s) + unat c"
    by (simp add: unat_word_ariths)
  with assms(3) show ?thesis by simp
qed

lemma bij_rxs_m_xs_8_8: "bij pcg_output_rxs_m_xs_8_8"
proof (rule rxs_m_xs_bij [where sh = "\<lambda>d. unat (d + 2)" and t = 6])
  show "pcg_output_rxs_m_xs_8_8 s = (let word = (drop_bit (unat (drop_bit 6 s + 2)) s XOR s)
      * 217 in drop_bit 6 word XOR word)" for s
    by (rule pcg_output_rxs_m_xs_8_8_def)
  show "LENGTH(8) \<le> 6 + unat (drop_bit 6 s + 2)" for s :: u8
    by (rule rxs_amount) simp_all
  show "217 * (105 :: u8) = 1"
    by simp
qed simp_all

lemma bij_rxs_m_xs_16_16: "bij pcg_output_rxs_m_xs_16_16"
proof (rule rxs_m_xs_bij [where sh = "\<lambda>d. unat (d + 3)" and t = 13])
  show "pcg_output_rxs_m_xs_16_16 s = (let word = (drop_bit (unat (drop_bit 13 s + 3)) s XOR s)
      * 62169 in drop_bit 11 word XOR word)" for s
    by (rule pcg_output_rxs_m_xs_16_16_def)
  show "LENGTH(16) \<le> 13 + unat (drop_bit 13 s + 3)" for s :: u16
    by (rule rxs_amount) simp_all
  show "62169 * (28009 :: u16) = 1"
    by simp
qed simp_all

lemma bij_rxs_m_xs_32_32: "bij pcg_output_rxs_m_xs_32_32"
proof (rule rxs_m_xs_bij [where sh = "\<lambda>d. unat (d + 4)" and t = 28])
  show "pcg_output_rxs_m_xs_32_32 s = (let word = (drop_bit (unat (drop_bit 28 s + 4)) s XOR s)
      * 277803737 in drop_bit 22 word XOR word)" for s
    by (rule pcg_output_rxs_m_xs_32_32_def)
  show "LENGTH(32) \<le> 28 + unat (drop_bit 28 s + 4)" for s :: u32
    by (rule rxs_amount) simp_all
  show "277803737 * (2897767785 :: u32) = 1"
    by simp
qed simp_all

lemma bij_rxs_m_xs_64_64: "bij pcg_output_rxs_m_xs_64_64"
proof (rule rxs_m_xs_bij [where sh = "\<lambda>d. unat (d + 5)" and t = 59])
  show "pcg_output_rxs_m_xs_64_64 s = (let word = (drop_bit (unat (drop_bit 59 s + 5)) s XOR s)
      * 12605985483714917081 in drop_bit 43 word XOR word)" for s
    by (rule pcg_output_rxs_m_xs_64_64_def)
  show "LENGTH(64) \<le> 59 + unat (drop_bit 59 s + 5)" for s :: u64
    by (rule rxs_amount) simp_all
  show "12605985483714917081 * (15009553638781119849 :: u64) = 1"
    by simp
qed simp_all

lemma bij_rxs_m_xs_128_128: "bij pcg_output_rxs_m_xs_128_128"
proof (rule rxs_m_xs_bij [where sh = "\<lambda>d. unat (d + 6)" and t = 122])
  show "pcg_output_rxs_m_xs_128_128 s = (let word = (drop_bit (unat (drop_bit 122 s + 6)) s XOR s)
      * (PCG_128BIT_CONSTANT 17766728186571221404 12605985483714917081) in drop_bit 86 word XOR word)" for s
    by (rule pcg_output_rxs_m_xs_128_128_def)
  show "LENGTH(128) \<le> 122 + unat (drop_bit 122 s + 6)" for s :: u128
    by (rule rxs_amount) simp_all
  show "PCG_128BIT_CONSTANT 17766728186571221404 12605985483714917081 * (266050134430354249485913702517209329001 :: u128) = 1"
    by (simp add: PCG_128BIT_CONSTANT_def)
qed simp_all

end
