(* ===== verification/Pcg_Bounded.thy ===== *)
theory Pcg_Bounded
  imports Pcg_Random Pcg_Output
begin

text \<open>
  The bounded draws of \<open>src/pcg_variants.h\<close>.  The contract between the loop of
  \<open>boundedrand_r\<close> and the generator it draws from is the locale \<open>bounded_source\<close>: from every
  valid state, some later output is the largest number.  Inside it the loop is shown to end
  with a number below the bound.  All sixty generators of the header are instances; the
  contract holds for them because their states run through a full period (theory \<open>Lcg\<close>) and
  their output functions reach the largest number at the states listed here.
\<close>

section \<open>The states run through a full period\<close>

lemma full_period_8: "odd c \<Longrightarrow> full_period (\<lambda>x. x * PCG_DEFAULT_MULTIPLIER_8 + c) PCG_DEFAULT_MULTIPLIER_8 c"
  by unfold_locales (simp_all add: mult.commute, simp add: pcg_constants)

lemma full_period_16: "odd c \<Longrightarrow> full_period (\<lambda>x. x * PCG_DEFAULT_MULTIPLIER_16 + c) PCG_DEFAULT_MULTIPLIER_16 c"
  by unfold_locales (simp_all add: mult.commute, simp add: pcg_constants)

lemma full_period_32: "odd c \<Longrightarrow> full_period (\<lambda>x. x * PCG_DEFAULT_MULTIPLIER_32 + c) PCG_DEFAULT_MULTIPLIER_32 c"
  by unfold_locales (simp_all add: mult.commute, simp add: pcg_constants)

lemma full_period_64: "odd c \<Longrightarrow> full_period (\<lambda>x. x * PCG_DEFAULT_MULTIPLIER_64 + c) PCG_DEFAULT_MULTIPLIER_64 c"
  by unfold_locales (simp_all add: mult.commute, simp add: pcg_constants)

lemma full_period_128: "odd c \<Longrightarrow> full_period (\<lambda>x. x * PCG_DEFAULT_MULTIPLIER_128 + c) PCG_DEFAULT_MULTIPLIER_128 c"
  by unfold_locales (simp_all add: mult.commute, simp add: pcg_constants)

interpretation mcg_16: mult_period "\<lambda>x. x * PCG_DEFAULT_MULTIPLIER_16" PCG_DEFAULT_MULTIPLIER_16
  by unfold_locales (simp_all add: pcg_constants)

interpretation mcg_32: mult_period "\<lambda>x. x * PCG_DEFAULT_MULTIPLIER_32" PCG_DEFAULT_MULTIPLIER_32
  by unfold_locales (simp_all add: pcg_constants)

interpretation mcg_64: mult_period "\<lambda>x. x * PCG_DEFAULT_MULTIPLIER_64" PCG_DEFAULT_MULTIPLIER_64
  by unfold_locales (simp_all add: pcg_constants)

interpretation mcg_128: mult_period "\<lambda>x. x * PCG_DEFAULT_MULTIPLIER_128" PCG_DEFAULT_MULTIPLIER_128
  by unfold_locales (simp_all add: pcg_constants)

lemma odd_increments:
  "odd PCG_DEFAULT_INCREMENT_8" "odd PCG_DEFAULT_INCREMENT_16" "odd PCG_DEFAULT_INCREMENT_32"
  "odd PCG_DEFAULT_INCREMENT_64" "odd PCG_DEFAULT_INCREMENT_128"
  by (simp_all add: pcg_constants)

lemma odd_or_1: "odd ((x :: 'a::len word) OR 1)"
  by (simp add: bit_or_iff flip: bit_0)

lemma odd_addr:
  "odd (ucast ((addr :: u32) OR 1) :: 'b::len word)" "odd (scast ((addr' :: u64) OR 1) :: u128)"
  by (simp_all add: bit_simps flip: bit_0)

interpretation oneseq_8: full_period
  "\<lambda>x. x * PCG_DEFAULT_MULTIPLIER_8 + PCG_DEFAULT_INCREMENT_8"
  PCG_DEFAULT_MULTIPLIER_8 PCG_DEFAULT_INCREMENT_8
  by (rule full_period_8) (rule odd_increments)

interpretation oneseq_16: full_period
  "\<lambda>x. x * PCG_DEFAULT_MULTIPLIER_16 + PCG_DEFAULT_INCREMENT_16"
  PCG_DEFAULT_MULTIPLIER_16 PCG_DEFAULT_INCREMENT_16
  by (rule full_period_16) (rule odd_increments)

interpretation oneseq_32: full_period
  "\<lambda>x. x * PCG_DEFAULT_MULTIPLIER_32 + PCG_DEFAULT_INCREMENT_32"
  PCG_DEFAULT_MULTIPLIER_32 PCG_DEFAULT_INCREMENT_32
  by (rule full_period_32) (rule odd_increments)

interpretation oneseq_64: full_period
  "\<lambda>x. x * PCG_DEFAULT_MULTIPLIER_64 + PCG_DEFAULT_INCREMENT_64"
  PCG_DEFAULT_MULTIPLIER_64 PCG_DEFAULT_INCREMENT_64
  by (rule full_period_64) (rule odd_increments)

interpretation oneseq_128: full_period
  "\<lambda>x. x * PCG_DEFAULT_MULTIPLIER_128 + PCG_DEFAULT_INCREMENT_128"
  PCG_DEFAULT_MULTIPLIER_128 PCG_DEFAULT_INCREMENT_128
  by (rule full_period_128) (rule odd_increments)

section \<open>The drawing loop\<close>

lemma funpow_snd:
  "((\<lambda>s. snd (random s)) ^^ n) (snd (random s)) = snd (random (((\<lambda>s. snd (random s)) ^^ n) s))"
  using funpow_swap1 [of "\<lambda>s. snd (random s)" n s] by simp

lemma draw_until_at:
  assumes "\<And>k. k < n \<Longrightarrow> fst (random (((\<lambda>s. snd (random s)) ^^ k) s)) < th"
    and "th \<le> fst (random (((\<lambda>s. snd (random s)) ^^ n) s))"
  shows "draw_until random th s = Some (fst (random (((\<lambda>s. snd (random s)) ^^ n) s)),
    ((\<lambda>s. snd (random s)) ^^ Suc n) s)"
  using assms
proof (induction n arbitrary: s)
  case 0
  then show ?case by (simp add: draw_until.simps)
next
  case (Suc n)
  have "\<not> th \<le> fst (random s)" using Suc.prems(1) [of 0] by simp
  moreover have "draw_until random th (snd (random s)) =
      Some (fst (random (((\<lambda>s. snd (random s)) ^^ n) (snd (random s)))),
        ((\<lambda>s. snd (random s)) ^^ Suc n) (snd (random s)))"
  proof (rule Suc.IH)
    fix k assume "k < n"
    then show "fst (random (((\<lambda>s. snd (random s)) ^^ k) (snd (random s)))) < th"
      using Suc.prems(1) [of "Suc k"] by (simp add: funpow_snd)
  next
    show "th \<le> fst (random (((\<lambda>s. snd (random s)) ^^ n) (snd (random s))))"
      using Suc.prems(2) by (simp add: funpow_snd)
  qed
  ultimately show ?case by (subst draw_until.simps) (simp add: funpow_snd)
qed

text \<open>The threshold is \<open>2 ^ w mod bound\<close>, computed without a wider integer.\<close>

lemma threshold_eq:
  fixes bound :: "'b::len word"
  assumes "bound \<noteq> 0"
  shows "unat ((- bound) mod bound) = 2 ^ LENGTH('b) mod unat bound"
proof -
  have b: "0 < unat bound" "unat bound < 2 ^ LENGTH('b)"
    using assms by (simp_all add: unat_gt_0 unsigned_less)
  have "unat (- bound) = 2 ^ LENGTH('b) - unat bound"
    using unat_take_bit_minus [of "LENGTH('b)" bound] b by simp
  then have "unat ((- bound) mod bound) = (2 ^ LENGTH('b) - unat bound) mod unat bound"
    by (simp add: unat_mod)
  also have "\<dots> = 2 ^ LENGTH('b) mod unat bound"
    using b by (metis less_imp_le le_mod_geq)
  finally show ?thesis .
qed

locale bounded_source =
  fixes random :: "'s \<Rightarrow> 'b::len word \<times> 's" and ok :: "'s \<Rightarrow> bool"
  assumes ok_next: "ok s \<Longrightarrow> ok (snd (random s))"
    and top: "ok s \<Longrightarrow> \<exists>n. fst (random (((\<lambda>s. snd (random s)) ^^ n) s)) = - 1"
begin

lemma ok_iterate: "ok s \<Longrightarrow> ok (((\<lambda>s. snd (random s)) ^^ n) s)"
  by (induction n) (simp_all add: ok_next)

lemma draw_returns:
  assumes "ok s"
  shows "\<exists>r s'. draw_until random th s = Some (r, s') \<and> th \<le> r \<and> ok s'"
proof -
  let ?r = "\<lambda>n. fst (random (((\<lambda>s. snd (random s)) ^^ n) s))"
  have "\<exists>n. th \<le> ?r n" using top [OF assms] by (metis word_n1_ge)
  then obtain n where n: "th \<le> ?r n" "\<And>k. k < n \<Longrightarrow> \<not> th \<le> ?r k"
    using exists_least_iff [of "\<lambda>n. th \<le> ?r n"] by blast
  then have "draw_until random th s = Some (?r n, ((\<lambda>s. snd (random s)) ^^ Suc n) s)"
    by (intro draw_until_at) (simp_all add: not_le)
  with n(1) ok_iterate [OF assms] show ?thesis by blast
qed

lemma bounded_returns:
  assumes "ok s" "bound \<noteq> 0"
  shows "\<exists>r s'. boundedrand_loop random bound s = Some (r, s') \<and> r < bound \<and> ok s'"
proof -
  obtain r s' where "draw_until random ((- bound) mod bound) s = Some (r, s')" "ok s'"
    using draw_returns [OF assms(1)] by blast
  then have "boundedrand_loop random bound s = Some (r mod bound, s')"
    using assms(2) by (simp add: boundedrand_loop_def)
  moreover have "r mod bound < bound"
    using assms(2) by (simp add: word_less_nat_alt unat_mod unat_gt_0)
  ultimately show ?thesis using \<open>ok s'\<close> by blast
qed

end

section \<open>How the generators meet the contract\<close>

text \<open>
  A generator returns an output of the state before the step (\<open>old\<close>) or after it
  (\<open>new\<close>); its state field follows the step function of its style.
\<close>

lemma iterate_field:
  assumes "\<And>s. P s \<Longrightarrow> P (upd s) \<and> st (upd s) = f (st s)" "P s"
  shows "P ((upd ^^ n) s) \<and> st ((upd ^^ n) s) = (f ^^ n) (st s)"
  using assms by (induction n) simp_all

lemma top_old:
  assumes "\<And>s. P s \<Longrightarrow> P (snd (random s)) \<and> st (snd (random s)) = f (st s)" "P s"
    and "\<And>s. fst (random s) = out (st s)" "\<exists>k < N. (f ^^ k) (st s) = t" "out t = x"
  shows "\<exists>n. fst (random (((\<lambda>s. snd (random s)) ^^ n) s)) = x"
  using iterate_field [of P "\<lambda>s. snd (random s)", OF assms(1,2)] assms(3-5) by metis

lemma top_new:
  assumes "\<And>s. P s \<Longrightarrow> P (snd (random s)) \<and> st (snd (random s)) = f (st s)" "P s"
    and "\<And>s. fst (random s) = out (st (snd (random s)))" "\<exists>k < N. (f ^^ k) (f (st s)) = t" "out t = x"
  shows "\<exists>n. fst (random (((\<lambda>s. snd (random s)) ^^ n) s)) = x"
proof -
  obtain k where "(f ^^ k) (f (st s)) = t" using assms(4) by blast
  then have "(f ^^ Suc k) (st s) = t" by (simp add: funpow_swap1)
  moreover have "st (((\<lambda>s. snd (random s)) ^^ Suc k) s) = (f ^^ Suc k) (st s)"
    using iterate_field [of P "\<lambda>s. snd (random s)", OF assms(1,2)] by blast
  ultimately show ?thesis using assms(3,5) by (intro exI [of _ k]) simp
qed

lemma source_old:
  assumes "full_period f a c" "\<And>s. fst (random s) = out (state s)"
    "\<And>s. state (snd (random s)) = f (state s)" "out t = - 1"
  shows "bounded_source random (\<lambda>_. True)"
  by unfold_locales (auto intro!: top_old [where P = "\<lambda>_. True" and st = state and f = f]
      assms full_period.reaches [OF assms(1)])

lemma source_new:
  assumes "full_period f a c" "\<And>s. fst (random s) = out (state (snd (random s)))"
    "\<And>s. state (snd (random s)) = f (state s)" "out t = - 1"
  shows "bounded_source random (\<lambda>_. True)"
  by unfold_locales (auto intro!: top_new [where P = "\<lambda>_. True" and st = state and f = f]
      assms full_period.reaches [OF assms(1)])

lemma source_setseq_old:
  fixes random :: "'a::len word pcg_state_setseq \<Rightarrow> 'b::len word \<times> 'a word pcg_state_setseq"
  assumes fp: "\<And>c. odd c \<Longrightarrow> full_period (\<lambda>x. x * a + c) a c"
    and "\<And>s. fst (random s) = out (sq_state s)"
    and st: "\<And>s. sq_state (snd (random s)) = sq_state s * a + sq_inc s"
      "\<And>s. sq_inc (snd (random s)) = sq_inc s" and "out t = - 1"
  shows "bounded_source random (\<lambda>s. odd (sq_inc s))"
proof
  fix s :: "'a word pcg_state_setseq" assume "odd (sq_inc s)"
  then show "\<exists>n. fst (random (((\<lambda>s. snd (random s)) ^^ n) s)) = - 1"
    by (intro top_old [where P = "\<lambda>s'. sq_inc s' = sq_inc s" and st = sq_state
          and f = "\<lambda>x. x * a + sq_inc s" and out = out and t = t and N = "2 ^ LENGTH('a)"])
      (simp_all add: assms(2,5) st full_period.reaches [OF fp])
qed (simp add: st)

lemma source_setseq_new:
  fixes random :: "'a::len word pcg_state_setseq \<Rightarrow> 'b::len word \<times> 'a word pcg_state_setseq"
  assumes fp: "\<And>c. odd c \<Longrightarrow> full_period (\<lambda>x. x * a + c) a c"
    and "\<And>s. fst (random s) = out (sq_state (snd (random s)))"
    and st: "\<And>s. sq_state (snd (random s)) = sq_state s * a + sq_inc s"
      "\<And>s. sq_inc (snd (random s)) = sq_inc s" and "out t = - 1"
  shows "bounded_source random (\<lambda>s. odd (sq_inc s))"
proof
  fix s :: "'a word pcg_state_setseq" assume "odd (sq_inc s)"
  then show "\<exists>n. fst (random (((\<lambda>s. snd (random s)) ^^ n) s)) = - 1"
    by (intro top_new [where P = "\<lambda>s'. sq_inc s' = sq_inc s" and st = sq_state
          and f = "\<lambda>x. x * a + sq_inc s" and out = out and t = t and N = "2 ^ LENGTH('a)"])
      (simp_all add: assms(2,5) st full_period.reaches [OF fp])
qed (simp add: st)

lemma odd_residue_4:
  fixes s :: "'a::len word"
  assumes "odd s" "1 < LENGTH('a)"
  shows "take_bit 2 s = 1 \<or> take_bit 2 s = 3"
proof -
  have 3: "(3 :: 'a word) = mask 2" and 1: "(1 :: 'a word) = mask 1" by (simp_all add: mask_numeral)
  have "bit s 0" using assms(1) by (simp add: bit_0)
  then have "bit s 1 \<Longrightarrow> take_bit 2 s = mask 2" "\<not> bit s 1 \<Longrightarrow> take_bit 2 s = mask 1"
    by (auto intro!: bit_word_eqI simp: bit_simps less_2_cases_iff)
  then show ?thesis unfolding 3 1 by blast
qed

lemma source_mcg_old:
  fixes random :: "'a::len word pcg_state \<Rightarrow> 'b::len word \<times> 'a word pcg_state"
  assumes mp: "mult_period (\<lambda>x. x * a) a" and "\<And>s. fst (random s) = out (state s)"
    and st: "\<And>s. state (snd (random s)) = state s * a"
    and t1: "out t1 = - 1" "take_bit 2 t1 = 1" and t3: "out t3 = - 1" "take_bit 2 t3 = 3"
  shows "bounded_source random (\<lambda>s. odd (state s))"
proof
  have odd_a: "odd a" using mult_period.a_mod_8 [OF mp] even_take_bit_eq [of 3 a] by simp
  show "odd (state (snd (random s)))" if "odd (state s)" for s
    using that odd_a by (simp add: st)
  fix s :: "'a word pcg_state" assume "odd (state s)"
  moreover from this obtain t where "out t = - 1" "take_bit 2 t = take_bit 2 (state s)"
    using odd_residue_4 [of "state s"] mult_period.wide [OF mp] t1 t3 by (metis less_trans one_less_numeral_iff semiring_norm(77))
  ultimately show "\<exists>n. fst (random (((\<lambda>s. snd (random s)) ^^ n) s)) = - 1"
    by (intro top_old [where P = "\<lambda>_. True" and st = state and f = "\<lambda>x. x * a" and out = out
          and t = t and N = "2 ^ (LENGTH('a) - 2)"])
      (simp_all add: assms(2) st mult_period.reaches [OF mp])
qed

lemma source_mcg_new:
  fixes random :: "'a::len word pcg_state \<Rightarrow> 'b::len word \<times> 'a word pcg_state"
  assumes mp: "mult_period (\<lambda>x. x * a) a"
    and "\<And>s. fst (random s) = out (state (snd (random s)))"
    and st: "\<And>s. state (snd (random s)) = state s * a"
    and t1: "out t1 = - 1" "take_bit 2 t1 = 1" and t3: "out t3 = - 1" "take_bit 2 t3 = 3"
  shows "bounded_source random (\<lambda>s. odd (state s))"
proof
  have odd_a: "odd a" using mult_period.a_mod_8 [OF mp] even_take_bit_eq [of 3 a] by simp
  show odd_next: "odd (state (snd (random s)))" if "odd (state s)" for s
    using that odd_a by (simp add: st)
  fix s :: "'a word pcg_state" assume "odd (state s)"
  then have odd': "odd (state s * a)" using odd_a by simp
  then obtain t where "out t = - 1" "take_bit 2 t = take_bit 2 (state s * a)"
    using odd_residue_4 [OF odd'] mult_period.wide [OF mp] t1 t3
    by (metis less_trans one_less_numeral_iff semiring_norm(77))
  with odd' show "\<exists>n. fst (random (((\<lambda>s. snd (random s)) ^^ n) s)) = - 1"
    by (intro top_new [where P = "\<lambda>_. True" and st = state and f = "\<lambda>x. x * a" and out = out
          and t = t and N = "2 ^ (LENGTH('a) - 2)"])
      (simp_all add: assms(2) st mult_period.reaches [OF mp])
qed

section \<open>States with the largest output\<close>

lemma top_xsh_rs_16_8:
  "pcg_output_xsh_rs_16_8 2037 = - 1"
  "pcg_output_xsh_rs_16_8 2039 = - 1"
  by (simp_all add: pcg_output_xsh_rs_16_8_def)

lemma top_xsh_rs_32_16:
  "pcg_output_xsh_rs_32_16 134154209 = - 1"
  "pcg_output_xsh_rs_32_16 134154211 = - 1"
  by (simp_all add: pcg_output_xsh_rs_32_16_def)

lemma top_xsh_rs_64_32:
  "pcg_output_xsh_rs_64_32 18014394218707969 = - 1"
  "pcg_output_xsh_rs_64_32 18014394218707971 = - 1"
  by (simp_all add: pcg_output_xsh_rs_64_32_def)

lemma top_xsh_rs_128_64:
  "pcg_output_xsh_rs_128_64 649037107316779666625201566646273 = - 1"
  "pcg_output_xsh_rs_128_64 649037107316779666625201566646275 = - 1"
  by (simp_all add: pcg_output_xsh_rs_128_64_def)

lemma top_xsh_rr_16_8:
  "pcg_output_xsh_rr_16_8 7961 = - 1"
  "pcg_output_xsh_rr_16_8 7963 = - 1"
  by (simp_all add: pcg_output_xsh_rr_16_8_def pcg_rotr_8_def)

lemma top_xsh_rr_32_16:
  "pcg_output_xsh_rr_32_16 268177153 = - 1"
  "pcg_output_xsh_rr_32_16 268177155 = - 1"
  by (simp_all add: pcg_output_xsh_rr_32_16_def pcg_rotr_16_def)

lemma top_xsh_rr_64_32:
  "pcg_output_xsh_rr_64_32 576458553405997537 = - 1"
  "pcg_output_xsh_rr_64_32 576458553405997539 = - 1"
  by (simp_all add: pcg_output_xsh_rr_64_32_def pcg_rotr_32_def)

lemma top_xsh_rr_128_64:
  "pcg_output_xsh_rr_128_64 5316911973236143195490699773309091901 = - 1"
  "pcg_output_xsh_rr_128_64 5316911973236143195490699773309091903 = - 1"
  by (simp_all add: pcg_output_xsh_rr_128_64_def pcg_rotr_64_def)

lemma top_rxs_m_xs_8_8:
  "pcg_output_rxs_m_xs_8_8 86 = - 1"
  by (simp_all add: pcg_output_rxs_m_xs_8_8_def)

lemma top_rxs_m_xs_16_16:
  "pcg_output_rxs_m_xs_16_16 20579 = - 1"
  by (simp_all add: pcg_output_rxs_m_xs_16_16_def)

lemma top_rxs_m_xs_32_32:
  "pcg_output_rxs_m_xs_32_32 515875080 = - 1"
  by (simp_all add: pcg_output_rxs_m_xs_32_32_def)

lemma top_rxs_m_xs_64_64:
  "pcg_output_rxs_m_xs_64_64 5740777116230495856 = - 1"
  by (simp_all add: pcg_output_rxs_m_xs_64_64_def)

lemma top_rxs_m_xs_128_128:
  "pcg_output_rxs_m_xs_128_128 107472283295315833479932543433605398059 = - 1"
  by (simp_all add: pcg_output_rxs_m_xs_128_128_def PCG_128BIT_CONSTANT_def)

lemma top_xsl_rr_64_32:
  "pcg_output_xsl_rr_64_32 12884901885 = - 1"
  "pcg_output_xsl_rr_64_32 4294967295 = - 1"
  by (simp_all add: pcg_output_xsl_rr_64_32_def pcg_rotr_32_def)

lemma top_xsl_rr_128_64:
  "pcg_output_xsl_rr_128_64 55340232221128654845 = - 1"
  "pcg_output_xsl_rr_128_64 18446744073709551615 = - 1"
  by (simp_all add: pcg_output_xsl_rr_128_64_def pcg_rotr_64_def)

lemma top_xsl_rr_rr_64_64:
  "pcg_output_xsl_rr_rr_64_64 18446744069414584320 = - 1"
  by (simp_all add: pcg_output_xsl_rr_rr_64_64_def pcg_rotr_32_def)

lemma top_xsl_rr_rr_128_128:
  "pcg_output_xsl_rr_rr_128_128 340282366920938463444927863358058659840 = - 1"
  by (simp_all add: pcg_output_xsl_rr_rr_128_128_def pcg_rotr_64_def)

section \<open>The sixty generators\<close>

interpretation oneseq_16_xsh_rs_8: bounded_source
  pcg_oneseq_16_xsh_rs_8_random_r "\<lambda>_. True"
  by (rule source_old [where out = pcg_output_xsh_rs_16_8, OF oneseq_16.full_period_axioms _ _ top_xsh_rs_16_8(1)])
    (simp_all add: pcg_oneseq_16_xsh_rs_8_random_r_def pcg_oneseq_16_step_r_def Let_def)

interpretation oneseq_32_xsh_rs_16: bounded_source
  pcg_oneseq_32_xsh_rs_16_random_r "\<lambda>_. True"
  by (rule source_old [where out = pcg_output_xsh_rs_32_16, OF oneseq_32.full_period_axioms _ _ top_xsh_rs_32_16(1)])
    (simp_all add: pcg_oneseq_32_xsh_rs_16_random_r_def pcg_oneseq_32_step_r_def Let_def)

interpretation oneseq_64_xsh_rs_32: bounded_source
  pcg_oneseq_64_xsh_rs_32_random_r "\<lambda>_. True"
  by (rule source_old [where out = pcg_output_xsh_rs_64_32, OF oneseq_64.full_period_axioms _ _ top_xsh_rs_64_32(1)])
    (simp_all add: pcg_oneseq_64_xsh_rs_32_random_r_def pcg_oneseq_64_step_r_def Let_def)

interpretation oneseq_128_xsh_rs_64: bounded_source
  pcg_oneseq_128_xsh_rs_64_random_r "\<lambda>_. True"
  by (rule source_new [where out = pcg_output_xsh_rs_128_64, OF oneseq_128.full_period_axioms _ _ top_xsh_rs_128_64(1)])
    (simp_all add: pcg_oneseq_128_xsh_rs_64_random_r_def pcg_oneseq_128_step_r_def Let_def)

interpretation unique_16_xsh_rs_8: bounded_source
  "pcg_unique_16_xsh_rs_8_random_r addr" "\<lambda>_. True" for addr
  by (rule source_old [where out = pcg_output_xsh_rs_16_8, OF full_period_16 [OF odd_addr(1)] _ _ top_xsh_rs_16_8(1)])
    (simp_all add: pcg_unique_16_xsh_rs_8_random_r_def pcg_unique_16_step_r_def Let_def)

interpretation unique_32_xsh_rs_16: bounded_source
  "pcg_unique_32_xsh_rs_16_random_r addr" "\<lambda>_. True" for addr
  by (rule source_old [where out = pcg_output_xsh_rs_32_16, OF full_period_32 [OF odd_addr(1)] _ _ top_xsh_rs_32_16(1)])
    (simp_all add: pcg_unique_32_xsh_rs_16_random_r_def pcg_unique_32_step_r_def Let_def)

interpretation unique_64_xsh_rs_32: bounded_source
  "pcg_unique_64_xsh_rs_32_random_r addr" "\<lambda>_. True" for addr
  by (rule source_old [where out = pcg_output_xsh_rs_64_32, OF full_period_64 [OF odd_addr(1)] _ _ top_xsh_rs_64_32(1)])
    (simp_all add: pcg_unique_64_xsh_rs_32_random_r_def pcg_unique_64_step_r_def Let_def)

interpretation unique_128_xsh_rs_64: bounded_source
  "pcg_unique_128_xsh_rs_64_random_r addr" "\<lambda>_. True" for addr
  by (rule source_new [where out = pcg_output_xsh_rs_128_64, OF full_period_128 [OF odd_addr(2)] _ _ top_xsh_rs_128_64(1)])
    (simp_all add: pcg_unique_128_xsh_rs_64_random_r_def pcg_unique_128_step_r_def Let_def)

interpretation setseq_16_xsh_rs_8: bounded_source
  pcg_setseq_16_xsh_rs_8_random_r "\<lambda>s. odd (sq_inc s)"
  by (rule source_setseq_old [where out = pcg_output_xsh_rs_16_8, OF full_period_16 _ _ _ top_xsh_rs_16_8(1)])
    (simp_all add: pcg_setseq_16_xsh_rs_8_random_r_def pcg_setseq_16_step_r_def Let_def)

interpretation setseq_32_xsh_rs_16: bounded_source
  pcg_setseq_32_xsh_rs_16_random_r "\<lambda>s. odd (sq_inc s)"
  by (rule source_setseq_old [where out = pcg_output_xsh_rs_32_16, OF full_period_32 _ _ _ top_xsh_rs_32_16(1)])
    (simp_all add: pcg_setseq_32_xsh_rs_16_random_r_def pcg_setseq_32_step_r_def Let_def)

interpretation setseq_64_xsh_rs_32: bounded_source
  pcg_setseq_64_xsh_rs_32_random_r "\<lambda>s. odd (sq_inc s)"
  by (rule source_setseq_old [where out = pcg_output_xsh_rs_64_32, OF full_period_64 _ _ _ top_xsh_rs_64_32(1)])
    (simp_all add: pcg_setseq_64_xsh_rs_32_random_r_def pcg_setseq_64_step_r_def Let_def)

interpretation setseq_128_xsh_rs_64: bounded_source
  pcg_setseq_128_xsh_rs_64_random_r "\<lambda>s. odd (sq_inc s)"
  by (rule source_setseq_new [where out = pcg_output_xsh_rs_128_64, OF full_period_128 _ _ _ top_xsh_rs_128_64(1)])
    (simp_all add: pcg_setseq_128_xsh_rs_64_random_r_def pcg_setseq_128_step_r_def Let_def)

interpretation mcg_16_xsh_rs_8: bounded_source
  pcg_mcg_16_xsh_rs_8_random_r "\<lambda>s. odd (state s)"
  by (rule source_mcg_old [where out = pcg_output_xsh_rs_16_8, OF mcg_16.mult_period_axioms _ _ top_xsh_rs_16_8(1) _ top_xsh_rs_16_8(2)])
    (simp_all add: pcg_mcg_16_xsh_rs_8_random_r_def pcg_mcg_16_step_r_def Let_def)

interpretation mcg_32_xsh_rs_16: bounded_source
  pcg_mcg_32_xsh_rs_16_random_r "\<lambda>s. odd (state s)"
  by (rule source_mcg_old [where out = pcg_output_xsh_rs_32_16, OF mcg_32.mult_period_axioms _ _ top_xsh_rs_32_16(1) _ top_xsh_rs_32_16(2)])
    (simp_all add: pcg_mcg_32_xsh_rs_16_random_r_def pcg_mcg_32_step_r_def Let_def)

interpretation mcg_64_xsh_rs_32: bounded_source
  pcg_mcg_64_xsh_rs_32_random_r "\<lambda>s. odd (state s)"
  by (rule source_mcg_old [where out = pcg_output_xsh_rs_64_32, OF mcg_64.mult_period_axioms _ _ top_xsh_rs_64_32(1) _ top_xsh_rs_64_32(2)])
    (simp_all add: pcg_mcg_64_xsh_rs_32_random_r_def pcg_mcg_64_step_r_def Let_def)

interpretation mcg_128_xsh_rs_64: bounded_source
  pcg_mcg_128_xsh_rs_64_random_r "\<lambda>s. odd (state s)"
  by (rule source_mcg_new [where out = pcg_output_xsh_rs_128_64, OF mcg_128.mult_period_axioms _ _ top_xsh_rs_128_64(1) _ top_xsh_rs_128_64(2)])
    (simp_all add: pcg_mcg_128_xsh_rs_64_random_r_def pcg_mcg_128_step_r_def Let_def)

interpretation oneseq_16_xsh_rr_8: bounded_source
  pcg_oneseq_16_xsh_rr_8_random_r "\<lambda>_. True"
  by (rule source_old [where out = pcg_output_xsh_rr_16_8, OF oneseq_16.full_period_axioms _ _ top_xsh_rr_16_8(1)])
    (simp_all add: pcg_oneseq_16_xsh_rr_8_random_r_def pcg_oneseq_16_step_r_def Let_def)

interpretation oneseq_32_xsh_rr_16: bounded_source
  pcg_oneseq_32_xsh_rr_16_random_r "\<lambda>_. True"
  by (rule source_old [where out = pcg_output_xsh_rr_32_16, OF oneseq_32.full_period_axioms _ _ top_xsh_rr_32_16(1)])
    (simp_all add: pcg_oneseq_32_xsh_rr_16_random_r_def pcg_oneseq_32_step_r_def Let_def)

interpretation oneseq_64_xsh_rr_32: bounded_source
  pcg_oneseq_64_xsh_rr_32_random_r "\<lambda>_. True"
  by (rule source_old [where out = pcg_output_xsh_rr_64_32, OF oneseq_64.full_period_axioms _ _ top_xsh_rr_64_32(1)])
    (simp_all add: pcg_oneseq_64_xsh_rr_32_random_r_def pcg_oneseq_64_step_r_def Let_def)

interpretation oneseq_128_xsh_rr_64: bounded_source
  pcg_oneseq_128_xsh_rr_64_random_r "\<lambda>_. True"
  by (rule source_new [where out = pcg_output_xsh_rr_128_64, OF oneseq_128.full_period_axioms _ _ top_xsh_rr_128_64(1)])
    (simp_all add: pcg_oneseq_128_xsh_rr_64_random_r_def pcg_oneseq_128_step_r_def Let_def)

interpretation unique_16_xsh_rr_8: bounded_source
  "pcg_unique_16_xsh_rr_8_random_r addr" "\<lambda>_. True" for addr
  by (rule source_old [where out = pcg_output_xsh_rr_16_8, OF full_period_16 [OF odd_addr(1)] _ _ top_xsh_rr_16_8(1)])
    (simp_all add: pcg_unique_16_xsh_rr_8_random_r_def pcg_unique_16_step_r_def Let_def)

interpretation unique_32_xsh_rr_16: bounded_source
  "pcg_unique_32_xsh_rr_16_random_r addr" "\<lambda>_. True" for addr
  by (rule source_old [where out = pcg_output_xsh_rr_32_16, OF full_period_32 [OF odd_addr(1)] _ _ top_xsh_rr_32_16(1)])
    (simp_all add: pcg_unique_32_xsh_rr_16_random_r_def pcg_unique_32_step_r_def Let_def)

interpretation unique_64_xsh_rr_32: bounded_source
  "pcg_unique_64_xsh_rr_32_random_r addr" "\<lambda>_. True" for addr
  by (rule source_old [where out = pcg_output_xsh_rr_64_32, OF full_period_64 [OF odd_addr(1)] _ _ top_xsh_rr_64_32(1)])
    (simp_all add: pcg_unique_64_xsh_rr_32_random_r_def pcg_unique_64_step_r_def Let_def)

interpretation unique_128_xsh_rr_64: bounded_source
  "pcg_unique_128_xsh_rr_64_random_r addr" "\<lambda>_. True" for addr
  by (rule source_new [where out = pcg_output_xsh_rr_128_64, OF full_period_128 [OF odd_addr(2)] _ _ top_xsh_rr_128_64(1)])
    (simp_all add: pcg_unique_128_xsh_rr_64_random_r_def pcg_unique_128_step_r_def Let_def)

interpretation setseq_16_xsh_rr_8: bounded_source
  pcg_setseq_16_xsh_rr_8_random_r "\<lambda>s. odd (sq_inc s)"
  by (rule source_setseq_old [where out = pcg_output_xsh_rr_16_8, OF full_period_16 _ _ _ top_xsh_rr_16_8(1)])
    (simp_all add: pcg_setseq_16_xsh_rr_8_random_r_def pcg_setseq_16_step_r_def Let_def)

interpretation setseq_32_xsh_rr_16: bounded_source
  pcg_setseq_32_xsh_rr_16_random_r "\<lambda>s. odd (sq_inc s)"
  by (rule source_setseq_old [where out = pcg_output_xsh_rr_32_16, OF full_period_32 _ _ _ top_xsh_rr_32_16(1)])
    (simp_all add: pcg_setseq_32_xsh_rr_16_random_r_def pcg_setseq_32_step_r_def Let_def)

interpretation setseq_64_xsh_rr_32: bounded_source
  pcg_setseq_64_xsh_rr_32_random_r "\<lambda>s. odd (sq_inc s)"
  by (rule source_setseq_old [where out = pcg_output_xsh_rr_64_32, OF full_period_64 _ _ _ top_xsh_rr_64_32(1)])
    (simp_all add: pcg_setseq_64_xsh_rr_32_random_r_def pcg_setseq_64_step_r_def Let_def)

interpretation setseq_128_xsh_rr_64: bounded_source
  pcg_setseq_128_xsh_rr_64_random_r "\<lambda>s. odd (sq_inc s)"
  by (rule source_setseq_new [where out = pcg_output_xsh_rr_128_64, OF full_period_128 _ _ _ top_xsh_rr_128_64(1)])
    (simp_all add: pcg_setseq_128_xsh_rr_64_random_r_def pcg_setseq_128_step_r_def Let_def)

interpretation mcg_16_xsh_rr_8: bounded_source
  pcg_mcg_16_xsh_rr_8_random_r "\<lambda>s. odd (state s)"
  by (rule source_mcg_old [where out = pcg_output_xsh_rr_16_8, OF mcg_16.mult_period_axioms _ _ top_xsh_rr_16_8(1) _ top_xsh_rr_16_8(2)])
    (simp_all add: pcg_mcg_16_xsh_rr_8_random_r_def pcg_mcg_16_step_r_def Let_def)

interpretation mcg_32_xsh_rr_16: bounded_source
  pcg_mcg_32_xsh_rr_16_random_r "\<lambda>s. odd (state s)"
  by (rule source_mcg_old [where out = pcg_output_xsh_rr_32_16, OF mcg_32.mult_period_axioms _ _ top_xsh_rr_32_16(1) _ top_xsh_rr_32_16(2)])
    (simp_all add: pcg_mcg_32_xsh_rr_16_random_r_def pcg_mcg_32_step_r_def Let_def)

interpretation mcg_64_xsh_rr_32: bounded_source
  pcg_mcg_64_xsh_rr_32_random_r "\<lambda>s. odd (state s)"
  by (rule source_mcg_old [where out = pcg_output_xsh_rr_64_32, OF mcg_64.mult_period_axioms _ _ top_xsh_rr_64_32(1) _ top_xsh_rr_64_32(2)])
    (simp_all add: pcg_mcg_64_xsh_rr_32_random_r_def pcg_mcg_64_step_r_def Let_def)

interpretation mcg_128_xsh_rr_64: bounded_source
  pcg_mcg_128_xsh_rr_64_random_r "\<lambda>s. odd (state s)"
  by (rule source_mcg_new [where out = pcg_output_xsh_rr_128_64, OF mcg_128.mult_period_axioms _ _ top_xsh_rr_128_64(1) _ top_xsh_rr_128_64(2)])
    (simp_all add: pcg_mcg_128_xsh_rr_64_random_r_def pcg_mcg_128_step_r_def Let_def)

interpretation oneseq_8_rxs_m_xs_8: bounded_source
  pcg_oneseq_8_rxs_m_xs_8_random_r "\<lambda>_. True"
  by (rule source_old [where out = pcg_output_rxs_m_xs_8_8, OF oneseq_8.full_period_axioms _ _ top_rxs_m_xs_8_8])
    (simp_all add: pcg_oneseq_8_rxs_m_xs_8_random_r_def pcg_oneseq_8_step_r_def Let_def)

interpretation oneseq_16_rxs_m_xs_16: bounded_source
  pcg_oneseq_16_rxs_m_xs_16_random_r "\<lambda>_. True"
  by (rule source_old [where out = pcg_output_rxs_m_xs_16_16, OF oneseq_16.full_period_axioms _ _ top_rxs_m_xs_16_16])
    (simp_all add: pcg_oneseq_16_rxs_m_xs_16_random_r_def pcg_oneseq_16_step_r_def Let_def)

interpretation oneseq_32_rxs_m_xs_32: bounded_source
  pcg_oneseq_32_rxs_m_xs_32_random_r "\<lambda>_. True"
  by (rule source_old [where out = pcg_output_rxs_m_xs_32_32, OF oneseq_32.full_period_axioms _ _ top_rxs_m_xs_32_32])
    (simp_all add: pcg_oneseq_32_rxs_m_xs_32_random_r_def pcg_oneseq_32_step_r_def Let_def)

interpretation oneseq_64_rxs_m_xs_64: bounded_source
  pcg_oneseq_64_rxs_m_xs_64_random_r "\<lambda>_. True"
  by (rule source_old [where out = pcg_output_rxs_m_xs_64_64, OF oneseq_64.full_period_axioms _ _ top_rxs_m_xs_64_64])
    (simp_all add: pcg_oneseq_64_rxs_m_xs_64_random_r_def pcg_oneseq_64_step_r_def Let_def)

interpretation oneseq_128_rxs_m_xs_128: bounded_source
  pcg_oneseq_128_rxs_m_xs_128_random_r "\<lambda>_. True"
  by (rule source_new [where out = pcg_output_rxs_m_xs_128_128, OF oneseq_128.full_period_axioms _ _ top_rxs_m_xs_128_128])
    (simp_all add: pcg_oneseq_128_rxs_m_xs_128_random_r_def pcg_oneseq_128_step_r_def Let_def)

interpretation unique_16_rxs_m_xs_16: bounded_source
  "pcg_unique_16_rxs_m_xs_16_random_r addr" "\<lambda>_. True" for addr
  by (rule source_old [where out = pcg_output_rxs_m_xs_16_16, OF full_period_16 [OF odd_addr(1)] _ _ top_rxs_m_xs_16_16])
    (simp_all add: pcg_unique_16_rxs_m_xs_16_random_r_def pcg_unique_16_step_r_def Let_def)

interpretation unique_32_rxs_m_xs_32: bounded_source
  "pcg_unique_32_rxs_m_xs_32_random_r addr" "\<lambda>_. True" for addr
  by (rule source_old [where out = pcg_output_rxs_m_xs_32_32, OF full_period_32 [OF odd_addr(1)] _ _ top_rxs_m_xs_32_32])
    (simp_all add: pcg_unique_32_rxs_m_xs_32_random_r_def pcg_unique_32_step_r_def Let_def)

interpretation unique_64_rxs_m_xs_64: bounded_source
  "pcg_unique_64_rxs_m_xs_64_random_r addr" "\<lambda>_. True" for addr
  by (rule source_old [where out = pcg_output_rxs_m_xs_64_64, OF full_period_64 [OF odd_addr(1)] _ _ top_rxs_m_xs_64_64])
    (simp_all add: pcg_unique_64_rxs_m_xs_64_random_r_def pcg_unique_64_step_r_def Let_def)

interpretation unique_128_rxs_m_xs_128: bounded_source
  "pcg_unique_128_rxs_m_xs_128_random_r addr" "\<lambda>_. True" for addr
  by (rule source_new [where out = pcg_output_rxs_m_xs_128_128, OF full_period_128 [OF odd_addr(2)] _ _ top_rxs_m_xs_128_128])
    (simp_all add: pcg_unique_128_rxs_m_xs_128_random_r_def pcg_unique_128_step_r_def Let_def)

interpretation setseq_8_rxs_m_xs_8: bounded_source
  pcg_setseq_8_rxs_m_xs_8_random_r "\<lambda>s. odd (sq_inc s)"
  by (rule source_setseq_old [where out = pcg_output_rxs_m_xs_8_8, OF full_period_8 _ _ _ top_rxs_m_xs_8_8])
    (simp_all add: pcg_setseq_8_rxs_m_xs_8_random_r_def pcg_setseq_8_step_r_def Let_def)

interpretation setseq_16_rxs_m_xs_16: bounded_source
  pcg_setseq_16_rxs_m_xs_16_random_r "\<lambda>s. odd (sq_inc s)"
  by (rule source_setseq_old [where out = pcg_output_rxs_m_xs_16_16, OF full_period_16 _ _ _ top_rxs_m_xs_16_16])
    (simp_all add: pcg_setseq_16_rxs_m_xs_16_random_r_def pcg_setseq_16_step_r_def Let_def)

interpretation setseq_32_rxs_m_xs_32: bounded_source
  pcg_setseq_32_rxs_m_xs_32_random_r "\<lambda>s. odd (sq_inc s)"
  by (rule source_setseq_old [where out = pcg_output_rxs_m_xs_32_32, OF full_period_32 _ _ _ top_rxs_m_xs_32_32])
    (simp_all add: pcg_setseq_32_rxs_m_xs_32_random_r_def pcg_setseq_32_step_r_def Let_def)

interpretation setseq_64_rxs_m_xs_64: bounded_source
  pcg_setseq_64_rxs_m_xs_64_random_r "\<lambda>s. odd (sq_inc s)"
  by (rule source_setseq_old [where out = pcg_output_rxs_m_xs_64_64, OF full_period_64 _ _ _ top_rxs_m_xs_64_64])
    (simp_all add: pcg_setseq_64_rxs_m_xs_64_random_r_def pcg_setseq_64_step_r_def Let_def)

interpretation setseq_128_rxs_m_xs_128: bounded_source
  pcg_setseq_128_rxs_m_xs_128_random_r "\<lambda>s. odd (sq_inc s)"
  by (rule source_setseq_new [where out = pcg_output_rxs_m_xs_128_128, OF full_period_128 _ _ _ top_rxs_m_xs_128_128])
    (simp_all add: pcg_setseq_128_rxs_m_xs_128_random_r_def pcg_setseq_128_step_r_def Let_def)

interpretation oneseq_64_xsl_rr_32: bounded_source
  pcg_oneseq_64_xsl_rr_32_random_r "\<lambda>_. True"
  by (rule source_old [where out = pcg_output_xsl_rr_64_32, OF oneseq_64.full_period_axioms _ _ top_xsl_rr_64_32(1)])
    (simp_all add: pcg_oneseq_64_xsl_rr_32_random_r_def pcg_oneseq_64_step_r_def Let_def)

interpretation oneseq_128_xsl_rr_64: bounded_source
  pcg_oneseq_128_xsl_rr_64_random_r "\<lambda>_. True"
  by (rule source_new [where out = pcg_output_xsl_rr_128_64, OF oneseq_128.full_period_axioms _ _ top_xsl_rr_128_64(1)])
    (simp_all add: pcg_oneseq_128_xsl_rr_64_random_r_def pcg_oneseq_128_step_r_def Let_def)

interpretation unique_64_xsl_rr_32: bounded_source
  "pcg_unique_64_xsl_rr_32_random_r addr" "\<lambda>_. True" for addr
  by (rule source_old [where out = pcg_output_xsl_rr_64_32, OF full_period_64 [OF odd_addr(1)] _ _ top_xsl_rr_64_32(1)])
    (simp_all add: pcg_unique_64_xsl_rr_32_random_r_def pcg_unique_64_step_r_def Let_def)

interpretation unique_128_xsl_rr_64: bounded_source
  "pcg_unique_128_xsl_rr_64_random_r addr" "\<lambda>_. True" for addr
  by (rule source_new [where out = pcg_output_xsl_rr_128_64, OF full_period_128 [OF odd_addr(2)] _ _ top_xsl_rr_128_64(1)])
    (simp_all add: pcg_unique_128_xsl_rr_64_random_r_def pcg_unique_128_step_r_def Let_def)

interpretation setseq_64_xsl_rr_32: bounded_source
  pcg_setseq_64_xsl_rr_32_random_r "\<lambda>s. odd (sq_inc s)"
  by (rule source_setseq_old [where out = pcg_output_xsl_rr_64_32, OF full_period_64 _ _ _ top_xsl_rr_64_32(1)])
    (simp_all add: pcg_setseq_64_xsl_rr_32_random_r_def pcg_setseq_64_step_r_def Let_def)

interpretation setseq_128_xsl_rr_64: bounded_source
  pcg_setseq_128_xsl_rr_64_random_r "\<lambda>s. odd (sq_inc s)"
  by (rule source_setseq_new [where out = pcg_output_xsl_rr_128_64, OF full_period_128 _ _ _ top_xsl_rr_128_64(1)])
    (simp_all add: pcg_setseq_128_xsl_rr_64_random_r_def pcg_setseq_128_step_r_def Let_def)

interpretation mcg_64_xsl_rr_32: bounded_source
  pcg_mcg_64_xsl_rr_32_random_r "\<lambda>s. odd (state s)"
  by (rule source_mcg_old [where out = pcg_output_xsl_rr_64_32, OF mcg_64.mult_period_axioms _ _ top_xsl_rr_64_32(1) _ top_xsl_rr_64_32(2)])
    (simp_all add: pcg_mcg_64_xsl_rr_32_random_r_def pcg_mcg_64_step_r_def Let_def)

interpretation mcg_128_xsl_rr_64: bounded_source
  pcg_mcg_128_xsl_rr_64_random_r "\<lambda>s. odd (state s)"
  by (rule source_mcg_new [where out = pcg_output_xsl_rr_128_64, OF mcg_128.mult_period_axioms _ _ top_xsl_rr_128_64(1) _ top_xsl_rr_128_64(2)])
    (simp_all add: pcg_mcg_128_xsl_rr_64_random_r_def pcg_mcg_128_step_r_def Let_def)

interpretation oneseq_64_xsl_rr_rr_64: bounded_source
  pcg_oneseq_64_xsl_rr_rr_64_random_r "\<lambda>_. True"
  by (rule source_old [where out = pcg_output_xsl_rr_rr_64_64, OF oneseq_64.full_period_axioms _ _ top_xsl_rr_rr_64_64])
    (simp_all add: pcg_oneseq_64_xsl_rr_rr_64_random_r_def pcg_oneseq_64_step_r_def Let_def)

interpretation oneseq_128_xsl_rr_rr_128: bounded_source
  pcg_oneseq_128_xsl_rr_rr_128_random_r "\<lambda>_. True"
  by (rule source_new [where out = pcg_output_xsl_rr_rr_128_128, OF oneseq_128.full_period_axioms _ _ top_xsl_rr_rr_128_128])
    (simp_all add: pcg_oneseq_128_xsl_rr_rr_128_random_r_def pcg_oneseq_128_step_r_def Let_def)

interpretation unique_64_xsl_rr_rr_64: bounded_source
  "pcg_unique_64_xsl_rr_rr_64_random_r addr" "\<lambda>_. True" for addr
  by (rule source_old [where out = pcg_output_xsl_rr_rr_64_64, OF full_period_64 [OF odd_addr(1)] _ _ top_xsl_rr_rr_64_64])
    (simp_all add: pcg_unique_64_xsl_rr_rr_64_random_r_def pcg_unique_64_step_r_def Let_def)

interpretation unique_128_xsl_rr_rr_128: bounded_source
  "pcg_unique_128_xsl_rr_rr_128_random_r addr" "\<lambda>_. True" for addr
  by (rule source_new [where out = pcg_output_xsl_rr_rr_128_128, OF full_period_128 [OF odd_addr(2)] _ _ top_xsl_rr_rr_128_128])
    (simp_all add: pcg_unique_128_xsl_rr_rr_128_random_r_def pcg_unique_128_step_r_def Let_def)

interpretation setseq_64_xsl_rr_rr_64: bounded_source
  pcg_setseq_64_xsl_rr_rr_64_random_r "\<lambda>s. odd (sq_inc s)"
  by (rule source_setseq_old [where out = pcg_output_xsl_rr_rr_64_64, OF full_period_64 _ _ _ top_xsl_rr_rr_64_64])
    (simp_all add: pcg_setseq_64_xsl_rr_rr_64_random_r_def pcg_setseq_64_step_r_def Let_def)

interpretation setseq_128_xsl_rr_rr_128: bounded_source
  pcg_setseq_128_xsl_rr_rr_128_random_r "\<lambda>s. odd (sq_inc s)"
  by (rule source_setseq_new [where out = pcg_output_xsl_rr_rr_128_128, OF full_period_128 _ _ _ top_xsl_rr_rr_128_128])
    (simp_all add: pcg_setseq_128_xsl_rr_rr_128_random_r_def pcg_setseq_128_step_r_def Let_def)

end
