(* ===== verification/Pcg_Period.thy ===== *)
theory Pcg_Period
  imports Pcg_Bounded
begin

text \<open>
  The output sequences of \<open>src/pcg_variants.h\<close>: the 32-bit generator \<open>pcg32i\<close> of the
  firmware outputs every word exactly once per period, the 16-bit generator of the firmware
  outputs every number equally often, bounded draws return, jumping ahead is stepping
  repeatedly, and seeding establishes the odd increment that all of this rests on.
\<close>

section \<open>Words with prescribed bits\<close>

lemma bij_word_bits: "bij_betw (\<lambda>x :: 'a::len word. {i. i < LENGTH('a) \<and> bit x i}) UNIV (Pow {..<LENGTH('a)})"
proof -
  let ?f = "\<lambda>x :: 'a word. {i. i < LENGTH('a) \<and> bit x i}"
  have inj: "inj ?f"
  proof (rule injI)
    fix x y assume "?f x = ?f y"
    then show "x = y" by (intro bit_word_eqI) blast
  qed
  moreover have "?f ` UNIV = Pow {..<LENGTH('a)}"
  proof (rule card_subset_eq)
    show "card (?f ` UNIV) = card (Pow {..<LENGTH('a)})"
      using inj by (simp add: card_image card_word card_Pow)
  qed auto
  ultimately show ?thesis by (simp add: bij_betw_def)
qed

lemma card_prescribed_bits:
  fixes w :: "'a::len word"
  assumes "B \<subseteq> {..<LENGTH('a)}"
  shows "card {x :: 'a word. \<forall>i\<in>B. bit x i = bit w i} = 2 ^ (LENGTH('a) - card B)"
proof -
  let ?f = "\<lambda>x :: 'a word. {i. i < LENGTH('a) \<and> bit x i}"
  let ?X = "{x :: 'a word. \<forall>i\<in>B. bit x i = bit w i}"
  have "?f ` ?X = (\<lambda>S. S \<union> (?f w \<inter> B)) ` Pow ({..<LENGTH('a)} - B)"
  proof (intro subset_antisym subsetI)
    fix S assume "S \<in> ?f ` ?X"
    then obtain x where x: "S = ?f x" "\<forall>i\<in>B. bit x i = bit w i" by blast
    then have "S = (?f x - B) \<union> (?f w \<inter> B)" using assms by auto
    then show "S \<in> (\<lambda>S. S \<union> (?f w \<inter> B)) ` Pow ({..<LENGTH('a)} - B)" by blast
  next
    fix S assume "S \<in> (\<lambda>S. S \<union> (?f w \<inter> B)) ` Pow ({..<LENGTH('a)} - B)"
    then obtain T where T: "T \<subseteq> {..<LENGTH('a)} - B" "S = T \<union> (?f w \<inter> B)" by auto
    then have "S \<in> Pow {..<LENGTH('a)}" by auto
    then have "S \<in> range ?f" using bij_word_bits [where 'a = 'a] by (simp add: bij_betw_def)
    then obtain x where x: "?f x = S" by blast
    have "bit x i = bit w i" if "i \<in> B" for i
    proof -
      have "i < LENGTH('a)" using that assms by auto
      then have "bit x i \<longleftrightarrow> i \<in> S" using x by blast
      also have "\<dots> \<longleftrightarrow> bit w i" using T that \<open>i < LENGTH('a)\<close> by blast
      finally show ?thesis .
    qed
    with x show "S \<in> ?f ` ?X" by blast
  qed
  moreover have "inj_on (\<lambda>S. S \<union> (?f w \<inter> B)) (Pow ({..<LENGTH('a)} - B))"
    by (rule inj_onI) blast
  moreover have "inj_on ?f ?X"
    using bij_word_bits [where 'a = 'a] by (auto simp: bij_betw_def intro: inj_on_subset)
  ultimately have "card ?X = card (Pow ({..<LENGTH('a)} - B))"
    by (simp only: card_image [of ?f ?X, symmetric] card_image [of _ "Pow ({..<LENGTH('a)} - B)"])
  also have "\<dots> = 2 ^ (LENGTH('a) - card B)"
    using assms by (simp add: card_Pow card_Diff_subset finite_subset)
  finally show ?thesis .
qed

section \<open>Equidistribution of XSH RS\<close>

text \<open>
  The xorshift is a permutation that keeps the two top bits; for each value of these the
  output is a field of sixteen bits below them, so every output has \<open>2 ^ 16\<close> preimages.
\<close>

lemma xsh_rs_32_16_field:
  "pcg_output_xsh_rs_32_16 s =
     (let x = drop_bit 11 s XOR s in ucast (drop_bit (unat (drop_bit 30 x) + 11) x))"
proof -
  have "unat (drop_bit 30 s) < 4" using unat_drop_bit_less [of 30 s] by simp
  then have "unat (drop_bit 30 s + 11) = unat (drop_bit 30 s) + 11"
    by (simp add: unat_word_ariths)
  moreover have "drop_bit 30 (drop_bit 11 s XOR s) = drop_bit 30 s"
    by simp
  ultimately show ?thesis
    unfolding pcg_output_xsh_rs_32_16_def Let_def by simp
qed

lemma top_two_bits:
  fixes x :: u32
  assumes "t < 4"
  shows "unat (drop_bit 30 x) = t
    \<longleftrightarrow> bit x 30 = bit (of_nat t :: u32) 0 \<and> bit x 31 = bit (of_nat t :: u32) 1"
proof -
  have high: "\<not> bit (of_nat t :: u32) n" if "2 \<le> n" for n
  proof -
    have "take_bit 2 t = t" using assms by (simp add: take_bit_nat_eq_self)
    then have "bit t n \<Longrightarrow> n < 2" by (metis bit_take_bit_iff)
    with that show ?thesis by (auto simp: bit_simps)
  qed
  have "unat (drop_bit 30 x) = t \<longleftrightarrow> drop_bit 30 x = of_nat t"
    using assms by (auto simp: unat_of_nat take_bit_nat_eq_self)
  also have "\<dots> \<longleftrightarrow> (\<forall>n<32. bit x (30 + n) = bit (of_nat t :: u32) n)"
    by (auto simp: bit_eq_iff bit_drop_bit_eq dest: bit_imp_le_length)
  also have "\<dots> \<longleftrightarrow> (\<forall>n<2. bit x (30 + n) = bit (of_nat t :: u32) n)"
  proof -
    have "bit x (30 + n) = bit (of_nat t :: u32) n" if "2 \<le> n" for n
      using high [OF that] that bit_imp_le_length [of x "30 + n"] by auto
    moreover have "n < 32" if "n < 2" for n :: nat using that by simp
    ultimately show ?thesis by (meson not_less)
  qed
  also have "\<dots> \<longleftrightarrow> bit x 30 = bit (of_nat t :: u32) 0 \<and> bit x 31 = bit (of_nat t :: u32) 1"
    by (auto simp: less_2_cases_iff)
  finally show ?thesis .
qed

lemma card_field:
  fixes v :: u16
  assumes "t < 4"
  shows "card {x :: u32. unat (drop_bit 30 x) = t \<and> ucast (drop_bit (t + 11) x) = v} = 2 ^ 14"
proof -
  let ?B = "{t + 11..<t + 27} \<union> {30, 31}"
  let ?w = "push_bit (t + 11) (ucast v) OR push_bit 30 (of_nat t) :: u32"
  have "{x :: u32. unat (drop_bit 30 x) = t \<and> ucast (drop_bit (t + 11) x) = v}
      = {x. \<forall>i\<in>?B. bit x i = bit ?w i}"
  proof (rule Collect_cong)
    fix x :: u32
    have "unat (drop_bit 30 x) = t \<longleftrightarrow> (\<forall>i\<in>{30, 31}. bit x i = bit ?w i)"
      using top_two_bits [OF assms, of x] assms
      by (auto simp: bit_simps dest: bit_imp_le_length)
    moreover have "ucast (drop_bit (t + 11) x) = v \<longleftrightarrow> (\<forall>i\<in>{t + 11..<t + 27}. bit x i = bit ?w i)"
    proof
      assume "ucast (drop_bit (t + 11) x) = v"
      then have "\<And>n. n < 16 \<Longrightarrow> bit x (n + (t + 11)) = bit v n"
        by (auto simp: bit_simps ac_simps)
      then have "bit x i = bit v (i - (t + 11))" if "t + 11 \<le> i" "i < t + 27" for i
      proof -
        have "i - (t + 11) < 16" "i - (t + 11) + (t + 11) = i" using that by simp_all
        then show ?thesis using \<open>\<And>n. n < 16 \<Longrightarrow> bit x (n + (t + 11)) = bit v n\<close> by metis
      qed
      then show "\<forall>i\<in>{t + 11..<t + 27}. bit x i = bit ?w i"
        using assms by (auto simp: bit_simps)
    next
      assume *: "\<forall>i\<in>{t + 11..<t + 27}. bit x i = bit ?w i"
      show "ucast (drop_bit (t + 11) x) = v"
      proof (rule bit_word_eqI)
        fix n :: nat assume "n < LENGTH(16)"
        then show "bit (ucast (drop_bit (t + 11) x) :: u16) n = bit v n"
          using bspec [OF *, of "n + (t + 11)"] assms by (auto simp: bit_simps ac_simps)
      qed
    qed
    ultimately show "(unat (drop_bit 30 x) = t \<and> ucast (drop_bit (t + 11) x) = v)
        \<longleftrightarrow> (\<forall>i\<in>?B. bit x i = bit ?w i)"
      by (auto simp: ball_Un)
  qed
  moreover have "card ?B = 18"
    using assms by (subst card_Un_disjoint) auto
  moreover have "?B \<subseteq> {..<LENGTH(32)}" using assms by auto
  ultimately show ?thesis using card_prescribed_bits [of ?B ?w] by (simp only:) simp
qed

lemma card_xsh_rs_32_16: "card {s. pcg_output_xsh_rs_32_16 s = v} = 2 ^ 16"
proof -
  let ?X = "\<lambda>s :: u32. drop_bit 11 s XOR s"
  let ?A = "\<lambda>t. {x :: u32. unat (drop_bit 30 x) = t \<and> ucast (drop_bit (t + 11) x) = v}"
  have bij: "bij ?X" by (intro bij_word_inj inj_xorshift) simp
  have "{s. pcg_output_xsh_rs_32_16 s = v} = ?X -` (\<Union>t\<in>{..<4}. ?A t)"
    using unat_drop_bit_less [of 30 "_ :: u32"] by (auto simp: xsh_rs_32_16_field Let_def)
  then have "card {s. pcg_output_xsh_rs_32_16 s = v} = card (\<Union>t\<in>{..<4}. ?A t)"
    using bij by (simp add: card_vimage_inj bij_def)
  also have "\<dots> = (\<Sum>t<4. card (?A t))"
    by (rule card_UN_disjoint) auto
  also have "\<dots> = 2 ^ 16" by (simp add: card_field)
  finally show ?thesis .
qed

section \<open>The generators of the firmware\<close>

lemma setseq_states:
  fixes random :: "'a::len word pcg_state_setseq \<Rightarrow> 'b \<times> 'a word pcg_state_setseq"
  assumes fp: "\<And>c. odd c \<Longrightarrow> full_period (\<lambda>x. x * a + c) a c" and "odd (sq_inc s)"
    and st: "\<And>s. sq_state (snd (random s)) = sq_state s * a + sq_inc s"
      "\<And>s. sq_inc (snd (random s)) = sq_inc s"
  shows "bij_betw (\<lambda>k. sq_state (((\<lambda>s. snd (random s)) ^^ k) s)) {..<2 ^ LENGTH('a)} UNIV"
proof -
  have "sq_state (((\<lambda>s. snd (random s)) ^^ k) s) = ((\<lambda>x. x * a + sq_inc s) ^^ k) (sq_state s)" for k
    using iterate_field [of "\<lambda>s'. sq_inc s' = sq_inc s" "\<lambda>s. snd (random s)" sq_state
        "\<lambda>x. x * a + sq_inc s" s k] by (simp add: st)
  then show ?thesis
    using full_period.orbit_bij [OF fp [OF assms(2)], of "sq_state s"] by simp
qed

lemma card_draws:
  assumes st: "bij_betw st {..<N} UNIV" and "\<And>k. draw k = out (st k)"
  shows "card {k. k < N \<and> draw k = v} = card {s. out s = v}"
proof -
  have "bij_betw st {k. k < N \<and> draw k = v} {s. out s = v}"
    unfolding bij_betw_def
  proof
    show "inj_on st {k. k < N \<and> draw k = v}"
      using st by (auto simp: bij_betw_def intro: inj_on_subset)
    show "st ` {k. k < N \<and> draw k = v} = {s. out s = v}"
    proof (intro subset_antisym subsetI)
      fix x assume "x \<in> {s. out s = v}"
      moreover have "x \<in> st ` {..<N}" using st by (simp add: bij_betw_def)
      ultimately show "x \<in> st ` {k. k < N \<and> draw k = v}" using assms(2) by auto
    qed (use assms(2) in auto)
  qed
  then show ?thesis by (rule bij_betw_same_card)
qed

lemmas pcg_firmware_defs =
  pcg_setseq_32_rxs_m_xs_32_random_r_def pcg_setseq_32_xsh_rs_16_random_r_def
  pcg_setseq_32_step_r_def nth_draw_def Let_def

lemma pcg32i_draws_bij:
  assumes "odd (sq_inc s)"
  shows "bij_betw (\<lambda>k. nth_draw pcg_setseq_32_rxs_m_xs_32_random_r k s) {..<2 ^ 32} UNIV"
proof -
  let ?st = "\<lambda>k. sq_state (((\<lambda>s. snd (pcg_setseq_32_rxs_m_xs_32_random_r s)) ^^ k) s)"
  have "bij_betw ?st {..<2 ^ LENGTH(32)} UNIV"
    using full_period_32 assms by (rule setseq_states) (simp_all add: pcg_firmware_defs)
  from bij_betw_trans [OF this, of pcg_output_rxs_m_xs_32_32 UNIV] bij_rxs_m_xs_32_32
  have "bij_betw (pcg_output_rxs_m_xs_32_32 \<circ> ?st) {..<2 ^ 32} UNIV" by simp
  moreover have "(\<lambda>k. nth_draw pcg_setseq_32_rxs_m_xs_32_random_r k s)
      = pcg_output_rxs_m_xs_32_32 \<circ> ?st"
    by (simp add: fun_eq_iff pcg_firmware_defs)
  ultimately show ?thesis by simp
qed

text \<open>
  C22. The firmware's 32-bit generator \<open>pcg32i\<close> (\<open>pcg_setseq_32_rxs_m_xs_32_random_r\<close>) has full
  period: whenever its increment is odd, \<open>2 ^ 32\<close> consecutive draws return every 32-bit number
  exactly once.
\<close>

theorem pcg32i_full_period:
  assumes "odd (sq_inc s)"
  shows "bij_betw (\<lambda>k. nth_draw pcg_setseq_32_rxs_m_xs_32_random_r k s) {..<2 ^ 32} UNIV"
  using assms by (rule pcg32i_draws_bij)

theorem pcg32i_full_period_witness:
  "bij_betw (\<lambda>k. nth_draw pcg_setseq_32_rxs_m_xs_32_random_r k \<lparr>sq_state = 0, sq_inc = 5\<rparr>)
     {..<2 ^ 32} UNIV"
  by (rule pcg32i_full_period) simp

text \<open>
  C25. The firmware's 16-bit generator (\<open>pcg_setseq_32_xsh_rs_16_random_r\<close>) is equidistributed:
  among \<open>2 ^ 32\<close> consecutive draws every 16-bit number is returned exactly \<open>2 ^ 16\<close> times.
\<close>

theorem pcg16_equidistributed:
  assumes "odd (sq_inc s)"
  shows "card {k. k < 2 ^ 32 \<and> nth_draw pcg_setseq_32_xsh_rs_16_random_r k s = v} = 2 ^ 16"
proof -
  let ?st = "\<lambda>k. sq_state (((\<lambda>s. snd (pcg_setseq_32_xsh_rs_16_random_r s)) ^^ k) s)"
  have "bij_betw ?st {..<2 ^ LENGTH(32)} UNIV"
    using full_period_32 assms by (rule setseq_states) (simp_all add: pcg_firmware_defs)
  then have "card {k. k < 2 ^ LENGTH(32) \<and> nth_draw pcg_setseq_32_xsh_rs_16_random_r k s = v}
      = card {x. pcg_output_xsh_rs_32_16 x = v}"
    by (rule card_draws) (simp add: pcg_firmware_defs)
  then show ?thesis by (simp add: card_xsh_rs_32_16)
qed

theorem pcg16_equidistributed_witness:
  "card {k. k < 2 ^ 32 \<and>
     nth_draw pcg_setseq_32_xsh_rs_16_random_r k \<lparr>sq_state = 0, sq_inc = 5\<rparr> = 7} = 2 ^ 16"
  by (rule pcg16_equidistributed) simp

section \<open>Bounded draws\<close>

lemma residue_class:
  fixes b k N :: nat
  assumes "k < b"
  defines "I \<equiv> if N mod b \<le> k then {0..<N div b} else {1..<Suc (N div b)}"
  shows "{n. N mod b \<le> n \<and> n < N \<and> n mod b = k} = (\<lambda>i. k + i * b) ` I"
proof (intro subset_antisym subsetI)
  have N: "N = N div b * b + N mod b" by simp
  {
    fix n assume "n \<in> {n. N mod b \<le> n \<and> n < N \<and> n mod b = k}"
    then have n: "N mod b \<le> n" "n < N" "n = k + (n div b) * b"
      using mod_mult_div_eq [of n b] by (simp_all add: mult.commute)
    have "n div b \<le> N div b" using n(2) by (simp add: div_le_mono)
    moreover have "n div b \<noteq> N div b" if "N mod b \<le> k"
    proof
      assume "n div b = N div b"
      then have "n = k + N div b * b" using n(3) by simp
      with that n(2) N show False by linarith
    qed
    moreover have "n div b \<noteq> 0" if "\<not> N mod b \<le> k"
    proof
      assume "n div b = 0"
      then have "n = k" using n(3) by simp
      with n(1) that show False by simp
    qed
    ultimately have "if N mod b \<le> k then n div b < N div b else 1 \<le> n div b \<and> n div b < Suc (N div b)"
      by (metis One_nat_def Suc_leI le_imp_less_Suc nat_less_le neq0_conv)
    then have "n div b \<in> I"
      by (simp only: I_def atLeastLessThan_iff zero_le simp_thms split: if_splits)
    with n(3) show "n \<in> (\<lambda>i. k + i * b) ` I" by blast
  next
    fix n assume "n \<in> (\<lambda>i. k + i * b) ` I"
    then obtain i where n: "n = k + i * b" and i: "i \<in> I" by blast
    have "N mod b \<le> n \<and> n < N"
    proof (cases "N mod b \<le> k")
      case True
      with i have "Suc i * b \<le> N div b * b" unfolding I_def by (intro mult_le_mono1) auto
      then have "b + i * b \<le> N div b * b" by simp
      with True n assms(1) N show ?thesis by linarith
    next
      case False
      with i have "1 \<le> i" "i \<le> N div b" by (auto simp: I_def)
      then have "1 * b \<le> i * b" "i * b \<le> N div b * b" by (intro mult_le_mono1; simp)+
      moreover have "N mod b < b" using assms(1) by simp
      ultimately show ?thesis using False n N by linarith
    qed
    with n assms(1) show "n \<in> {n. N mod b \<le> n \<and> n < N \<and> n mod b = k}" by simp
  }
qed

lemma card_residue_class:
  fixes b k N :: nat
  assumes "k < b"
  shows "card {n. N mod b \<le> n \<and> n < N \<and> n mod b = k} = N div b"
proof -
  have "inj (\<lambda>i. k + i * b)" using assms by (auto intro: injI)
  then show ?thesis
    unfolding residue_class [OF assms, of N] by (simp add: card_image inj_on_subset)
qed

lemma ex_unat: "n < 2 ^ LENGTH('a) \<Longrightarrow> \<exists>x :: 'a::len word. unat x = n"
  by (rule exI [of _ "of_nat n"]) (simp add: unat_of_nat take_bit_nat_eq_self)

text \<open>
  C26. The bounded draws of the four 32-bit generators \<open>pcg32\<close>, \<open>pcg32s\<close>, \<open>pcg32u\<close> and
  \<open>pcg32f\<close> return, for every bound but \<open>0\<close>, with a number below the bound, from every state
  that seeding can produce (an odd increment, an odd multiplicative state).
\<close>

theorem pcg32_boundedrand_returns:
  assumes "bound \<noteq> 0" "odd (sq_inc rng)" "odd (state rngf)"
  shows "(\<exists>r rng'. pcg_setseq_64_xsh_rr_32_boundedrand_r rng bound = Some (r, rng') \<and> r < bound)
    \<and> (\<exists>r rng'. pcg_oneseq_64_xsh_rr_32_boundedrand_r rngs bound = Some (r, rng') \<and> r < bound)
    \<and> (\<exists>r rng'. pcg_unique_64_xsh_rr_32_boundedrand_r addr rngs bound = Some (r, rng') \<and> r < bound)
    \<and> (\<exists>r rng'. pcg_mcg_64_xsh_rs_32_boundedrand_r rngf bound = Some (r, rng') \<and> r < bound)"
  using setseq_64_xsh_rr_32.bounded_returns [OF assms(2,1)]
    oneseq_64_xsh_rr_32.bounded_returns [OF TrueI assms(1), of rngs]
    unique_64_xsh_rr_32.bounded_returns [OF TrueI assms(1), of addr rngs]
    mcg_64_xsh_rs_32.bounded_returns [OF assms(3,1)]
  by (auto simp: pcg_setseq_64_xsh_rr_32_boundedrand_r_def pcg_oneseq_64_xsh_rr_32_boundedrand_r_def
      pcg_unique_64_xsh_rr_32_boundedrand_r_def pcg_mcg_64_xsh_rs_32_boundedrand_r_def)

theorem pcg32_boundedrand_returns_witness:
  "\<exists>r rng'. pcg_setseq_64_xsh_rr_32_boundedrand_r \<lparr>sq_state = 7, sq_inc = 9\<rparr> 10 = Some (r, rng')
     \<and> r < 10"
  using pcg32_boundedrand_returns [of 10 "\<lparr>sq_state = 7, sq_inc = 9\<rparr>" "\<lparr>state = 1\<rparr>"] by simp

section \<open>Jumping ahead\<close>

text \<open>
  What the header documents of \<open>pcg_advance_lcg_w\<close>, which the repository only declares: the
  state of the generator \<open>x \<mapsto> x * a + c\<close> after \<open>delta\<close> steps.
\<close>

definition advances :: "'w::len word advance_lcg \<Rightarrow> bool" where
  "advances adv \<longleftrightarrow> (\<forall>s delta a c. adv s delta a c = ((\<lambda>x. x * a + c) ^^ unat delta) s)"

lemma state_funpow: "(\<And>s. f s = s\<lparr>state := g (state s)\<rparr>) \<Longrightarrow> (f ^^ n) s = s\<lparr>state := (g ^^ n) (state s)\<rparr>"
  by (induction n) simp_all

lemma sq_state_funpow:
  assumes "\<And>s. sq_inc s = c \<Longrightarrow> f s = s\<lparr>sq_state := g (sq_state s)\<rparr>" "sq_inc s = c"
  shows "(f ^^ n) s = s\<lparr>sq_state := (g ^^ n) (sq_state s)\<rparr>"
  using assms by (induction n) simp_all

text \<open>
  C28. Advancing the four kinds of 64-bit generators by \<open>delta\<close> (\<open>pcg_*_64_advance_r\<close>) is
  stepping them \<open>delta\<close> times, for a \<open>pcg_advance_lcg_64\<close> that does what the header documents.
\<close>

theorem pcg64_advance_steps:
  assumes "advances adv"
  shows "pcg_oneseq_64_advance_r adv rng delta = (pcg_oneseq_64_step_r ^^ unat delta) rng
    \<and> pcg_mcg_64_advance_r adv rng delta = (pcg_mcg_64_step_r ^^ unat delta) rng
    \<and> pcg_unique_64_advance_r adv addr rng delta = (pcg_unique_64_step_r addr ^^ unat delta) rng
    \<and> pcg_setseq_64_advance_r adv srng delta = (pcg_setseq_64_step_r ^^ unat delta) srng"
proof (intro conjI)
  show "pcg_setseq_64_advance_r adv srng delta = (pcg_setseq_64_step_r ^^ unat delta) srng"
    using sq_state_funpow [of "sq_inc srng" pcg_setseq_64_step_r
        "\<lambda>x. x * PCG_DEFAULT_MULTIPLIER_64 + sq_inc srng" srng "unat delta"] assms
    by (simp add: pcg_setseq_64_advance_r_def pcg_setseq_64_step_r_def advances_def)
qed (use assms in \<open>simp_all add: pcg_oneseq_64_advance_r_def pcg_mcg_64_advance_r_def
      pcg_unique_64_advance_r_def advances_def
      state_funpow [OF pcg_oneseq_64_step_r_def] state_funpow [OF pcg_unique_64_step_r_def [of addr]]
      state_funpow [OF pcg_mcg_64_step_r_def]\<close>)

theorem pcg64_advance_steps_witness:
  "pcg_setseq_64_advance_r (\<lambda>s delta a c. ((\<lambda>x. x * a + c) ^^ unat delta) s) \<lparr>sq_state = 1, sq_inc = 3\<rparr> 2
     = (pcg_setseq_64_step_r ^^ unat (2 :: u64)) \<lparr>sq_state = 1, sq_inc = 3\<rparr>"
proof -
  have "advances (\<lambda>s delta a c. ((\<lambda>x. x * a + c) ^^ unat delta) s :: u64)"
    by (simp add: advances_def)
  from pcg64_advance_steps [OF this] show ?thesis by blast
qed

end
