(* ===== verification/Pcg_Aliases.thy ===== *)
theory Pcg_Aliases
  imports Pcg_Bounded
begin

text \<open>
  The short names under which \<open>src/pcg_variants.h\<close> offers its generators: a family is named by
  the bits that a draw returns and by how its states are told apart (\<open>s\<close> one stream, \<open>u\<close> unique
  streams, \<open>f\<close> a multiplicative generator, \<open>i\<close> an insecure generator whose output is as wide as
  its state).
\<close>

section \<open>States\<close>

type_synonym pcg32_random_t = pcg_state_setseq_64
type_synonym pcg32s_random_t = pcg_state_64
type_synonym pcg32u_random_t = pcg_state_64
type_synonym pcg32f_random_t = pcg_state_64
type_synonym pcg64_random_t = pcg_state_setseq_128
type_synonym pcg64s_random_t = pcg_state_128
type_synonym pcg64u_random_t = pcg_state_128
type_synonym pcg64f_random_t = pcg_state_128
type_synonym pcg8si_random_t = pcg_state_8
type_synonym pcg16si_random_t = pcg_state_16
type_synonym pcg32si_random_t = pcg_state_32
type_synonym pcg64si_random_t = pcg_state_64
type_synonym pcg128si_random_t = pcg_state_128
type_synonym pcg8i_random_t = pcg_state_setseq_8
type_synonym pcg16i_random_t = pcg_state_setseq_16
type_synonym pcg32i_random_t = pcg_state_setseq_32
type_synonym pcg64i_random_t = pcg_state_setseq_64
type_synonym pcg128i_random_t = pcg_state_setseq_128

section \<open>Drawing\<close>

abbreviation pcg32_random_r where
  "pcg32_random_r \<equiv> pcg_setseq_64_xsh_rr_32_random_r"
abbreviation pcg32s_random_r where
  "pcg32s_random_r \<equiv> pcg_oneseq_64_xsh_rr_32_random_r"
abbreviation pcg32u_random_r where
  "pcg32u_random_r \<equiv> pcg_unique_64_xsh_rr_32_random_r"
abbreviation pcg32f_random_r where
  "pcg32f_random_r \<equiv> pcg_mcg_64_xsh_rs_32_random_r"
abbreviation pcg64_random_r where
  "pcg64_random_r \<equiv> pcg_setseq_128_xsl_rr_64_random_r"
abbreviation pcg64s_random_r where
  "pcg64s_random_r \<equiv> pcg_oneseq_128_xsl_rr_64_random_r"
abbreviation pcg64u_random_r where
  "pcg64u_random_r \<equiv> pcg_unique_128_xsl_rr_64_random_r"
abbreviation pcg64f_random_r where
  "pcg64f_random_r \<equiv> pcg_mcg_128_xsl_rr_64_random_r"
abbreviation pcg8si_random_r where
  "pcg8si_random_r \<equiv> pcg_oneseq_8_rxs_m_xs_8_random_r"
abbreviation pcg16si_random_r where
  "pcg16si_random_r \<equiv> pcg_oneseq_16_rxs_m_xs_16_random_r"
abbreviation pcg32si_random_r where
  "pcg32si_random_r \<equiv> pcg_oneseq_32_rxs_m_xs_32_random_r"
abbreviation pcg64si_random_r where
  "pcg64si_random_r \<equiv> pcg_oneseq_64_rxs_m_xs_64_random_r"
abbreviation pcg128si_random_r where
  "pcg128si_random_r \<equiv> pcg_oneseq_128_rxs_m_xs_128_random_r"
abbreviation pcg8i_random_r where
  "pcg8i_random_r \<equiv> pcg_setseq_8_rxs_m_xs_8_random_r"
abbreviation pcg16i_random_r where
  "pcg16i_random_r \<equiv> pcg_setseq_16_rxs_m_xs_16_random_r"
abbreviation pcg32i_random_r where
  "pcg32i_random_r \<equiv> pcg_setseq_32_rxs_m_xs_32_random_r"
abbreviation pcg64i_random_r where
  "pcg64i_random_r \<equiv> pcg_setseq_64_rxs_m_xs_64_random_r"
abbreviation pcg128i_random_r where
  "pcg128i_random_r \<equiv> pcg_setseq_128_rxs_m_xs_128_random_r"

section \<open>Drawing below a bound\<close>

abbreviation pcg32_boundedrand_r where
  "pcg32_boundedrand_r \<equiv> pcg_setseq_64_xsh_rr_32_boundedrand_r"
abbreviation pcg32s_boundedrand_r where
  "pcg32s_boundedrand_r \<equiv> pcg_oneseq_64_xsh_rr_32_boundedrand_r"
abbreviation pcg32u_boundedrand_r where
  "pcg32u_boundedrand_r \<equiv> pcg_unique_64_xsh_rr_32_boundedrand_r"
abbreviation pcg32f_boundedrand_r where
  "pcg32f_boundedrand_r \<equiv> pcg_mcg_64_xsh_rs_32_boundedrand_r"
abbreviation pcg64_boundedrand_r where
  "pcg64_boundedrand_r \<equiv> pcg_setseq_128_xsl_rr_64_boundedrand_r"
abbreviation pcg64s_boundedrand_r where
  "pcg64s_boundedrand_r \<equiv> pcg_oneseq_128_xsl_rr_64_boundedrand_r"
abbreviation pcg64u_boundedrand_r where
  "pcg64u_boundedrand_r \<equiv> pcg_unique_128_xsl_rr_64_boundedrand_r"
abbreviation pcg64f_boundedrand_r where
  "pcg64f_boundedrand_r \<equiv> pcg_mcg_128_xsl_rr_64_boundedrand_r"
abbreviation pcg8si_boundedrand_r where
  "pcg8si_boundedrand_r \<equiv> pcg_oneseq_8_rxs_m_xs_8_boundedrand_r"
abbreviation pcg16si_boundedrand_r where
  "pcg16si_boundedrand_r \<equiv> pcg_oneseq_16_rxs_m_xs_16_boundedrand_r"
abbreviation pcg32si_boundedrand_r where
  "pcg32si_boundedrand_r \<equiv> pcg_oneseq_32_rxs_m_xs_32_boundedrand_r"
abbreviation pcg64si_boundedrand_r where
  "pcg64si_boundedrand_r \<equiv> pcg_oneseq_64_rxs_m_xs_64_boundedrand_r"
abbreviation pcg128si_boundedrand_r where
  "pcg128si_boundedrand_r \<equiv> pcg_oneseq_128_rxs_m_xs_128_boundedrand_r"
abbreviation pcg8i_boundedrand_r where
  "pcg8i_boundedrand_r \<equiv> pcg_setseq_8_rxs_m_xs_8_boundedrand_r"
abbreviation pcg16i_boundedrand_r where
  "pcg16i_boundedrand_r \<equiv> pcg_setseq_16_rxs_m_xs_16_boundedrand_r"
abbreviation pcg32i_boundedrand_r where
  "pcg32i_boundedrand_r \<equiv> pcg_setseq_32_rxs_m_xs_32_boundedrand_r"
abbreviation pcg64i_boundedrand_r where
  "pcg64i_boundedrand_r \<equiv> pcg_setseq_64_rxs_m_xs_64_boundedrand_r"

section \<open>Seeding\<close>

abbreviation pcg32_srandom_r where
  "pcg32_srandom_r \<equiv> pcg_setseq_64_srandom_r"
abbreviation pcg32s_srandom_r where
  "pcg32s_srandom_r \<equiv> pcg_oneseq_64_srandom_r"
abbreviation pcg32u_srandom_r where
  "pcg32u_srandom_r \<equiv> pcg_unique_64_srandom_r"
abbreviation pcg32f_srandom_r where
  "pcg32f_srandom_r \<equiv> pcg_mcg_64_srandom_r"
abbreviation pcg64_srandom_r where
  "pcg64_srandom_r \<equiv> pcg_setseq_128_srandom_r"
abbreviation pcg64s_srandom_r where
  "pcg64s_srandom_r \<equiv> pcg_oneseq_128_srandom_r"
abbreviation pcg64u_srandom_r where
  "pcg64u_srandom_r \<equiv> pcg_unique_128_srandom_r"
abbreviation pcg64f_srandom_r where
  "pcg64f_srandom_r \<equiv> pcg_mcg_128_srandom_r"
abbreviation pcg8si_srandom_r where
  "pcg8si_srandom_r \<equiv> pcg_oneseq_8_srandom_r"
abbreviation pcg16si_srandom_r where
  "pcg16si_srandom_r \<equiv> pcg_oneseq_16_srandom_r"
abbreviation pcg32si_srandom_r where
  "pcg32si_srandom_r \<equiv> pcg_oneseq_32_srandom_r"
abbreviation pcg64si_srandom_r where
  "pcg64si_srandom_r \<equiv> pcg_oneseq_64_srandom_r"
abbreviation pcg128si_srandom_r where
  "pcg128si_srandom_r \<equiv> pcg_oneseq_128_srandom_r"
abbreviation pcg8i_srandom_r where
  "pcg8i_srandom_r \<equiv> pcg_setseq_8_srandom_r"
abbreviation pcg16i_srandom_r where
  "pcg16i_srandom_r \<equiv> pcg_setseq_16_srandom_r"
abbreviation pcg32i_srandom_r where
  "pcg32i_srandom_r \<equiv> pcg_setseq_32_srandom_r"
abbreviation pcg64i_srandom_r where
  "pcg64i_srandom_r \<equiv> pcg_setseq_64_srandom_r"

section \<open>Advancing\<close>

abbreviation pcg32_advance_r where
  "pcg32_advance_r \<equiv> pcg_setseq_64_advance_r"
abbreviation pcg32s_advance_r where
  "pcg32s_advance_r \<equiv> pcg_oneseq_64_advance_r"
abbreviation pcg32u_advance_r where
  "pcg32u_advance_r \<equiv> pcg_unique_64_advance_r"
abbreviation pcg32f_advance_r where
  "pcg32f_advance_r \<equiv> pcg_mcg_64_advance_r"
abbreviation pcg64_advance_r where
  "pcg64_advance_r \<equiv> pcg_setseq_128_advance_r"
abbreviation pcg64s_advance_r where
  "pcg64s_advance_r \<equiv> pcg_oneseq_128_advance_r"
abbreviation pcg64u_advance_r where
  "pcg64u_advance_r \<equiv> pcg_unique_128_advance_r"
abbreviation pcg64f_advance_r where
  "pcg64f_advance_r \<equiv> pcg_mcg_128_advance_r"
abbreviation pcg8si_advance_r where
  "pcg8si_advance_r \<equiv> pcg_oneseq_8_advance_r"
abbreviation pcg16si_advance_r where
  "pcg16si_advance_r \<equiv> pcg_oneseq_16_advance_r"
abbreviation pcg32si_advance_r where
  "pcg32si_advance_r \<equiv> pcg_oneseq_32_advance_r"
abbreviation pcg64si_advance_r where
  "pcg64si_advance_r \<equiv> pcg_oneseq_64_advance_r"
abbreviation pcg128si_advance_r where
  "pcg128si_advance_r \<equiv> pcg_oneseq_128_advance_r"
abbreviation pcg8i_advance_r where
  "pcg8i_advance_r \<equiv> pcg_setseq_8_advance_r"
abbreviation pcg16i_advance_r where
  "pcg16i_advance_r \<equiv> pcg_setseq_16_advance_r"
abbreviation pcg32i_advance_r where
  "pcg32i_advance_r \<equiv> pcg_setseq_32_advance_r"
abbreviation pcg64i_advance_r where
  "pcg64i_advance_r \<equiv> pcg_setseq_64_advance_r"

end
