(* ===== verification/Prng.thy ===== *)
theory Prng
  imports SysTick Inline Chaskey Pcg_Period Pcg_Aliases
begin

text \<open>
  The two pseudo-random generators of \<open>src/prng.c\<close>: a Chaskey-8 generator in counter mode
  over the system counter, with a key that is stirred by injected entropy, and a PCG.

  The record \<open>prng\<close> holds the static variables of the file.  An operation that polls the
  true random number generator returns \<open>None\<close> when the poll never ends.
\<close>

record prng =
  kPrngKey :: "u32 list"
  kInject :: u32
  kInCount :: u32
  pcg32 :: pcg32i_random_t

text \<open>The second loop of \<open>CSPrngInit\<close>, over the list of the values that \<open>round\<close> takes.\<close>

fun CSPrngInit_rounds :: "board \<Rightarrow> nat list \<Rightarrow> u32 list \<Rightarrow> hw \<Rightarrow> (u32 list \<times> hw) option" where
  "CSPrngInit_rounds b [] key h = Some (key, h)"
| "CSPrngInit_rounds b (round # rounds) key h = do {
     (trng, h) \<leftarrow> draws (\<lambda>h. do {
       (r, h) \<leftarrow> RandomUInt32 b h;
       Some (rotlu32 r (of_nat (round * 2)), h)
     }) 4 h;
     CSPrngInit_rounds b rounds (chaskey8 key trng) h
   }"

definition CSPrngInit :: "board \<Rightarrow> prng \<Rightarrow> hw \<Rightarrow> (prng \<times> hw) option" where
  "CSPrngInit b p h = do {
     (key, h) \<leftarrow> draws (RandomUInt32 b) 4 h;
     (key, h) \<leftarrow> CSPrngInit_rounds b [0..<16] key h;
     Some (p\<lparr>kPrngKey := key, kInject := 0, kInCount := 0\<rparr>, h)
   }"

definition CSPrngUInt64 :: "board \<Rightarrow> prng \<Rightarrow> hw \<Rightarrow> u64 \<times> hw" where
  "CSPrngUInt64 b p h =
     (let (hilo, h) = SysTickCnt64 b h;
          hi = ucast (drop_bit 32 hilo);
          lo = ucast hilo
      in (chaskey8_64x64 lo hi (kPrngKey p), h))"

text \<open>The result is the 64-bit return value and the two words stored through \<open>dst\<close>.\<close>

definition CSPrngUInt64x2 :: "board \<Rightarrow> prng \<Rightarrow> hw \<Rightarrow> (u64 \<times> u32 list) \<times> hw" where
  "CSPrngUInt64x2 b p h =
     (let (hilo, h) = SysTickCnt64 b h;
          hi = ucast (drop_bit 32 hilo);
          lo = ucast hilo
      in (chaskey8_64x128 lo hi (kPrngKey p), h))"

definition PcgInit :: "board \<Rightarrow> prng \<Rightarrow> hw \<Rightarrow> prng \<times> hw" where
  "PcgInit b p h =
     (let (hilo, h) = CSPrngUInt64 b p h
      in (p\<lparr>pcg32 := pcg32i_srandom_r (pcg32 p) (ucast (drop_bit 32 hilo)) (ucast hilo)\<rparr>, h))"

definition PrngInit :: "board \<Rightarrow> prng \<Rightarrow> hw \<Rightarrow> (prng \<times> hw) option" where
  "PrngInit b p h = do {
     (p, h) \<leftarrow> CSPrngInit b p h;
     Some (PcgInit b p h)
   }"

definition CSPrngInjectLowbits :: "u32 \<Rightarrow> prng \<Rightarrow> prng" where
  "CSPrngInjectLowbits inp p =
     (let count = kInCount p + 1;
          shift = count AND 31;
          ndx = unat (drop_bit 5 count AND 3);
          p = p\<lparr>kInCount := count\<rparr>;
          p = (if shift = 0 then p\<lparr>kPrngKey := (kPrngKey p)[ndx := kPrngKey p ! ndx XOR kInject p]\<rparr> else p)
      in p\<lparr>kInject := kInject p XOR push_bit (unat shift) inp\<rparr>)"

definition CSPrngInjectRandom :: "board \<Rightarrow> prng \<Rightarrow> hw \<Rightarrow> (prng \<times> hw) option" where
  "CSPrngInjectRandom b p h =
     (let count = kInCount p + 32;
          ndx = unat (drop_bit 5 count AND 3);
          p = p\<lparr>kInCount := count\<rparr>
      in do {
        (r, h) \<leftarrow> RandomUInt32 b h;
        Some (p\<lparr>kPrngKey := (kPrngKey p)[ndx := kPrngKey p ! ndx XOR r]\<rparr>, h)
      })"

definition PcgUInt16 :: "prng \<Rightarrow> u16 \<times> prng" where
  "PcgUInt16 p =
     (let (r, rng) = pcg_setseq_32_xsh_rs_16_random_r (pcg32 p) in (r, p\<lparr>pcg32 := rng\<rparr>))"

definition PcgUInt32 :: "prng \<Rightarrow> u32 \<times> prng" where
  "PcgUInt32 p =
     (let (r, rng) = pcg32i_random_r (pcg32 p) in (r, p\<lparr>pcg32 := rng\<rparr>))"

section \<open>The invariant\<close>

text \<open>
  The key keeps its four words, which every index computed from \<open>kInCount\<close> falls into, and the
  increment of the PCG is odd, which its period depends on.
\<close>

definition prng_inv :: "prng \<Rightarrow> bool" where
  "prng_inv p \<longleftrightarrow> length (kPrngKey p) = 4 \<and> odd (sq_inc (pcg32 p))"

lemma and_3_less [simp]: "unat (x AND 3 :: u32) < 4"
proof -
  have "x AND 3 = take_bit 2 x" by (simp add: take_bit_eq_mask mask_eq_exp_minus_1)
  then show ?thesis using take_bit_nat_less_exp [of 2 "unat x"] by (simp add: unsigned_take_bit_eq)
qed

lemma prng_inv_InjectLowbits: "prng_inv p \<Longrightarrow> prng_inv (CSPrngInjectLowbits inp p)"
  by (simp add: prng_inv_def CSPrngInjectLowbits_def Let_def)

lemma prng_inv_InjectRandom: "prng_inv p \<Longrightarrow> CSPrngInjectRandom b p h = Some (p', h') \<Longrightarrow> prng_inv p'"
  by (auto simp: prng_inv_def CSPrngInjectRandom_def Let_def Option.bind_eq_Some_conv)

lemma sq_inc_step [simp]: "sq_inc (pcg_setseq_32_step_r rng) = sq_inc rng"
  by (simp add: pcg_setseq_32_step_r_def)

lemma prng_inv_PcgUInt16: "prng_inv p \<Longrightarrow> prng_inv (snd (PcgUInt16 p))"
  by (simp add: prng_inv_def PcgUInt16_def pcg_setseq_32_xsh_rs_16_random_r_def Let_def)

lemma prng_inv_PcgUInt32: "prng_inv p \<Longrightarrow> prng_inv (snd (PcgUInt32 p))"
  by (simp add: prng_inv_def PcgUInt32_def pcg_setseq_32_rxs_m_xs_32_random_r_def Let_def)

lemma srandom_odd: "odd (sq_inc (pcg_setseq_32_srandom_r rng s i))"
  by (simp add: pcg_setseq_32_srandom_r_def Let_def odd_or_1)

lemma SysTickCnt64_clock: "snd (SysTickCnt64 b h) = (tick ^^ 3) h"
  by (simp add: SysTickCnt64_def Let_def eval_nat_numeral)

lemma SysTickCnt64_live: "trng_live b h \<Longrightarrow> trng_live b (snd (SysTickCnt64 b h))"
  by (simp only: SysTickCnt64_clock trng_live_pow)

lemma PcgInit_clock: "snd (PcgInit b p h) = snd (SysTickCnt64 b h)"
  by (simp add: PcgInit_def CSPrngUInt64_def Let_def split: prod.splits)

lemma PcgInit_other: "kPrngKey (fst (PcgInit b p h)) = kPrngKey p"
  "kInject (fst (PcgInit b p h)) = kInject p" "kInCount (fst (PcgInit b p h)) = kInCount p"
  by (simp_all add: PcgInit_def Let_def split: prod.splits)

lemma PcgInit_odd: "odd (sq_inc (pcg32 (fst (PcgInit b p h))))"
  by (simp add: PcgInit_def Let_def srandom_odd split: prod.splits)

section \<open>Seeding\<close>

lemma draws_append:
  "draws f (m + n) s = do { (xs, s) \<leftarrow> draws f m s; (ys, s) \<leftarrow> draws f n s; Some (xs @ ys, s) }"
  by (induction m arbitrary: s) (simp_all add: bind_assoc case_prod_beta' Option.bind_assoc cong: Option.bind_cong)

lemma draws_map:
  "draws (\<lambda>s. do { (x, s) \<leftarrow> f s; Some (g x, s) }) n s
     = do { (xs, s) \<leftarrow> draws f n s; Some (map g xs, s) }"
  by (induction n arbitrary: s) (simp_all add: case_prod_beta' Option.bind_assoc cong: Option.bind_cong)

text \<open>
  The blocks that the rounds encrypt the key with: four words each, round \<open>i\<close> rotating its
  words by \<open>2 * i\<close>.
\<close>

fun stretch :: "nat list \<Rightarrow> u32 list \<Rightarrow> u32 list list" where
  "stretch [] rs = []"
| "stretch (round # rounds) rs =
     map (\<lambda>r. rotlu32 r (of_nat (round * 2))) (take 4 rs) # stretch rounds (drop 4 rs)"

lemma draws_None: "draws f m s = None \<Longrightarrow> draws f (m + n) s = None"
  by (simp add: draws_append)

lemma draws_after:
  "draws f m s = Some (xs, s1) \<Longrightarrow>
   draws f (m + n) s = map_option (\<lambda>(ys, s2). (xs @ ys, s2)) (draws f n s1)"
  by (cases "draws f n s1") (auto simp: draws_append)

lemma CSPrngInit_rounds_eq:
  "CSPrngInit_rounds b rounds key h = do {
     (rs, h) \<leftarrow> draws (RandomUInt32 b) (4 * length rounds) h;
     Some (foldl chaskey8 key (stretch rounds rs), h)
   }"
proof (induction rounds arbitrary: key h)
  case (Cons round rounds)
  show ?case
  proof (cases "draws (RandomUInt32 b) 4 h")
    case None
    then show ?thesis
      using draws_None [of "RandomUInt32 b" 4 h "4 * length rounds"] by (simp add: draws_map)
  next
    case (Some xh)
    then obtain xs h1 where *: "draws (RandomUInt32 b) 4 h = Some (xs, h1)" by (cases xh) auto
    then have "length xs = 4" by (rule length_draws)
    with * show ?thesis
      using draws_after [OF *, of "4 * length rounds"]
      by (cases "draws (RandomUInt32 b) (4 * length rounds) h1") (auto simp: draws_map Cons.IH)
  qed
qed simp

lemma CSPrngInit_eq:
  "CSPrngInit b p h = do {
     (rs, h) \<leftarrow> draws (RandomUInt32 b) 68 h;
     Some (p\<lparr>kPrngKey := foldl chaskey8 (take 4 rs) (stretch [0..<16] (drop 4 rs)),
             kInject := 0, kInCount := 0\<rparr>, h)
   }"
proof (cases "draws (RandomUInt32 b) 4 h")
  case None
  then show ?thesis
    using draws_None [of "RandomUInt32 b" 4 h 64] by (simp add: CSPrngInit_def)
next
  case (Some xh)
  then obtain xs h1 where *: "draws (RandomUInt32 b) 4 h = Some (xs, h1)" by (cases xh) auto
  then have "length xs = 4" by (rule length_draws)
  with * show ?thesis
    using draws_after [OF *, of 64]
    by (cases "draws (RandomUInt32 b) 64 h1")
      (auto simp: CSPrngInit_def CSPrngInit_rounds_eq simp del: upt_rec_numeral)
qed

text \<open>
  \<open>CSPrngInit\<close> draws 68 numbers: the first four are the initial key, and the key is then
  encrypted in turn with the sixteen blocks of the following ones, each rotated by twice its
  round; \<open>kInject\<close> and \<open>kInCount\<close> are cleared.
\<close>

lemmas CSPrngInit_key = CSPrngInit_eq

lemma PrngInit_returns:
  assumes "trng_live b h"
  shows "\<exists>p' h'. PrngInit b p h = Some (p', h') \<and> prng_inv p' \<and> kInject p' = 0 \<and> kInCount p' = 0
    \<and> trng_live b h'"
proof -
  obtain rs h1 where rs: "draws (RandomUInt32 b) 68 h = Some (rs, h1)" "length rs = 68"
    and h1: "trng_live b h1"
    using trng.draws_return [OF assms, of 68] by blast
  let ?key = "foldl chaskey8 (take 4 rs) (stretch [0..<16] (drop 4 rs))"
  let ?p = "p\<lparr>kPrngKey := ?key, kInject := 0, kInCount := 0\<rparr>"
  have "CSPrngInit b p h = Some (?p, h1)"
    using rs by (simp add: CSPrngInit_eq del: upt_rec_numeral)
  then have "PrngInit b p h = Some (fst (PcgInit b ?p h1), snd (PcgInit b ?p h1))"
    by (simp add: PrngInit_def)
  moreover have "prng_inv (fst (PcgInit b ?p h1))"
    unfolding prng_inv_def
    by (intro conjI PcgInit_odd) (simp add: PcgInit_other chaskey.length_foldl_enc rs(2))
  moreover have "trng_live b (snd (PcgInit b ?p h1))"
    unfolding PcgInit_clock using h1 by (rule SysTickCnt64_live)
  ultimately show ?thesis by (intro exI conjI) (assumption | simp add: PcgInit_other)+
qed

text \<open>
  C30. Once the random number generator is on and keeps delivering, \<open>PrngInit\<close> returns, and it
  establishes the invariant of the generators.
\<close>

theorem PrngInit_establishes:
  assumes "trng_live b h"
  shows "\<exists>p' h'. PrngInit b p h = Some (p', h') \<and> prng_inv p' \<and> kInject p' = 0 \<and> kInCount p' = 0
    \<and> trng_live b h'"
  using assms by (rule PrngInit_returns)

definition ready_board :: board where
  "ready_board = \<lparr>RNG_DRDY = \<lambda>h. odd (clk h), RNG_DATA = \<lambda>h. of_nat (clk h), SysTick_CNT = \<lambda>h. of_nat (clk h)\<rparr>"

lemma ready_board_live: "trng_live ready_board \<lparr>clk = 0, ahb_rng = True, rng_en = True\<rparr>"
proof -
  have "\<exists>m\<ge>n. odd m" for n :: nat by (rule exI [of _ "2 * n + 1"]) simp
  then show ?thesis by (simp add: trng_live_def ready_board_def)
qed

theorem PrngInit_establishes_witness:
  "\<forall>p. \<exists>p' h'. PrngInit ready_board p \<lparr>clk = 0, ahb_rng = True, rng_en = True\<rparr> = Some (p', h') \<and> prng_inv p'"
  using PrngInit_establishes [OF ready_board_live] by blast

section \<open>Stirring in entropy\<close>

lemma list_update_xor_inject:
  assumes "xs[i := xs ! i XOR k] = ys[i := ys ! i XOR (k :: 'a::len word)]" "length xs = length ys"
  shows "xs = ys"
proof (rule nth_equalityI [OF assms(2)])
  fix j assume "j < length xs"
  then show "xs ! j = ys ! j"
    using arg_cong [OF assms(1), of "\<lambda>zs. zs ! j"] assms(2) by (cases "i = j") auto
qed

lemma list_update_xor_inject_key:
  assumes "xs[i := xs ! i XOR k] = xs[i := xs ! i XOR (l :: 'a::len word)]" "i < length xs"
  shows "k = l"
  using arg_cong [OF assms(1), of "\<lambda>zs. zs ! i"] assms(2) by simp

lemma InjectLowbits_fields:
  "kInCount (CSPrngInjectLowbits inp p) = kInCount p + 1"
  "kInject (CSPrngInjectLowbits inp p) =
     kInject p XOR push_bit (unat ((kInCount p + 1) AND 31)) inp"
  "kPrngKey (CSPrngInjectLowbits inp p) =
     (if (kInCount p + 1) AND 31 = 0
      then (let ndx = unat (drop_bit 5 (kInCount p + 1) AND 3)
            in (kPrngKey p)[ndx := kPrngKey p ! ndx XOR kInject p])
      else kPrngKey p)"
  "pcg32 (CSPrngInjectLowbits inp p) = pcg32 p"
  by (simp_all add: CSPrngInjectLowbits_def Let_def)

text \<open>
  Stirring in the low bits of an event loses nothing: for every input,
  \<open>CSPrngInjectLowbits\<close> maps different states to different states.
\<close>

lemma InjectLowbits_inj:
  "inj_on (CSPrngInjectLowbits inp) {p. prng_inv p}"
proof (rule inj_onI)
  fix p q :: prng
  assume inv: "p \<in> {p. prng_inv p}" "q \<in> {p. prng_inv p}"
    and eq: "CSPrngInjectLowbits inp p = CSPrngInjectLowbits inp q"
  have count: "kInCount p = kInCount q"
    using arg_cong [OF eq, of kInCount] by (simp add: InjectLowbits_fields)
  have inject: "kInject p = kInject q"
    using arg_cong [OF eq, of kInject] by (simp add: InjectLowbits_fields count)
  have "kPrngKey p = kPrngKey q"
    using arg_cong [OF eq, of kPrngKey] inv
    by (auto simp: InjectLowbits_fields count inject prng_inv_def Let_def
        split: if_splits dest!: list_update_xor_inject)
  with count inject show "p = q"
    using arg_cong [OF eq, of pcg32] by (simp add: InjectLowbits_fields)
qed

text \<open>
  What an event contributes: two inputs leave the same state exactly when they agree on
  the low bits that the shift by the event's number modulo 32 leaves.
\<close>

lemma InjectLowbits_bits:
  "CSPrngInjectLowbits inp p = CSPrngInjectLowbits inp' p \<longleftrightarrow>
     take_bit (32 - unat ((kInCount p + 1) AND 31)) inp
       = take_bit (32 - unat ((kInCount p + 1) AND 31)) inp'"
proof -
  let ?s = "unat ((kInCount p + 1) AND 31)"
  have "(kInCount p + 1) AND 31 = take_bit 5 (kInCount p + 1)"
    by (simp add: take_bit_eq_mask mask_eq_exp_minus_1)
  then have s: "?s < 32"
    using take_bit_nat_less_exp [of 5 "unat (kInCount p + 1)"] by (simp add: unsigned_take_bit_eq)
  have "CSPrngInjectLowbits inp p = CSPrngInjectLowbits inp' p
      \<longleftrightarrow> push_bit ?s inp = push_bit ?s inp'"
    by (auto simp: CSPrngInjectLowbits_def Let_def dest!: arg_cong [of _ _ kInject])
  also have "\<dots> \<longleftrightarrow> take_bit (32 - ?s) inp = take_bit (32 - ?s) inp'"
  proof
    assume *: "push_bit ?s inp = push_bit ?s inp'"
    show "take_bit (32 - ?s) inp = take_bit (32 - ?s) inp'"
    proof (rule bit_word_eqI)
      fix n :: nat assume "n < LENGTH(32)"
      have "bit (push_bit ?s inp) (n + ?s) = bit (push_bit ?s inp') (n + ?s)" using * by simp
      then show "bit (take_bit (32 - ?s) inp) n = bit (take_bit (32 - ?s) inp') n"
        using s by (auto simp: bit_simps)
    qed
  next
    assume *: "take_bit (32 - ?s) inp = take_bit (32 - ?s) inp'"
    show "push_bit ?s inp = push_bit ?s inp'"
    proof (rule bit_word_eqI)
      fix n :: nat assume "n < LENGTH(32)"
      have "bit (take_bit (32 - ?s) inp) (n - ?s) = bit (take_bit (32 - ?s) inp') (n - ?s)"
        using * by simp
      then show "bit (push_bit ?s inp) n = bit (push_bit ?s inp') n"
        using s \<open>n < LENGTH(32)\<close> by (auto simp: bit_simps)
    qed
  qed
  finally show ?thesis .
qed

text \<open>
  C40. Stirring in an event (\<open>CSPrngInjectLowbits\<close>) loses nothing of what was stirred in before:
  for every input different states become different states.  Of the event itself it takes the low
  bits that the shift by the event's number modulo 32 leaves: two inputs make the same state
  exactly when they agree on these.
\<close>

theorem InjectLowbits_lossless:
  "inj_on (CSPrngInjectLowbits inp) {p. prng_inv p}
   \<and> (CSPrngInjectLowbits inp p = CSPrngInjectLowbits inp' p \<longleftrightarrow>
        take_bit (32 - unat ((kInCount p + 1) AND 31)) inp
          = take_bit (32 - unat ((kInCount p + 1) AND 31)) inp')"
  using InjectLowbits_inj InjectLowbits_bits by blast

text \<open>The word of the key that a count selects.\<close>

lemma key_index: "unat (drop_bit 5 x AND 3 :: u32) = unat x mod 128 div 32"
proof -
  have "drop_bit 5 x AND 3 = take_bit 2 (drop_bit 5 x)"
    by (simp add: take_bit_eq_mask mask_eq_exp_minus_1)
  also have "\<dots> = drop_bit 5 (take_bit 7 x)"
    by (rule bit_eqI) (auto simp only: bit_drop_bit_eq bit_take_bit_iff comp_apply)
  finally have "unat (drop_bit 5 x AND 3) = drop_bit 5 (take_bit 7 (unat x))"
    by (simp only: unat_drop_bit_eq unsigned_take_bit_eq)
  also have "\<dots> = unat x mod 2 ^ 7 div 2 ^ 5" by (simp only: take_bit_eq_mod drop_bit_eq_div)
  finally show ?thesis by simp
qed

lemma key_index_next: "unat (c + 32 :: u32) mod 128 div 32 = (unat c mod 128 div 32 + 1) mod 4"
proof -
  have "unat (c + 32) mod 128 = (unat c + 32) mod 2 ^ 32 mod 128"
    by (simp add: unat_word_ariths)
  also have "\<dots> = (unat c + 32) mod 128" by (rule mod_mod_cancel) simp
  finally have "unat (c + 32) mod 128 = (unat c + 32) mod 128" .
  moreover have eq: "x mod 128 div 32 = x div 32 mod 4" for x :: nat
    using mod_mult2_eq [of x 32 4] by simp
  moreover have "(unat c + 32) div 32 mod 4 = (unat c div 32 mod 4 + 1) mod 4"
    by (subst div_add_self2) (simp_all add: mod_Suc_eq)
  ultimately show ?thesis by (simp only:)
qed

lemma InjectRandom_eq:
  "CSPrngInjectRandom b p h = do {
     (r, h) \<leftarrow> RandomUInt32 b h;
     Some (p\<lparr>kInCount := kInCount p + 32, kPrngKey :=
       (let i = (unat (kInCount p) mod 128 div 32 + 1) mod 4 in (kPrngKey p)[i := kPrngKey p ! i XOR r])\<rparr>, h)
   }"
  by (simp add: CSPrngInjectRandom_def Let_def key_index key_index_next)

text \<open>
  Four calls of \<open>CSPrngInjectRandom\<close> in a row return once the random number generator
  delivers four numbers, and change each word of the key once, by an exclusive or with one of
  them, starting behind the word that \<open>kInCount\<close> selects.
\<close>

lemma InjectRandom_four:
  assumes "prng_inv p"
  shows "do {
      (p, h) \<leftarrow> CSPrngInjectRandom b p h;
      (p, h) \<leftarrow> CSPrngInjectRandom b p h;
      (p, h) \<leftarrow> CSPrngInjectRandom b p h;
      CSPrngInjectRandom b p h
    } = do {
      (r, h) \<leftarrow> draws (RandomUInt32 b) 4 h;
      Some (p\<lparr>kInCount := kInCount p + 128, kPrngKey :=
        map (\<lambda>i. kPrngKey p ! i XOR r ! ((i + 3 - unat (kInCount p) mod 128 div 32) mod 4)) [0..<4]\<rparr>, h)
    }"
proof -
  obtain k0 k1 k2 k3 where key: "kPrngKey p = [k0, k1, k2, k3]"
    using assms by (auto simp: prng_inv_def dest: length_4_cases)
  have "unat (kInCount p) mod 128 div 32 < 4" by (simp add: less_mult_imp_div_less)
  then consider "unat (kInCount p) mod 128 div 32 = 0" | "unat (kInCount p) mod 128 div 32 = 1"
    | "unat (kInCount p) mod 128 div 32 = 2" | "unat (kInCount p) mod 128 div 32 = 3" by linarith
  moreover have "draws f 4 s = do { (x0, s) \<leftarrow> f s; (x1, s) \<leftarrow> f s; (x2, s) \<leftarrow> f s; (x3, s) \<leftarrow> f s;
      Some ([x0, x1, x2, x3], s) }" for f :: "hw \<Rightarrow> (u32 \<times> hw) option" and s
  proof -
    have "draws f 4 s = draws f (Suc (Suc (Suc (Suc 0)))) s" by (simp add: eval_nat_numeral)
    then show ?thesis by (simp add: case_prod_beta' Option.bind_assoc)
  qed
  moreover have "[0..<4] = [0, 1, 2, 3 :: nat]" by (simp add: upt_rec)
  ultimately show ?thesis
    by cases
      (simp_all add: InjectRandom_eq key key_index_next case_prod_beta' Option.bind_assoc Let_def add.assoc)
qed

definition sample_prng :: prng where
  "sample_prng = \<lparr>kPrngKey = [1, 2, 3, 4], kInject = 0, kInCount = 32,
     pcg32 = \<lparr>sq_state = 0, sq_inc = 1\<rparr>\<rparr>"

lemma sample_prng_inv: "prng_inv sample_prng"
  by (simp add: prng_inv_def sample_prng_def)

section \<open>Outputs\<close>

text \<open>
  The counter mode never repeats while the key stays: two calls of \<open>CSPrngUInt64x2\<close> with
  one key return the same 128 bits only if they read the same value of the system counter.
\<close>

lemma CSPrngUInt64x2_distinct:
  "fst (CSPrngUInt64x2 b p h) = fst (CSPrngUInt64x2 b p h') \<longleftrightarrow>
     fst (SysTickCnt64 b h) = fst (SysTickCnt64 b h')"
proof -
  have "(ucast c :: u32) = ucast c' \<and> (ucast (drop_bit 32 c) :: u32) = ucast (drop_bit 32 c')
      \<longleftrightarrow> c = c'" for c c' :: u64
    by (metis hi_lo_cancel)
  then show ?thesis
    by (simp add: CSPrngUInt64x2_def Let_def chaskey8_64x128_inject case_prod_beta')
qed

text \<open>The draws from the firmware's PCG are those of the generator it embeds.\<close>

lemma nth_draw_PcgUInt32:
  "nth_draw PcgUInt32 k p = nth_draw pcg_setseq_32_rxs_m_xs_32_random_r k (pcg32 p)"
proof -
  have "pcg32 (((\<lambda>s. snd (PcgUInt32 s)) ^^ k) p)
      = ((\<lambda>s. snd (pcg_setseq_32_rxs_m_xs_32_random_r s)) ^^ k) (pcg32 p)"
    by (induction k) (simp_all add: PcgUInt32_def case_prod_beta' Let_def)
  then show ?thesis by (simp add: nth_draw_def PcgUInt32_def case_prod_beta' Let_def)
qed

lemma nth_draw_PcgUInt16:
  "nth_draw PcgUInt16 k p = nth_draw pcg_setseq_32_xsh_rs_16_random_r k (pcg32 p)"
proof -
  have "pcg32 (((\<lambda>s. snd (PcgUInt16 s)) ^^ k) p)
      = ((\<lambda>s. snd (pcg_setseq_32_xsh_rs_16_random_r s)) ^^ k) (pcg32 p)"
    by (induction k) (simp_all add: PcgUInt16_def case_prod_beta' Let_def)
  then show ?thesis by (simp add: nth_draw_def PcgUInt16_def case_prod_beta' Let_def)
qed

text \<open>As sources of numbers, the generators always return.\<close>

interpretation pcg_u32: number_source "\<lambda>p. Some (PcgUInt32 p)" prng_inv
  by unfold_locales (metis prng_inv_PcgUInt32 prod.collapse)

interpretation pcg_u16: number_source "\<lambda>p. Some (PcgUInt16 p)" prng_inv
  by unfold_locales (metis prng_inv_PcgUInt16 prod.collapse)

interpretation csprng: number_source "\<lambda>h. Some (CSPrngUInt64x2 b p h)" "trng_live b" for b p
proof unfold_locales
  fix h assume "trng_live b h"
  moreover have "snd (CSPrngUInt64x2 b p h) = snd (SysTickCnt64 b h)"
    by (simp add: CSPrngUInt64x2_def case_prod_beta' Let_def)
  ultimately show "\<exists>x h'. Some (CSPrngUInt64x2 b p h) = Some (x, h') \<and> trng_live b h'"
    by (metis SysTickCnt64_live prod.collapse)
qed

end
