(* ===== verification/C_Layout.thy ===== *)
theory C_Layout
  imports Prelude
begin

text \<open>
  The layout of C types under the RISC-V ILP32 calling convention: the alignment and the size of
  a type, the place of each member of a structure or union, and what follows from the rules for
  every type: members lie inside their structure, at multiples of their alignment, and the
  members of a structure do not overlap.  Positions are counted in bits, so that bit-fields are
  members like others.

  A member without a name is an anonymous structure or union, whose members are members of the
  structure around it.
\<close>

datatype ctype =
    CInt nat
  | CBits nat nat
  | CArray nat ctype
  | CStruct bool "(string \<times> ctype) list"
  | CUnion "(string \<times> ctype) list"

text \<open>
  \<open>CInt n\<close> is an integer of \<open>n\<close> bytes, \<open>CBits n w\<close> a bit-field of \<open>w\<close> bits whose declared type
  has \<open>n\<close> bytes, and the flag of \<open>CStruct\<close> is the attribute \<open>packed\<close>.
\<close>

definition align_up :: "nat \<Rightarrow> nat \<Rightarrow> nat" where
  "align_up a x = (x + a - 1) div a * a"

fun alignof :: "ctype \<Rightarrow> nat" and aligns :: "(string \<times> ctype) list \<Rightarrow> nat" where
  "alignof (CInt n) = n"
| "alignof (CBits n w) = n"
| "alignof (CArray k t) = alignof t"
| "alignof (CStruct packed ms) = (if packed then 1 else aligns ms)"
| "alignof (CUnion ms) = aligns ms"
| "aligns [] = 1"
| "aligns ((x, t) # ms) = max (alignof t) (aligns ms)"

fun place :: "bool \<Rightarrow> nat \<Rightarrow> ctype \<Rightarrow> nat" where
  "place packed p (CBits n w) = (if p mod (8 * n) + w \<le> 8 * n then p else align_up (8 * n) p)"
| "place packed p t = align_up (if packed then 8 else 8 * alignof t) p"

fun size_bits :: "ctype \<Rightarrow> nat" and struct_end :: "bool \<Rightarrow> nat \<Rightarrow> (string \<times> ctype) list \<Rightarrow> nat"
  and union_end :: "(string \<times> ctype) list \<Rightarrow> nat" where
  "size_bits (CInt n) = 8 * n"
| "size_bits (CBits n w) = w"
| "size_bits (CArray k t) = k * size_bits t"
| "size_bits (CStruct packed ms) = align_up (8 * alignof (CStruct packed ms)) (struct_end packed 0 ms)"
| "size_bits (CUnion ms) = align_up (8 * aligns ms) (union_end ms)"
| "struct_end packed p [] = p"
| "struct_end packed p ((x, t) # ms) = struct_end packed (place packed p t + size_bits t) ms"
| "union_end [] = 0"
| "union_end ((x, t) # ms) = max (size_bits t) (union_end ms)"

fun member_at :: "ctype \<Rightarrow> string \<Rightarrow> (nat \<times> ctype) option"
  and struct_member :: "bool \<Rightarrow> nat \<Rightarrow> (string \<times> ctype) list \<Rightarrow> string \<Rightarrow> (nat \<times> ctype) option"
  and union_member :: "(string \<times> ctype) list \<Rightarrow> string \<Rightarrow> (nat \<times> ctype) option" where
  "member_at (CStruct packed ms) x = struct_member packed 0 ms x"
| "member_at (CUnion ms) x = union_member ms x"
| "member_at t x = None"
| "struct_member packed p [] x = None"
| "struct_member packed p ((y, t) # ms) x =
     (let q = place packed p t in
      if y = x then Some (q, t)
      else case (if y = [] then member_at t x else None) of
        Some (k, u) \<Rightarrow> Some (q + k, u)
      | None \<Rightarrow> struct_member packed (q + size_bits t) ms x)"
| "union_member [] x = None"
| "union_member ((y, t) # ms) x =
     (if y = x then Some (0, t)
      else case (if y = [] then member_at t x else None) of
        Some (k, u) \<Rightarrow> Some (k, u)
      | None \<Rightarrow> union_member ms x)"

definition sizeof :: "ctype \<Rightarrow> nat" where
  "sizeof t = size_bits t div 8"

definition sizeof_member :: "ctype \<Rightarrow> string \<Rightarrow> nat" where
  "sizeof_member t x = (case member_at t x of Some (q, u) \<Rightarrow> sizeof u | None \<Rightarrow> 0)"

text \<open>
  \<open>offsetof\<close> is the byte a member starts in, a distance between addresses, and \<open>member_bits\<close> the
  first bit in that byte and the width of a member.
\<close>

definition offsetof :: "ctype \<Rightarrow> string \<Rightarrow> u32" where
  "offsetof t x = (case member_at t x of Some (q, u) \<Rightarrow> of_nat (q div 8) | None \<Rightarrow> 0)"

definition member_bits :: "ctype \<Rightarrow> string \<Rightarrow> nat \<times> nat" where
  "member_bits t x = (case member_at t x of Some (q, u) \<Rightarrow> (q mod 8, size_bits u) | None \<Rightarrow> (0, 0))"

text \<open>The value of a bit-field that lies in one byte.\<close>

definition ld_bits :: "ctype \<Rightarrow> string \<Rightarrow> mem \<Rightarrow> u32 \<Rightarrow> u8" where
  "ld_bits t x m a = (case member_bits t x of (k, w) \<Rightarrow> take_bit w (drop_bit k (m (a + offsetof t x))))"

named_theorems layout \<open>sizes, offsets and named numbers of the headers\<close>

section \<open>Well-formed types\<close>

fun wf_ctype :: "ctype \<Rightarrow> bool" and wf_members :: "(string \<times> ctype) list \<Rightarrow> bool" where
  "wf_ctype (CInt n) = (n \<in> {1, 2, 4, 8})"
| "wf_ctype (CBits n w) = (n \<in> {1, 2, 4, 8} \<and> 0 < w \<and> w \<le> 8 * n)"
| "wf_ctype (CArray k t) = (wf_ctype t \<and> (case t of CBits _ _ \<Rightarrow> False | _ \<Rightarrow> True))"
| "wf_ctype (CStruct packed ms) = wf_members ms"
| "wf_ctype (CUnion ms) = wf_members ms"
| "wf_members [] = True"
| "wf_members ((x, t) # ms) = (wf_ctype t \<and> wf_members ms)"

lemma align_up_ge: "0 < a \<Longrightarrow> x \<le> align_up a x"
  using div_mult_mod_eq [of "x + a - 1" a] mod_less_divisor [of a "x + a - 1"]
  unfolding align_up_def by linarith

lemma align_up_dvd: "a dvd align_up a x"
  by (simp add: align_up_def)

lemma wf_alignof:
  "wf_ctype t \<Longrightarrow> alignof t \<in> {1, 2, 4, 8}"
  "wf_members ms \<Longrightarrow> aligns ms \<in> {1, 2, 4, 8}"
  by (induction t and ms rule: alignof_aligns.induct) (auto simp: max_def)

lemma wf_alignof_pos: "wf_ctype t \<Longrightarrow> 0 < alignof t" "wf_members ms \<Longrightarrow> 0 < aligns ms"
  using wf_alignof(1) [of t] wf_alignof(2) [of ms] by auto

lemma alignof_dvd: "a \<in> {1, 2, 4, 8 :: nat} \<Longrightarrow> b \<in> {1, 2, 4, 8} \<Longrightarrow> a \<le> b \<Longrightarrow> a dvd b"
  by auto

lemma place_ge: "wf_ctype t \<Longrightarrow> p \<le> place packed p t"
  using wf_alignof_pos(1) [of t] by (cases t) (auto intro!: align_up_ge simp del: alignof.simps)

lemma struct_end_ge: "wf_members ms \<Longrightarrow> p \<le> struct_end packed p ms"
proof (induction ms arbitrary: p)
  case (Cons m ms)
  obtain x t where m: "m = (x, t)" by (cases m)
  have "p \<le> place packed p t" using Cons.prems by (simp add: m place_ge)
  also have "\<dots> \<le> struct_end packed (place packed p t + size_bits t) ms"
    using Cons.IH [of "place packed p t + size_bits t"] Cons.prems by (simp add: m)
  finally show ?case by (simp add: m)
qed simp

section \<open>Members lie inside\<close>

lemma struct_end_le_size: "wf_members ms \<Longrightarrow> struct_end packed 0 ms \<le> size_bits (CStruct packed ms)"
  using wf_alignof_pos(1) [of "CStruct packed ms"]
  by (simp add: align_up_ge del: alignof.simps)

lemma union_end_le_size: "wf_members ms \<Longrightarrow> union_end ms \<le> size_bits (CUnion ms)"
  using wf_alignof_pos(2) [of ms] by (simp add: align_up_ge)

lemma members_inside:
  "wf_ctype t \<Longrightarrow> member_at t x = Some (q, u) \<Longrightarrow> q + size_bits u \<le> size_bits t"
  "wf_members ms \<Longrightarrow> struct_member packed p ms x = Some (q, u)
     \<Longrightarrow> p \<le> q \<and> q + size_bits u \<le> struct_end packed p ms"
  "wf_members ms \<Longrightarrow> union_member ms x = Some (q, u) \<Longrightarrow> q + size_bits u \<le> union_end ms"
proof (induction t x and packed p ms x and ms x arbitrary: q u and q u and q u
    rule: member_at_struct_member_union_member.induct)
  case (1 packed ms x)
  then show ?case using struct_end_le_size [of ms packed] by fastforce
next
  case (2 ms x)
  then show ?case using union_end_le_size [of ms] by fastforce
next
  case (5 packed p y t ms x)
  have t: "wf_ctype t" "wf_members ms" using 5 by simp_all
  have ge: "p \<le> place packed p t" using t by (simp add: place_ge)
  have le: "place packed p t + size_bits t \<le> struct_end packed (place packed p t + size_bits t) ms"
    using t by (simp add: struct_end_ge)
  from 5 t ge le show ?case
    by (fastforce simp: Let_def split: if_splits option.splits prod.splits)
next
  case (7 y t ms x)
  then show ?case by (fastforce split: if_splits option.splits prod.splits)
qed simp_all

section \<open>Members are aligned\<close>

text \<open>
  In a structure that is not packed, and holds no packed one, a member that is no bit-field lies at
  a multiple of its alignment, which divides that of the structure: where the structure is aligned,
  so is the member.
\<close>

fun unpacked :: "ctype \<Rightarrow> bool" and unpacked_members :: "(string \<times> ctype) list \<Rightarrow> bool" where
  "unpacked (CStruct packed ms) = (\<not> packed \<and> unpacked_members ms)"
| "unpacked (CUnion ms) = unpacked_members ms"
| "unpacked t = True"
| "unpacked_members [] = True"
| "unpacked_members ((x, t) # ms) = (unpacked t \<and> unpacked_members ms)"

definition is_bits :: "ctype \<Rightarrow> bool" where
  "is_bits t = (case t of CBits _ _ \<Rightarrow> True | _ \<Rightarrow> False)"

lemma place_dvd: "\<not> is_bits t \<Longrightarrow> 8 * alignof t dvd place False p t"
  by (cases t) (simp_all add: is_bits_def align_up_dvd)

lemma aligns_dvd:
  assumes "wf_ctype t" "wf_members ms"
  shows "alignof t dvd max (alignof t) (aligns ms)" "aligns ms dvd max (alignof t) (aligns ms)"
  using wf_alignof(1) [OF assms(1)] wf_alignof(2) [OF assms(2)] by (auto simp: max_def)

lemma member_at_no_bits: "member_at t x = Some y \<Longrightarrow> \<not> is_bits t"
  by (cases t) (simp_all add: is_bits_def)

lemma members_aligned:
  "wf_ctype t \<Longrightarrow> unpacked t \<Longrightarrow> member_at t x = Some (q, u) \<Longrightarrow> \<not> is_bits u
     \<Longrightarrow> 8 * alignof u dvd q \<and> alignof u dvd alignof t"
  "wf_members ms \<Longrightarrow> unpacked_members ms \<Longrightarrow> \<not> packed \<Longrightarrow> struct_member packed p ms x = Some (q, u)
     \<Longrightarrow> \<not> is_bits u \<Longrightarrow> 8 * alignof u dvd q \<and> alignof u dvd aligns ms"
  "wf_members ms \<Longrightarrow> unpacked_members ms \<Longrightarrow> union_member ms x = Some (q, u) \<Longrightarrow> \<not> is_bits u
     \<Longrightarrow> 8 * alignof u dvd q \<and> alignof u dvd aligns ms"
proof (induction t x and packed p ms x and ms x arbitrary: q u and q u and q u
    rule: member_at_struct_member_union_member.induct)
  case (5 packed p y t ms x)
  have wf: "wf_ctype t" "wf_members ms" "unpacked t" "unpacked_members ms" "\<not> packed"
    using "5.prems" by simp_all
  note d = aligns_dvd [OF wf(1,2)]
  show ?case
  proof (cases "y = x")
    case True
    then show ?thesis using "5.prems" d place_dvd [of t p] by (auto simp: Let_def)
  next
    case F: False
    show ?thesis
    proof (cases "if y = [] then member_at t x else None")
      case None
      then show ?thesis
        using 5(2) [OF refl F None wf(2,4,5)] "5.prems" F d
        by (auto simp: Let_def dest: dvd_trans)
    next
      case (Some z)
      then obtain k where k: "y = []" "member_at t x = Some (k, u)" "q = place False p t + k"
        using "5.prems" F by (cases z) (auto simp: Let_def split: if_splits)
      then have "8 * alignof u dvd k" "alignof u dvd alignof t"
        using 5(1) [OF refl F k(1) wf(1,3)] "5.prems" by simp_all
      moreover have "8 * alignof t dvd place False p t"
        using member_at_no_bits [OF k(2)] by (rule place_dvd)
      ultimately show ?thesis using d by (auto simp: k(3) intro: dvd_trans dvd_add)
    qed
  qed
next
  case (7 y t ms x)
  have wf: "wf_ctype t" "wf_members ms" "unpacked t" "unpacked_members ms"
    using "7.prems" by simp_all
  note d = aligns_dvd [OF wf(1,2)]
  show ?case
  proof (cases "y = x")
    case True
    then show ?thesis using "7.prems" d by auto
  next
    case F: False
    show ?thesis
    proof (cases "if y = [] then member_at t x else None")
      case None
      then show ?thesis using 7(2) [OF F None wf(2,4)] "7.prems" F d by (auto dest: dvd_trans)
    next
      case (Some z)
      then have k: "y = []" "member_at t x = Some (q, u)"
        using "7.prems" F by (cases z, auto split: if_splits)+
      then show ?thesis
        using 7(1) [OF F k(1) wf(1,3) k(2)] "7.prems" d by (auto dest: dvd_trans)
    qed
  qed
qed simp_all

section \<open>Members do not overlap\<close>

text \<open>Two members of a structure whose members all have names.\<close>

lemma struct_member_ge:
  "wf_members ms \<Longrightarrow> struct_member packed p ms x = Some (q, u) \<Longrightarrow> p \<le> q"
  using members_inside(2) by blast

lemma struct_members_apart:
  assumes "wf_members ms" "[] \<notin> fst ` set ms" "x \<noteq> y"
    "struct_member packed p ms x = Some (q, u)" "struct_member packed p ms y = Some (r, v)"
  shows "q + size_bits u \<le> r \<or> r + size_bits v \<le> q"
  using assms
proof (induction ms arbitrary: p)
  case (Cons m ms)
  then show ?case
    by (cases m) (force simp: Let_def split: if_splits dest: struct_member_ge)
qed simp

lemma members_apart:
  assumes "wf_ctype (CStruct packed ms)" "[] \<notin> fst ` set ms" "x \<noteq> y"
    "member_at (CStruct packed ms) x = Some (q, u)" "member_at (CStruct packed ms) y = Some (r, v)"
  shows "q + size_bits u \<le> r \<or> r + size_bits v \<le> q"
  using struct_members_apart [of ms x y packed 0] assms by simp

section \<open>Members in memory\<close>

text \<open>The bytes of a member of the object at \<open>a\<close>.\<close>

definition byte_member :: "ctype \<Rightarrow> string \<Rightarrow> (nat \<times> nat) option" where
  "byte_member t x = (case member_at t x of
     Some (q, u) \<Rightarrow> if q mod 8 = 0 \<and> size_bits u mod 8 = 0 then Some (q div 8, sizeof u) else None
   | None \<Rightarrow> None)"

definition ld_member :: "ctype \<Rightarrow> string \<Rightarrow> mem \<Rightarrow> u32 \<Rightarrow> u8 list" where
  "ld_member t x m a = (case byte_member t x of Some (k, n) \<Rightarrow> mem_bytes m (a + of_nat k) n | None \<Rightarrow> [])"

lemma byte_member_inside:
  assumes "wf_ctype t" "byte_member t x = Some (k, n)"
  shows "k + n \<le> sizeof t"
proof -
  obtain q u where *: "member_at t x = Some (q, u)" "8 dvd q" "8 dvd size_bits u" "k = q div 8" "n = size_bits u div 8"
    using assms(2) by (auto simp: byte_member_def sizeof_def split: option.splits if_splits)
  then have "k + n = (q + size_bits u) div 8" by (auto elim!: dvdE)
  also have "\<dots> \<le> sizeof t"
    using members_inside(1) [OF assms(1) *(1)] by (simp add: sizeof_def div_le_mono)
  finally show ?thesis .
qed

lemma byte_members_apart:
  assumes "wf_ctype (CStruct packed ms)" "[] \<notin> fst ` set ms" "x \<noteq> y"
    "byte_member (CStruct packed ms) x = Some (k, n)" "byte_member (CStruct packed ms) y = Some (l, j)"
  shows "k + n \<le> l \<or> l + j \<le> k"
proof -
  obtain q u where q: "member_at (CStruct packed ms) x = Some (q, u)" "8 * k = q" "8 * n = size_bits u"
    using assms(4) by (auto simp: byte_member_def sizeof_def split: option.splits if_splits)
  obtain r v where r: "member_at (CStruct packed ms) y = Some (r, v)" "8 * l = r" "8 * j = size_bits v"
    using assms(5) by (auto simp: byte_member_def sizeof_def split: option.splits if_splits)
  show ?thesis using members_apart [OF assms(1-3) q(1) r(1)] q r by linarith
qed

lemma ld_member_part:
  assumes "mem_bytes m a n = bs" "byte_member t x = Some (i, k)" "i + k \<le> n"
  shows "ld_member t x m a = take k (drop i bs)"
  using mem_bytes_part [OF assms(1,3)] assms(2) by (simp add: ld_member_def)

text \<open>Bytes beside an area that is written.\<close>

lemma mem_bytes_apart:
  assumes "same_outside m m' (a + of_nat l) j" "k + n \<le> l \<or> l + j \<le> k" "k + n < 2 ^ 32" "l + j < 2 ^ 32"
  shows "mem_bytes m' (a + of_nat k) n = mem_bytes m (a + of_nat k) n"
proof (rule same_outside_mem_bytes [OF assms(1)])
  fix i assume i: "i < n"
  have e: "a + of_nat k + of_nat i - (a + of_nat l) = of_nat (k + i) - (of_nat l :: u32)" by simp
  have "j \<le> unat (of_nat (k + i) - of_nat l :: u32)"
  proof (cases "l \<le> k + i")
    case True
    then have "of_nat (k + i) - of_nat l = (of_nat (k + i - l) :: u32)" by (simp add: of_nat_diff)
    moreover have "unat (of_nat (k + i - l) :: u32) = k + i - l"
      using assms i by (intro unat_of_nat_32) simp
    ultimately have "unat (of_nat (k + i) - of_nat l :: u32) = k + i - l" by (simp only:)
    then show ?thesis using True assms i by linarith
  next
    case False
    then have "of_nat (k + i) - of_nat l = (of_nat (2 ^ 32 - (l - (k + i))) :: u32)"
      using assms by (simp add: of_nat_diff)
    moreover have "unat (of_nat (2 ^ 32 - (l - (k + i))) :: u32) = 2 ^ 32 - (l - (k + i))"
      using False by (intro unat_of_nat_32) simp
    ultimately have "unat (of_nat (k + i) - of_nat l :: u32) = 2 ^ 32 - (l - (k + i))" by (simp only:)
    then show ?thesis using False assms i by linarith
  qed
  then show "j \<le> unat (a + of_nat k + of_nat i - (a + of_nat l))" by (simp only: e)
qed

text \<open>A header in a frame keeps its members when another part of the frame is written.\<close>

lemma ld_member_apart:
  assumes "same_outside m m' (a + of_nat l) j" "wf_ctype t" "sizeof t \<le> 1000" "l \<le> 1000" "j \<le> 1000" "p \<le> 1000"
    "p + sizeof t \<le> l \<or> l + j \<le> p"
  shows "ld_member t x m' (a + of_nat p) = ld_member t x m (a + of_nat p)"
proof (cases "byte_member t x")
  case (Some kn)
  then obtain k n where kn: "byte_member t x = Some (k, n)" by (cases kn) simp
  have "mem_bytes m' (a + of_nat (p + k)) n = mem_bytes m (a + of_nat (p + k)) n"
    using byte_member_inside [OF assms(2) kn] assms(3-7) by (intro mem_bytes_apart [OF assms(1)]) auto
  then show ?thesis by (simp add: ld_member_def kn add.assoc)
qed (simp add: ld_member_def)

lemma ld_bits_apart:
  assumes "same_outside m m' (a + of_nat l) j" "offsetof t x = of_nat k" "k < 1000" "l \<le> 1000" "j \<le> 1000" "p \<le> 1000"
    "p + k < l \<or> l + j \<le> p + k"
  shows "ld_bits t x m' (a + of_nat p) = ld_bits t x m (a + of_nat p)"
proof -
  have "mem_bytes m' (a + of_nat (p + k)) 1 = mem_bytes m (a + of_nat (p + k)) 1"
    using assms(3-7) by (intro mem_bytes_apart [OF assms(1)]) auto
  then show ?thesis by (simp add: ld_bits_def assms(2) mem_bytes_simps add.assoc)
qed

end
