(* ===== verification/Net_Headers.thy ===== *)
theory Net_Headers
  imports C_Layout
begin

text \<open>
  The structures that the firmware lays over its frames, as descriptions of the C declarations:
  the headers of \<open>src/include\<close> (Ethernet, ARP, IPv4, ICMP, UDP), the packed structures of
  \<open>packet.h\<close> and \<open>dhcp.c\<close>, and the \<open>PacketBuffer\<close> of \<open>prdk.h\<close>; and the named numbers that the
  frame handler uses.  Everything else about a header, its size and the place of a member, is
  computed from the description.
\<close>

section \<open>Named numbers\<close>

definition ETHER_ADDR_LEN :: nat where "ETHER_ADDR_LEN = 6"
definition ETHER_TYPE_LEN :: nat where "ETHER_TYPE_LEN = 2"
definition ETHER_CRC_LEN :: nat where "ETHER_CRC_LEN = 4"
definition ETHER_HDR_LEN :: nat where "ETHER_HDR_LEN = ETHER_ADDR_LEN * 2 + ETHER_TYPE_LEN"
definition ETHER_MAX_LEN :: nat where "ETHER_MAX_LEN = 1518"
definition ETHER_ALIGN :: nat where "ETHER_ALIGN = 2"
definition ETHERMTU :: nat where "ETHERMTU = ETHER_MAX_LEN - ETHER_HDR_LEN - ETHER_CRC_LEN"

definition ETHERTYPE_IP :: u16 where "ETHERTYPE_IP = 0x0800"
definition ETHERTYPE_ARP :: u16 where "ETHERTYPE_ARP = 0x0806"
definition ARPHRD_ETHER :: u16 where "ARPHRD_ETHER = 1"
definition ARPOP_REQUEST :: u16 where "ARPOP_REQUEST = 1"
definition ARPOP_REPLY :: u16 where "ARPOP_REPLY = 2"

definition IPPROTO_ICMP :: u8 where "IPPROTO_ICMP = 1"
definition IPPROTO_UDP :: u8 where "IPPROTO_UDP = 17"
definition MAXTTL :: u8 where "MAXTTL = 255"
definition IPDEFTTL :: u8 where "IPDEFTTL = 64"
definition ICMP_ECHOREPLY :: u8 where "ICMP_ECHOREPLY = 0"
definition ICMP_ECHO :: u8 where "ICMP_ECHO = 8"

lemmas named_numbers [layout] = ETHER_ADDR_LEN_def ETHER_TYPE_LEN_def ETHER_CRC_LEN_def ETHER_HDR_LEN_def
  ETHER_MAX_LEN_def ETHER_ALIGN_def ETHERMTU_def ETHERTYPE_IP_def ETHERTYPE_ARP_def ARPHRD_ETHER_def
  ARPOP_REQUEST_def ARPOP_REPLY_def IPPROTO_ICMP_def IPPROTO_UDP_def MAXTTL_def IPDEFTTL_def
  ICMP_ECHOREPLY_def ICMP_ECHO_def

section \<open>The headers of \<open>src/include\<close>\<close>

definition struct_ether_header :: ctype where
  "struct_ether_header = CStruct False
    [(''ether_dhost'', CArray ETHER_ADDR_LEN (CInt 1)),
     (''ether_shost'', CArray ETHER_ADDR_LEN (CInt 1)),
     (''ether_type'', CInt 2)]"

definition struct_arphdr :: ctype where
  "struct_arphdr = CStruct False
    [(''ar_hrd'', CInt 2), (''ar_pro'', CInt 2), (''ar_hln'', CInt 1), (''ar_pln'', CInt 1), (''ar_op'', CInt 2)]"

definition struct_ether_arp :: ctype where
  "struct_ether_arp = CStruct False
    [(''ea_hdr'', struct_arphdr),
     (''arp_sha'', CArray ETHER_ADDR_LEN (CInt 1)), (''arp_spa'', CArray 4 (CInt 1)),
     (''arp_tha'', CArray ETHER_ADDR_LEN (CInt 1)), (''arp_tpa'', CArray 4 (CInt 1))]"

definition struct_in_addr :: ctype where
  "struct_in_addr = CStruct False [(''s_addr'', CInt 4)]"

definition struct_ip :: ctype where
  "struct_ip = CStruct False
    [(''ip_hl'', CBits 4 4), (''ip_v'', CBits 4 4), (''ip_tos'', CInt 1), (''ip_len'', CInt 2),
     (''ip_id'', CInt 2), (''ip_off'', CInt 2), (''ip_ttl'', CInt 1), (''ip_p'', CInt 1),
     (''ip_sum'', CInt 2), (''ip_src'', struct_in_addr), (''ip_dst'', struct_in_addr)]"

definition struct_icmp :: ctype where
  "struct_icmp = CStruct False
    [(''icmp_type'', CInt 1), (''icmp_code'', CInt 1), (''icmp_cksum'', CInt 2),
     (''icmp_hun'', CUnion
       [(''ih_pptr'', CInt 1),
        (''ih_exthdr'', CStruct False [(''iex_pad'', CInt 1), (''iex_length'', CInt 1)]),
        (''ih_gwaddr'', struct_in_addr),
        (''ih_idseq'', CStruct False [(''icd_id'', CInt 2), (''icd_seq'', CInt 2)]),
        (''ih_void'', CInt 4),
        (''ih_pmtu'', CStruct False [(''ipm_void'', CInt 2), (''ipm_nextmtu'', CInt 2)]),
        (''ih_rtradv'', CStruct False
          [(''irt_num_addrs'', CInt 1), (''irt_wpa'', CInt 1), (''irt_lifetime'', CInt 2)])]),
     (''icmp_dun'', CUnion
       [(''id_ts'', CStruct False [(''its_otime'', CInt 4), (''its_rtime'', CInt 4), (''its_ttime'', CInt 4)]),
        (''id_ip'', CStruct False [(''idi_ip'', struct_ip)]),
        (''id_mask'', CInt 4),
        (''id_data'', CArray 1 (CInt 1))])]"

definition struct_udphdr :: ctype where
  "struct_udphdr = CStruct False
    [(''uh_sport'', CInt 2), (''uh_dport'', CInt 2), (''uh_ulen'', CInt 2), (''uh_sum'', CInt 2)]"

section \<open>The structures of the firmware\<close>

definition MACAddress :: ctype where
  "MACAddress = CStruct True [(''bytes'', CArray 6 (CInt 1))]"

definition EthernetHeader :: ctype where
  "EthernetHeader = CStruct True [(''destination'', MACAddress), (''source'', MACAddress), (''type'', CInt 2)]"

definition IPv4Header :: ctype where
  "IPv4Header = CStruct True
    [(''version_header_length'', CInt 1), (''type_of_service'', CInt 1), (''total_length'', CInt 2),
     (''identification'', CInt 2), (''flags'', CInt 2), (''ttl'', CInt 1), (''protocol'', CInt 1),
     (''checksum'', CInt 2), (''source'', CInt 4), (''destination'', CInt 4)]"

definition UDPHeader :: ctype where
  "UDPHeader = CStruct True
    [(''source_port'', CInt 2), (''destination_port'', CInt 2), (''length'', CInt 2), (''checksum'', CInt 2)]"

definition DHCPPacket :: ctype where
  "DHCPPacket = CStruct True
    [(''message_type'', CInt 1), (''hardware_type'', CInt 1), (''hardware_address_length'', CInt 1),
     (''hops'', CInt 1), (''transaction_id'', CInt 4), (''seconds_elapsed'', CInt 2), (''bootp_flags'', CInt 2),
     (''client_address'', CInt 4), (''your_client_address'', CInt 4), (''next_server_address'', CInt 4),
     (''relay_agent_address'', CInt 4), (''client_hardware_address'', CArray 16 (CInt 1)),
     (''server_host_name'', CArray 64 (CInt 1)), (''boot_file_name'', CArray 128 (CInt 1)),
     (''magic_cookie'', CInt 4)]"

definition PacketBuffer :: ctype where
  "PacketBuffer = CUnion
    [(''AlignedAndPaddedFrame'', CArray ((ETHER_ALIGN + ETHER_MAX_LEN) div 4) (CInt 4)),
     ('''', CStruct False
       [(''Padding'', CArray ETHER_ALIGN (CInt 1)),
        ('''', CUnion
          [(''Frame'', CArray ETHER_MAX_LEN (CInt 1)),
           ('''', CStruct False [(''eth'', struct_ether_header), ('''', CUnion [(''arp'', struct_ether_arp)])])])])]"

section \<open>Sizes and offsets\<close>

text \<open>\<open>obj_end t p\<close> is \<open>p + 1\<close> in C, for a pointer \<open>p\<close> to \<open>t\<close>.\<close>

definition obj_end :: "ctype \<Rightarrow> u32 \<Rightarrow> u32" where
  "obj_end t p = p + of_nat (sizeof t)"

lemmas layout_defs = sizeof_def sizeof_member_def offsetof_def member_bits_def align_up_def named_numbers
  struct_ether_header_def struct_arphdr_def struct_ether_arp_def struct_in_addr_def struct_ip_def
  struct_icmp_def struct_udphdr_def MACAddress_def EthernetHeader_def IPv4Header_def UDPHeader_def
  DHCPPacket_def PacketBuffer_def

lemma header_sizes [layout]:
  "sizeof struct_ether_header = 14" "sizeof struct_arphdr = 8" "sizeof struct_ether_arp = 28"
  "sizeof struct_in_addr = 4" "sizeof struct_ip = 20" "sizeof struct_icmp = 28" "sizeof struct_udphdr = 8"
  "sizeof MACAddress = 6" "sizeof EthernetHeader = 14" "sizeof IPv4Header = 20" "sizeof UDPHeader = 8"
  "sizeof DHCPPacket = 240" "sizeof PacketBuffer = 1520"
  by (simp_all add: layout_defs)

lemma obj_end_layout [layout]:
  "obj_end struct_ether_header p = p + 14" "obj_end struct_ip p = p + 20" "obj_end struct_udphdr p = p + 8"
  by (simp_all add: obj_end_def header_sizes)

lemma ether_header_layout [layout]:
  "offsetof struct_ether_header ''ether_dhost'' = 0" "offsetof struct_ether_header ''ether_shost'' = 6"
  "offsetof struct_ether_header ''ether_type'' = 12"
  by (simp_all add: layout_defs)

lemma arp_layout [layout]:
  "offsetof struct_arphdr ''ar_hrd'' = 0" "offsetof struct_arphdr ''ar_pro'' = 2"
  "offsetof struct_arphdr ''ar_hln'' = 4" "offsetof struct_arphdr ''ar_pln'' = 5"
  "offsetof struct_arphdr ''ar_op'' = 6" "offsetof struct_ether_arp ''arp_sha'' = 8"
  "offsetof struct_ether_arp ''arp_spa'' = 14" "offsetof struct_ether_arp ''arp_tha'' = 18"
  "offsetof struct_ether_arp ''arp_tpa'' = 24"
  by (simp_all add: layout_defs)

lemma ip_layout [layout]:
  "offsetof struct_ip ''ip_hl'' = 0" "offsetof struct_ip ''ip_v'' = 0" "offsetof struct_ip ''ip_len'' = 2"
  "offsetof struct_ip ''ip_off'' = 6" "offsetof struct_ip ''ip_ttl'' = 8" "offsetof struct_ip ''ip_p'' = 9"
  "offsetof struct_ip ''ip_src'' = 12" "offsetof struct_ip ''ip_dst'' = 16"
  "offsetof struct_in_addr ''s_addr'' = 0"
  "member_bits struct_ip ''ip_hl'' = (0, 4)" "member_bits struct_ip ''ip_v'' = (4, 4)"
  by (simp_all add: layout_defs)

lemma icmp_udp_layout [layout]:
  "offsetof struct_icmp ''icmp_type'' = 0" "offsetof struct_icmp ''icmp_code'' = 1"
  "offsetof struct_udphdr ''uh_sport'' = 0" "offsetof struct_udphdr ''uh_dport'' = 2"
  "offsetof struct_udphdr ''uh_ulen'' = 4"
  by (simp_all add: layout_defs)

lemma packet_layout [layout]:
  "offsetof EthernetHeader ''destination'' = 0" "offsetof EthernetHeader ''source'' = 6"
  "offsetof EthernetHeader ''type'' = 12"
  "offsetof IPv4Header ''version_header_length'' = 0" "offsetof IPv4Header ''type_of_service'' = 1"
  "offsetof IPv4Header ''total_length'' = 2" "offsetof IPv4Header ''flags'' = 6" "offsetof IPv4Header ''ttl'' = 8"
  "offsetof IPv4Header ''protocol'' = 9" "offsetof IPv4Header ''source'' = 12" "offsetof IPv4Header ''destination'' = 16"
  "offsetof UDPHeader ''source_port'' = 0" "offsetof UDPHeader ''destination_port'' = 2"
  "offsetof UDPHeader ''length'' = 4"
  by (simp_all add: layout_defs)

lemma dhcp_layout [layout]:
  "offsetof DHCPPacket ''message_type'' = 0" "offsetof DHCPPacket ''hardware_type'' = 1"
  "offsetof DHCPPacket ''hardware_address_length'' = 2" "offsetof DHCPPacket ''transaction_id'' = 4"
  "offsetof DHCPPacket ''client_hardware_address'' = 28" "offsetof DHCPPacket ''magic_cookie'' = 236"
  by (simp_all add: layout_defs)

lemma buffer_layout [layout]:
  "offsetof PacketBuffer ''Frame'' = 2" "offsetof PacketBuffer ''eth'' = 2" "offsetof PacketBuffer ''arp'' = 16"
  "sizeof_member PacketBuffer ''Frame'' = 1518"
  by (simp_all add: layout_defs)

text \<open>The code generator, which \<open>code_simp\<close> uses, takes the numbers for the expressions.\<close>

lemma buffer_numbers [code_unfold]:
  "Word.of_nat (sizeof PacketBuffer) = (1520 :: u32)"
  "Word.of_nat (sizeof_member PacketBuffer ''Frame'') = (1518 :: u32)"
  "offsetof PacketBuffer ''Frame'' = 2"
  by (simp_all add: layout)

end
