(* ===== verification/Packet.thy ===== *)
theory Packet
  imports Inline Net_Headers
begin

text \<open>
  The header writers of \<open>src/packet.c\<close> and the byte swapping macros of \<open>src/packet.h\<close>.  A
  member of a packed structure lies at its \<open>offsetof\<close>; a network-order field is read
  back with \<open>be16\<close>, and an \<open>IPAddress\<close> is stored as it is in memory.

  The macros are applied to values of C type \<open>unsigned\<close>, and the store into a 16-bit member
  cuts the result off.
\<close>

definition SWAP_BYTES_U16 :: "u32 \<Rightarrow> u32" where
  "SWAP_BYTES_U16 x = drop_bit 8 x OR push_bit 8 (x AND 0xFF)"

definition SWAP_BYTES_U32 :: "u32 \<Rightarrow> u32" where
  "SWAP_BYTES_U32 x = drop_bit 24 x OR drop_bit 8 (x AND 0xFF0000)
     OR push_bit 8 (x AND 0xFF00) OR push_bit 24 (x AND 0xFF)"

definition kBroadcastMACAddress :: "u8 list" where
  "kBroadcastMACAddress = [0xFF, 0xFF, 0xFF, 0xFF, 0xFF, 0xFF]"

text \<open>Where the headers lie in a frame that is built in an array.\<close>

definition ETHERNET_HEADER_OFFSET :: nat where
  "ETHERNET_HEADER_OFFSET = 0"

definition IPV4_HEADER_OFFSET :: nat where
  "IPV4_HEADER_OFFSET = sizeof EthernetHeader"

definition UDP_HEADER_OFFSET :: nat where
  "UDP_HEADER_OFFSET = IPV4_HEADER_OFFSET + sizeof IPv4Header"

definition UDP_DATA_OFFSET :: nat where
  "UDP_DATA_OFFSET = UDP_HEADER_OFFSET + sizeof UDPHeader"

definition MIN_UDP_PACKET_SIZE :: nat where
  "MIN_UDP_PACKET_SIZE = UDP_DATA_OFFSET"

definition ETHERNET_HEADER_TYPE_IPV4 :: u16 where
  "ETHERNET_HEADER_TYPE_IPV4 = 0x0800"

definition IPV4_HEADER_PROTOCOL_UDP :: u8 where
  "IPV4_HEADER_PROTOCOL_UDP = 0x11"

definition IPV4_ZERO_ADDRESS :: u32 where
  "IPV4_ZERO_ADDRESS = 0"

definition IPV4_BROADCAST_ADDRESS :: u32 where
  "IPV4_BROADCAST_ADDRESS = 0xFFFFFFFF"

lemmas packet_numbers [layout] = ETHERNET_HEADER_OFFSET_def IPV4_HEADER_OFFSET_def UDP_HEADER_OFFSET_def
  UDP_DATA_OFFSET_def MIN_UDP_PACKET_SIZE_def ETHERNET_HEADER_TYPE_IPV4_def IPV4_HEADER_PROTOCOL_UDP_def
  IPV4_ZERO_ADDRESS_def IPV4_BROADCAST_ADDRESS_def

definition FillIPv4Header :: "u32 \<Rightarrow> u32 \<Rightarrow> u16 \<Rightarrow> u8 \<Rightarrow> mem \<Rightarrow> u32 \<Rightarrow> mem" where
  "FillIPv4Header source destination data_length protocol m header =
     (let at = (\<lambda>x. header + offsetof IPv4Header x);
          m = st8 m (at ''version_header_length'') 0x45;
          m = st8 m (at ''type_of_service'') 0;
          m = st16 m (at ''total_length'') (ucast (SWAP_BYTES_U16 (ucast data_length + of_nat (sizeof IPv4Header))));
          m = st16 m (at ''flags'') 0;
          m = st8 m (at ''ttl'') 128;
          m = st8 m (at ''protocol'') protocol;
          m = st32 m (at ''source'') source
      in st32 m (at ''destination'') destination)"

definition FillEthernetHeader :: "u8 list \<Rightarrow> u8 list \<Rightarrow> u16 \<Rightarrow> mem \<Rightarrow> u32 \<Rightarrow> mem" where
  "FillEthernetHeader source destination type m header =
     (let at = (\<lambda>x. header + offsetof EthernetHeader x);
          m = mem_put m (at ''source'') (take (sizeof MACAddress) source);
          m = mem_put m (at ''destination'') (take (sizeof MACAddress) destination)
      in st16 m (at ''type'') (ucast (SWAP_BYTES_U16 (ucast type))))"

definition FillUDPHeader :: "u16 \<Rightarrow> u16 \<Rightarrow> u16 \<Rightarrow> mem \<Rightarrow> u32 \<Rightarrow> mem" where
  "FillUDPHeader source_port destination_port data_length m header =
     (let at = (\<lambda>x. header + offsetof UDPHeader x);
          m = st16 m (at ''source_port'') (ucast (SWAP_BYTES_U16 (ucast source_port)));
          m = st16 m (at ''destination_port'') (ucast (SWAP_BYTES_U16 (ucast destination_port)))
      in st16 m (at ''length'') (ucast (SWAP_BYTES_U16 (ucast data_length + of_nat (sizeof UDPHeader)))))"

section \<open>Byte swapping\<close>

lemma and_ff: "(x :: u32) AND 0xFF = take_bit 8 x"
  by (simp add: take_bit_eq_mask mask_eq_exp_minus_1)

lemma and_byte:
  "(x :: u32) AND 0xFF00 = push_bit 8 (take_bit 8 (drop_bit 8 x))"
  "(x :: u32) AND 0xFF0000 = push_bit 16 (take_bit 8 (drop_bit 16 x))"
proof -
  have *: "x AND push_bit k (mask 8) = push_bit k (take_bit 8 (drop_bit k x))" for k and x :: u32
    by (rule bit_word_eqI) (auto simp: bit_simps)
  show "x AND 0xFF00 = push_bit 8 (take_bit 8 (drop_bit 8 x))"
    using * [of x 8] by (simp add: mask_eq_exp_minus_1 push_bit_eq_mult)
  show "x AND 0xFF0000 = push_bit 16 (take_bit 8 (drop_bit 16 x))"
    using * [of x 16] by (simp add: mask_eq_exp_minus_1 push_bit_eq_mult)
qed

text \<open>For a value that fits 16 bits the macro is the byte swap, and so is the stored field.\<close>

lemma SWAP_BYTES_U16_ucast: "ucast (SWAP_BYTES_U16 (ucast x)) = hton16 x"
  by (rule bit_word_eqI)
    (auto simp: SWAP_BYTES_U16_def and_ff hton16_def bit_simps dest: bit_imp_le_length)

text \<open>A larger value leaves its bits from 16 on in the low-order byte of the field.\<close>

lemma SWAP_BYTES_U16_overflow:
  "ucast (SWAP_BYTES_U16 x) = hton16 (ucast x) OR push_bit 8 (ucast (drop_bit 16 x))"
  by (rule bit_word_eqI)
    (auto simp: SWAP_BYTES_U16_def and_ff hton16_def bit_simps dest: bit_imp_le_length)

lemma SWAP_BYTES_U32_bytes: "bytes32 (SWAP_BYTES_U32 x) = rev (bytes32 x)"
  unfolding bytes32_def SWAP_BYTES_U32_def and_ff and_byte
  by (simp; intro conjI; rule bit_word_eqI; auto simp: bit_simps dest: bit_imp_le_length)

section \<open>Reading fields\<close>

definition be16 :: "mem \<Rightarrow> u32 \<Rightarrow> u16" where
  "be16 m a = push_bit 8 (ucast (m a)) OR ucast (m (a + 1))"

lemma be16_hton16: "be16 (st16 m a (hton16 v)) a = v"
  by (rule bit_word_eqI) (auto simp: be16_def st16_apply hton16_bytes bit_simps)

section \<open>Header writers\<close>

text \<open>
  What a user of a header writer relies on: it writes the header and nothing else.
\<close>

locale header_writer =
  fixes fill :: "mem \<Rightarrow> u32 \<Rightarrow> mem" and hsize :: nat
  assumes frame: "same_outside m (fill m a) a hsize"
begin

lemma outside: "hsize \<le> unat (x - a) \<Longrightarrow> fill m a x = m x"
  using frame by (rule same_outside_D)

lemma be16_outside:
  "hsize \<le> unat (x - a) \<Longrightarrow> hsize \<le> unat (x + 1 - a) \<Longrightarrow> be16 (fill m a) x = be16 m x"
  by (simp add: be16_def outside)

lemma within:
  assumes "unat (x - a) + hsize \<le> n" "same_outside m m' a n"
  shows "same_outside m (fill m' x) a n"
  using assms(2) unat_dist_add [OF assms(1)] outside [of _ x m']
  by (metis linorder_not_less same_outside_def)

end

interpretation ipv4: header_writer "FillIPv4Header source destination data_length protocol" 20
  for source destination data_length protocol
  unfolding FillIPv4Header_def Let_def layout
  by unfold_locales (intro frame_intros; simp add: same_outside_refl)

interpretation ethernet: header_writer "FillEthernetHeader source destination type" 14
  for source destination type
  unfolding FillEthernetHeader_def Let_def layout
  by unfold_locales (intro frame_intros; simp add: same_outside_refl)

interpretation udp: header_writer "FillUDPHeader source_port destination_port data_length" 8
  for source_port destination_port data_length
  unfolding FillUDPHeader_def Let_def layout
  by unfold_locales (intro frame_intros; simp add: same_outside_refl)

section \<open>What the writers write\<close>

text \<open>A stored 16-bit length: right up to 65535, and with its lowest bits polluted above.\<close>

lemma be16_length:
  "be16 (st16 m a (ucast (SWAP_BYTES_U16 x))) a = ucast x OR ucast (drop_bit 16 x AND 0xFF)"
  by (rule bit_word_eqI)
    (auto simp: be16_def st16_apply SWAP_BYTES_U16_def and_ff bit_simps dest: bit_imp_le_length)

lemma be16_st16_other:
  "y \<noteq> x \<Longrightarrow> y \<noteq> x + 1 \<Longrightarrow> y + 1 \<noteq> x \<Longrightarrow> be16 (st16 m x v) y = be16 m y"
  by (simp add: be16_def st16_apply)

lemma be16_st8_other: "y \<noteq> x \<Longrightarrow> y + 1 \<noteq> x \<Longrightarrow> be16 (st8 m x v) y = be16 m y"
  by (simp add: be16_def st8_apply)

lemma be16_st32_other:
  "\<lbrakk>y \<noteq> x; y \<noteq> x + 1; y \<noteq> x + 2; y \<noteq> x + 3; y + 1 \<noteq> x\<rbrakk> \<Longrightarrow> be16 (st32 m x v) y = be16 m y"
  by (auto simp: be16_def st32_apply)

lemmas be16_simps = be16_hton16 be16_length be16_st16_other be16_st8_other be16_st32_other
  SWAP_BYTES_U16_ucast


lemma ucast_add_16: "(ucast (ucast len + y :: u32) :: u16) = len + ucast y"
proof -
  have "(ucast (x + y) :: u16) = ucast x + ucast y" for x y :: u32
  proof -
    have "unat (ucast (x + y) :: u16) = (unat x + unat y) mod 2 ^ 32 mod 2 ^ 16"
      by (simp add: unsigned_ucast_eq take_bit_eq_mod unat_word_ariths)
    also have "\<dots> = (unat x + unat y) mod 2 ^ 16" by (rule mod_mod_cancel) simp
    finally show ?thesis
      by (simp add: word_unat_eq_iff unat_word_ariths unsigned_ucast_eq take_bit_eq_mod mod_add_eq)
  qed
  moreover have "(ucast (ucast len :: u32) :: u16) = len"
    by (rule bit_word_eqI) (auto simp: bit_simps)
  ultimately show ?thesis by simp
qed

lemma length_field:
  assumes "k < 256"
  shows "ucast (ucast (len :: u16) + of_nat k :: u32) OR ucast (drop_bit 16 (ucast len + of_nat k :: u32) AND 0xFF)
    = (if unat len + k < 65536 then len + of_nat k else (len + of_nat k) OR 1)"
proof -
  have l: "unat len < 65536" using unsigned_less [of len, where 'a = nat] by simp
  have "unat (ucast len + of_nat k :: u32) = unat len + k"
    using l assms by (simp add: unat_word_ariths unat_of_nat take_bit_nat_eq_self unsigned_ucast_eq)
  then have "unat (drop_bit 16 (ucast len + of_nat k :: u32)) = (unat len + k) div 65536"
    using unat_drop_bit_eq [of 16 "ucast len + of_nat k :: u32"] by (simp add: drop_bit_eq_div)
  also have "\<dots> = (if unat len + k < 65536 then 0 else 1)"
    using l assms by (auto intro!: div_nat_eqI)
  finally have "drop_bit 16 (ucast len + of_nat k :: u32) = (if unat len + k < 65536 then 0 else 1)"
    unfolding word_unat_eq_iff by simp
  moreover have "(ucast (of_nat k :: u32) :: u16) = of_nat k"
    using assms by (simp add: word_unat_eq_iff unsigned_ucast_eq unat_of_nat take_bit_nat_eq_self)
  ultimately show ?thesis by (simp add: ucast_add_16)
qed

text \<open>The two bytes of a field.\<close>

lemma be16_bytes: "m a = ucast (drop_bit 8 (be16 m a))" "m (a + 1) = ucast (be16 m a)"
  by (rule bit_word_eqI; auto simp: be16_def bit_simps dest: bit_imp_le_length)+

text \<open>
  \<open>FillUDPHeader\<close> puts the two ports and the length of data and header into the header in
  network order and leaves the checksum and everything else alone.  A data length above 65527
  does not fit: the field then holds the low 16 bits of the sum with their lowest bit set.
\<close>

lemma FillUDPHeader_fields:
  "be16 (FillUDPHeader sport dport len m a) a = sport
   \<and> be16 (FillUDPHeader sport dport len m a) (a + 2) = dport
   \<and> be16 (FillUDPHeader sport dport len m a) (a + 4)
       = (if len \<le> 65527 then len + 8 else (len + 8) OR 1)
   \<and> same_outside m (FillUDPHeader sport dport len m a) a 6"
proof (intro conjI)
  let ?m = "FillUDPHeader sport dport len m a"
  show "be16 ?m a = sport" "be16 ?m (a + 2) = dport"
    by (simp_all add: layout FillUDPHeader_def Let_def be16_simps add.assoc)
  show "be16 ?m (a + 4) = (if len \<le> 65527 then len + 8 else (len + 8) OR 1)"
    using length_field [of 8 len] by (simp add: layout FillUDPHeader_def Let_def be16_length word_le_nat_alt)
  show "same_outside m ?m a 6"
    unfolding FillUDPHeader_def Let_def layout by (intro frame_intros; simp add: same_outside_refl)
qed

text \<open>
  \<open>FillIPv4Header\<close> writes version 4 and header length 5, type of service 0, the total length
  in network order, no flags and no fragment offset, time to live 128, the protocol and the two
  addresses; the identification, the checksum and everything else keep their bytes.
\<close>

lemma FillIPv4Header_fields:
  "mem_bytes (FillIPv4Header src dst len proto m a) a 20 =
     [0x45, 0] @ (let n = (if len \<le> 65515 then len + 20 else (len + 20) OR 1)
                  in [ucast (drop_bit 8 n), ucast n])
     @ mem_bytes m (a + 4) 2 @ [0, 0, 128, proto] @ mem_bytes m (a + 10) 2 @ bytes32 src @ bytes32 dst"
proof -
  let ?m = "FillIPv4Header src dst len proto m a"
  let ?n = "if len \<le> 65515 then len + 20 else (len + 20) OR 1"
  have "be16 ?m (a + 2) = ?n"
    using length_field [of 20 len]
    by (simp add: layout FillIPv4Header_def Let_def be16_simps add.assoc word_le_nat_alt)
  then have "?m (a + 2) = ucast (drop_bit 8 ?n)" "?m (a + 3) = ucast ?n"
    using be16_bytes [of ?m "a + 2"] by (simp_all only: add.assoc) simp_all
  moreover have "mem_bytes ?m a 2 = [0x45, 0]" "mem_bytes ?m (a + 4) 16
      = mem_bytes m (a + 4) 2 @ [0, 0, 128, proto] @ mem_bytes m (a + 10) 2 @ bytes32 src @ bytes32 dst"
    by (simp_all add: layout FillIPv4Header_def mem_simps Let_def mem_bytes_simps add.assoc bytes32_def)
  ultimately show ?thesis by (simp add: mem_bytes_simps add.assoc Let_def)
qed

text \<open>\<open>FillEthernetHeader\<close> writes the destination, the source and the type in network order.\<close>

lemma FillEthernetHeader_fields:
  assumes "length src = 6" "length dst = 6"
  shows "mem_bytes (FillEthernetHeader src dst type m a) a 14
      = dst @ src @ [ucast (drop_bit 8 type), ucast type]"
proof -
  let ?m = "FillEthernetHeader src dst type m a"
  obtain s0 s1 s2 s3 s4 s5 where s: "src = [s0, s1, s2, s3, s4, s5]"
    using assms(1) by (auto simp: length_Suc_conv numeral_eq_Suc)
  obtain d0 d1 d2 d3 d4 d5 where d: "dst = [d0, d1, d2, d3, d4, d5]"
    using assms(2) by (auto simp: length_Suc_conv numeral_eq_Suc)
  have "be16 ?m (a + 12) = type"
    by (simp add: layout FillEthernetHeader_def Let_def be16_simps)
  then have "?m (a + 12) = ucast (drop_bit 8 type)" "?m (a + 13) = ucast type"
    using be16_bytes [of ?m "a + 12"] by (simp_all only: add.assoc) simp_all
  moreover have "mem_bytes ?m a 12 = dst @ src"
    by (simp add: layout s d FillEthernetHeader_def mem_simps Let_def mem_bytes_simps add.assoc)
  ultimately show ?thesis by (simp add: mem_bytes_simps add.assoc s d)
qed

end
