(* ===== verification/Dhcp.thy ===== *)
theory Dhcp
  imports Packet Trng
begin

text \<open>
  The DHCP client of \<open>src/dhcp.c\<close>, which so far only sends DISCOVER messages.  The record
  \<open>dhcp\<close> holds the variables of the file.  The packet is built in an array of its own, whose
  first byte has address \<open>0\<close> here, and is handed to \<open>EthernetTransmit\<close>: it is the first
  result of \<open>DHCPSendDiscover\<close>.
\<close>

datatype DHCPState =
    DHCP_STATE_NONE
  | DHCP_STATE_SENT_DISCOVER
  | DHCP_STATE_SENT_REQUEST
  | DHCP_STATE_READY

record dhcp =
  dhcp_state :: DHCPState
  current_transaction_id :: u32

definition ROUND_PACKET_SIZE :: "nat \<Rightarrow> nat" where
  "ROUND_PACKET_SIZE x = (x + 15) div 16 * 16"

definition DHCP_DISCOVER_PACKET_SIZE :: nat where
  "DHCP_DISCOVER_PACKET_SIZE = ROUND_PACKET_SIZE (sizeof DHCPPacket + 3 + 6 + 1)"

definition DHCP_MESSAGE_TYPE_BOOT_REQUEST :: u8 where "DHCP_MESSAGE_TYPE_BOOT_REQUEST = 1"
definition DHCP_HARDWARE_TYPE_MAC :: u8 where "DHCP_HARDWARE_TYPE_MAC = 1"
definition DHCP_HARDWARE_ADDRESS_LENGTH_MAC :: u8 where "DHCP_HARDWARE_ADDRESS_LENGTH_MAC = 6"
definition DHCP_OPTION_MESSAGE_TYPE :: u8 where "DHCP_OPTION_MESSAGE_TYPE = 53"
definition DHCP_OPTION_PARAMETER_REQUEST_LIST :: u8 where "DHCP_OPTION_PARAMETER_REQUEST_LIST = 55"
definition DHCP_OPTION_PARAMETER_REQUEST_LIST_ITEM_SUBNET :: u8 where
  "DHCP_OPTION_PARAMETER_REQUEST_LIST_ITEM_SUBNET = 1"
definition DHCP_OPTION_PARAMETER_REQUEST_LIST_ITEM_ROUTER :: u8 where
  "DHCP_OPTION_PARAMETER_REQUEST_LIST_ITEM_ROUTER = 3"
definition DHCP_OPTION_PARAMETER_REQUEST_LIST_ITEM_DNS :: u8 where
  "DHCP_OPTION_PARAMETER_REQUEST_LIST_ITEM_DNS = 6"
definition DHCP_OPTION_PARAMETER_REQUEST_LIST_ITEM_NTP :: u8 where
  "DHCP_OPTION_PARAMETER_REQUEST_LIST_ITEM_NTP = 42"
definition DHCP_OPTION_END :: u8 where "DHCP_OPTION_END = 0xFF"
definition DHCP_MAGIC_COOKIE :: u32 where "DHCP_MAGIC_COOKIE = 0x63538263"

lemmas dhcp_numbers [layout] = DHCP_MESSAGE_TYPE_BOOT_REQUEST_def DHCP_HARDWARE_TYPE_MAC_def
  DHCP_HARDWARE_ADDRESS_LENGTH_MAC_def DHCP_OPTION_MESSAGE_TYPE_def DHCP_OPTION_PARAMETER_REQUEST_LIST_def
  DHCP_OPTION_PARAMETER_REQUEST_LIST_ITEM_SUBNET_def DHCP_OPTION_PARAMETER_REQUEST_LIST_ITEM_ROUTER_def
  DHCP_OPTION_PARAMETER_REQUEST_LIST_ITEM_DNS_def DHCP_OPTION_PARAMETER_REQUEST_LIST_ITEM_NTP_def
  DHCP_OPTION_END_def DHCP_MAGIC_COOKIE_def

definition DHCPReset :: "dhcp \<Rightarrow> dhcp" where
  "DHCPReset d = d\<lparr>dhcp_state := DHCP_STATE_NONE\<rparr>"

definition DHCPGetState :: "dhcp \<Rightarrow> DHCPState" where
  "DHCPGetState d = dhcp_state d"

text \<open>The message is written behind the place of the headers, and the headers after it.\<close>

definition discover_message :: "u8 list \<Rightarrow> u32 \<Rightarrow> mem \<Rightarrow> mem" where
  "discover_message mac_address xid m =
     (let packet = of_nat UDP_DATA_OFFSET;
          at = (\<lambda>x. packet + offsetof DHCPPacket x);
          m = st8 m (at ''message_type'') DHCP_MESSAGE_TYPE_BOOT_REQUEST;
          m = st8 m (at ''hardware_type'') DHCP_HARDWARE_TYPE_MAC;
          m = st8 m (at ''hardware_address_length'') DHCP_HARDWARE_ADDRESS_LENGTH_MAC;
          m = st32 m (at ''transaction_id'') (SWAP_BYTES_U32 xid);
          m = mem_put m (at ''client_hardware_address'') (take (sizeof MACAddress) mac_address);
          m = st32 m (at ''magic_cookie'') DHCP_MAGIC_COOKIE;
          options = of_nat UDP_DATA_OFFSET + of_nat (sizeof DHCPPacket)
      in mem_put m options
           [DHCP_OPTION_MESSAGE_TYPE, 1, 1, DHCP_OPTION_PARAMETER_REQUEST_LIST, 4,
            DHCP_OPTION_PARAMETER_REQUEST_LIST_ITEM_SUBNET, DHCP_OPTION_PARAMETER_REQUEST_LIST_ITEM_ROUTER,
            DHCP_OPTION_PARAMETER_REQUEST_LIST_ITEM_DNS, DHCP_OPTION_PARAMETER_REQUEST_LIST_ITEM_NTP,
            DHCP_OPTION_END])"

definition discover_frame :: "u8 list \<Rightarrow> u32 \<Rightarrow> mem" where
  "discover_frame mac_address xid =
     (let m = discover_message mac_address xid (\<lambda>_. 0);
          m = FillUDPHeader 67 68 (of_nat DHCP_DISCOVER_PACKET_SIZE) m (of_nat UDP_HEADER_OFFSET);
          m = FillIPv4Header IPV4_ZERO_ADDRESS IPV4_BROADCAST_ADDRESS
                (of_nat (sizeof UDPHeader + DHCP_DISCOVER_PACKET_SIZE)) IPV4_HEADER_PROTOCOL_UDP
                m (of_nat IPV4_HEADER_OFFSET)
      in FillEthernetHeader mac_address kBroadcastMACAddress ETHERNET_HEADER_TYPE_IPV4 m 0)"

definition discover_packet :: "u8 list \<Rightarrow> u32 \<Rightarrow> u8 list" where
  "discover_packet mac_address xid =
     mem_bytes (discover_frame mac_address xid) 0 (MIN_UDP_PACKET_SIZE + DHCP_DISCOVER_PACKET_SIZE)"

definition DHCPSendDiscover :: "board \<Rightarrow> u8 list \<Rightarrow> dhcp \<Rightarrow> hw \<Rightarrow> (u8 list \<times> dhcp \<times> hw) option" where
  "DHCPSendDiscover b mac_address d h = do {
     (xid, h) \<leftarrow> RandomUInt32 b h;
     let d = d\<lparr>current_transaction_id := xid\<rparr>;
     Some (discover_packet mac_address xid, d\<lparr>dhcp_state := DHCP_STATE_SENT_DISCOVER\<rparr>, h)
   }"

text \<open>The handler of received packets has an empty body.\<close>

definition DHCPProcessPacket :: "u8 list \<Rightarrow> u8 list \<Rightarrow> u32 \<Rightarrow> dhcp \<Rightarrow> dhcp" where
  "DHCPProcessPacket mac_address packet len d = d"

section \<open>The DISCOVER frame\<close>

lemma packet_size: "DHCP_DISCOVER_PACKET_SIZE = 256"
  by (simp add: DHCP_DISCOVER_PACKET_SIZE_def ROUND_PACKET_SIZE_def layout)

lemma discover_frame_at:
  "discover_frame mac xid = FillEthernetHeader mac kBroadcastMACAddress 0x0800
     (FillIPv4Header 0 0xFFFFFFFF 264 0x11
       (FillUDPHeader 67 68 256 (discover_message mac xid (\<lambda>_. 0)) 34) 14) 0"
  by (simp add: discover_frame_def packet_size layout)

lemma discover_headers:
  assumes "length mac = 6"
  shows "mem_bytes (discover_frame mac xid) 0 42 =
      kBroadcastMACAddress @ mac @ [0x08, 0x00]
      @ [0x45, 0, 0x01, 0x1C, 0, 0, 0, 0, 128, 17, 0, 0, 0, 0, 0, 0, 255, 255, 255, 255]
      @ [0, 67, 0, 68, 0x01, 0x08, 0, 0]"
proof -
  obtain s0 s1 s2 s3 s4 s5 where s: "mac = [s0, s1, s2, s3, s4, s5]"
    using assms by (auto simp: length_Suc_conv numeral_eq_Suc)
  show ?thesis
    by (simp add: layout s discover_frame_def discover_message_def FillEthernetHeader_def FillIPv4Header_def
        FillUDPHeader_def kBroadcastMACAddress_def SWAP_BYTES_U16_def packet_size Let_def mem_simps mem_bytes_simps)
qed

lemma discover_body:
  assumes "n \<le> 256"
  shows "mem_bytes (discover_frame mac xid) 42 n = mem_bytes (discover_message mac xid (\<lambda>_. 0)) 42 n"
proof (rule nth_equalityI)
  fix i assume "i < length (mem_bytes (discover_frame mac xid) 42 n)"
  with assms have i: "i < n" "i < 256" by simp_all
  define x :: u32 where "x = 42 + of_nat i"
  have "x - 0 = of_nat (i + 42)" "x - 14 = of_nat (i + 28)" "x - 34 = of_nat (i + 8)"
    by (simp_all add: x_def)
  moreover have "unat (of_nat (i + k) :: u32) = i + k" if "k < 256" for k
    using i(2) that by (intro unat_of_nat_32) simp
  ultimately have "unat (x - 0) = i + 42" "unat (x - 14) = i + 28" "unat (x - 34) = i + 8"
    by (simp_all only:)
  then have "14 \<le> unat (x - 0)" "20 \<le> unat (x - 14)" "8 \<le> unat (x - 34)"
    by linarith+
  then have "discover_frame mac xid x = discover_message mac xid (\<lambda>_. 0) x"
    by (simp only: discover_frame_at ipv4.outside ethernet.outside udp.outside)
  then show "mem_bytes (discover_frame mac xid) 42 n ! i = mem_bytes (discover_message mac xid (\<lambda>_. 0)) 42 n ! i"
    using i(1) by (simp add: mem_bytes_nth x_def)
qed simp

lemma SWAP_BYTES_U32_nth:
  "ucast (SWAP_BYTES_U32 x) = (ucast (drop_bit 24 x) :: u8)"
  "ucast (drop_bit 8 (SWAP_BYTES_U32 x)) = (ucast (drop_bit 16 x) :: u8)"
  "ucast (drop_bit 16 (SWAP_BYTES_U32 x)) = (ucast (drop_bit 8 x) :: u8)"
  "ucast (drop_bit 24 (SWAP_BYTES_U32 x)) = (ucast x :: u8)"
  using SWAP_BYTES_U32_bytes [of x] by (simp_all add: bytes32_def)

lemma discover_message_bytes:
  assumes "length mac = 6"
  shows "mem_bytes (discover_message mac xid (\<lambda>_. 0)) 42 256 =
      [1, 1, 6, 0] @ rev (bytes32 xid) @ replicate 20 0 @ mac @ replicate 202 0
      @ [0x63, 0x82, 0x53, 0x63] @ [53, 1, 1, 55, 4, 1, 3, 6, 42, 255] @ replicate 6 0"
proof -
  obtain s0 s1 s2 s3 s4 s5 where s: "mac = [s0, s1, s2, s3, s4, s5]"
    using assms by (auto simp: length_Suc_conv numeral_eq_Suc)
  have rep: "replicate (numeral k) (0 :: u8) = 0 # replicate (pred_numeral k) 0" for k
    by (simp add: numeral_eq_Suc)
  show ?thesis
    by (simp add: layout s discover_message_def Let_def mem_simps mem_bytes_simps bytes32_def rep SWAP_BYTES_U32_nth
        unat_minus_1_32)
qed

text \<open>
  C35. The DISCOVER frame, byte by byte: a broadcast Ethernet frame from the board's address with
  an IPv4 packet of 284 bytes (time to live 128, protocol UDP, from 0.0.0.0 to the broadcast
  address, checksums left to the hardware), a UDP datagram of 264 bytes from port 67 to port 68,
  and a boot request with the transaction id in network order, the client's hardware address,
  the magic cookie, the DISCOVER option, the parameter request list and the end mark.
\<close>

theorem DHCPSendDiscover_frame:
  assumes "length mac = 6" "RandomUInt32 b h = Some (xid, h')"
  shows "DHCPSendDiscover b mac d h = Some
     (kBroadcastMACAddress @ mac @ [0x08, 0x00]
      @ [0x45, 0, 0x01, 0x1C, 0, 0, 0, 0, 128, 17, 0, 0, 0, 0, 0, 0, 255, 255, 255, 255]
      @ [0, 67, 0, 68, 0x01, 0x08, 0, 0]
      @ [1, 1, 6, 0] @ rev (bytes32 xid) @ replicate 20 0 @ mac @ replicate 202 0
      @ [0x63, 0x82, 0x53, 0x63] @ [53, 1, 1, 55, 4, 1, 3, 6, 42, 255] @ replicate 6 0,
      \<lparr>dhcp_state = DHCP_STATE_SENT_DISCOVER, current_transaction_id = xid\<rparr>, h')"
proof -
  have "mem_bytes (discover_frame mac xid) 0 (42 + 256)
      = mem_bytes (discover_frame mac xid) 0 42 @ mem_bytes (discover_message mac xid (\<lambda>_. 0)) 42 256"
    by (simp only: mem_bytes_append) (simp add: discover_body)
  then show ?thesis
    using assms(2)
    by (simp only: DHCPSendDiscover_def discover_packet_def discover_headers [OF assms(1)] discover_message_bytes [OF assms(1)]
        packet_size MIN_UDP_PACKET_SIZE_def) (simp add: layout)
qed

definition still_board :: board where
  "still_board = \<lparr>RNG_DRDY = \<lambda>_. True, RNG_DATA = \<lambda>_. 0x01020304, SysTick_CNT = \<lambda>_. 0\<rparr>"

theorem DHCPSendDiscover_frame_witness:
  "\<forall>d. map_option (\<lambda>(frame, d, h). (take 8 (drop 42 frame), d))
      (DHCPSendDiscover still_board [2, 0, 0, 0, 0, 1] d \<lparr>clk = 1, ahb_rng = True, rng_en = True\<rparr>)
     = Some ([1, 1, 6, 0, 1, 2, 3, 4],
         \<lparr>dhcp_state = DHCP_STATE_SENT_DISCOVER, current_transaction_id = 0x01020304\<rparr>)"
proof
  fix d :: dhcp
  have "RandomUInt32 still_board \<lparr>clk = 1, ahb_rng = True, rng_en = True\<rparr>
      = Some (0x01020304, \<lparr>clk = 3, ahb_rng = True, rng_en = True\<rparr>)"
    by (simp add: RandomUInt32_ready still_board_def tick_def)
  from DHCPSendDiscover_frame [OF _ this, of "[2, 0, 0, 0, 0, 1]" d]
  show "map_option (\<lambda>(frame, d, h). (take 8 (drop 42 frame), d))
      (DHCPSendDiscover still_board [2, 0, 0, 0, 0, 1] d \<lparr>clk = 1, ahb_rng = True, rng_en = True\<rparr>)
     = Some ([1, 1, 6, 0, 1, 2, 3, 4],
         \<lparr>dhcp_state = DHCP_STATE_SENT_DISCOVER, current_transaction_id = 0x01020304\<rparr>)"
    by (simp add: kBroadcastMACAddress_def bytes32_def)
qed

text \<open>Without an answer handler the client never gets past sending DISCOVER messages.\<close>

lemma DHCP_states:
  "DHCPSendDiscover b mac d h = Some (frame, d', h') \<Longrightarrow> dhcp_state d' = DHCP_STATE_SENT_DISCOVER"
  by (auto simp: DHCPSendDiscover_def Option.bind_eq_Some_conv Let_def)

end
