(* ===== verification/Prdk.thy ===== *)
theory Prdk
  imports Prng Dhcp
begin

text \<open>
  The frame handler \<open>PacketRxInterrupt\<close> of \<open>src/prdk.c\<close>: it answers echo requests, requests to
  the character generator service and ARP requests in place, in the buffer of the received
  frame, and returns the length of the answer to be sent.

  A header structure is its address, a member lies at its \<open>offsetof\<close>, and \<open>obj_end t p\<close> is the
  \<open>p + 1\<close> of C: the IP or ARP header is at \<open>frame + 14\<close>, the payload of an IP packet at
  \<open>frame + 34\<close> and that of a UDP datagram at \<open>frame + 42\<close>, which the proofs work with.
\<close>

record world =
  w_mem :: mem
  w_prng :: prng
  w_hw :: hw

definition kIPv4Net :: u32 where
  "kIPv4Net = MkIPv4Net 192 168 141 123"

definition SVC_CHARGEN :: u16 where
  "SVC_CHARGEN = 19"

definition ETHERMTU_UDP :: nat where
  "ETHERMTU_UDP = ETHERMTU - sizeof struct_ip - sizeof struct_udphdr"

definition PACKET_PROCESSED :: int where
  "PACKET_PROCESSED = - 1"

definition PACKET_TO_MAINLOOP :: int where
  "PACKET_TO_MAINLOOP = - 2"

section \<open>The handler\<close>

text \<open>The loops that fill the payload with numbers, by words, half words and blocks of four words.\<close>

fun fill32 :: "('s \<Rightarrow> (u32 \<times> 's) option) \<Rightarrow> nat \<Rightarrow> u32 \<Rightarrow> mem \<Rightarrow> 's \<Rightarrow> (mem \<times> 's) option" where
  "fill32 draw 0 dat m s = Some (m, s)"
| "fill32 draw (Suc n) dat m s = do {
     (r, s) \<leftarrow> draw s;
     fill32 draw n (dat + 4) (st32 m dat r) s
   }"

fun fill16 :: "('s \<Rightarrow> (u16 \<times> 's) option) \<Rightarrow> nat \<Rightarrow> u32 \<Rightarrow> mem \<Rightarrow> 's \<Rightarrow> (mem \<times> 's) option" where
  "fill16 draw 0 dat m s = Some (m, s)"
| "fill16 draw (Suc n) dat m s = do {
     (r, s) \<leftarrow> draw s;
     fill16 draw n (dat + 2) (st16 m dat r) s
   }"

fun fill128 :: "('s \<Rightarrow> ((u64 \<times> u32 list) \<times> 's) option) \<Rightarrow> nat \<Rightarrow> u32 \<Rightarrow> mem \<Rightarrow> 's \<Rightarrow> (mem \<times> 's) option" where
  "fill128 draw 0 dat m s = Some (m, s)"
| "fill128 draw (Suc n) dat m s = do {
     ((r, dst), s) \<leftarrow> draw s;
     let m = st32 (st32 m dat (dst ! 0)) (dat + 4) (dst ! 1);
     let m = st32 m (dat + 8) (ucast r);
     let m = st32 m (dat + 12) (ucast (drop_bit 32 r));
     fill128 draw n (dat + 16) m s
   }"

definition chargen_payload :: "board \<Rightarrow> u8 \<Rightarrow> u32 \<Rightarrow> world \<Rightarrow> world option" where
  "chargen_payload b payload dat w =
     (if payload = 0x54 then do {
        (m, h) \<leftarrow> fill32 (RandomUInt32 b) (ETHERMTU_UDP div 4) dat (w_mem w) (w_hw w);
        Some (w\<lparr>w_mem := m, w_hw := h\<rparr>)
      } else if payload = 0x50 then do {
        (m, p) \<leftarrow> fill32 (\<lambda>p. Some (PcgUInt32 p)) (ETHERMTU_UDP div 4) dat (w_mem w) (w_prng w);
        Some (w\<lparr>w_mem := m, w_prng := p\<rparr>)
      } else if payload = 0x70 then do {
        (m, p) \<leftarrow> fill16 (\<lambda>p. Some (PcgUInt16 p)) (ETHERMTU_UDP div 2) dat (w_mem w) (w_prng w);
        Some (w\<lparr>w_mem := m, w_prng := p\<rparr>)
      } else if payload = 0x43 then do {
        (m, h) \<leftarrow> fill128 (\<lambda>h. Some (CSPrngUInt64x2 b (w_prng w) h)) (ETHERMTU_UDP div 16) dat (w_mem w) (w_hw w);
        Some (w\<lparr>w_mem := m, w_hw := h\<rparr>)
      } else Some w)"

text \<open>The answers, once the conditions on the received frame hold.\<close>

definition icmp_reply :: "u8 list \<Rightarrow> u32 \<Rightarrow> mem \<Rightarrow> mem" where
  "icmp_reply mac eth m =
     (let ip = obj_end struct_ether_header eth; icmp = obj_end struct_ip ip;
          dhost = eth + offsetof struct_ether_header ''ether_dhost'';
          shost = eth + offsetof struct_ether_header ''ether_shost'';
          src = ip + offsetof struct_ip ''ip_src''; dst = ip + offsetof struct_ip ''ip_dst'';
          m = st8 m (icmp + offsetof struct_icmp ''icmp_type'') ICMP_ECHOREPLY;
          m = st8 m (ip + offsetof struct_ip ''ip_ttl'') IPDEFTTL;
          m = st32 m dst (ld32 m src);
          m = st32 m (src + offsetof struct_in_addr ''s_addr'') kIPv4Net;
          m = memcpy m dhost shost ETHER_ADDR_LEN
      in mem_put m shost (take ETHER_ADDR_LEN mac))"

definition chargen_headers :: "u8 list \<Rightarrow> u32 \<Rightarrow> mem \<Rightarrow> mem" where
  "chargen_headers mac eth m =
     (let ip = obj_end struct_ether_header eth; udp = obj_end struct_ip ip;
          dhost = eth + offsetof struct_ether_header ''ether_dhost'';
          shost = eth + offsetof struct_ether_header ''ether_shost'';
          src = ip + offsetof struct_ip ''ip_src''; dst = ip + offsetof struct_ip ''ip_dst'';
          m = memcpy m dhost shost ETHER_ADDR_LEN;
          m = mem_put m shost (take ETHER_ADDR_LEN mac);
          m = st8 m (ip + offsetof struct_ip ''ip_ttl'') 1;
          m = st16 m (ip + offsetof struct_ip ''ip_len'') (hton16 (of_nat ETHERMTU));
          m = st32 m dst (ld32 m src);
          m = st32 m (src + offsetof struct_in_addr ''s_addr'') kIPv4Net;
          m = st16 m (udp + offsetof struct_udphdr ''uh_dport'') (ld16 m (udp + offsetof struct_udphdr ''uh_sport''));
          m = st16 m (udp + offsetof struct_udphdr ''uh_sport'') (hton16 SVC_CHARGEN)
      in st16 m (udp + offsetof struct_udphdr ''uh_ulen'') (hton16 (of_nat (ETHERMTU - sizeof struct_ip))))"

definition arp_reply :: "u8 list \<Rightarrow> u32 \<Rightarrow> mem \<Rightarrow> mem" where
  "arp_reply mac eth m =
     (let arp = obj_end struct_ether_header eth;
          dhost = eth + offsetof struct_ether_header ''ether_dhost'';
          shost = eth + offsetof struct_ether_header ''ether_shost'';
          sha = arp + offsetof struct_ether_arp ''arp_sha''; spa = arp + offsetof struct_ether_arp ''arp_spa'';
          tha = arp + offsetof struct_ether_arp ''arp_tha'';
          m = memcpy m dhost shost ETHER_ADDR_LEN;
          m = mem_put m shost (take ETHER_ADDR_LEN mac);
          m = st16 m (arp + offsetof struct_arphdr ''ar_op'') (hton16 ARPOP_REPLY);
          m = memcpy m tha sha (ETHER_ADDR_LEN + sizeof struct_in_addr);
          m = mem_put m sha (take ETHER_ADDR_LEN mac)
      in mem_put m spa (take (sizeof struct_in_addr) (bytes32 kIPv4Net)))"

text \<open>
  The handler: its conditions on the received frame, in the order of the code.  The dump of the
  frame to the console that comes before is modelled in \<open>Console\<close>.
\<close>

definition PacketRxInterrupt :: "board \<Rightarrow> u8 list \<Rightarrow> u32 \<Rightarrow> u32 \<Rightarrow> world \<Rightarrow> (int \<times> world) option" where
  "PacketRxInterrupt b kMACAddress frame len w =
     (let m = w_mem w; eth = frame; ether_type = ld16 m (eth + offsetof struct_ether_header ''ether_type'') in
      if ether_type = hton16 ETHERTYPE_IP then
        let ip = obj_end struct_ether_header eth;
            ip_p = m (ip + offsetof struct_ip ''ip_p'');
            ip_ttl = m (ip + offsetof struct_ip ''ip_ttl'') in
        if ld_bits struct_ip ''ip_v'' m ip = 4 \<and> ld_bits struct_ip ''ip_hl'' m ip = 5
           \<and> ld32 m (ip + offsetof struct_ip ''ip_dst'' + offsetof struct_in_addr ''s_addr'') = kIPv4Net then
          if ip_p = IPPROTO_ICMP then
            let icmp = obj_end struct_ip ip in
            if m (icmp + offsetof struct_icmp ''icmp_type'') = ICMP_ECHO
               \<and> m (icmp + offsetof struct_icmp ''icmp_code'') = 0 then
              let m = icmp_reply kMACAddress eth m
              in Some (int (sizeof struct_ether_header)
                     + int (unat (ntoh16 (ld16 m (ip + offsetof struct_ip ''ip_len'')))), w\<lparr>w_mem := m\<rparr>)
            else Some (PACKET_PROCESSED, w)
          else if ip_p = IPPROTO_UDP then
            let udp = obj_end struct_ip ip in
            if ld16 m (udp + offsetof struct_udphdr ''uh_dport'') = hton16 SVC_CHARGEN \<and> ip_ttl = MAXTTL
               \<and> sizeof struct_udphdr + 1 \<le> unat (ntoh16 (ld16 m (udp + offsetof struct_udphdr ''uh_ulen''))) then do {
              let dat = obj_end struct_udphdr udp;
              let payload = m dat;
              w \<leftarrow> chargen_payload b payload dat (w\<lparr>w_mem := chargen_headers kMACAddress eth m\<rparr>);
              Some (int (sizeof struct_ether_header) + int ETHERMTU, w)
            }
            else Some (PACKET_PROCESSED, w)
          else Some (PACKET_PROCESSED, w)
        else Some (PACKET_PROCESSED, w)
      else if ether_type = hton16 ETHERTYPE_ARP then
        let arp = obj_end struct_ether_header eth;
            ar_op = ld16 m (arp + offsetof struct_arphdr ''ar_op'') in
        if ld16 m (arp + offsetof struct_arphdr ''ar_hrd'') = hton16 ARPHRD_ETHER
           \<and> ld16 m (arp + offsetof struct_arphdr ''ar_pro'') = hton16 ETHERTYPE_IP
           \<and> unat (m (arp + offsetof struct_arphdr ''ar_hln'')) = ETHER_ADDR_LEN
           \<and> unat (m (arp + offsetof struct_arphdr ''ar_pln'')) = sizeof struct_in_addr then
          if ar_op = hton16 ARPOP_REQUEST
             \<and> mem_bytes m (arp + offsetof struct_ether_arp ''arp_tpa'') 4 = bytes32 kIPv4Net
          then Some (int (sizeof struct_ether_header) + int (sizeof struct_ether_arp),
                     w\<lparr>w_mem := arp_reply kMACAddress eth m\<rparr>)
          else Some (PACKET_PROCESSED, w)
        else Some (PACKET_PROCESSED, w)
      else Some (PACKET_PROCESSED, w))"

section \<open>The answers in place\<close>

text \<open>The three requests, as the byte patterns the conditions of the handler come to.\<close>

definition ipv4_to_us :: "u32 \<Rightarrow> mem \<Rightarrow> bool" where
  "ipv4_to_us eth m \<longleftrightarrow> mem_bytes m (eth + 12) 3 = [0x08, 0x00, 0x45]
     \<and> mem_bytes m (eth + 30) 4 = [192, 168, 141, 123]"

definition echo_request :: "u32 \<Rightarrow> mem \<Rightarrow> bool" where
  "echo_request eth m \<longleftrightarrow> ipv4_to_us eth m \<and> m (eth + 23) = 1 \<and> mem_bytes m (eth + 34) 2 = [8, 0]"

definition chargen_request :: "u32 \<Rightarrow> mem \<Rightarrow> bool" where
  "chargen_request eth m \<longleftrightarrow> ipv4_to_us eth m \<and> mem_bytes m (eth + 22) 2 = [255, 17]
     \<and> mem_bytes m (eth + 36) 2 = [0, 19] \<and> 9 \<le> be16 m (eth + 38)"

definition arp_request :: "u32 \<Rightarrow> mem \<Rightarrow> bool" where
  "arp_request eth m \<longleftrightarrow> mem_bytes m (eth + 12) 10 = [0x08, 0x06, 0, 1, 0x08, 0x00, 6, 4, 0, 1]
     \<and> mem_bytes m (eth + 38) 4 = [192, 168, 141, 123]"


lemma hton16_ld16: "hton16 (ld16 m a) = be16 m a"
  by (rule bit_word_eqI) (auto simp: hton16_def ld16_def be16_def bit_simps dest: bit_imp_le_length)

lemma ld16_hton16: "ld16 m a = hton16 v \<longleftrightarrow> be16 m a = v"
  by (metis hton16_hton16 hton16_ld16)

lemma be16_pattern: "be16 m a = v \<longleftrightarrow> mem_bytes m a 2 = [ucast (drop_bit 8 v), ucast v]"
proof
  assume "be16 m a = v"
  then show "mem_bytes m a 2 = [ucast (drop_bit 8 v), ucast v]"
    using be16_bytes [of m a] by (simp add: mem_bytes_simps)
next
  assume "mem_bytes m a 2 = [ucast (drop_bit 8 v), ucast v]"
  then have "be16 m a = push_bit 8 (ucast (ucast (drop_bit 8 v) :: u8)) OR ucast (ucast v :: u8)"
    by (simp add: mem_bytes_simps be16_def)
  also have "\<dots> = v" using join16 [of v] by (simp add: or.commute)
  finally show "be16 m a = v" .
qed

lemma bytes_kIPv4Net: "bytes32 kIPv4Net = [192, 168, 141, 123]"
  by (simp add: kIPv4Net_def MkIPv4Net_def bytes32_def)

lemma ld32_kIPv4Net: "ld32 m a = kIPv4Net \<longleftrightarrow> mem_bytes m a 4 = [192, 168, 141, 123]"
  by (simp add: bytes32_ld32 flip: bytes_kIPv4Net)

lemma nibbles: "drop_bit 4 x = 4 \<and> x AND 0xF = 5 \<longleftrightarrow> (x :: u8) = 0x45"
proof
  assume *: "drop_bit 4 x = 4 \<and> x AND 0xF = 5"
  have "x = push_bit 4 (drop_bit 4 x) OR take_bit 4 x"
    by (rule bit_word_eqI) (auto simp: bit_simps)
  moreover have "take_bit 4 x = x AND 0xF" by (simp add: take_bit_eq_mask mask_eq_exp_minus_1)
  ultimately have "x = push_bit 4 4 OR 5" using * by simp
  then show "x = 0x45" by simp
qed simp

lemma mem_bytes_2: "mem_bytes m a 2 = [m a, m (a + 1)]"
  by (simp add: mem_bytes_simps)

lemma ethertype_bytes: "(2048 :: u8) = 0" "(2054 :: u8) = 6"
  by simp_all

lemma ipv4_to_us_iff:
  "ld16 m (eth + 12) = hton16 0x0800 \<and> drop_bit 4 (m (eth + 14)) = 4 \<and> m (eth + 14) AND 0xF = 5
     \<and> ld32 m (eth + 30) = kIPv4Net \<longleftrightarrow> ipv4_to_us eth m"
  using nibbles [of "m (eth + 14)"]
  by (auto simp: ld16_hton16 be16_pattern ld32_kIPv4Net ipv4_to_us_def mem_bytes_simps add.assoc ethertype_bytes)

lemma echo_request_iff:
  "echo_request eth m \<longleftrightarrow> ld16 m (eth + 12) = hton16 0x0800 \<and> drop_bit 4 (m (eth + 14)) = 4
     \<and> m (eth + 14) AND 0xF = 5 \<and> ld32 m (eth + 30) = kIPv4Net
     \<and> m (eth + 23) = 1 \<and> m (eth + 34) = 8 \<and> m (eth + 35) = 0"
  using ipv4_to_us_iff [of m eth] by (auto simp: echo_request_def mem_bytes_simps add.assoc)

lemma chargen_request_iff:
  "chargen_request eth m \<longleftrightarrow> ld16 m (eth + 12) = hton16 0x0800 \<and> drop_bit 4 (m (eth + 14)) = 4
     \<and> m (eth + 14) AND 0xF = 5 \<and> ld32 m (eth + 30) = kIPv4Net
     \<and> m (eth + 23) = 17 \<and> ld16 m (eth + 36) = hton16 19 \<and> m (eth + 22) = 255
     \<and> 9 \<le> unat (ntoh16 (ld16 m (eth + 38)))"
  using ipv4_to_us_iff [of m eth]
  by (auto simp: chargen_request_def mem_bytes_simps add.assoc ntoh16_def hton16_ld16 word_le_nat_alt
      ld16_hton16 be16_pattern)

lemma arp_request_iff:
  "arp_request eth m \<longleftrightarrow> ld16 m (eth + 12) = hton16 0x0806 \<and> ld16 m (eth + 14) = hton16 1
     \<and> ld16 m (eth + 16) = hton16 0x0800 \<and> m (eth + 18) = 6 \<and> m (eth + 19) = 4
     \<and> ld16 m (eth + 20) = hton16 1 \<and> mem_bytes m (eth + 38) 4 = bytes32 kIPv4Net"
  by (auto simp: arp_request_def ld16_hton16 be16_pattern mem_bytes_simps add.assoc ethertype_bytes bytes_kIPv4Net)

lemma ld_bits_ip: "ld_bits struct_ip ''ip_v'' m a = drop_bit 4 (m a)"
  "ld_bits struct_ip ''ip_hl'' m a = m a AND 0xF"
proof -
  have "take_bit 4 (drop_bit 4 x) = drop_bit 4 x" for x :: u8
    by (rule bit_word_eqI) (auto simp: bit_simps dest: bit_imp_le_length)
  then show "ld_bits struct_ip ''ip_v'' m a = drop_bit 4 (m a)"
    by (simp add: ld_bits_def layout)
  show "ld_bits struct_ip ''ip_hl'' m a = m a AND 0xF"
    by (simp add: ld_bits_def layout take_bit_eq_mask mask_eq_exp_minus_1)
qed

lemma unat_u8_eq: "unat (x :: u8) = 6 \<longleftrightarrow> x = 6" "unat (x :: u8) = 4 \<longleftrightarrow> x = 4"
  by (simp_all add: word_unat_eq_iff)

lemmas handler_layout = layout SVC_CHARGEN_def ld_bits_ip unat_u8_eq

text \<open>The handler as a case distinction on the three requests.\<close>

lemma PacketRxInterrupt_cases:
  "PacketRxInterrupt b mac frame len w =
     (if echo_request frame (w_mem w)
      then Some (14 + int (unat (be16 (icmp_reply mac frame (w_mem w)) (frame + 16))),
                 w\<lparr>w_mem := icmp_reply mac frame (w_mem w)\<rparr>)
      else if chargen_request frame (w_mem w)
      then map_option (\<lambda>w. (1514, w))
        (chargen_payload b (w_mem w (frame + 42)) (frame + 42) (w\<lparr>w_mem := chargen_headers mac frame (w_mem w)\<rparr>))
      else if arp_request frame (w_mem w)
      then Some (42, w\<lparr>w_mem := arp_reply mac frame (w_mem w)\<rparr>)
      else Some (PACKET_PROCESSED, w))"
  unfolding echo_request_iff chargen_request_iff arp_request_iff
  by (auto simp: PacketRxInterrupt_def handler_layout Let_def add.assoc ntoh16_def hton16_ld16 split: if_splits Option.bind_split)

section \<open>What the answers contain\<close>

lemma ld32_nth:
  "ucast (ld32 m a) = m a" "ucast (drop_bit 8 (ld32 m a)) = m (a + 1)"
  "ucast (drop_bit 16 (ld32 m a)) = m (a + 2)" "ucast (drop_bit 24 (ld32 m a)) = m (a + 3)"
  using bytes32_ld32 [of m a] by (simp_all add: bytes32_def mem_bytes_simps add.assoc)

lemma ld16_nth: "ucast (ld16 m a) = m a" "ucast (drop_bit 8 (ld16 m a)) = m (a + 1)"
  by (simp_all add: ld16_def split16 del: drop_bit_or)

lemma kIPv4Net_nth:
  "ucast kIPv4Net = (192 :: u8)" "ucast (drop_bit 8 kIPv4Net) = (168 :: u8)"
  "ucast (drop_bit 16 kIPv4Net) = (141 :: u8)" "ucast (drop_bit 24 kIPv4Net) = (123 :: u8)"
  using bytes_kIPv4Net by (simp_all add: bytes32_def)

lemmas reply_simps = Let_def mem_simps mem_bytes_simps add.assoc ld32_nth ld16_nth kIPv4Net_nth
  bytes_kIPv4Net hton16_bytes unat_minus_1_32 layout SVC_CHARGEN_def

lemma length_6_cases: "length v = 6 \<Longrightarrow> \<exists>a b c d e f. v = [a, b, c, d, e, f]"
  by (auto simp: length_Suc_conv numeral_eq_Suc)

text \<open>
  The first bytes of each answer, from those of the request: the addresses are exchanged, the
  sender's ones being the board's, and the fields named in the code are set.
\<close>

definition icmp_answer :: "u8 list \<Rightarrow> u32 \<Rightarrow> mem \<Rightarrow> u8 list" where
  "icmp_answer mac eth m =
     mem_bytes m (eth + 6) 6 @ mac @ mem_bytes m (eth + 12) 10 @ [64, m (eth + 23)]
     @ mem_bytes m (eth + 24) 2 @ [192, 168, 141, 123] @ mem_bytes m (eth + 26) 4 @ [0, m (eth + 35)]"

definition chargen_answer :: "u8 list \<Rightarrow> u32 \<Rightarrow> mem \<Rightarrow> u8 list" where
  "chargen_answer mac eth m =
     mem_bytes m (eth + 6) 6 @ mac @ mem_bytes m (eth + 12) 4 @ [0x05, 0xDC] @ mem_bytes m (eth + 18) 4
     @ [1, m (eth + 23)] @ mem_bytes m (eth + 24) 2 @ [192, 168, 141, 123] @ mem_bytes m (eth + 26) 4
     @ [0, 19] @ mem_bytes m (eth + 34) 2 @ [0x05, 0xC8] @ mem_bytes m (eth + 40) 2"

definition arp_answer :: "u8 list \<Rightarrow> u32 \<Rightarrow> mem \<Rightarrow> u8 list" where
  "arp_answer mac eth m =
     mem_bytes m (eth + 6) 6 @ mac @ mem_bytes m (eth + 12) 8 @ [0, 2]
     @ mac @ [192, 168, 141, 123] @ mem_bytes m (eth + 22) 10"

lemma length_answers:
  assumes "length mac = 6"
  shows "length (icmp_answer mac eth m) = 36" "length (chargen_answer mac eth m) = 42"
    "length (arp_answer mac eth m) = 42"
  using assms by (simp_all add: icmp_answer_def chargen_answer_def arp_answer_def)

lemma mem_put_eqI:
  assumes "same_outside m m' a n" "mem_bytes m' a n = bs"
  shows "m' = mem_put m a bs"
proof
  fix x
  show "m' x = mem_put m a bs x"
  proof (cases "unat (x - a) < n")
    case True
    then have "bs ! unat (x - a) = m' (a + of_nat (unat (x - a)))"
      by (simp only: assms(2) [symmetric] mem_bytes_nth)
    with True show ?thesis by (simp add: mem_put_apply flip: assms(2))
  next
    case False
    then show ?thesis using assms(1) by (simp add: mem_put_apply same_outside_def flip: assms(2))
  qed
qed

lemma icmp_reply_eq:
  assumes "length mac = 6"
  shows "icmp_reply mac eth m = mem_put m eth (icmp_answer mac eth m)"
proof (rule mem_put_eqI)
  show "same_outside m (icmp_reply mac eth m) eth 36"
    unfolding icmp_reply_def Let_def layout SVC_CHARGEN_def by (intro frame_intros) (simp_all add: add.assoc)
  show "mem_bytes (icmp_reply mac eth m) eth 36 = icmp_answer mac eth m"
    using length_6_cases [OF assms] by (auto simp: icmp_reply_def icmp_answer_def reply_simps)
qed

lemma chargen_headers_eq:
  assumes "length mac = 6"
  shows "chargen_headers mac eth m = mem_put m eth (chargen_answer mac eth m)"
proof (rule mem_put_eqI)
  show "same_outside m (chargen_headers mac eth m) eth 42"
    unfolding chargen_headers_def Let_def layout SVC_CHARGEN_def by (intro frame_intros) (simp_all add: add.assoc)
  show "mem_bytes (chargen_headers mac eth m) eth 42 = chargen_answer mac eth m"
    using length_6_cases [OF assms] by (auto simp: chargen_headers_def chargen_answer_def reply_simps)
qed

lemma arp_reply_eq:
  assumes "length mac = 6"
  shows "arp_reply mac eth m = mem_put m eth (arp_answer mac eth m)"
proof (rule mem_put_eqI)
  show "same_outside m (arp_reply mac eth m) eth 42"
    unfolding arp_reply_def Let_def layout SVC_CHARGEN_def by (intro frame_intros) (simp_all add: add.assoc bytes32_def)
  show "mem_bytes (arp_reply mac eth m) eth 42 = arp_answer mac eth m"
    using length_6_cases [OF assms] by (auto simp: arp_reply_def arp_answer_def reply_simps)
qed

section \<open>Filling the payload\<close>

text \<open>A loop that fills the payload stores consecutive draws, one behind the other.\<close>

lemma fill32_draws:
  "4 * n \<le> 2 ^ 32 \<Longrightarrow> fill32 draw n dat m s
     = map_option (\<lambda>(xs, s). (mem_put m dat (concat (map bytes32 xs)), s)) (draws draw n s)"
proof (induction n arbitrary: dat m s)
  case (Suc n)
  show ?case
  proof (cases "draw s")
    case (Some y)
    then obtain x s1 where x: "draw s = Some (x, s1)" by (cases y) auto
    have "mem_put (st32 m dat x) (dat + 4) (concat (map bytes32 xs)) = mem_put m dat (bytes32 x @ concat (map bytes32 xs))"
      if "draws draw n s1 = Some (xs, s2)" for xs s2
      using mem_put_append [of "bytes32 x" "concat (map bytes32 xs)" m dat] Suc.prems length_draws [OF that]
      by (simp add: st32_mem_put length_concat_bytes32 length_bytes32)
    with x Suc show ?thesis by (cases "draws draw n s1") auto
  qed simp
qed simp

lemma fill16_draws:
  "2 * n \<le> 2 ^ 32 \<Longrightarrow> fill16 draw n dat m s
     = map_option (\<lambda>(xs, s). (mem_put m dat (concat (map bytes16 xs)), s)) (draws draw n s)"
proof (induction n arbitrary: dat m s)
  case (Suc n)
  show ?case
  proof (cases "draw s")
    case (Some y)
    then obtain x s1 where x: "draw s = Some (x, s1)" by (cases y) auto
    have "mem_put (st16 m dat x) (dat + 2) (concat (map bytes16 xs)) = mem_put m dat (bytes16 x @ concat (map bytes16 xs))"
      if "draws draw n s1 = Some (xs, s2)" for xs s2
      using mem_put_append [of "bytes16 x" "concat (map bytes16 xs)" m dat] Suc.prems length_draws [OF that]
      by (simp add: st16_mem_put length_concat_bytes16)
    with x Suc show ?thesis by (cases "draws draw n s1") auto
  qed simp
qed simp

definition block128 :: "u64 \<times> u32 list \<Rightarrow> u8 list" where
  "block128 = (\<lambda>(r, dst). concat (map bytes32 [dst ! 0, dst ! 1, ucast r, ucast (drop_bit 32 r)]))"

lemma length_block128 [simp]: "length (block128 x) = 16"
  by (simp add: block128_def split: prod.split)

lemma length_concat_block128: "length (concat (map block128 xs)) = 16 * length xs"
  by (induction xs) simp_all

lemma st128_mem_put:
  "st32 (st32 (st32 (st32 m dat (dst ! 0)) (dat + 4) (dst ! 1)) (dat + 8) (ucast r)) (dat + 12) (ucast (drop_bit 32 r))
     = mem_put m dat (block128 (r, dst))"
proof -
  have "mem_put (mem_put m dat xs) (dat + of_nat k) (bytes32 v) = mem_put m dat (xs @ bytes32 v)"
    if "length xs = k" "k < 100" for xs k v
    using mem_put_append [of xs "bytes32 v" m dat] that by simp
  from this [of _ 4] this [of _ 8] this [of _ 12] show ?thesis
    by (simp add: st32_mem_put block128_def)
qed

lemma fill128_draws:
  "16 * n \<le> 2 ^ 32 \<Longrightarrow> fill128 draw n dat m s
     = map_option (\<lambda>(xs, s). (mem_put m dat (concat (map block128 xs)), s)) (draws draw n s)"
proof (induction n arbitrary: dat m s)
  case (Suc n)
  show ?case
  proof (cases "draw s")
    case (Some y)
    then obtain r dst s1 where x: "draw s = Some ((r, dst), s1)" by (metis prod.collapse)
    have "mem_put (mem_put m dat (block128 (r, dst))) (dat + 16) (concat (map block128 xs))
        = mem_put m dat (block128 (r, dst) @ concat (map block128 xs))"
      if "draws draw n s1 = Some (xs, s2)" for xs s2
      using mem_put_append [of "block128 (r, dst)" "concat (map block128 xs)" m dat] Suc.prems length_draws [OF that]
      by (simp add: length_concat_block128)
    with x Suc show ?thesis by (cases "draws draw n s1") (auto simp: st128_mem_put [unfolded One_nat_def] Let_def)
  qed simp
qed simp

text \<open>
  The specification of the service: the bytes that a request with a given selector is answered
  with, and the states of the generators behind.
\<close>

definition chargen_stream :: "board \<Rightarrow> u8 \<Rightarrow> prng \<Rightarrow> hw \<Rightarrow> (u8 list \<times> prng \<times> hw) option" where
  "chargen_stream b c p h =
     (if c = 0x54 then map_option (\<lambda>(xs, h). (concat (map bytes32 xs), p, h)) (draws (RandomUInt32 b) 368 h)
      else if c = 0x50 then map_option (\<lambda>(xs, p). (concat (map bytes32 xs), p, h)) (draws (\<lambda>p. Some (PcgUInt32 p)) 368 p)
      else if c = 0x70 then map_option (\<lambda>(xs, p). (concat (map bytes16 xs), p, h)) (draws (\<lambda>p. Some (PcgUInt16 p)) 736 p)
      else if c = 0x43 then map_option (\<lambda>(xs, h). (concat (map block128 xs), p, h)) (draws (\<lambda>h. Some (CSPrngUInt64x2 b p h)) 92 h)
      else Some ([], p, h))"

lemma chargen_payload_eq:
  "chargen_payload b c dat w = map_option (\<lambda>(bs, p, h). w\<lparr>w_mem := mem_put (w_mem w) dat bs, w_prng := p, w_hw := h\<rparr>)
     (chargen_stream b c (w_prng w) (w_hw w))"
proof -
  have n: "ETHERMTU_UDP div 4 = 368" "ETHERMTU_UDP div 2 = 736" "ETHERMTU_UDP div 16 = 92"
    by (simp_all add: ETHERMTU_UDP_def layout)
  show ?thesis
    unfolding chargen_payload_def chargen_stream_def n
    by (auto simp: fill32_draws fill16_draws fill128_draws Option.bind_map_option option.map_comp
        split: Option.bind_split intro!: option.map_cong)
qed

lemma chargen_stream_length:
  assumes "chargen_stream b c p h = Some (bs, p', h')"
  shows "length bs \<le> 1472"
  using assms
  by (auto simp: chargen_stream_def length_concat_bytes32 length_concat_bytes16 length_concat_block128
      dest!: length_draws split: if_splits)

section \<open>The handler against its specification\<close>

definition PacketRx_spec :: "board \<Rightarrow> u8 list \<Rightarrow> u32 \<Rightarrow> world \<Rightarrow> (int \<times> world) option" where
  "PacketRx_spec b mac frame w =
     (let m = w_mem w in
      if echo_request frame m then
        Some (14 + int (unat (be16 m (frame + 16))), w\<lparr>w_mem := mem_put m frame (icmp_answer mac frame m)\<rparr>)
      else if chargen_request frame m then
        map_option (\<lambda>(bs, p, h).
            (1514, \<lparr>w_mem = mem_put m frame (chargen_answer mac frame m @ bs), w_prng = p, w_hw = h\<rparr>))
          (chargen_stream b (m (frame + 42)) (w_prng w) (w_hw w))
      else if arp_request frame m then
        Some (42, w\<lparr>w_mem := mem_put m frame (arp_answer mac frame m)\<rparr>)
      else Some (PACKET_PROCESSED, w))"

lemma be16_icmp_answer:
  assumes "length mac = 6"
  shows "be16 (mem_put m eth (icmp_answer mac eth m)) (eth + 16) = be16 m (eth + 16)"
  using length_6_cases [OF assms] by (auto simp: be16_def icmp_answer_def mem_simps mem_bytes_simps add.assoc)

lemma mem_put_answer:
  assumes "length hdr = 42" "length bs \<le> 1472"
  shows "mem_put (mem_put m eth hdr) (eth + 42) bs = mem_put m eth (hdr @ bs)"
  using mem_put_append [of hdr bs m eth] assms by simp

lemma PacketRx_eq:
  assumes "length mac = 6"
  shows "PacketRxInterrupt b mac frame len w = PacketRx_spec b mac frame w"
  unfolding PacketRxInterrupt_cases PacketRx_spec_def Let_def
  using assms
  by (auto simp: icmp_reply_eq chargen_headers_eq arp_reply_eq be16_icmp_answer chargen_payload_eq
      option.map_comp mem_put_answer length_answers dest!: chargen_stream_length intro!: option.map_cong)

text \<open>
  C7. \<open>PacketRxInterrupt\<close> does what its specification says, whatever frame was received: an echo
  request to the board, a request to the character generator and an ARP request for the board's
  address are answered in place, with the bytes of the specification and nothing else changed,
  and every other frame is left as it is and reported as processed.
\<close>

theorem PacketRxInterrupt_refines:
  assumes "length mac = 6"
  shows "PacketRxInterrupt b mac frame len w = PacketRx_spec b mac frame w"
  using assms by (rule PacketRx_eq)

text \<open>An ARP request for the board's address, as received from the host \<open>02:..:07\<close>, 192.168.141.1.\<close>

definition sample_arp :: "u8 list" where
  "sample_arp = [255, 255, 255, 255, 255, 255, 2, 0, 0, 0, 0, 7, 8, 6,
     0, 1, 8, 0, 6, 4, 0, 1, 2, 0, 0, 0, 0, 7, 192, 168, 141, 1, 0, 0, 0, 0, 0, 0, 192, 168, 141, 123]"

definition sample_world :: "u8 list \<Rightarrow> world" where
  "sample_world bs = \<lparr>w_mem = mem_put (\<lambda>_. 0) 0x20001002 bs, w_prng = sample_prng,
     w_hw = \<lparr>clk = 0, ahb_rng = True, rng_en = True\<rparr>\<rparr>"

lemmas sample_simps = sample_world_def mem_simps mem_bytes_simps unat_minus_1_32
  be16_def echo_request_def chargen_request_def arp_request_def ipv4_to_us_def

theorem PacketRxInterrupt_refines_witness:
  "\<forall>b. map_option (\<lambda>(r, w). (r, mem_bytes (w_mem w) 0x20001002 42))
      (PacketRxInterrupt b [2, 0, 0, 0, 0, 1] 0x20001002 60 (sample_world sample_arp))
    = Some (42, [2, 0, 0, 0, 0, 7, 2, 0, 0, 0, 0, 1, 8, 6, 0, 1, 8, 0, 6, 4, 0, 2,
        2, 0, 0, 0, 0, 1, 192, 168, 141, 123, 2, 0, 0, 0, 0, 7, 192, 168, 141, 1])"
  using PacketRxInterrupt_refines [of "[2, 0, 0, 0, 0, 1]" _ "0x20001002" 60 "sample_world sample_arp"]
  by (simp add: PacketRx_spec_def sample_simps sample_arp_def arp_answer_def)

end
