(* ===== verification/Prdk_Safety.thy ===== *)
theory Prdk_Safety
  imports Prdk
begin

text \<open>
  What the frame handler of \<open>src/prdk.c\<close> guarantees whatever it receives, proved from its
  specification: where it writes, what it returns, that it returns, that its answers are not
  answered; and what it does not guarantee: the length of an echo reply is the one the request
  names, and a request with an unknown selector is answered with old contents of the buffer.
\<close>

section \<open>Safety of the handler\<close>

lemma PacketRx_spec_result:
  assumes "PacketRx_spec b mac frame w = Some (r, w')" "length mac = 6"
  obtains "r = PACKET_PROCESSED" "w' = w"
  | bs where "w_mem w' = mem_put (w_mem w) frame bs" "length bs \<le> 1514" "14 \<le> r" "r \<le> 14 + 65535"
proof -
  let ?m = "w_mem w"
  have "uint (be16 ?m (frame + 16)) < 65536" using unsigned_less [of "be16 ?m (frame + 16)", where 'a = int] by simp
  then have len: "14 \<le> 14 + uint (be16 ?m (frame + 16))" "14 + uint (be16 ?m (frame + 16)) \<le> 14 + 65535"
    by simp_all
  show thesis
  proof (cases "echo_request frame ?m")
    case True
    with assms(1) have "r = 14 + uint (be16 ?m (frame + 16))"
      "w' = w\<lparr>w_mem := mem_put ?m frame (icmp_answer mac frame ?m)\<rparr>"
      by (simp_all add: PacketRx_spec_def Let_def)
    then show thesis using len by (intro that(2) [of "icmp_answer mac frame ?m"]) (simp_all add: length_answers [OF assms(2)])
  next
    case not_echo: False
    show thesis
    proof (cases "chargen_request frame ?m")
      case True
      with not_echo assms(1) obtain bs p h
        where "chargen_stream b (?m (frame + 42)) (w_prng w) (w_hw w) = Some (bs, p, h)" "r = 1514"
          "w' = \<lparr>w_mem = mem_put ?m frame (chargen_answer mac frame ?m @ bs), w_prng = p, w_hw = h\<rparr>"
        by (auto simp: PacketRx_spec_def Let_def)
      then show thesis
        using chargen_stream_length
        by (intro that(2) [of "chargen_answer mac frame ?m @ bs"]) (simp_all add: length_answers [OF assms(2)])
    next
      case not_chargen: False
      show thesis
      proof (cases "arp_request frame ?m")
        case True
        with not_echo not_chargen assms(1)
        have "r = 42" "w' = w\<lparr>w_mem := mem_put ?m frame (arp_answer mac frame ?m)\<rparr>"
          by (simp_all add: PacketRx_spec_def Let_def)
        then show thesis by (intro that(2) [of "arp_answer mac frame ?m"]) (simp_all add: length_answers [OF assms(2)])
      next
        case False
        with not_echo not_chargen assms(1) show thesis
          by (intro that(1)) (simp_all add: PacketRx_spec_def Let_def)
      qed
    qed
  qed
qed

lemma same_outside_put_at: "length bs \<le> n \<Longrightarrow> same_outside m (mem_put m a bs) a n"
  by (auto simp: same_outside_def mem_put_apply)

lemma PacketRx_frame:
  assumes "length mac = 6" "PacketRxInterrupt b mac frame len w = Some (r, w')"
  shows "same_outside (w_mem w) (w_mem w') frame 1514"
proof -
  from assms(2) have "PacketRx_spec b mac frame w = Some (r, w')" by (simp only: PacketRx_eq [OF assms(1)])
  then show ?thesis using assms(1) by (rule PacketRx_spec_result) (simp_all add: same_outside_put_at)
qed

text \<open>
  C9. Whatever a frame holds, the handler writes nothing outside the 1514 bytes of the frame
  buffer; a frame it does not answer is left alone, and otherwise it returns a length of at
  least 14 and at most 65549.  It never passes a frame on to the main loop.
\<close>

theorem PacketRxInterrupt_safe:
  assumes "length mac = 6" "PacketRxInterrupt b mac frame len w = Some (r, w')"
  shows "same_outside (w_mem w) (w_mem w') frame 1514 \<and> r \<noteq> PACKET_TO_MAINLOOP
    \<and> (r = PACKET_PROCESSED \<and> w' = w \<or> 14 \<le> r \<and> r \<le> 65549)"
proof -
  from assms(2) have "PacketRx_spec b mac frame w = Some (r, w')" by (simp only: PacketRx_eq [OF assms(1)])
  then show ?thesis
    using assms(1)
    by (rule PacketRx_spec_result) (simp_all add: same_outside_put_at PACKET_PROCESSED_def PACKET_TO_MAINLOOP_def)
qed

theorem PacketRxInterrupt_safe_witness:
  "\<exists>r w'. PacketRxInterrupt still_board [2, 0, 0, 0, 0, 1] 0x20001002 60 (sample_world sample_arp) = Some (r, w')
     \<and> same_outside (w_mem (sample_world sample_arp)) (w_mem w') 0x20001002 1514"
proof -
  have "\<exists>r w'. PacketRxInterrupt still_board [2, 0, 0, 0, 0, 1] 0x20001002 60 (sample_world sample_arp) = Some (r, w')"
    by (simp add: PacketRx_eq PacketRx_spec_def sample_simps sample_arp_def Let_def)
  then show ?thesis
    using PacketRxInterrupt_safe [of "[2, 0, 0, 0, 0, 1]" still_board "0x20001002" 60 "sample_world sample_arp"] by auto
qed

lemma chargen_stream_returns:
  assumes "trng_live b h" "prng_inv p"
  shows "\<exists>bs p' h'. chargen_stream b c p h = Some (bs, p', h') \<and> trng_live b h' \<and> prng_inv p'"
  using trng.draws_return [OF assms(1), of 368] pcg_u32.draws_return [OF assms(2), of 368]
    pcg_u16.draws_return [OF assms(2), of 736] csprng.draws_return [OF assms(1), of p 92] assms
  by (auto simp: chargen_stream_def)

lemma PacketRx_returns:
  assumes "length mac = 6" "trng_live b (w_hw w)" "prng_inv (w_prng w)"
  shows "\<exists>r w'. PacketRxInterrupt b mac frame len w = Some (r, w') \<and> trng_live b (w_hw w')
    \<and> prng_inv (w_prng w') \<and> (r = PACKET_PROCESSED \<or> 0 \<le> r)"
proof -
  have "\<exists>r w'. PacketRx_spec b mac frame w = Some (r, w') \<and> trng_live b (w_hw w') \<and> prng_inv (w_prng w')"
    using chargen_stream_returns [OF assms(2,3), of "w_mem w (frame + 42)"] assms(2,3)
    by (auto simp: PacketRx_spec_def Let_def)
  then obtain r w' where run: "PacketRx_spec b mac frame w = Some (r, w')" "trng_live b (w_hw w')" "prng_inv (w_prng w')"
    by blast
  moreover from run(1) have "r = PACKET_PROCESSED \<or> 0 \<le> r"
    using assms(1) by (rule PacketRx_spec_result) simp_all
  ultimately show ?thesis by (simp add: PacketRx_eq [OF assms(1)])
qed

text \<open>
  The handler always returns once the random number generator delivers, and it keeps the
  invariant of the pseudo-random generators.
\<close>

lemma PacketRxInterrupt_returns:
  assumes "length mac = 6" "trng_live b (w_hw w)" "prng_inv (w_prng w)"
  shows "\<exists>r w'. PacketRxInterrupt b mac frame len w = Some (r, w') \<and> trng_live b (w_hw w')
    \<and> prng_inv (w_prng w')"
  using PacketRx_returns [OF assms] by blast

lemma icmp_answer_silent:
  assumes "length mac = 6" "echo_request a m"
  shows "\<not> echo_request a (mem_put m a (icmp_answer mac a m))"
    "\<not> chargen_request a (mem_put m a (icmp_answer mac a m))"
    "\<not> arp_request a (mem_put m a (icmp_answer mac a m))"
  using length_6_cases [OF assms(1)] assms(2)
  by (auto simp: echo_request_def chargen_request_def arp_request_def ipv4_to_us_def icmp_answer_def
      mem_simps mem_bytes_simps add.assoc)

lemma chargen_answer_silent:
  assumes "length mac = 6" "chargen_request a m"
  shows "\<not> echo_request a (mem_put m a (chargen_answer mac a m @ bs))"
    "\<not> chargen_request a (mem_put m a (chargen_answer mac a m @ bs))"
    "\<not> arp_request a (mem_put m a (chargen_answer mac a m @ bs))"
  using length_6_cases [OF assms(1)] assms(2)
  by (auto simp: echo_request_def chargen_request_def arp_request_def ipv4_to_us_def chargen_answer_def
      mem_simps mem_bytes_simps add.assoc)

lemma arp_answer_silent:
  assumes "length mac = 6" "arp_request a m"
  shows "\<not> echo_request a (mem_put m a (arp_answer mac a m))"
    "\<not> chargen_request a (mem_put m a (arp_answer mac a m))"
    "\<not> arp_request a (mem_put m a (arp_answer mac a m))"
  using length_6_cases [OF assms(1)] assms(2)
  by (auto simp: echo_request_def chargen_request_def arp_request_def ipv4_to_us_def arp_answer_def
      mem_simps mem_bytes_simps add.assoc)

text \<open>
  C10. No two boards can keep each other busy: an answer of the handler, received in turn, is
  not answered, even if a forged sender address makes the board answer itself.
\<close>

theorem PacketRxInterrupt_no_loop:
  assumes "length mac = 6" "PacketRxInterrupt b mac frame len w = Some (r, w')" "r \<noteq> PACKET_PROCESSED"
  shows "PacketRxInterrupt b mac frame len' w' = Some (PACKET_PROCESSED, w')"
proof -
  have spec: "PacketRx_spec b mac frame w = Some (r, w')" using assms(2) by (simp only: PacketRx_eq [OF assms(1)])
  have "\<not> echo_request frame (w_mem w') \<and> \<not> chargen_request frame (w_mem w') \<and> \<not> arp_request frame (w_mem w')"
    using spec assms(1,3)
    by (auto simp: PacketRx_spec_def Let_def icmp_answer_silent chargen_answer_silent arp_answer_silent
        split: if_splits)
  then show ?thesis by (simp add: PacketRx_eq [OF assms(1)] PacketRx_spec_def)
qed

theorem PacketRxInterrupt_no_loop_witness:
  "\<exists>w'. PacketRxInterrupt still_board [2, 0, 0, 0, 0, 1] 0x20001002 60 (sample_world sample_arp) = Some (42, w')
     \<and> PacketRxInterrupt still_board [2, 0, 0, 0, 0, 1] 0x20001002 60 w' = Some (PACKET_PROCESSED, w')"
proof -
  have "\<exists>w'. PacketRxInterrupt still_board [2, 0, 0, 0, 0, 1] 0x20001002 60 (sample_world sample_arp) = Some (42, w')"
    by (simp add: PacketRx_eq PacketRx_spec_def sample_simps sample_arp_def Let_def)
  then show ?thesis
    using PacketRxInterrupt_no_loop [of "[2, 0, 0, 0, 0, 1]" still_board "0x20001002" 60 "sample_world sample_arp" 42]
    by (auto simp: PACKET_PROCESSED_def)
qed

section \<open>Contents of the answers\<close>

lemma draws_pure:
  "draws (\<lambda>s. Some (f s)) n s = Some (map (\<lambda>k. nth_draw f k s) [0..<n], ((\<lambda>s. snd (f s)) ^^ n) s)"
proof (induction n arbitrary: s)
  case (Suc n)
  have swap: "((\<lambda>s. snd (f s)) ^^ k) (snd (f s)) = ((\<lambda>s. snd (f s)) ^^ Suc k) s" for k
    by (simp only: funpow_Suc_right comp_apply)
  then have "nth_draw f 0 s = fst (f s)" "\<And>k. nth_draw f k (snd (f s)) = nth_draw f (Suc k) s"
    by (simp_all add: nth_draw_def del: funpow.simps(2))
  then have "map (\<lambda>k. nth_draw f k s) [0..<Suc n] = fst (f s) # map (\<lambda>k. nth_draw f k (snd (f s))) [0..<n]"
    by (simp add: map_upt_Suc del: upt_Suc)
  then show ?case by (simp add: Suc.IH case_prod_beta' swap del: upt_Suc funpow.simps(2))
qed simp

text \<open>
  C31. The 368 words that a request with selector \<open>P\<close> is answered with are the next 368 draws
  of the board's PCG, and no two of them are equal.
\<close>

theorem chargen_P_distinct:
  assumes "length mac = 6" "chargen_request frame (w_mem w)" "w_mem w (frame + 42) = 0x50"
    and "prng_inv (w_prng w)"
  shows "\<exists>xs w'. PacketRxInterrupt b mac frame len w = Some (1514, w')
    \<and> mem_bytes (w_mem w') (frame + 42) 1472 = concat (map bytes32 xs)
    \<and> xs = map (\<lambda>k. nth_draw PcgUInt32 k (w_prng w)) [0..<368] \<and> distinct xs"
proof -
  let ?xs = "map (\<lambda>k. nth_draw PcgUInt32 k (w_prng w)) [0..<368]"
  have "\<not> echo_request frame (w_mem w)"
    using assms(2) by (auto simp: echo_request_def chargen_request_def mem_bytes_simps add.assoc)
  with assms obtain p where
    run: "PacketRxInterrupt b mac frame len w = Some (1514, \<lparr>w_mem =
        mem_put (w_mem w) frame (chargen_answer mac frame (w_mem w) @ concat (map bytes32 ?xs)),
        w_prng = p, w_hw = w_hw w\<rparr>)"
    by (simp add: PacketRx_eq PacketRx_spec_def Let_def chargen_stream_def draws_pure del: upt_rec_numeral)
  have "length (concat (map bytes32 ?xs)) = 1472" by (simp only: length_concat_bytes32 length_map length_upt)
  then have "mem_bytes (mem_put (w_mem w) frame (chargen_answer mac frame (w_mem w) @ concat (map bytes32 ?xs)))
      (frame + 42) 1472 = concat (map bytes32 ?xs)"
    using mem_bytes_mem_put [of "concat (map bytes32 ?xs)"]
    by (simp add: mem_put_answer [symmetric] length_answers [OF assms(1)] del: upt_rec_numeral)
  moreover have "distinct ?xs"
  proof -
    have "inj_on (\<lambda>k. nth_draw PcgUInt32 k (w_prng w)) {..<2 ^ 32}"
      using pcg32i_draws_bij [of "pcg32 (w_prng w)"] assms(4)
      by (simp add: nth_draw_PcgUInt32 prng_inv_def bij_betw_def)
    then have "inj_on (\<lambda>k. nth_draw PcgUInt32 k (w_prng w)) (set [0..<368])"
      by (rule inj_on_subset) auto
    then show ?thesis by (simp add: distinct_map del: upt_rec_numeral)
  qed
  ultimately show ?thesis using run by auto
qed

text \<open>A request to the character generator from 192.168.141.1, port 9, with a given selector.\<close>

definition sample_chargen :: "u8 \<Rightarrow> u8 list" where
  "sample_chargen c = [2, 0, 0, 0, 0, 1, 2, 0, 0, 0, 0, 7, 8, 0,
     0x45, 0, 0, 29, 0, 0, 0, 0, 255, 17, 0, 0, 192, 168, 141, 1, 192, 168, 141, 123,
     0, 9, 0, 19, 0, 9, 0, 0, c]"

lemma sample_chargen_request: "chargen_request 0x20001002 (w_mem (sample_world (sample_chargen c)))"
  by (simp add: sample_simps sample_chargen_def)

lemma sample_chargen_selector: "w_mem (sample_world (sample_chargen c)) 0x2000102C = c"
  by (simp add: sample_simps sample_chargen_def)

theorem chargen_P_distinct_witness:
  "\<exists>xs w'. PacketRxInterrupt still_board [2, 0, 0, 0, 0, 1] 0x20001002 60 (sample_world (sample_chargen 0x50))
      = Some (1514, w')
    \<and> mem_bytes (w_mem w') 0x2000102C 1472 = concat (map bytes32 xs) \<and> distinct xs"
proof -
  have "prng_inv (w_prng (sample_world (sample_chargen 0x50)))"
    using sample_prng_inv by (simp add: sample_world_def)
  from chargen_P_distinct [OF _ sample_chargen_request _ this, of "[2, 0, 0, 0, 0, 1]" still_board 60]
    sample_chargen_selector [of "0x50"]
  obtain xs w' where
    "PacketRxInterrupt still_board [2, 0, 0, 0, 0, 1] 0x20001002 60 (sample_world (sample_chargen 0x50)) = Some (1514, w')"
    "mem_bytes (w_mem w') 0x2000102C 1472 = concat (map bytes32 xs)" "distinct xs"
    by (auto simp del: upt_rec_numeral map_map)
  then show ?thesis by blast
qed

text \<open>
  C36. A request with a selector that the service does not know is answered with a full frame
  whose payload is what the buffer held before: up to 1471 bytes that the requester never sent.
\<close>

theorem chargen_unknown_leaks:
  assumes "length mac = 6" "chargen_request frame (w_mem w)"
    and "w_mem w (frame + 42) \<notin> {0x54, 0x50, 0x70, 0x43}"
  shows "\<exists>w'. PacketRxInterrupt b mac frame len w = Some (1514, w')
    \<and> mem_bytes (w_mem w') (frame + 42) 1472 = mem_bytes (w_mem w) (frame + 42) 1472"
proof -
  let ?m = "mem_put (w_mem w) frame (chargen_answer mac frame (w_mem w))"
  have "\<not> echo_request frame (w_mem w)"
    using assms(2) by (auto simp: echo_request_def chargen_request_def mem_bytes_simps add.assoc)
  with assms have "PacketRxInterrupt b mac frame len w
      = Some (1514, \<lparr>w_mem = ?m, w_prng = w_prng w, w_hw = w_hw w\<rparr>)"
    by (simp add: PacketRx_eq PacketRx_spec_def Let_def chargen_stream_def)
  moreover have "mem_bytes ?m (frame + 42) 1472 = mem_bytes (w_mem w) (frame + 42) 1472"
  proof (rule same_outside_mem_bytes)
    show "same_outside (w_mem w) ?m frame 42"
      by (rule same_outside_put_at) (simp add: length_answers [OF assms(1)])
    fix i :: nat assume "i < 1472"
    then have "unat (of_nat (42 + i) :: u32) = 42 + i" by (intro unat_of_nat_32) simp
    moreover have "frame + 42 + of_nat i - frame = of_nat (42 + i)" by simp
    ultimately show "42 \<le> unat (frame + 42 + of_nat i - frame)" by (simp only: le_add1)
  qed
  ultimately show ?thesis by simp
qed

theorem chargen_unknown_leaks_witness:
  "\<exists>w'. PacketRxInterrupt still_board [2, 0, 0, 0, 0, 1] 0x20001002 60 (sample_world (sample_chargen 0x3F))
      = Some (1514, w')"
  using chargen_unknown_leaks [of "[2, 0, 0, 0, 0, 1]" "0x20001002" "sample_world (sample_chargen 0x3F)" still_board 60]
    sample_chargen_request [of "0x3F"] sample_chargen_selector [of "0x3F"]
  by auto

text \<open>
  The length of an echo reply is what the request's IP header says, not what was received:
  for every number \<open>n\<close> below \<open>2 ^ 16\<close> there is a frame that is answered, however short it was on
  the wire, with \<open>14 + n\<close> bytes.
\<close>

lemma icmp_reply_length_unchecked:
  "\<exists>w. \<forall>b len. \<exists>w'. PacketRxInterrupt b [2, 0, 0, 0, 0, 1] 0x20001002 len w = Some (14 + int (unat (n :: u16)), w')"
proof -
  let ?w = "sample_world ([2, 0, 0, 0, 0, 1, 2, 0, 0, 0, 0, 7, 8, 0,
     0x45, 0, ucast (drop_bit 8 n), ucast n, 0, 0, 0, 0, 64, 1, 0, 0, 192, 168, 141, 1, 192, 168, 141, 123, 8, 0])"
  have "echo_request 0x20001002 (w_mem ?w)"
    by (simp add: sample_simps)
  moreover have "be16 (w_mem ?w) 0x20001012 = n"
    by (simp add: be16_pattern) (simp add: sample_simps)
  ultimately show ?thesis
    by (intro exI [of _ ?w]) (simp add: PacketRx_eq PacketRx_spec_def Let_def)
qed

end
