(* ===== verification/Ethernet.thy ===== *)
theory Ethernet
  imports Prdk_Safety
begin

text \<open>
  The Ethernet driver of \<open>src/ethernet.c\<close>: the two descriptor rings it shares with the DMA
  engine, and the functions that move packet buffers between them.

  Bit masks and registers come from the vendor's headers, and the addresses of the buffers and
  rings from the linker: they are the parameter \<open>platform\<close>.  The driver's calls into the vendor
  library and its register accesses are logged, in order, and what a register read returns is a
  function of the log so far.
\<close>

datatype eth_reg = DMABMR | MACMIIAR | MACCR | MACFFR | MACHTHR | MACHTLR | MACFCR | MACVLANTR
  | DMAOMR | DMATDLAR | DMARDLAR | DMASR | MACA0HR | MACA0LR | EXTEN_CTR

datatype eth_call =
    RegRead eth_reg
  | RegWrite eth_reg u32
  | PHYRead u16 u16
  | PHYWrite u16 u16 u16
  | ETH_DMAITConfig u32
  | ETH_DMAReceptionCmd bool
  | ETH_DMATransmissionCmd bool
  | ETH_DMAClearITPendingBit u32
  | ETH_ResumeDMATransmission
  | ETH_Start
  | ETH_StructInit
  | NVIC_EnableIRQ
  | RCC_AHBPeriphClockCmd
  | RCC_AHBPeriphResetCmd bool
  | RCC_PLL3Cmd bool
  | RCC_PREDIV2Config
  | RCC_PLL3Config
  | PLL3_poll
  | PHYBusyWait

type_synonym eth_log = "eth_call list"

record platform =
  RxOWN :: u32
  TxOWN :: u32
  RxES :: u32
  RxFS :: u32
  RxLS :: u32
  RxFL :: u32
  RxRBS1 :: u32
  RxRER :: u32
  TxCIC :: u32
  TxFS :: u32
  TxLS :: u32
  TxIC :: u32
  TxTER :: u32
  TxTBS1 :: u32
  DMASR_TPS :: u32
  DMASR_TPS_Suspended :: u32
  DMASR_AIS :: u32
  DMASR_NIS :: u32
  DMASR_RBUS :: u32
  DMASR_RS :: u32
  DMASR_TS :: u32
  DMASR_TBUS :: u32
  IT_PHYLINK :: u32
  IT_RBU :: u32
  IT_AIS :: u32
  IT_R :: u32
  IT_T :: u32
  IT_TBU :: u32
  IT_NIS :: u32
  Mode_FullDuplex :: u32
  Speed_100M :: u32
  Speed_1000M :: u32
  EXTEN_ETH_10M_EN :: u32
  PHY_BCR :: u16
  PHY_BSR :: u16
  PHY_ANLPAR :: u16
  PHY_STATUS :: u16
  PHY_MDIX :: u16
  PHY_Reset :: u16
  PHY_Linked_Status :: u16
  PHY_AutoNego_Complete :: u16
  kPacketPool :: u32
  kReceiveRing_addr :: u32
  kTransmitRing_addr :: u32
  reg_value :: "eth_log \<Rightarrow> eth_reg \<Rightarrow> u32"
  phy_value :: "eth_log \<Rightarrow> u16 \<Rightarrow> u16 \<Rightarrow> u16"

record dma_desc =
  Status :: u32
  ControlBufferSize :: u32
  Buffer1Addr :: u32
  Buffer2NextDescAddr :: u32

record eth =
  kReceiveRing :: "dma_desc list"
  kTransmitRing :: "dma_desc list"
  kReceiveRd :: u8
  kReceiveWr :: u8
  kTransmitRd :: u8
  kTransmitWr :: u8
  kInPool :: int
  current_phy_address :: u16
  phy_link_ready :: bool
  eth_log :: eth_log

section \<open>Rings and buffers\<close>

definition PACKET_POOL_LEN :: nat where
  "PACKET_POOL_LEN = 9"

definition PACKET_RING_LEN :: nat where
  "PACKET_RING_LEN = PACKET_POOL_LEN - 1"

definition PACKET_RING_INC :: "u8 \<Rightarrow> u8" where
  "PACKET_RING_INC x = (x + 1) AND 7"

text \<open>The address of \<open>kPacketPool[i]\<close>, and that of the member \<open>Frame\<close> of a buffer.\<close>

definition pool_buffer :: "platform \<Rightarrow> nat \<Rightarrow> u32" where
  "pool_buffer pf i = kPacketPool pf + of_nat (sizeof PacketBuffer) * of_nat i"

definition pkt_Frame :: "u32 \<Rightarrow> u32" where
  "pkt_Frame pkt = pkt + offsetof PacketBuffer ''Frame''"

definition getPacketFromRing :: "dma_desc \<Rightarrow> u32" where
  "getPacketFromRing dma = Buffer1Addr dma - offsetof PacketBuffer ''Frame''"

lemma pool_buffer_eq: "pool_buffer pf i = kPacketPool pf + 1520 * of_nat i"
  by (simp add: pool_buffer_def layout)

lemma pkt_Frame_eq: "pkt_Frame pkt = pkt + 2"
  by (simp add: pkt_Frame_def layout)

lemma getPacketFromRing_eq: "getPacketFromRing dma = Buffer1Addr dma - 2"
  by (simp add: getPacketFromRing_def layout)

definition getRxFrameLength :: "platform \<Rightarrow> u32 \<Rightarrow> u32" where
  "getRxFrameLength pf status = drop_bit 16 (status AND RxFL pf) - 4"

definition eth_do :: "eth_call \<Rightarrow> eth \<Rightarrow> eth" where
  "eth_do c e = e\<lparr>eth_log := eth_log e @ [c]\<rparr>"

definition eth_read :: "platform \<Rightarrow> eth_reg \<Rightarrow> eth \<Rightarrow> u32 \<times> eth" where
  "eth_read pf r e = (reg_value pf (eth_log e) r, eth_do (RegRead r) e)"

text \<open>
  \<open>EthernetInitializeDma\<close> first checks the alignment of the frames and prints a warning for each
  buffer at which it is wrong; the rest is the set-up of the rings.
\<close>

definition misaligned_buffers :: "platform \<Rightarrow> nat list" where
  "misaligned_buffers pf = filter (\<lambda>i. ETHER_ALIGN \<noteq> unat (pkt_Frame (pool_buffer pf i) AND 3)) [0..<PACKET_POOL_LEN]"

definition EthernetInitializeDma :: "platform \<Rightarrow> eth \<Rightarrow> eth" where
  "EthernetInitializeDma pf e =
     (let tx = replicate PACKET_RING_LEN
            \<lparr>Status = TxCIC pf OR TxFS pf OR TxLS pf OR TxIC pf, ControlBufferSize = 0,
             Buffer1Addr = 0, Buffer2NextDescAddr = 0\<rparr>;
          tx = tx[7 := (tx ! 7)\<lparr>Status := Status (tx ! 7) OR TxTER pf\<rparr>];
          rx = map (\<lambda>i. \<lparr>Status = RxOWN pf, ControlBufferSize = RxRBS1 pf AND of_nat (sizeof_member PacketBuffer ''Frame''),
             Buffer1Addr = pkt_Frame (pool_buffer pf i), Buffer2NextDescAddr = 0\<rparr>) [0..<PACKET_RING_LEN];
          rx = rx[7 := (rx ! 7)\<lparr>ControlBufferSize := ControlBufferSize (rx ! 7) OR RxRER pf\<rparr>];
          e = e\<lparr>kTransmitRing := tx, kReceiveRing := rx, kTransmitRd := 0, kReceiveRd := 0,
                kTransmitWr := 0, kReceiveWr := 0, kInPool := int PACKET_POOL_LEN - 1\<rparr>;
          e = eth_do (RegWrite DMATDLAR (kTransmitRing_addr pf)) e;
          e = eth_do (RegWrite DMARDLAR (kReceiveRing_addr pf)) e;
          e = eth_do (ETH_DMAITConfig (IT_NIS pf OR IT_R pf OR IT_T pf OR IT_AIS pf OR IT_RBU pf OR IT_PHYLINK pf)) e;
          e = eth_do (ETH_DMAReceptionCmd True) e
      in eth_do (ETH_DMATransmissionCmd True) e)"

section \<open>Moving buffers\<close>

definition PacketDoneFromInterrupt :: "platform \<Rightarrow> u32 \<Rightarrow> eth \<Rightarrow> eth" where
  "PacketDoneFromInterrupt pf pkt e =
     (if kInPool e < 0 then e\<lparr>kInPool := sint (ucast ((pkt - kPacketPool pf) div of_nat (sizeof PacketBuffer)) :: 8 word)\<rparr>
      else
        let i = unat (kReceiveWr e); dma = kReceiveRing e ! i; rxStatus = Status dma in
        if rxStatus AND RxOWN pf \<noteq> 0 then e
        else e\<lparr>kReceiveWr := PACKET_RING_INC (kReceiveWr e),
               kReceiveRing := (kReceiveRing e)[i := dma\<lparr>Buffer1Addr := pkt_Frame pkt, Status := RxOWN pf\<rparr>]\<rparr>)"

definition IsTxDmaSuspended :: "platform \<Rightarrow> eth \<Rightarrow> bool \<times> eth" where
  "IsTxDmaSuspended pf e =
     (let (v, e) = eth_read pf DMASR e in (v AND DMASR_TPS pf = DMASR_TPS_Suspended pf, e))"

definition EnqueueTxFromInterrupt :: "platform \<Rightarrow> u32 \<Rightarrow> int \<Rightarrow> eth \<Rightarrow> eth" where
  "EnqueueTxFromInterrupt pf pkt len e =
     (let i = unat (kTransmitRd e); dma = kTransmitRing e ! i; txStatus = Status dma in
      if txStatus AND TxOWN pf \<noteq> 0 then PacketDoneFromInterrupt pf pkt e
      else
        let e = e\<lparr>kTransmitRd := PACKET_RING_INC (kTransmitRd e),
              kTransmitRing := (kTransmitRing e)[i := dma\<lparr>ControlBufferSize := of_int len AND TxTBS1 pf,
                Buffer1Addr := pkt_Frame pkt, Status := txStatus OR TxOWN pf\<rparr>]\<rparr>;
            (suspended, e) = IsTxDmaSuspended pf e
        in if suspended then eth_do ETH_ResumeDMATransmission e else e)"

text \<open>
  One iteration of the loop of \<open>EthernetRXInterrupt\<close>; the first result tells whether it goes on.
  The handler of frames is a parameter: it is \<open>PacketRxInterrupt\<close> below.
\<close>

type_synonym 'w handler = "u32 \<Rightarrow> u32 \<Rightarrow> 'w \<Rightarrow> (int \<times> 'w) option"

definition rx_iter :: "platform \<Rightarrow> 'w handler \<Rightarrow> eth \<times> 'w \<Rightarrow> (bool \<times> eth \<times> 'w) option" where
  "rx_iter pf handle = (\<lambda>(e, w).
     let i = unat (kReceiveRd e); dma = kReceiveRing e ! i; rxStatus = Status dma in
     if rxStatus AND RxOWN pf \<noteq> 0 then Some (False, e, w)
     else if Buffer1Addr dma = 0 then Some (False, e, w)
     else
       let e = e\<lparr>kReceiveRd := PACKET_RING_INC (kReceiveRd e)\<rparr>;
           errorSummary = rxStatus AND RxES pf \<noteq> 0;
           firstAndLastByte = (rxStatus AND RxFS pf \<noteq> 0 \<and> rxStatus AND RxLS pf \<noteq> 0)
       in do {
         (nxt, w) \<leftarrow> (if \<not> errorSummary \<and> firstAndLastByte
                      then handle (Buffer1Addr dma) (getRxFrameLength pf rxStatus) w
                      else Some (PACKET_PROCESSED, w));
         let e = (if 0 \<le> nxt then
                    let pkt = getPacketFromRing dma;
                        e = e\<lparr>kReceiveRing := (kReceiveRing e)[i := dma\<lparr>Buffer1Addr := 0\<rparr>]\<rparr>
                    in EnqueueTxFromInterrupt pf pkt nxt e
                  else e);
         let e = (if nxt = PACKET_PROCESSED
                  then PacketDoneFromInterrupt pf (getPacketFromRing (kReceiveRing e ! i)) e else e);
         Some (True, e, w)
       })"

partial_function (option) rx_loop :: "platform \<Rightarrow> 'w handler \<Rightarrow> eth \<times> 'w \<Rightarrow> (eth \<times> 'w) option" where
  "rx_loop pf handle s = do {
     (again, s) \<leftarrow> rx_iter pf handle s;
     if again then rx_loop pf handle s else Some s
   }"

definition EthernetRXInterrupt :: "platform \<Rightarrow> board \<Rightarrow> u8 list \<Rightarrow> eth \<times> world \<Rightarrow> (eth \<times> world) option" where
  "EthernetRXInterrupt pf b kMACAddress = rx_loop pf (PacketRxInterrupt b kMACAddress)"

definition tx_iter :: "platform \<Rightarrow> eth \<Rightarrow> bool \<times> eth" where
  "tx_iter pf e =
     (let i = unat (kTransmitWr e); dma = kTransmitRing e ! i; txStatus = Status dma in
      if txStatus AND RxOWN pf \<noteq> 0 then (False, e)
      else if Buffer1Addr dma = 0 then (False, e)
      else
        let e = PacketDoneFromInterrupt pf (getPacketFromRing dma) e;
            e = e\<lparr>kTransmitRing := (kTransmitRing e)[i := (kTransmitRing e ! i)\<lparr>Buffer1Addr := 0\<rparr>]\<rparr>
        in (True, e\<lparr>kTransmitWr := PACKET_RING_INC (kTransmitWr e)\<rparr>))"

partial_function (option) EthernetTXInterrupt :: "platform \<Rightarrow> eth \<Rightarrow> eth option" where
  "EthernetTXInterrupt pf e =
     (let (again, e) = tx_iter pf e in if again then EthernetTXInterrupt pf e else Some e)"

text \<open>The body of \<open>EthernetTransmit\<close> is disabled: it does nothing and returns no value.\<close>

definition EthernetTransmit :: "u8 list \<Rightarrow> nat \<Rightarrow> eth \<Rightarrow> eth" where
  "EthernetTransmit packet len e = e"

end
