(* ===== verification/Eth_Queues.thy ===== *)
theory Eth_Queues
  imports Ethernet "HOL-Library.Multiset"
begin

text \<open>
  The descriptor rings of \<open>src/ethernet.c\<close> as queues of buffers.

  Read from \<open>kReceiveWr\<close> on, the receive ring consists of the descriptors the CPU keeps back
  (their buffers are in the transmit ring), those the DMA engine has filled, and those it owns.
  Read from \<open>kTransmitWr\<close> on, the transmit ring consists of the descriptors that were sent, those
  to be sent and the free ones.  The driver's functions are shown to be queue operations on the
  four kinds of buffers.
\<close>

section \<open>Rotated lists\<close>

lemma add_mod_inject:
  fixes j k n w :: nat
  assumes "(w + k) mod n = (w + j) mod n" "k < n" "j < n"
  shows "k = j"
proof -
  have "a = b" if "b \<le> a" "(w + a) mod n = (w + b) mod n" "a < n" for a b
  proof -
    have "n dvd (w + a) - (w + b)" using that(1,2) by (subst mod_eq_dvd_iff_nat [symmetric]) simp_all
    then have "n dvd a - b" by simp
    moreover have "a - b < n" using that(3) by simp
    ultimately have "a - b = 0" using dvd_imp_le not_less by blast
    with that(1) show ?thesis by simp
  qed
  from this [of j k] this [of k j] assms show ?thesis by (cases "j \<le> k") simp_all
qed

lemma rotate_update:
  assumes "j < length xs"
  shows "rotate w (xs[(w + j) mod length xs := x]) = (rotate w xs)[j := x]"
proof (rule nth_equalityI)
  fix k assume "k < length (rotate w (xs[(w + j) mod length xs := x]))"
  then have k: "k < length xs" by simp
  have "(w + k) mod length xs = (w + j) mod length xs \<longleftrightarrow> k = j"
    using add_mod_inject k assms by blast
  moreover have "(w + j) mod length xs < length xs" "(w + k) mod length xs < length xs"
    using assms by (auto intro: mod_less_divisor)
  ultimately show "rotate w (xs[(w + j) mod length xs := x]) ! k = (rotate w xs)[j := x] ! k"
    using k assms by (auto simp: nth_rotate nth_list_update)
qed simp

lemma rotate_head:
  assumes "rotate w xs = as @ x # bs"
  shows "xs ! ((w + length as) mod length xs) = x"
proof -
  have n: "length xs = length as + 1 + length bs" using arg_cong [OF assms, of length] by simp
  then have "rotate w xs ! length as = xs ! ((w + length as) mod length xs)"
    by (intro nth_rotate) simp
  then show ?thesis by (simp add: assms)
qed

lemma rotate_set_head:
  assumes "rotate w xs = as @ x # bs"
  shows "rotate w (xs[(w + length as) mod length xs := y]) = as @ y # bs"
proof -
  have "length xs = length as + 1 + length bs" using arg_cong [OF assms, of length] by simp
  then have "rotate w (xs[(w + length as) mod length xs := y]) = (rotate w xs)[length as := y]"
    by (intro rotate_update) simp
  then show ?thesis by (simp add: assms)
qed

lemma rotate_next:
  assumes "rotate w xs = x # bs" "length xs = n"
  shows "rotate ((w + 1) mod n) xs = bs @ [x]"
proof -
  have "rotate ((w + 1) mod n) xs = rotate (Suc w) xs" using assms(2) rotate_conv_mod [of "Suc w" xs] by simp
  then show ?thesis by (simp add: assms(1))
qed

lemma RING_INC: "unat x < 8 \<Longrightarrow> unat (PACKET_RING_INC x) = (unat x + 1) mod 8"
proof -
  assume x: "unat x < 8"
  have "(x + 1) AND 7 = take_bit 3 (x + 1)" by (simp add: take_bit_eq_mask mask_eq_exp_minus_1)
  then have "unat (PACKET_RING_INC x) = take_bit 3 (unat (x + 1))"
    by (simp only: PACKET_RING_INC_def unsigned_take_bit_eq)
  also have "\<dots> = unat (x + 1) mod 8" by (simp add: take_bit_eq_mod)
  also have "unat (x + 1) = unat x + 1" using x by (simp add: unat_word_ariths)
  finally show ?thesis .
qed

section \<open>The rings, segment by segment\<close>

definition rx_own :: "platform \<Rightarrow> dma_desc \<Rightarrow> bool" where
  "rx_own pf d \<longleftrightarrow> Status d AND RxOWN pf \<noteq> 0"

definition platform_ok :: "platform \<Rightarrow> bool" where
  "platform_ok pf \<longleftrightarrow> RxOWN pf \<noteq> 0 \<and> TxOWN pf = RxOWN pf
     \<and> (TxCIC pf OR TxFS pf OR TxLS pf OR TxIC pf OR TxTER pf) AND RxOWN pf = 0
     \<and> 0 < unat (kPacketPool pf) \<and> unat (kPacketPool pf) + 9 * 1520 \<le> 2 ^ 32"

record segments =
  held :: "dma_desc list"
  filled :: "dma_desc list"
  armed :: "dma_desc list"
  sent :: "dma_desc list"
  sending :: "dma_desc list"
  free :: "dma_desc list"

definition rx_ring_ok :: "platform \<Rightarrow> eth \<Rightarrow> segments \<Rightarrow> bool" where
  "rx_ring_ok pf e g \<longleftrightarrow> length (kReceiveRing e) = 8 \<and> unat (kReceiveWr e) < 8
     \<and> rotate (unat (kReceiveWr e)) (kReceiveRing e) = held g @ filled g @ armed g
     \<and> unat (kReceiveRd e) = (unat (kReceiveWr e) + length (held g)) mod 8
     \<and> (\<forall>d\<in>set (held g). \<not> rx_own pf d) \<and> (\<forall>d\<in>set (filled g). \<not> rx_own pf d \<and> Buffer1Addr d \<noteq> 0)
     \<and> (\<forall>d\<in>set (armed g). rx_own pf d \<and> Buffer1Addr d \<noteq> 0) \<and> armed g \<noteq> []"

definition tx_ring_ok :: "platform \<Rightarrow> eth \<Rightarrow> segments \<Rightarrow> bool" where
  "tx_ring_ok pf e g \<longleftrightarrow> length (kTransmitRing e) = 8 \<and> unat (kTransmitWr e) < 8
     \<and> rotate (unat (kTransmitWr e)) (kTransmitRing e) = sent g @ sending g @ free g
     \<and> unat (kTransmitRd e) = (unat (kTransmitWr e) + length (sent g @ sending g)) mod 8
     \<and> (\<forall>d\<in>set (sent g). \<not> rx_own pf d \<and> Buffer1Addr d \<noteq> 0)
     \<and> (\<forall>d\<in>set (sending g). rx_own pf d \<and> Buffer1Addr d \<noteq> 0)
     \<and> (\<forall>d\<in>set (free g). \<not> rx_own pf d \<and> Buffer1Addr d = 0)"

definition rings_ok :: "platform \<Rightarrow> eth \<Rightarrow> segments \<Rightarrow> bool" where
  "rings_ok pf e g \<longleftrightarrow> rx_ring_ok pf e g \<and> tx_ring_ok pf e g \<and> 0 \<le> kInPool e
     \<and> length (held g) = length (sent g) + length (sending g)"

text \<open>Returning a buffer to the DMA engine.\<close>

definition rearm :: "platform \<Rightarrow> dma_desc \<Rightarrow> u32 \<Rightarrow> dma_desc" where
  "rearm pf d buf = d\<lparr>Buffer1Addr := buf, Status := RxOWN pf\<rparr>"

lemma rx_own_rearm: "platform_ok pf \<Longrightarrow> rx_own pf (rearm pf d buf)"
  by (simp add: rx_own_def rearm_def platform_ok_def)

lemma Buffer1Addr_rearm [simp]: "Buffer1Addr (rearm pf d buf) = buf"
  by (simp add: rearm_def)

lemma PacketDone_segments:
  assumes "length (kReceiveRing e) = 8" "unat (kReceiveWr e) < 8" "0 \<le> kInPool e"
    and "rotate (unat (kReceiveWr e)) (kReceiveRing e) = c # ds" "\<not> rx_own pf c"
  shows "rotate (unat (PACKET_RING_INC (kReceiveWr e)))
      (kReceiveRing (PacketDoneFromInterrupt pf (buf - 2) e)) = ds @ [rearm pf c buf]"
    and "PacketDoneFromInterrupt pf (buf - 2) e = e\<lparr>kReceiveWr := PACKET_RING_INC (kReceiveWr e),
      kReceiveRing := kReceiveRing (PacketDoneFromInterrupt pf (buf - 2) e)\<rparr>"
    and "length (kReceiveRing (PacketDoneFromInterrupt pf (buf - 2) e)) = 8"
proof -
  let ?w = "unat (kReceiveWr e)"
  have c: "kReceiveRing e ! ?w = c"
    using rotate_head [of ?w "kReceiveRing e" "[]" c ds] assms(1,2,4) by simp
  then have pd: "PacketDoneFromInterrupt pf (buf - 2) e = e\<lparr>kReceiveWr := PACKET_RING_INC (kReceiveWr e),
      kReceiveRing := (kReceiveRing e)[?w := rearm pf c buf]\<rparr>"
    using assms(3,5) by (simp add: PacketDoneFromInterrupt_def Let_def rx_own_def rearm_def pkt_Frame_eq)
  then show "PacketDoneFromInterrupt pf (buf - 2) e = e\<lparr>kReceiveWr := PACKET_RING_INC (kReceiveWr e),
      kReceiveRing := kReceiveRing (PacketDoneFromInterrupt pf (buf - 2) e)\<rparr>"
    "length (kReceiveRing (PacketDoneFromInterrupt pf (buf - 2) e)) = 8"
    using assms(1) by simp_all
  have "rotate ?w ((kReceiveRing e)[?w := rearm pf c buf]) = rearm pf c buf # ds"
    using rotate_set_head [of ?w "kReceiveRing e" "[]" c ds "rearm pf c buf"] assms(1,2,4) by simp
  then show "rotate (unat (PACKET_RING_INC (kReceiveWr e)))
      (kReceiveRing (PacketDoneFromInterrupt pf (buf - 2) e)) = ds @ [rearm pf c buf]"
    using rotate_next [of ?w "(kReceiveRing e)[?w := rearm pf c buf]" "rearm pf c buf" ds 8] assms(1,2)
    by (simp add: pd RING_INC)
qed

text \<open>Handing a buffer to the transmit ring.\<close>

definition enqueued :: "platform \<Rightarrow> dma_desc \<Rightarrow> u32 \<Rightarrow> int \<Rightarrow> dma_desc" where
  "enqueued pf d buf n = d\<lparr>ControlBufferSize := of_int n AND TxTBS1 pf, Buffer1Addr := buf,
     Status := Status d OR TxOWN pf\<rparr>"

lemma rx_own_enqueued: "platform_ok pf \<Longrightarrow> rx_own pf (enqueued pf d buf n)"
  by (simp add: rx_own_def enqueued_def platform_ok_def bit.conj_disj_distrib2 or_eq_0_iff)

lemma Buffer1Addr_enqueued [simp]: "Buffer1Addr (enqueued pf d buf n) = buf"
  by (simp add: enqueued_def)

lemma eth_do_fields [simp]:
  "kReceiveRing (eth_do c e) = kReceiveRing e" "kTransmitRing (eth_do c e) = kTransmitRing e"
  "kReceiveRd (eth_do c e) = kReceiveRd e" "kReceiveWr (eth_do c e) = kReceiveWr e"
  "kTransmitRd (eth_do c e) = kTransmitRd e" "kTransmitWr (eth_do c e) = kTransmitWr e"
  "kInPool (eth_do c e) = kInPool e"
  by (simp_all add: eth_do_def)

text \<open>The rest of the driver's state that the lemmas below talk about.\<close>

definition same_rx :: "eth \<Rightarrow> eth \<Rightarrow> bool" where
  "same_rx e e' \<longleftrightarrow> kReceiveRing e' = kReceiveRing e \<and> kReceiveRd e' = kReceiveRd e
     \<and> kReceiveWr e' = kReceiveWr e \<and> kInPool e' = kInPool e"

definition same_tx :: "eth \<Rightarrow> eth \<Rightarrow> bool" where
  "same_tx e e' \<longleftrightarrow> kTransmitRing e' = kTransmitRing e \<and> kTransmitRd e' = kTransmitRd e
     \<and> kTransmitWr e' = kTransmitWr e"

lemma rx_ring_ok_same: "same_rx e e' \<Longrightarrow> rx_ring_ok pf e' g = rx_ring_ok pf e g"
  by (simp add: same_rx_def rx_ring_ok_def)

lemma tx_ring_ok_same: "same_tx e e' \<Longrightarrow> tx_ring_ok pf e' g = tx_ring_ok pf e g"
  by (simp add: same_tx_def tx_ring_ok_def)

lemma EnqueueTx_segments:
  assumes "platform_ok pf" "tx_ring_ok pf e g" "free g = f # fs" "buf \<noteq> 0"
  shows "tx_ring_ok pf (EnqueueTxFromInterrupt pf (buf - 2) n e)
      (g\<lparr>sending := sending g @ [enqueued pf f buf n], free := fs\<rparr>)"
    and "same_rx e (EnqueueTxFromInterrupt pf (buf - 2) n e)"
proof -
  let ?w = "unat (kTransmitWr e)" and ?r = "unat (kTransmitRd e)"
  let ?busy = "sent g @ sending g"
  have rot: "rotate ?w (kTransmitRing e) = ?busy @ f # fs" and l: "length (kTransmitRing e) = 8"
    and r: "?r = (?w + length ?busy) mod 8" and f: "\<not> rx_own pf f"
    using assms(2,3) by (simp_all add: tx_ring_ok_def)
  have d: "kTransmitRing e ! ?r = f" using rotate_head [OF rot] by (simp only: l r)
  define e1 where "e1 = e\<lparr>kTransmitRd := PACKET_RING_INC (kTransmitRd e),
      kTransmitRing := (kTransmitRing e)[?r := enqueued pf f buf n]\<rparr>"
  have "same_rx e1 (EnqueueTxFromInterrupt pf (buf - 2) n e)"
    "same_tx e1 (EnqueueTxFromInterrupt pf (buf - 2) n e)"
    using assms(1) f
    by (auto simp: EnqueueTxFromInterrupt_def Let_def d platform_ok_def rx_own_def same_rx_def same_tx_def
        e1_def enqueued_def pkt_Frame_eq IsTxDmaSuspended_def eth_read_def split: prod.splits)
  moreover have "same_rx e e1" by (simp add: same_rx_def e1_def)
  ultimately show "same_rx e (EnqueueTxFromInterrupt pf (buf - 2) n e)" by (simp add: same_rx_def)
  have "rotate ?w ((kTransmitRing e)[?r := enqueued pf f buf n]) = ?busy @ enqueued pf f buf n # fs"
    using rotate_set_head [OF rot] by (simp only: l r)
  moreover have "unat (PACKET_RING_INC (kTransmitRd e)) = (?w + length (?busy @ [enqueued pf f buf n])) mod 8"
    using RING_INC [of "kTransmitRd e"] r by (simp add: mod_simps)
  ultimately have "tx_ring_ok pf e1 (g\<lparr>sending := sending g @ [enqueued pf f buf n], free := fs\<rparr>)"
    using assms l rx_own_enqueued [OF assms(1)] by (auto simp: tx_ring_ok_def e1_def)
  then show "tx_ring_ok pf (EnqueueTxFromInterrupt pf (buf - 2) n e)
      (g\<lparr>sending := sending g @ [enqueued pf f buf n], free := fs\<rparr>)"
    using tx_ring_ok_same [OF \<open>same_tx e1 _\<close>] by simp
qed

lemma PacketDone_rx_ring:
  assumes "platform_ok pf" "rx_ring_ok pf e g" "0 \<le> kInPool e" "held g = c # cs" "buf \<noteq> 0"
  shows "rx_ring_ok pf (PacketDoneFromInterrupt pf (buf - 2) e)
      (g\<lparr>held := cs, armed := armed g @ [rearm pf c buf]\<rparr>)"
    and "same_tx e (PacketDoneFromInterrupt pf (buf - 2) e)"
    and "kInPool (PacketDoneFromInterrupt pf (buf - 2) e) = kInPool e"
proof -
  let ?e = "PacketDoneFromInterrupt pf (buf - 2) e"
  have c: "rotate (unat (kReceiveWr e)) (kReceiveRing e) = c # (cs @ filled g @ armed g)" "\<not> rx_own pf c"
    "length (kReceiveRing e) = 8" "unat (kReceiveWr e) < 8"
    using assms(2,4) by (simp_all add: rx_ring_ok_def)
  note pd = PacketDone_segments [OF c(3,4) assms(3) c(1,2), of buf]
  show "same_tx e ?e" "kInPool ?e = kInPool e" by (subst pd(2), simp add: same_tx_def)+
  have f: "kReceiveWr ?e = PACKET_RING_INC (kReceiveWr e)" "kReceiveRd ?e = kReceiveRd e"
    by (subst pd(2), simp)+
  have "unat (kReceiveRd e) = (unat (kReceiveWr e) + length (held g)) mod 8"
    using assms(2) by (simp add: rx_ring_ok_def)
  then have "unat (kReceiveRd e) = ((unat (kReceiveWr e) + 1) mod 8 + length cs) mod 8"
    using assms(4) by (simp add: mod_simps)
  then show "rx_ring_ok pf ?e (g\<lparr>held := cs, armed := armed g @ [rearm pf c buf]\<rparr>)"
    using assms rx_own_rearm [OF assms(1)] pd(1,3) RING_INC [OF c(4)]
    by (auto simp: rx_ring_ok_def f)
qed

section \<open>The queues of buffers\<close>

text \<open>
  The abstract state: the buffers armed for reception, the received ones with their status, the
  sent ones, and the ones to be sent with their length.
\<close>

record queues =
  rxq :: "u32 list"
  inq :: "(u32 \<times> u32) list"
  doneq :: "u32 list"
  txq :: "(u32 \<times> u32) list"

definition queues_of :: "segments \<Rightarrow> queues" where
  "queues_of g = \<lparr>rxq = map Buffer1Addr (armed g), inq = map (\<lambda>d. (Buffer1Addr d, Status d)) (filled g),
     doneq = map Buffer1Addr (sent g), txq = map (\<lambda>d. (Buffer1Addr d, ControlBufferSize d)) (sending g)\<rparr>"

definition q_buffers :: "queues \<Rightarrow> u32 multiset" where
  "q_buffers q = mset (rxq q) + mset (map fst (inq q)) + mset (doneq q) + mset (map fst (txq q))"

definition implements :: "platform \<Rightarrow> eth \<Rightarrow> queues \<Rightarrow> bool" where
  "implements pf e q \<longleftrightarrow> (\<exists>g. rings_ok pf e g \<and> q = queues_of g)"

text \<open>The receive interrupt on queues: every received buffer is answered or armed again.\<close>

definition good_frame :: "platform \<Rightarrow> u32 \<Rightarrow> bool" where
  "good_frame pf st \<longleftrightarrow> st AND RxES pf = 0 \<and> st AND RxFS pf \<noteq> 0 \<and> st AND RxLS pf \<noteq> 0"

definition q_answer :: "platform \<Rightarrow> 'w handler \<Rightarrow> u32 \<Rightarrow> u32 \<Rightarrow> 'w \<Rightarrow> (int \<times> 'w) option" where
  "q_answer pf handle buf st w =
     (if good_frame pf st then handle buf (getRxFrameLength pf st) w else Some (PACKET_PROCESSED, w))"

definition q_place :: "platform \<Rightarrow> int \<Rightarrow> u32 \<Rightarrow> queues \<Rightarrow> queues" where
  "q_place pf r buf q =
     (if 0 \<le> r then q\<lparr>txq := txq q @ [(buf, of_int r AND TxTBS1 pf)]\<rparr> else q\<lparr>rxq := rxq q @ [buf]\<rparr>)"

fun q_rx :: "platform \<Rightarrow> 'w handler \<Rightarrow> (u32 \<times> u32) list \<Rightarrow> queues \<times> 'w \<Rightarrow> (queues \<times> 'w) option" where
  "q_rx pf handle [] (q, w) = Some (q, w)"
| "q_rx pf handle ((buf, st) # fs) (q, w) = do {
     (r, w) \<leftarrow> q_answer pf handle buf st w;
     q_rx pf handle fs (q_place pf r buf q, w)
   }"

lemma rings_ok_length:
  assumes "rings_ok pf e g"
  shows "length (held g) + length (filled g) + length (armed g) = 8"
    "length (sent g) + length (sending g) + length (free g) = 8"
proof -
  have "length (held g @ filled g @ armed g) = 8" "length (sent g @ sending g @ free g) = 8"
    using assms by (metis rings_ok_def rx_ring_ok_def length_rotate) (use assms in \<open>metis rings_ok_def tx_ring_ok_def length_rotate\<close>)
  then show "length (held g) + length (filled g) + length (armed g) = 8"
    "length (sent g) + length (sending g) + length (free g) = 8" by simp_all
qed

lemma rx_current:
  assumes "rings_ok pf e g" "filled g @ armed g = d # ds"
  shows "kReceiveRing e ! unat (kReceiveRd e) = d"
  using assms rotate_head [of "unat (kReceiveWr e)" "kReceiveRing e" "held g" d ds]
  by (simp add: rings_ok_def rx_ring_ok_def)

lemma rx_iter_stop:
  assumes "rings_ok pf e g" "filled g = []"
  shows "rx_iter pf handle (e, w) = Some (False, e, w)"
proof -
  obtain a as where a: "armed g = a # as" "rx_own pf a"
    using assms(1) by (cases "armed g") (auto simp: rings_ok_def rx_ring_ok_def)
  then have "kReceiveRing e ! unat (kReceiveRd e) = a" using rx_current [of pf e g a as] assms by simp
  with a show ?thesis by (simp add: rx_iter_def Let_def rx_own_def)
qed

text \<open>The state in the middle of an iteration: the frame is taken off the ring.\<close>

lemma rx_taken:
  assumes "rx_ring_ok pf e g" "filled g = d # ds"
  defines "i \<equiv> unat (kReceiveRd e)"
  shows "\<not> rx_own pf x \<Longrightarrow> rx_ring_ok pf (e\<lparr>kReceiveRd := PACKET_RING_INC (kReceiveRd e),
      kReceiveRing := (kReceiveRing e)[i := x]\<rparr>) (g\<lparr>held := held g @ [x], filled := ds\<rparr>)"
proof -
  assume x: "\<not> rx_own pf x"
  let ?w = "unat (kReceiveWr e)"
  have rot: "rotate ?w (kReceiveRing e) = held g @ d # ds @ armed g" and l: "length (kReceiveRing e) = 8"
    and i: "i = (?w + length (held g)) mod 8"
    using assms by (simp_all add: rx_ring_ok_def)
  have "rotate ?w ((kReceiveRing e)[i := x]) = held g @ x # ds @ armed g"
    using rotate_set_head [OF rot] by (simp only: l i)
  moreover have "unat (PACKET_RING_INC (kReceiveRd e)) = (?w + length (held g @ [x])) mod 8"
    using RING_INC [of "kReceiveRd e"] i by (simp add: i_def mod_simps)
  ultimately show ?thesis using assms x l by (auto simp: rx_ring_ok_def)
qed

lemma rx_iter_eq_at:
  assumes "d = kReceiveRing e ! unat (kReceiveRd e)" "\<not> rx_own pf d" "Buffer1Addr d \<noteq> 0"
  defines "e1 \<equiv> e\<lparr>kReceiveRd := PACKET_RING_INC (kReceiveRd e)\<rparr>"
  shows "rx_iter pf handle (e, w) = do {
      (r, w) \<leftarrow> q_answer pf handle (Buffer1Addr d) (Status d) w;
      let e2 = (if 0 \<le> r then EnqueueTxFromInterrupt pf (Buffer1Addr d - 2) r
          (e1\<lparr>kReceiveRing := (kReceiveRing e)[unat (kReceiveRd e) := d\<lparr>Buffer1Addr := 0\<rparr>]\<rparr>) else e1);
      Some (True, if r = PACKET_PROCESSED
        then PacketDoneFromInterrupt pf (getPacketFromRing (kReceiveRing e2 ! unat (kReceiveRd e))) e2 else e2, w)
    }"
proof -
  have g: "(\<not> Status d AND RxES pf \<noteq> 0 \<and> Status d AND RxFS pf \<noteq> 0 \<and> Status d AND RxLS pf \<noteq> 0)
      = good_frame pf (Status d)" by (simp add: good_frame_def)
  have r: "kReceiveRing (e\<lparr>kReceiveRd := x\<rparr>) = kReceiveRing e" for x by simp
  have "(Status d AND RxOWN pf \<noteq> 0) = False" "(Buffer1Addr d = 0) = False"
    using assms(2,3) by (simp_all add: rx_own_def)
  then show ?thesis
    unfolding rx_iter_def Let_def case_prod_conv assms(1) [symmetric] e1_def q_answer_def g r
      getPacketFromRing_eq [of d] by (simp only: if_False)
qed

lemma rx_iter_eq:
  assumes "rings_ok pf e g" "filled g = d # ds"
  defines "i \<equiv> unat (kReceiveRd e)"
  defines "e1 \<equiv> e\<lparr>kReceiveRd := PACKET_RING_INC (kReceiveRd e)\<rparr>"
  shows "rx_iter pf handle (e, w) = do {
      (r, w) \<leftarrow> q_answer pf handle (Buffer1Addr d) (Status d) w;
      let e2 = (if 0 \<le> r then EnqueueTxFromInterrupt pf (Buffer1Addr d - 2) r
          (e1\<lparr>kReceiveRing := (kReceiveRing e)[i := d\<lparr>Buffer1Addr := 0\<rparr>]\<rparr>) else e1);
      Some (True, if r = PACKET_PROCESSED then PacketDoneFromInterrupt pf (getPacketFromRing (kReceiveRing e2 ! i)) e2
        else e2, w)
    }"
proof -
  have d: "d = kReceiveRing e ! unat (kReceiveRd e)"
    using rx_current [OF assms(1), of d "ds @ armed g"] assms(2) by simp
  have "\<not> rx_own pf d" "Buffer1Addr d \<noteq> 0" using assms(1,2) by (simp_all add: rings_ok_def rx_ring_ok_def)
  then show ?thesis unfolding i_def e1_def by (rule rx_iter_eq_at [OF d])
qed

text \<open>One iteration takes the first received buffer off its queue and puts it where it belongs.\<close>

lemma rx_iter_reply:
  assumes pf: "platform_ok pf" and ok: "rings_ok pf e g" and filled: "filled g = d # ds" and r: "0 \<le> r"
    and e': "e' = EnqueueTxFromInterrupt pf (Buffer1Addr d - 2) r (e\<lparr>kReceiveRd := PACKET_RING_INC (kReceiveRd e),
      kReceiveRing := (kReceiveRing e)[unat (kReceiveRd e) := d\<lparr>Buffer1Addr := 0\<rparr>]\<rparr>)"
  shows "\<exists>g'. rings_ok pf e' g' \<and> queues_of g' = q_place pf r (Buffer1Addr d)
      ((queues_of g)\<lparr>inq := map (\<lambda>d. (Buffer1Addr d, Status d)) ds\<rparr>) \<and> filled g' = ds"
proof -
  let ?x = "d\<lparr>Buffer1Addr := 0\<rparr>"
  let ?e1 = "e\<lparr>kReceiveRd := PACKET_RING_INC (kReceiveRd e), kReceiveRing := (kReceiveRing e)[unat (kReceiveRd e) := ?x]\<rparr>"
  let ?g1 = "g\<lparr>held := held g @ [?x], filled := ds\<rparr>"
  have d: "\<not> rx_own pf ?x" "Buffer1Addr d \<noteq> 0" and a: "armed g \<noteq> []"
    using ok filled by (simp_all add: rings_ok_def rx_ring_ok_def rx_own_def)
  have rx1: "rx_ring_ok pf ?e1 ?g1"
    using ok filled d by (intro rx_taken) (simp_all add: rings_ok_def)
  have "length (held g) \<le> 6"
    using rings_ok_length(1) [OF ok] filled a by (cases "armed g") auto
  then have "free g \<noteq> []" using rings_ok_length(2) [OF ok] ok by (auto simp: rings_ok_def)
  then obtain f fs where f: "free g = f # fs" by (cases "free g") auto
  have tx1: "tx_ring_ok pf ?e1 ?g1" using ok by (simp add: rings_ok_def tx_ring_ok_def)
  let ?g2 = "?g1\<lparr>sending := sending g @ [enqueued pf f (Buffer1Addr d) r], free := fs\<rparr>"
  have tx2: "tx_ring_ok pf e' ?g2" and same: "same_rx ?e1 e'"
    using EnqueueTx_segments [OF pf tx1, of f fs "Buffer1Addr d" r] f d(2) by (simp_all add: e')
  have "rx_ring_ok pf ?e1 ?g2" using rx1 by (simp add: rx_ring_ok_def)
  then have "rx_ring_ok pf e' ?g2" by (simp only: rx_ring_ok_same [OF same])
  with tx2 same ok have "rings_ok pf e' ?g2" by (simp add: rings_ok_def same_rx_def)
  moreover have "queues_of ?g2 = q_place pf r (Buffer1Addr d) ((queues_of g)\<lparr>inq := map (\<lambda>d. (Buffer1Addr d, Status d)) ds\<rparr>)"
    using r by (simp add: queues_of_def q_place_def enqueued_def)
  ultimately show ?thesis by (intro exI [of _ ?g2]) simp
qed

lemma rx_iter_done:
  assumes pf: "platform_ok pf" and ok: "rings_ok pf e g" and filled: "filled g = d # ds"
    and e': "e' = PacketDoneFromInterrupt pf (getPacketFromRing (kReceiveRing e ! unat (kReceiveRd e)))
      (e\<lparr>kReceiveRd := PACKET_RING_INC (kReceiveRd e)\<rparr>)"
  shows "\<exists>g'. rings_ok pf e' g' \<and> queues_of g' = q_place pf PACKET_PROCESSED (Buffer1Addr d)
      ((queues_of g)\<lparr>inq := map (\<lambda>d. (Buffer1Addr d, Status d)) ds\<rparr>) \<and> filled g' = ds"
proof -
  have cur: "kReceiveRing e ! unat (kReceiveRd e) = d"
    using rx_current [OF ok, of d "ds @ armed g"] filled by simp
  let ?e1 = "e\<lparr>kReceiveRd := PACKET_RING_INC (kReceiveRd e)\<rparr>"
  let ?g1 = "g\<lparr>held := held g @ [d], filled := ds\<rparr>"
  have d: "\<not> rx_own pf d" "Buffer1Addr d \<noteq> 0"
    using ok filled by (simp_all add: rings_ok_def rx_ring_ok_def)
  have same: "(kReceiveRing e)[unat (kReceiveRd e) := d] = kReceiveRing e"
    using cur list_update_id by metis
  have rx1: "rx_ring_ok pf ?e1 ?g1"
    using rx_taken [OF _ filled, of pf e d] ok d same by (simp add: rings_ok_def)
  obtain c cs where c: "held g @ [d] = c # cs" by (cases "held g @ [d]") auto
  let ?g2 = "?g1\<lparr>held := cs, armed := armed g @ [rearm pf c (Buffer1Addr d)]\<rparr>"
  have e'': "e' = PacketDoneFromInterrupt pf (Buffer1Addr d - 2) ?e1"
    by (simp add: e' cur getPacketFromRing_eq)
  have "rx_ring_ok pf e' ?g2" "same_tx ?e1 e'" "kInPool e' = kInPool e"
    using PacketDone_rx_ring [OF pf rx1, of c cs "Buffer1Addr d"] c d(2) ok
    by (simp_all add: e'' rings_ok_def)
  moreover have "tx_ring_ok pf ?e1 ?g2" using ok by (simp add: rings_ok_def tx_ring_ok_def)
  moreover have "length cs = length (held g)" using arg_cong [OF c, of length] by simp
  ultimately have "rings_ok pf e' ?g2"
    using ok tx_ring_ok_same [OF \<open>same_tx ?e1 e'\<close>] by (simp add: rings_ok_def)
  moreover have "queues_of ?g2 = q_place pf PACKET_PROCESSED (Buffer1Addr d)
      ((queues_of g)\<lparr>inq := map (\<lambda>d. (Buffer1Addr d, Status d)) ds\<rparr>)"
    by (simp add: queues_of_def q_place_def PACKET_PROCESSED_def)
  ultimately show ?thesis by (intro exI [of _ ?g2]) simp
qed

section \<open>The receive interrupt\<close>

lemma PacketDone_indices [simp]:
  "kReceiveRd (PacketDoneFromInterrupt pf pkt e) = kReceiveRd e"
  "kTransmitWr (PacketDoneFromInterrupt pf pkt e) = kTransmitWr e"
  by (simp_all add: PacketDoneFromInterrupt_def Let_def)

lemma EnqueueTx_indices [simp]:
  "kReceiveRd (EnqueueTxFromInterrupt pf pkt n e) = kReceiveRd e"
  "kTransmitWr (EnqueueTxFromInterrupt pf pkt n e) = kTransmitWr e"
  by (simp_all add: EnqueueTxFromInterrupt_def Let_def IsTxDmaSuspended_def eth_read_def)

lemma rx_iter_indices:
  assumes "rx_iter pf handle (e, w) = Some (True, e', w')"
  shows "kReceiveRd e' = PACKET_RING_INC (kReceiveRd e)" "kTransmitWr e' = kTransmitWr e"
  using assms
  by (auto simp: rx_iter_def Let_def Option.bind_eq_Some_conv split: if_splits)

text \<open>
  What the driver relies on in the handler of frames: from a valid state it returns, and it
  either gives the buffer back or asks for an answer to be sent.
\<close>

locale frame_handler =
  fixes handle :: "'w handler" and valid :: "'w \<Rightarrow> bool"
  assumes handle_returns: "valid w \<Longrightarrow> \<exists>r w'. handle frame len w = Some (r, w') \<and> valid w'
    \<and> (r = PACKET_PROCESSED \<or> 0 \<le> r)"
begin

lemma answer_returns:
  "valid w \<Longrightarrow> \<exists>r w'. q_answer pf handle buf st w = Some (r, w') \<and> valid w' \<and> (r = PACKET_PROCESSED \<or> 0 \<le> r)"
  using handle_returns by (auto simp: q_answer_def)

lemma rx_iter_step:
  assumes "platform_ok pf" "rings_ok pf e g" "filled g = d # ds" "valid w"
  shows "\<exists>r w' e' g'. q_answer pf handle (Buffer1Addr d) (Status d) w = Some (r, w') \<and> valid w'
    \<and> rx_iter pf handle (e, w) = Some (True, e', w') \<and> rings_ok pf e' g' \<and> filled g' = ds
    \<and> queues_of g' = q_place pf r (Buffer1Addr d) ((queues_of g)\<lparr>inq := map (\<lambda>d. (Buffer1Addr d, Status d)) ds\<rparr>)"
proof -
  obtain r w' where a: "q_answer pf handle (Buffer1Addr d) (Status d) w = Some (r, w')" "valid w'"
    and r: "r = PACKET_PROCESSED \<or> 0 \<le> r"
    using answer_returns [OF assms(4)] by blast
  show ?thesis
  proof (cases "r = PACKET_PROCESSED")
    case True
    then show ?thesis
      using rx_iter_done [OF assms(1,2,3) refl] a
      by (auto simp: rx_iter_eq [OF assms(2,3)] Let_def PACKET_PROCESSED_def)
  next
    case False
    then show ?thesis
      using rx_iter_reply [OF assms(1,2,3) _ refl, of r] a r
      by (auto simp: rx_iter_eq [OF assms(2,3)] Let_def)
  qed
qed

lemma rx_loop_refines:
  assumes "platform_ok pf" "rings_ok pf e g" "valid w"
  shows "\<exists>e' w' q'. rx_loop pf handle (e, w) = Some (e', w')
    \<and> q_rx pf handle (inq (queues_of g)) ((queues_of g)\<lparr>inq := []\<rparr>, w) = Some (q', w')
    \<and> implements pf e' q' \<and> inq q' = [] \<and> valid w'
    \<and> unat (kReceiveRd e') = (unat (kReceiveRd e) + length (filled g)) mod 8 \<and> kTransmitWr e' = kTransmitWr e"
  using assms(2,3)
proof (induction "filled g" arbitrary: e g w)
  case Nil
  then have "rx_loop pf handle (e, w) = Some (e, w)"
    by (subst rx_loop.simps) (simp add: rx_iter_stop)
  moreover have "queues_of g = (queues_of g)\<lparr>inq := []\<rparr>" using Nil by (simp add: queues_of_def)
  moreover have "unat (kReceiveRd e) < 8" using Nil.prems(1) by (simp add: rings_ok_def rx_ring_ok_def)
  ultimately show ?case using Nil by (auto simp: implements_def queues_of_def)
next
  case (Cons d ds)
  obtain r w1 e1 g1 where 1: "q_answer pf handle (Buffer1Addr d) (Status d) w = Some (r, w1)" "valid w1"
      "rx_iter pf handle (e, w) = Some (True, e1, w1)" "rings_ok pf e1 g1" "filled g1 = ds"
      "queues_of g1 = q_place pf r (Buffer1Addr d) ((queues_of g)\<lparr>inq := map (\<lambda>d. (Buffer1Addr d, Status d)) ds\<rparr>)"
    using rx_iter_step [OF assms(1) Cons.prems(1) Cons.hyps(2) [symmetric] Cons.prems(2)] by blast
  have "(queues_of g1)\<lparr>inq := []\<rparr> = q_place pf r (Buffer1Addr d) ((queues_of g)\<lparr>inq := []\<rparr>)"
    by (simp add: 1(6) q_place_def)
  moreover have "inq (queues_of g1) = map (\<lambda>d. (Buffer1Addr d, Status d)) ds"
    by (simp add: queues_of_def 1(5))
  moreover have "inq (queues_of g) = (Buffer1Addr d, Status d) # map (\<lambda>d. (Buffer1Addr d, Status d)) ds"
    by (simp add: queues_of_def flip: Cons.hyps(2))
  moreover have "rx_loop pf handle (e, w) = rx_loop pf handle (e1, w1)"
    by (subst rx_loop.simps) (simp add: 1(3))
  moreover have "unat (kReceiveRd e) < 8" using Cons.prems(1) by (simp add: rings_ok_def rx_ring_ok_def)
  then have "unat (kReceiveRd e1) = (unat (kReceiveRd e) + 1) mod 8" "kTransmitWr e1 = kTransmitWr e"
    using rx_iter_indices [OF 1(3)] by (simp_all add: RING_INC)
  moreover have "((unat (kReceiveRd e) + 1) mod 8 + length ds) mod 8 = (unat (kReceiveRd e) + length (filled g)) mod 8"
    by (simp add: mod_simps flip: Cons.hyps(2))
  ultimately show ?case using Cons.hyps(1) [OF 1(5) [symmetric] 1(4,2)] 1(1,5) by simp
qed

end

end
