(* ===== verification/Eth_System.thy ===== *)
theory Eth_System
  imports Eth_Queues
begin

text \<open>
  The driver of \<open>src/ethernet.c\<close> together with the DMA engine and the handler of frames: the
  transmit interrupt on queues, the state after initialisation, and the system of the steps
  that the engine and the interrupts take in any order.
\<close>

section \<open>The transmit interrupt\<close>

lemma tx_current:
  assumes "rings_ok pf e g" "sent g @ sending g @ free g = d # ds"
  shows "kTransmitRing e ! unat (kTransmitWr e) = d"
  using assms rotate_head [of "unat (kTransmitWr e)" "kTransmitRing e" "[]" d ds]
  by (simp add: rings_ok_def tx_ring_ok_def)

lemma tx_iter_stop:
  assumes "rings_ok pf e g" "sent g = []"
  shows "tx_iter pf e = (False, e)"
proof (cases "sending g")
  case Nil
  moreover have "length (sending g) + length (free g) = 8" using rings_ok_length(2) [OF assms(1)] assms(2) by simp
  ultimately obtain f fs where f: "free g = f # fs" by (cases "free g") auto
  then have "kTransmitRing e ! unat (kTransmitWr e) = f" "Buffer1Addr f = 0"
    using tx_current [OF assms(1)] assms Nil by (auto simp: rings_ok_def tx_ring_ok_def)
  then show ?thesis by (simp add: tx_iter_def Let_def)
next
  case (Cons d ds)
  then have "kTransmitRing e ! unat (kTransmitWr e) = d" "rx_own pf d"
    using tx_current [OF assms(1)] assms by (auto simp: rings_ok_def tx_ring_ok_def)
  then show ?thesis by (simp add: tx_iter_def Let_def rx_own_def)
qed

lemma tx_iter_step:
  assumes pf: "platform_ok pf" and ok: "rings_ok pf e g" and sent: "sent g = d # ds"
  shows "\<exists>e' g'. tx_iter pf e = (True, e') \<and> rings_ok pf e' g' \<and> sent g' = ds
    \<and> queues_of g' = (queues_of g)\<lparr>rxq := rxq (queues_of g) @ [Buffer1Addr d], doneq := map Buffer1Addr ds\<rparr>"
proof -
  let ?w = "unat (kTransmitWr e)" and ?x = "d\<lparr>Buffer1Addr := 0\<rparr>"
  have d: "\<not> rx_own pf d" "Buffer1Addr d \<noteq> 0" and cur: "kTransmitRing e ! ?w = d"
    using ok sent tx_current [OF ok, of d "ds @ sending g @ free g"] by (simp_all add: rings_ok_def tx_ring_ok_def)
  have rx: "rx_ring_ok pf e g" and tx: "tx_ring_ok pf e g" and pool: "0 \<le> kInPool e"
    and len: "length (held g) = length (sent g) + length (sending g)"
    using ok by (simp_all add: rings_ok_def)
  obtain c cs where c: "held g = c # cs" using len sent by (cases "held g") auto
  define e1 where "e1 = PacketDoneFromInterrupt pf (Buffer1Addr d - 2) e"
  define e2 where "e2 = e1\<lparr>kTransmitRing := (kTransmitRing e)[?w := ?x], kTransmitWr := PACKET_RING_INC (kTransmitWr e)\<rparr>"
  note pd = PacketDone_rx_ring [OF pf rx pool c d(2)]
  have same: "kTransmitRing e1 = kTransmitRing e" "kTransmitWr e1 = kTransmitWr e" "kTransmitRd e1 = kTransmitRd e"
    using pd(2) by (simp_all add: e1_def same_tx_def)
  have "tx_iter pf e = (True, e2)"
    using d cur same unfolding tx_iter_def Let_def
    by (simp add: rx_own_def getPacketFromRing_eq e2_def flip: e1_def)
  moreover
  let ?g = "g\<lparr>held := cs, armed := armed g @ [rearm pf c (Buffer1Addr d)], sent := ds, free := free g @ [?x]\<rparr>"
  have "same_rx e1 e2" by (simp add: same_rx_def e2_def)
  then have "rx_ring_ok pf e2 ?g"
    using pd(1) by (simp add: rx_ring_ok_same flip: e1_def) (simp add: rx_ring_ok_def)
  moreover have "tx_ring_ok pf e2 ?g"
  proof -
    have w: "?w < 8" and l: "length (kTransmitRing e) = 8"
      and rot: "rotate ?w (kTransmitRing e) = d # ds @ sending g @ free g"
      and rd: "unat (kTransmitRd e) = (?w + length (sent g @ sending g)) mod 8"
      using tx sent by (simp_all add: tx_ring_ok_def)
    have "rotate ?w ((kTransmitRing e)[?w := ?x]) = ?x # ds @ sending g @ free g"
      using rotate_set_head [of ?w "kTransmitRing e" "[]" d "ds @ sending g @ free g" ?x] rot w l by simp
    then have "rotate ((?w + 1) mod 8) ((kTransmitRing e)[?w := ?x]) = ds @ sending g @ free g @ [?x]"
      using rotate_next [of ?w "(kTransmitRing e)[?w := ?x]" ?x "ds @ sending g @ free g" 8] l by simp
    moreover have "unat (kTransmitRd e) = ((?w + 1) mod 8 + length (ds @ sending g)) mod 8"
      using rd sent by (simp add: mod_simps)
    ultimately show ?thesis
      using tx sent d l RING_INC [OF w] by (auto simp: tx_ring_ok_def e2_def same rx_own_def)
  qed
  moreover have "kInPool e2 = kInPool e" using pd(3) by (simp add: e2_def e1_def)
  ultimately have "tx_iter pf e = (True, e2) \<and> rings_ok pf e2 ?g"
    using c len sent pool by (simp add: rings_ok_def)
  moreover have "queues_of ?g = (queues_of g)\<lparr>rxq := rxq (queues_of g) @ [Buffer1Addr d], doneq := map Buffer1Addr ds\<rparr>"
    by (simp add: queues_of_def)
  ultimately show ?thesis by (intro exI [of _ e2] exI [of _ ?g]) simp
qed

definition q_tx :: "queues \<Rightarrow> queues" where
  "q_tx q = q\<lparr>rxq := rxq q @ doneq q, doneq := []\<rparr>"

lemma tx_iter_indices:
  assumes "tx_iter pf e = (True, e')"
  shows "kTransmitWr e' = PACKET_RING_INC (kTransmitWr e)" "kReceiveRd e' = kReceiveRd e"
  using assms by (auto simp: tx_iter_def Let_def split: if_splits)

lemma tx_interrupt_refines:
  assumes "platform_ok pf" "rings_ok pf e g"
  shows "\<exists>e'. EthernetTXInterrupt pf e = Some e' \<and> implements pf e' (q_tx (queues_of g))
    \<and> unat (kTransmitWr e') = (unat (kTransmitWr e) + length (sent g)) mod 8 \<and> kReceiveRd e' = kReceiveRd e"
  using assms(2)
proof (induction "sent g" arbitrary: e g)
  case Nil
  then have "EthernetTXInterrupt pf e = Some e"
    by (subst EthernetTXInterrupt.simps) (simp add: tx_iter_stop)
  moreover have "q_tx (queues_of g) = queues_of g" using Nil by (simp add: q_tx_def queues_of_def)
  moreover have "unat (kTransmitWr e) < 8" using Nil.prems by (simp add: rings_ok_def tx_ring_ok_def)
  ultimately show ?case using Nil by (auto simp: implements_def)
next
  case (Cons d ds)
  obtain e1 g1 where 1: "tx_iter pf e = (True, e1)" "rings_ok pf e1 g1" "sent g1 = ds"
      "queues_of g1 = (queues_of g)\<lparr>rxq := rxq (queues_of g) @ [Buffer1Addr d], doneq := map Buffer1Addr ds\<rparr>"
    using tx_iter_step [OF assms(1) Cons.prems Cons.hyps(2) [symmetric]] by blast
  have "q_tx (queues_of g1) = q_tx (queues_of g)"
    by (simp add: 1(4) q_tx_def) (simp add: queues_of_def flip: Cons.hyps(2))
  moreover have "EthernetTXInterrupt pf e = EthernetTXInterrupt pf e1"
    by (subst EthernetTXInterrupt.simps) (simp add: 1(1))
  moreover have "unat (kTransmitWr e) < 8" using Cons.prems by (simp add: rings_ok_def tx_ring_ok_def)
  then have "unat (kTransmitWr e1) = (unat (kTransmitWr e) + 1) mod 8" "kReceiveRd e1 = kReceiveRd e"
    using tx_iter_indices [OF 1(1)] by (simp_all add: RING_INC)
  moreover have "((unat (kTransmitWr e) + 1) mod 8 + length ds) mod 8 = (unat (kTransmitWr e) + length (sent g)) mod 8"
    by (simp add: mod_simps flip: Cons.hyps(2))
  ultimately show ?case using Cons.hyps(1) [OF 1(3) [symmetric] 1(2)] 1(3) by simp
qed

section \<open>The initial state\<close>

lemma pool_frame:
  assumes "platform_ok pf" "i < 9"
  shows "unat (pkt_Frame (pool_buffer pf i)) = unat (kPacketPool pf) + 1520 * i + 2"
proof -
  have b: "unat (kPacketPool pf) + 9 * 1520 \<le> 2 ^ 32" using assms(1) by (simp add: platform_ok_def)
  have "1520 * of_nat i + 2 = (of_nat (1520 * i + 2) :: u32)" by simp
  moreover have "unat (of_nat (1520 * i + 2) :: u32) = 1520 * i + 2" using assms(2) by (intro unat_of_nat_32) simp
  ultimately have "unat (1520 * of_nat i + 2 :: u32) = 1520 * i + 2" by (simp only:)
  then show ?thesis
    using b assms(2) unat_add_lem [of "kPacketPool pf" "1520 * of_nat i + 2"]
    by (simp add: pkt_Frame_eq pool_buffer_eq add.assoc)
qed

definition pool_frames :: "platform \<Rightarrow> u32 list" where
  "pool_frames pf = map (\<lambda>i. pkt_Frame (pool_buffer pf i)) [0..<8]"

lemma pool_frame_nonzero: "platform_ok pf \<Longrightarrow> i < 9 \<Longrightarrow> pkt_Frame (pool_buffer pf i) \<noteq> 0"
  using pool_frame [of pf i] by (metis add_2_eq_Suc' nat.distinct(1) unsigned_0)

definition initial_segments :: "eth \<Rightarrow> segments" where
  "initial_segments e = \<lparr>held = [], filled = [], armed = kReceiveRing e,
     sent = [], sending = [], free = kTransmitRing e\<rparr>"

lemma PACKET_RING_LEN: "PACKET_RING_LEN = 8"
  by (simp add: PACKET_RING_LEN_def PACKET_POOL_LEN_def)

lemma InitializeDma_rx_ring:
  fixes e :: eth
  assumes "platform_ok pf"
  defines "rx \<equiv> kReceiveRing (EthernetInitializeDma pf e)"
  shows "length rx = 8" "map Buffer1Addr rx = pool_frames pf" "\<forall>d\<in>set rx. Status d = RxOWN pf"
proof -
  have 8: "[0..<8] = [0, 1, 2, 3, 4, 5, 6, 7 :: nat]" by (simp add: upt_rec)
  show "length rx = 8" "map Buffer1Addr rx = pool_frames pf" "\<forall>d\<in>set rx. Status d = RxOWN pf"
    unfolding rx_def EthernetInitializeDma_def Let_def eth_do_def PACKET_RING_LEN pool_frames_def 8 by simp_all
qed

lemma InitializeDma_tx_ring:
  fixes e :: eth
  assumes "platform_ok pf"
  defines "tx \<equiv> kTransmitRing (EthernetInitializeDma pf e)"
  shows "length tx = 8" "\<forall>d\<in>set tx. \<not> rx_own pf d \<and> Buffer1Addr d = 0"
proof -
  have rep: "replicate 8 x = [x, x, x, x, x, x, x, x]" for x :: dma_desc by (simp add: numeral_eq_Suc)
  have "(TxCIC pf OR TxFS pf OR TxLS pf OR TxIC pf OR TxTER pf) AND RxOWN pf = 0"
    using assms(1) by (simp add: platform_ok_def)
  then have "(TxCIC pf OR TxFS pf OR TxLS pf OR TxIC pf) AND RxOWN pf = 0"
    "((TxCIC pf OR TxFS pf OR TxLS pf OR TxIC pf) OR TxTER pf) AND RxOWN pf = 0"
    by (simp_all add: bit.conj_disj_distrib2 or_eq_0_iff or.assoc)
  then show "length tx = 8" "\<forall>d\<in>set tx. \<not> rx_own pf d \<and> Buffer1Addr d = 0"
    unfolding tx_def EthernetInitializeDma_def Let_def eth_do_def PACKET_RING_LEN rep rx_own_def by simp_all
qed

lemma InitializeDma_indices:
  "kReceiveRd (EthernetInitializeDma pf e) = 0" "kReceiveWr (EthernetInitializeDma pf e) = 0"
  "kTransmitRd (EthernetInitializeDma pf e) = 0" "kTransmitWr (EthernetInitializeDma pf e) = 0"
  "kInPool (EthernetInitializeDma pf e) = 8"
  by (simp_all add: EthernetInitializeDma_def Let_def eth_do_def PACKET_POOL_LEN_def)

lemma InitializeDma_rings_ok:
  assumes "platform_ok pf"
  shows "rings_ok pf (EthernetInitializeDma pf e) (initial_segments (EthernetInitializeDma pf e))"
proof -
  note rx = InitializeDma_rx_ring [OF assms, of e] and tx = InitializeDma_tx_ring [OF assms, of e]
  have "Buffer1Addr d \<noteq> 0" if "d \<in> set (kReceiveRing (EthernetInitializeDma pf e))" for d
  proof -
    have "Buffer1Addr d \<in> set (map Buffer1Addr (kReceiveRing (EthernetInitializeDma pf e)))" using that by simp
    then show ?thesis using pool_frame_nonzero [OF assms] unfolding rx(2) pool_frames_def by auto
  qed
  moreover have "RxOWN pf \<noteq> 0" using assms by (simp add: platform_ok_def)
  ultimately show ?thesis
    using rx tx by (auto simp: rings_ok_def rx_ring_ok_def tx_ring_ok_def initial_segments_def InitializeDma_indices
        rx_own_def)
qed

lemma InitializeDma_implements:
  assumes "platform_ok pf"
  shows "implements pf (EthernetInitializeDma pf e) \<lparr>rxq = pool_frames pf, inq = [], doneq = [], txq = []\<rparr>"
proof -
  let ?e = "EthernetInitializeDma pf e"
  have "queues_of (initial_segments ?e) = \<lparr>rxq = pool_frames pf, inq = [], doneq = [], txq = []\<rparr>"
    using InitializeDma_rx_ring(2) [OF assms] by (simp add: queues_of_def initial_segments_def)
  then show ?thesis using InitializeDma_rings_ok [OF assms] unfolding implements_def by metis
qed

section \<open>The DMA engine\<close>

text \<open>
  The engine works through each ring in order.  A step of reception fills the buffer of the
  current descriptor and gives it to the CPU with a status; a step of transmission only gives
  the descriptor back.  As the comment in \<open>EthernetRXInterrupt\<close> says of this chip, the engine
  does not take the last descriptor that it owns: the next one must be its own, too.
\<close>

definition dma_status :: "nat \<Rightarrow> u32 \<Rightarrow> dma_desc list \<Rightarrow> dma_desc list" where
  "dma_status i st ring = ring[i := (ring ! i)\<lparr>Status := st\<rparr>]"

lemma armed_rest:
  assumes "rings_ok pf e g" "armed g = a # as"
    and pos: "i = (unat (kReceiveRd e) + length (filled g)) mod 8"
    and "rx_own pf (kReceiveRing e ! ((i + 1) mod 8))"
  shows "as \<noteq> []"
proof
  assume as: "as = []"
  let ?w = "unat (kReceiveWr e)"
  have l: "length (kReceiveRing e) = 8" and rot: "rotate ?w (kReceiveRing e) = held g @ filled g @ [a]"
    and rd: "unat (kReceiveRd e) = (?w + length (held g)) mod 8" and w: "?w < 8"
    and own: "\<forall>d\<in>set (held g @ filled g). \<not> rx_own pf d"
    using assms(1,2) as by (auto simp: rings_ok_def rx_ring_ok_def)
  have n: "length (held g @ filled g) = 7" using rings_ok_length(1) [OF assms(1)] assms(2) as by simp
  then obtain x xs where x: "held g @ filled g = x # xs" by (cases "held g @ filled g") auto
  have "(i + 1) mod 8 = ?w"
    using n w by (simp add: pos rd mod_simps add.assoc)
  moreover have "kReceiveRing e ! ?w = x"
    using rotate_head [of ?w "kReceiveRing e" "[]" x "xs @ [a]"] rot x l w by simp
  ultimately show False using assms(4) own x by simp
qed

lemma dma_receive_ok:
  assumes ok: "rings_ok pf e g" and pos: "i = (unat (kReceiveRd e) + length (filled g)) mod 8"
    and own: "rx_own pf (kReceiveRing e ! ((i + 1) mod 8))" and st: "st AND RxOWN pf = 0"
  shows "\<exists>a as. armed g = a # as \<and> kReceiveRing e ! i = a \<and>
    rings_ok pf (e\<lparr>kReceiveRing := dma_status i st (kReceiveRing e)\<rparr>)
      (g\<lparr>filled := filled g @ [a\<lparr>Status := st\<rparr>], armed := as\<rparr>)"
proof -
  let ?w = "unat (kReceiveWr e)"
  obtain a as where a: "armed g = a # as" using ok by (cases "armed g") (auto simp: rings_ok_def rx_ring_ok_def)
  have l: "length (kReceiveRing e) = 8" and rot: "rotate ?w (kReceiveRing e) = (held g @ filled g) @ a # as"
    and rd: "unat (kReceiveRd e) = (?w + length (held g)) mod 8"
    using ok a by (simp_all add: rings_ok_def rx_ring_ok_def)
  have i: "i = (?w + length (held g @ filled g)) mod 8" by (simp add: pos rd mod_simps add.assoc)
  have cur: "kReceiveRing e ! i = a" using rotate_head [OF rot] by (simp only: l i)
  have "rotate ?w (dma_status i st (kReceiveRing e)) = (held g @ filled g) @ a\<lparr>Status := st\<rparr> # as"
    using rotate_set_head [OF rot, of "a\<lparr>Status := st\<rparr>"] by (simp only: l i [symmetric] dma_status_def cur)
  then have "rings_ok pf (e\<lparr>kReceiveRing := dma_status i st (kReceiveRing e)\<rparr>)
      (g\<lparr>filled := filled g @ [a\<lparr>Status := st\<rparr>], armed := as\<rparr>)"
    using ok a st l armed_rest [OF ok a pos own]
    by (auto simp: rings_ok_def rx_ring_ok_def tx_ring_ok_def rx_own_def dma_status_def)
  with a cur show ?thesis by blast
qed

lemma dma_transmit_ok:
  assumes ok: "rings_ok pf e g" and pos: "i = (unat (kTransmitWr e) + length (sent g)) mod 8"
    and own: "rx_own pf (kTransmitRing e ! i)" and st: "st AND RxOWN pf = 0"
  shows "\<exists>d ds. sending g = d # ds \<and>
    rings_ok pf (e\<lparr>kTransmitRing := dma_status i st (kTransmitRing e)\<rparr>)
      (g\<lparr>sent := sent g @ [d\<lparr>Status := st\<rparr>], sending := ds\<rparr>)"
proof -
  let ?w = "unat (kTransmitWr e)"
  have l: "length (kTransmitRing e) = 8" and rot: "rotate ?w (kTransmitRing e) = sent g @ sending g @ free g"
    and w: "?w < 8" and free: "\<forall>d\<in>set (free g). \<not> rx_own pf d"
    using ok by (simp_all add: rings_ok_def tx_ring_ok_def)
  have n: "length (sent g) + length (sending g) + length (free g) = 8" by (rule rings_ok_length(2) [OF ok])
  have few: "length (sent g) + length (sending g) < 8"
    using rings_ok_length(1) [OF ok] ok by (cases "armed g") (auto simp: rings_ok_def rx_ring_ok_def)
  have "sending g \<noteq> []"
  proof
    assume none: "sending g = []"
    then obtain f fs where f: "free g = f # fs" using few n by (cases "free g") auto
    then have "kTransmitRing e ! i = f"
      using rotate_head [of ?w "kTransmitRing e" "sent g" f fs] rot none l pos by simp
    then show False using own free f by simp
  qed
  then obtain d ds where d: "sending g = d # ds" by (cases "sending g") auto
  have rot': "rotate ?w (kTransmitRing e) = sent g @ d # (ds @ free g)" using rot d by simp
  have cur: "kTransmitRing e ! i = d" using rotate_head [OF rot'] by (simp only: l pos)
  have "rotate ?w (dma_status i st (kTransmitRing e)) = sent g @ d\<lparr>Status := st\<rparr> # (ds @ free g)"
    using rotate_set_head [OF rot', of "d\<lparr>Status := st\<rparr>"] by (simp only: l pos [symmetric] dma_status_def cur)
  then have "rings_ok pf (e\<lparr>kTransmitRing := dma_status i st (kTransmitRing e)\<rparr>)
      (g\<lparr>sent := sent g @ [d\<lparr>Status := st\<rparr>], sending := ds\<rparr>)"
    using ok d st l by (auto simp: rings_ok_def rx_ring_ok_def tx_ring_ok_def rx_own_def dma_status_def)
  with d show ?thesis by blast
qed

section \<open>The system\<close>

record system =
  s_eth :: eth
  s_world :: world
  rx_pos :: nat
  tx_pos :: nat

text \<open>
  The steps: the engine receives or sends a frame, one of the two loops of the interrupt goes
  round once, the firmware draws numbers without touching the buffers, or it accesses device
  registers.  The engine may thus step in between any two rounds of the loops.
\<close>

definition same_rings :: "eth \<Rightarrow> eth \<Rightarrow> bool" where
  "same_rings e e' \<longleftrightarrow> same_rx e e' \<and> same_tx e e' \<and> kInPool e' = kInPool e"

inductive eth_step :: "platform \<Rightarrow> board \<Rightarrow> u8 list \<Rightarrow> system \<Rightarrow> system \<Rightarrow> bool"
  for pf b mac where
  receive: "\<lbrakk>rx_own pf (kReceiveRing e ! rx_pos s); rx_own pf (kReceiveRing e ! ((rx_pos s + 1) mod 8));
      e = s_eth s; st AND RxOWN pf = 0; same_outside (w_mem (s_world s)) m (Buffer1Addr (kReceiveRing e ! rx_pos s)) 1518\<rbrakk>
    \<Longrightarrow> eth_step pf b mac s (s\<lparr>s_eth := e\<lparr>kReceiveRing := dma_status (rx_pos s) st (kReceiveRing e)\<rparr>,
      s_world := (s_world s)\<lparr>w_mem := m\<rparr>, rx_pos := (rx_pos s + 1) mod 8\<rparr>)"
| transmit: "\<lbrakk>rx_own pf (kTransmitRing e ! tx_pos s); e = s_eth s; st AND RxOWN pf = 0\<rbrakk>
    \<Longrightarrow> eth_step pf b mac s (s\<lparr>s_eth := e\<lparr>kTransmitRing := dma_status (tx_pos s) st (kTransmitRing e)\<rparr>,
      tx_pos := (tx_pos s + 1) mod 8\<rparr>)"
| rx_iteration: "rx_iter pf (PacketRxInterrupt b mac) (s_eth s, s_world s) = Some (again, e, w)
    \<Longrightarrow> eth_step pf b mac s (s\<lparr>s_eth := e, s_world := w\<rparr>)"
| tx_iteration: "tx_iter pf (s_eth s) = (again, e)
    \<Longrightarrow> eth_step pf b mac s (s\<lparr>s_eth := e\<rparr>)"
| main_loop: "\<lbrakk>w_mem w = w_mem (s_world s); trng_live b (w_hw w); prng_inv (w_prng w)\<rbrakk>
    \<Longrightarrow> eth_step pf b mac s (s\<lparr>s_world := w\<rparr>)"
| registers: "same_rings (s_eth s) e \<Longrightarrow> eth_step pf b mac s (s\<lparr>s_eth := e\<rparr>)"

inductive reachable :: "platform \<Rightarrow> board \<Rightarrow> u8 list \<Rightarrow> system \<Rightarrow> bool"
  for pf b mac where
  start: "\<lbrakk>trng_live b (w_hw w); prng_inv (w_prng w)\<rbrakk>
    \<Longrightarrow> reachable pf b mac \<lparr>s_eth = EthernetInitializeDma pf e, s_world = w, rx_pos = 0, tx_pos = 0\<rparr>"
| step: "reachable pf b mac s \<Longrightarrow> eth_step pf b mac s s' \<Longrightarrow> reachable pf b mac s'"

inductive_cases eth_stepE: "eth_step pf b mac s s'"

definition handler_ready :: "board \<Rightarrow> u8 list \<Rightarrow> world \<Rightarrow> bool" where
  "handler_ready b mac w \<longleftrightarrow> length mac = 6 \<and> trng_live b (w_hw w) \<and> prng_inv (w_prng w)"

interpretation prdk: frame_handler "PacketRxInterrupt b mac" "handler_ready b mac" for b mac
  by unfold_locales (use PacketRx_returns in \<open>fastforce simp: handler_ready_def\<close>)

section \<open>The invariant of the system\<close>

definition system_ok :: "platform \<Rightarrow> board \<Rightarrow> u8 list \<Rightarrow> system \<Rightarrow> queues \<Rightarrow> bool" where
  "system_ok pf b mac s q \<longleftrightarrow> implements pf (s_eth s) q \<and> q_buffers q = mset (pool_frames pf)
     \<and> rx_pos s = (unat (kReceiveRd (s_eth s)) + length (inq q)) mod 8
     \<and> tx_pos s = (unat (kTransmitWr (s_eth s)) + length (doneq q)) mod 8
     \<and> handler_ready b mac (s_world s)"

lemma q_place_buffers: "q_buffers (q_place pf r buf q) = q_buffers q + {#buf#}"
  by (simp add: q_buffers_def q_place_def)

lemma q_rx_buffers:
  "q_rx pf handle fs (q, w) = Some (q', w') \<Longrightarrow>
     q_buffers q' = q_buffers q + mset (map fst fs) \<and> doneq q' = doneq q \<and> inq q' = inq q"
proof (induction fs arbitrary: q w)
  case (Cons f fs)
  obtain buf st where f: "f = (buf, st)" by (cases f)
  from Cons.prems obtain r w1 where "q_rx pf handle fs (q_place pf r buf q, w1) = Some (q', w')"
    by (auto simp: f Option.bind_eq_Some_conv)
  from Cons.IH [OF this] show ?case by (simp add: f q_place_buffers) (simp add: q_place_def)
qed simp

lemma q_tx_buffers: "q_buffers (q_tx q) = q_buffers q"
  by (simp add: q_buffers_def q_tx_def)

lemma initial_system_ok:
  assumes "platform_ok pf" "handler_ready b mac w"
  shows "\<exists>q. system_ok pf b mac \<lparr>s_eth = EthernetInitializeDma pf e, s_world = w, rx_pos = 0, tx_pos = 0\<rparr> q"
proof -
  let ?q = "queues_of (initial_segments (EthernetInitializeDma pf e))"
  have "rxq ?q = pool_frames pf" "inq ?q = []" "doneq ?q = []" "txq ?q = []"
    using InitializeDma_rx_ring(2) [OF assms(1)] by (simp_all add: queues_of_def initial_segments_def)
  then have "q_buffers ?q = mset (pool_frames pf)" by (simp add: q_buffers_def)
  moreover have "implements pf (EthernetInitializeDma pf e) ?q"
    using InitializeDma_rings_ok [OF assms(1)] by (auto simp: implements_def)
  ultimately have "system_ok pf b mac \<lparr>s_eth = EthernetInitializeDma pf e, s_world = w, rx_pos = 0, tx_pos = 0\<rparr> ?q"
    using assms(2) by (simp add: system_ok_def InitializeDma_indices queues_of_def initial_segments_def)
  then show ?thesis ..
qed

lemma receive_system_ok:
  assumes "system_ok pf b mac s q" "rx_own pf (kReceiveRing (s_eth s) ! ((rx_pos s + 1) mod 8))" "st AND RxOWN pf = 0"
  shows "\<exists>f fs. rxq q = f # fs \<and> Buffer1Addr (kReceiveRing (s_eth s) ! rx_pos s) = f
    \<and> system_ok pf b mac (s\<lparr>s_eth := (s_eth s)\<lparr>kReceiveRing := dma_status (rx_pos s) st (kReceiveRing (s_eth s))\<rparr>,
      s_world := (s_world s)\<lparr>w_mem := m\<rparr>, rx_pos := (rx_pos s + 1) mod 8\<rparr>) (q\<lparr>rxq := fs, inq := inq q @ [(f, st)]\<rparr>)"
proof -
  obtain g where g: "rings_ok pf (s_eth s) g" "q = queues_of g" using assms(1) by (auto simp: system_ok_def implements_def)
  have pos: "rx_pos s = (unat (kReceiveRd (s_eth s)) + length (filled g)) mod 8"
    using assms(1) g(2) by (simp add: system_ok_def queues_of_def)
  obtain a as where a: "armed g = a # as" "kReceiveRing (s_eth s) ! rx_pos s = a" and ok: "rings_ok pf
      ((s_eth s)\<lparr>kReceiveRing := dma_status (rx_pos s) st (kReceiveRing (s_eth s))\<rparr>)
      (g\<lparr>filled := filled g @ [a\<lparr>Status := st\<rparr>], armed := as\<rparr>)"
    using dma_receive_ok [OF g(1) pos assms(2,3)] by blast
  let ?q = "q\<lparr>rxq := map Buffer1Addr as, inq := inq q @ [(Buffer1Addr a, st)]\<rparr>"
  have q': "queues_of (g\<lparr>filled := filled g @ [a\<lparr>Status := st\<rparr>], armed := as\<rparr>) = ?q"
    by (simp add: g(2) queues_of_def)
  have rxq: "rxq q = Buffer1Addr a # map Buffer1Addr as" by (simp add: g(2) queues_of_def a)
  then have "q_buffers ?q = q_buffers q" by (simp add: q_buffers_def)
  moreover have "implements pf ((s_eth s)\<lparr>kReceiveRing := dma_status (rx_pos s) st (kReceiveRing (s_eth s))\<rparr>) ?q"
    using ok q' unfolding implements_def by metis
  ultimately show ?thesis
    using assms(1) rxq a(2) by (simp add: system_ok_def handler_ready_def mod_simps)
qed

lemma transmit_system_ok:
  assumes "system_ok pf b mac s q" "rx_own pf (kTransmitRing (s_eth s) ! tx_pos s)" "st AND RxOWN pf = 0"
  shows "\<exists>f len ts. txq q = (f, len) # ts
    \<and> system_ok pf b mac (s\<lparr>s_eth := (s_eth s)\<lparr>kTransmitRing := dma_status (tx_pos s) st (kTransmitRing (s_eth s))\<rparr>,
      tx_pos := (tx_pos s + 1) mod 8\<rparr>) (q\<lparr>txq := ts, doneq := doneq q @ [f]\<rparr>)"
proof -
  obtain g where g: "rings_ok pf (s_eth s) g" "q = queues_of g" using assms(1) by (auto simp: system_ok_def implements_def)
  have pos: "tx_pos s = (unat (kTransmitWr (s_eth s)) + length (sent g)) mod 8"
    using assms(1) g(2) by (simp add: system_ok_def queues_of_def)
  obtain d ds where d: "sending g = d # ds" and ok: "rings_ok pf
      ((s_eth s)\<lparr>kTransmitRing := dma_status (tx_pos s) st (kTransmitRing (s_eth s))\<rparr>)
      (g\<lparr>sent := sent g @ [d\<lparr>Status := st\<rparr>], sending := ds\<rparr>)"
    using dma_transmit_ok [OF g(1) pos assms(2,3)] by blast
  let ?ts = "map (\<lambda>d. (Buffer1Addr d, ControlBufferSize d)) ds"
  let ?q = "q\<lparr>txq := ?ts, doneq := doneq q @ [Buffer1Addr d]\<rparr>"
  have q': "queues_of (g\<lparr>sent := sent g @ [d\<lparr>Status := st\<rparr>], sending := ds\<rparr>) = ?q"
    by (simp add: g(2) queues_of_def)
  have txq: "txq q = (Buffer1Addr d, ControlBufferSize d) # ?ts" by (simp add: g(2) queues_of_def d)
  then have "q_buffers ?q = q_buffers q" by (simp add: q_buffers_def)
  moreover have "implements pf ((s_eth s)\<lparr>kTransmitRing := dma_status (tx_pos s) st (kTransmitRing (s_eth s))\<rparr>) ?q"
    using ok q' unfolding implements_def by metis
  ultimately show ?thesis
    using assms(1) txq by (simp add: system_ok_def handler_ready_def mod_simps)
qed

lemma rx_interrupt_system_ok:
  assumes "platform_ok pf" "system_ok pf b mac s q"
  shows "\<exists>e w q'. EthernetRXInterrupt pf b mac (s_eth s, s_world s) = Some (e, w)
    \<and> q_rx pf (PacketRxInterrupt b mac) (inq q) (q\<lparr>inq := []\<rparr>, s_world s) = Some (q', w)
    \<and> inq q' = [] \<and> system_ok pf b mac (s\<lparr>s_eth := e, s_world := w\<rparr>) q'"
proof -
  obtain g where g: "rings_ok pf (s_eth s) g" "q = queues_of g" and w: "handler_ready b mac (s_world s)"
    using assms(2) by (auto simp: system_ok_def implements_def)
  obtain e w q' where run: "rx_loop pf (PacketRxInterrupt b mac) (s_eth s, s_world s) = Some (e, w)"
      "q_rx pf (PacketRxInterrupt b mac) (inq q) (q\<lparr>inq := []\<rparr>, s_world s) = Some (q', w)"
      "implements pf e q'" "inq q' = []" "handler_ready b mac w"
      "unat (kReceiveRd e) = (unat (kReceiveRd (s_eth s)) + length (filled g)) mod 8"
      "kTransmitWr e = kTransmitWr (s_eth s)"
    using prdk.rx_loop_refines [OF assms(1) g(1) w] g(2) by blast
  have "q_buffers (q\<lparr>inq := []\<rparr>) + mset (map fst (inq q)) = q_buffers q"
    by (simp add: q_buffers_def)
  then have "q_buffers q' = q_buffers q" "doneq q' = doneq q"
    using q_rx_buffers [OF run(2)] by simp_all
  moreover have "length (inq q) = length (filled g)" by (simp add: g(2) queues_of_def)
  ultimately have "system_ok pf b mac (s\<lparr>s_eth := e, s_world := w\<rparr>) q'"
    using assms(2) run by (simp add: system_ok_def)
  with run show ?thesis by (auto simp: EthernetRXInterrupt_def)
qed

lemma tx_interrupt_system_ok:
  assumes "platform_ok pf" "system_ok pf b mac s q"
  shows "\<exists>e. EthernetTXInterrupt pf (s_eth s) = Some e \<and> system_ok pf b mac (s\<lparr>s_eth := e\<rparr>) (q_tx q)"
proof -
  obtain g where g: "rings_ok pf (s_eth s) g" "q = queues_of g"
    using assms(2) by (auto simp: system_ok_def implements_def)
  obtain e where run: "EthernetTXInterrupt pf (s_eth s) = Some e" "implements pf e (q_tx q)"
      "unat (kTransmitWr e) = (unat (kTransmitWr (s_eth s)) + length (sent g)) mod 8"
      "kReceiveRd e = kReceiveRd (s_eth s)"
    using tx_interrupt_refines [OF assms(1) g(1)] g(2) by blast
  moreover have "length (doneq q) = length (sent g)" by (simp add: g(2) queues_of_def)
  moreover have "inq (q_tx q) = inq q" "doneq (q_tx q) = []" by (simp_all add: q_tx_def)
  ultimately have "system_ok pf b mac (s\<lparr>s_eth := e\<rparr>) (q_tx q)"
    using assms(2) by (simp add: system_ok_def q_tx_buffers)
  with run(1) show ?thesis by blast
qed

lemma rx_iteration_ok:
  assumes "platform_ok pf" "system_ok pf b mac s q"
  shows "\<exists>e w q'. rx_iter pf (PacketRxInterrupt b mac) (s_eth s, s_world s) = Some (inq q \<noteq> [], e, w)
    \<and> system_ok pf b mac (s\<lparr>s_eth := e, s_world := w\<rparr>) q'
    \<and> (case inq q of [] \<Rightarrow> q' = q \<and> w = s_world s
        | (f, st) # fs \<Rightarrow> \<exists>r. q_answer pf (PacketRxInterrupt b mac) f st (s_world s) = Some (r, w)
            \<and> q' = q_place pf r f (q\<lparr>inq := fs\<rparr>))"
proof -
  obtain g where g: "rings_ok pf (s_eth s) g" "q = queues_of g" and w: "handler_ready b mac (s_world s)"
    using assms(2) by (auto simp: system_ok_def implements_def)
  show ?thesis
  proof (cases "filled g")
    case Nil
    then have "inq q = []" by (simp add: g(2) queues_of_def)
    with rx_iter_stop [OF g(1) Nil] assms(2) show ?thesis
      by (intro exI [of _ "s_eth s"] exI [of _ "s_world s"] exI [of _ q]) simp
  next
    case (Cons d ds)
    let ?fs = "map (\<lambda>d. (Buffer1Addr d, Status d)) ds"
    obtain r w1 e1 g1 where 1: "handler_ready b mac w1"
        "q_answer pf (PacketRxInterrupt b mac) (Buffer1Addr d) (Status d) (s_world s) = Some (r, w1)"
        "rx_iter pf (PacketRxInterrupt b mac) (s_eth s, s_world s) = Some (True, e1, w1)" "rings_ok pf e1 g1"
        "queues_of g1 = q_place pf r (Buffer1Addr d) (q\<lparr>inq := ?fs\<rparr>)"
      using prdk.rx_iter_step [OF assms(1) g(1) Cons w] g(2) by blast
    let ?q1 = "q_place pf r (Buffer1Addr d) (q\<lparr>inq := ?fs\<rparr>)"
    have inq: "inq q = (Buffer1Addr d, Status d) # ?fs" by (simp add: g(2) queues_of_def Cons)
    have "q_buffers ?q1 = q_buffers q"
      by (simp add: q_place_buffers) (simp add: q_buffers_def inq)
    moreover have "inq ?q1 = ?fs" "doneq ?q1 = doneq q" by (simp_all add: q_place_def)
    moreover have "implements pf e1 ?q1" using 1(4,5) by (auto simp: implements_def)
    moreover have "unat (kReceiveRd (s_eth s)) < 8" using g(1) by (simp add: rings_ok_def rx_ring_ok_def)
    then have "unat (kReceiveRd e1) = (unat (kReceiveRd (s_eth s)) + 1) mod 8" "kTransmitWr e1 = kTransmitWr (s_eth s)"
      using rx_iter_indices [OF 1(3)] by (simp_all add: RING_INC)
    ultimately have "system_ok pf b mac (s\<lparr>s_eth := e1, s_world := w1\<rparr>) ?q1"
      using assms(2) 1(1) inq by (simp add: system_ok_def mod_simps)
    with 1(2,3) inq show ?thesis
      by (intro exI [of _ e1] exI [of _ w1] exI [of _ ?q1]) simp
  qed
qed

lemma tx_iteration_ok:
  assumes "platform_ok pf" "system_ok pf b mac s q"
  shows "\<exists>e q'. tx_iter pf (s_eth s) = (doneq q \<noteq> [], e) \<and> system_ok pf b mac (s\<lparr>s_eth := e\<rparr>) q'
    \<and> (case doneq q of [] \<Rightarrow> q' = q | f # fs \<Rightarrow> q' = q\<lparr>rxq := rxq q @ [f], doneq := fs\<rparr>)"
proof -
  obtain g where g: "rings_ok pf (s_eth s) g" "q = queues_of g"
    using assms(2) by (auto simp: system_ok_def implements_def)
  show ?thesis
  proof (cases "sent g")
    case Nil
    then have "doneq q = []" by (simp add: g(2) queues_of_def)
    with tx_iter_stop [OF g(1) Nil] assms(2) show ?thesis
      by (intro exI [of _ "s_eth s"] exI [of _ q]) simp
  next
    case (Cons d ds)
    obtain e1 g1 where 1: "tx_iter pf (s_eth s) = (True, e1)" "rings_ok pf e1 g1"
        "queues_of g1 = q\<lparr>rxq := rxq q @ [Buffer1Addr d], doneq := map Buffer1Addr ds\<rparr>"
      using tx_iter_step [OF assms(1) g(1) Cons] g(2) by blast
    let ?q1 = "q\<lparr>rxq := rxq q @ [Buffer1Addr d], doneq := map Buffer1Addr ds\<rparr>"
    have dn: "doneq q = Buffer1Addr d # map Buffer1Addr ds" by (simp add: g(2) queues_of_def Cons)
    have "q_buffers ?q1 = q_buffers q" by (simp add: q_buffers_def dn)
    moreover have "implements pf e1 ?q1" using 1(2,3) by (auto simp: implements_def)
    moreover have "unat (kTransmitWr (s_eth s)) < 8" using g(1) by (simp add: rings_ok_def tx_ring_ok_def)
    then have "unat (kTransmitWr e1) = (unat (kTransmitWr (s_eth s)) + 1) mod 8" "kReceiveRd e1 = kReceiveRd (s_eth s)"
      using tx_iter_indices [OF 1(1)] by (simp_all add: RING_INC)
    ultimately have "system_ok pf b mac (s\<lparr>s_eth := e1\<rparr>) ?q1"
      using assms(2) dn by (simp add: system_ok_def mod_simps)
    with 1(1) dn show ?thesis by (intro exI [of _ e1] exI [of _ ?q1]) simp
  qed
qed

lemma rings_ok_same:
  "same_rings e e' \<Longrightarrow> rings_ok pf e g \<Longrightarrow> rings_ok pf e' g"
  by (auto simp: same_rings_def same_rx_def same_tx_def rings_ok_def rx_ring_ok_def tx_ring_ok_def)

lemma implements_same_rings: "same_rings e e' \<Longrightarrow> implements pf e q \<Longrightarrow> implements pf e' q"
  unfolding implements_def using rings_ok_same by blast

lemma reachable_system_ok:
  assumes "platform_ok pf" "length mac = 6" "reachable pf b mac s"
  shows "\<exists>q. system_ok pf b mac s q"
  using assms(3)
proof induction
  case (start w e)
  then show ?case using initial_system_ok [OF assms(1)] assms(2) by (simp add: handler_ready_def)
next
  case (step s s')
  then obtain q where q: "system_ok pf b mac s q" by blast
  from step.hyps(2) show ?case
  proof cases
    case (receive e st m)
    then show ?thesis using receive_system_ok [OF q, of st m] by fastforce
  next
    case (transmit e st)
    then show ?thesis using transmit_system_ok [OF q, of st] by fastforce
  next
    case (rx_iteration again e w)
    then show ?thesis using rx_iteration_ok [OF assms(1) q] by fastforce
  next
    case (tx_iteration again e)
    then show ?thesis using tx_iteration_ok [OF assms(1) q] by fastforce
  next
    case (main_loop w)
    then show ?thesis using q assms(2) by (auto simp: system_ok_def handler_ready_def)
  next
    case (registers e)
    then have "implements pf e q" "kReceiveRd e = kReceiveRd (s_eth s)" "kTransmitWr e = kTransmitWr (s_eth s)"
      using q implements_same_rings [OF registers(2)]
      by (simp_all add: system_ok_def same_rings_def same_rx_def same_tx_def)
    then show ?thesis using q registers(1) by (auto simp: system_ok_def)
  qed
qed

end
