(* ===== verification/Eth_Properties.thy ===== *)
theory Eth_Properties
  imports Eth_System
begin

text \<open>
  What the driver of \<open>src/ethernet.c\<close> guarantees in every state that the system reaches.
\<close>

section \<open>A sample board\<close>

definition sample_platform :: platform where
  "sample_platform = \<lparr>RxOWN = 0x80000000, TxOWN = 0x80000000, RxES = 0x8000, RxFS = 0x200, RxLS = 0x100,
     RxFL = 0x3FFF0000, RxRBS1 = 0x1FFF, RxRER = 0x8000, TxCIC = 0xC00000, TxFS = 0x10000000, TxLS = 0x20000000,
     TxIC = 0x40000000, TxTER = 0x200000, TxTBS1 = 0x1FFF, DMASR_TPS = 0x700000, DMASR_TPS_Suspended = 0x600000,
     DMASR_AIS = 0x8000, DMASR_NIS = 0x10000, DMASR_RBUS = 0x80, DMASR_RS = 0x40, DMASR_TS = 1, DMASR_TBUS = 4,
     IT_PHYLINK = 0x80000000, IT_RBU = 0x80, IT_AIS = 0x8000, IT_R = 0x40, IT_T = 1, IT_TBU = 4, IT_NIS = 0x10000,
     Mode_FullDuplex = 0x800, Speed_100M = 0x4000, Speed_1000M = 0x8000, EXTEN_ETH_10M_EN = 4,
     PHY_BCR = 0, PHY_BSR = 1, PHY_ANLPAR = 5, PHY_STATUS = 0x10, PHY_MDIX = 0x1E, PHY_Reset = 0x8000,
     PHY_Linked_Status = 4, PHY_AutoNego_Complete = 0x20,
     kPacketPool = 0x20001000, kReceiveRing_addr = 0x20000800, kTransmitRing_addr = 0x20000900,
     reg_value = \<lambda>log r. 0, phy_value = \<lambda>log addr r. 0x24\<rparr>"

lemma sample_platform_ok: "platform_ok sample_platform"
  by (simp add: platform_ok_def sample_platform_def)

definition blank_eth :: eth where
  "blank_eth = \<lparr>kReceiveRing = [], kTransmitRing = [], kReceiveRd = 0, kReceiveWr = 0,
     kTransmitRd = 0, kTransmitWr = 0, kInPool = 0,
     current_phy_address = 0, phy_link_ready = False, eth_log = []\<rparr>"

definition sample_system :: system where
  "sample_system = \<lparr>s_eth = EthernetInitializeDma sample_platform blank_eth,
     s_world = \<lparr>w_mem = \<lambda>_. 0, w_prng = sample_prng, w_hw = \<lparr>clk = 0, ahb_rng = True, rng_en = True\<rparr>\<rparr>,
     rx_pos = 0, tx_pos = 0\<rparr>"

lemma sample_system_reachable: "reachable sample_platform ready_board [2, 0, 0, 0, 0, 1] sample_system"
  using reachable.start [of ready_board "\<lparr>w_mem = \<lambda>_. 0, w_prng = sample_prng,
      w_hw = \<lparr>clk = 0, ahb_rng = True, rng_en = True\<rparr>\<rparr>"] ready_board_live sample_prng_inv
  by (simp add: sample_system_def)

section \<open>Buffers\<close>

lemma pool_frames_distinct: "platform_ok pf \<Longrightarrow> distinct (pool_frames pf)"
proof -
  assume "platform_ok pf"
  then have "inj_on (\<lambda>i. pkt_Frame (pool_buffer pf i)) (set [0..<8])"
    by (intro inj_onI) (auto dest!: arg_cong [of _ _ unat] simp: pool_frame)
  then show ?thesis by (simp add: pool_frames_def distinct_map del: upt_rec_numeral)
qed

text \<open>
  C1. No buffer is ever lost or used twice: in every reachable state the driver's two rings are
  queues in which each of the eight buffers in use occurs exactly once, armed for reception,
  received, to be sent or sent.
\<close>

theorem buffers_accounted:
  assumes "platform_ok pf" "length mac = 6" "reachable pf b mac s"
  shows "\<exists>q. implements pf (s_eth s) q \<and>
    (let bufs = rxq q @ map fst (inq q) @ map fst (txq q) @ doneq q
     in distinct bufs \<and> set bufs = (\<lambda>i. pkt_Frame (pool_buffer pf i)) ` {..<8})"
proof -
  obtain q where q: "system_ok pf b mac s q" using reachable_system_ok [OF assms] by blast
  let ?bufs = "rxq q @ map fst (inq q) @ map fst (txq q) @ doneq q"
  have "mset ?bufs = mset (pool_frames pf)"
    using q by (simp add: system_ok_def q_buffers_def ac_simps)
  then have "distinct ?bufs" "set ?bufs = set (pool_frames pf)"
    using pool_frames_distinct [OF assms(1)] mset_eq_imp_distinct_iff mset_eq_setD by blast+
  moreover have "set (pool_frames pf) = (\<lambda>i. pkt_Frame (pool_buffer pf i)) ` {..<8}"
    by (simp add: pool_frames_def lessThan_atLeast0 del: upt_rec_numeral)
  ultimately show ?thesis using q unfolding system_ok_def Let_def by blast
qed

theorem buffers_accounted_witness:
  "\<exists>q. implements sample_platform (s_eth sample_system) q
     \<and> distinct (rxq q @ map fst (inq q) @ map fst (txq q) @ doneq q)"
  using buffers_accounted [OF sample_platform_ok _ sample_system_reachable] by (auto simp: Let_def)

text \<open>The frames of two buffers do not overlap.\<close>

lemma frames_apart:
  assumes "platform_ok pf" "i < 9" "j < 9" "i \<noteq> j" "k < 1518"
  shows "1518 \<le> unat (pkt_Frame (pool_buffer pf j) + of_nat k - pkt_Frame (pool_buffer pf i))"
proof (rule ccontr)
  let ?a = "pkt_Frame (pool_buffer pf i)" and ?c = "pkt_Frame (pool_buffer pf j)"
  assume "\<not> 1518 \<le> unat (?c + of_nat k - ?a)"
  then have d: "unat (?c + of_nat k - ?a) < 1518" by simp
  have base: "unat (kPacketPool pf) + 9 * 1520 \<le> 2 ^ 32" using assms(1) by (simp add: platform_ok_def)
  have a: "unat ?a = unat (kPacketPool pf) + 1520 * i + 2" and c: "unat ?c = unat (kPacketPool pf) + 1520 * j + 2"
    using pool_frame assms(1-3) by blast+
  have "unat (?c + of_nat k) = unat ?c + k"
    using assms(3,5) base c unat_of_nat_32 [of k] unat_add_lem [of ?c "of_nat k"] by simp
  moreover have "unat (?a + (?c + of_nat k - ?a)) = unat ?a + unat (?c + of_nat k - ?a)"
    using d base a assms(2) unat_add_lem [of ?a "?c + of_nat k - ?a"] by simp
  moreover have "?a + (?c + of_nat k - ?a) = ?c + of_nat k" by simp
  ultimately have "unat ?c + k = unat ?a + unat (?c + of_nat k - ?a)" by simp
  then have "1520 * j + k < 1520 * i + 1518" "1520 * i \<le> 1520 * j + k" using a c d by linarith+
  then show False using assms(4,5) by linarith
qed

lemma frame_bytes_kept:
  assumes "platform_ok pf" "i < 9" "j < 9" "i \<noteq> j" "same_outside m m' (pkt_Frame (pool_buffer pf i)) 1518"
  shows "mem_bytes m' (pkt_Frame (pool_buffer pf j)) 1518 = mem_bytes m (pkt_Frame (pool_buffer pf j)) 1518"
  using assms(5) frames_apart [OF assms(1-4)] by (rule same_outside_mem_bytes)

text \<open>
  An answer is written into its own buffer only: whatever \<open>PacketRxInterrupt\<close> does with the
  frame in one buffer of the pool, the 1518 bytes of every other buffer's frame stay as they are.
\<close>

lemma answers_keep_to_their_buffer:
  assumes "platform_ok pf" "length mac = 6" "i < 9" "j < 9" "i \<noteq> j"
    and "PacketRxInterrupt b mac (pkt_Frame (pool_buffer pf i)) len w = Some (r, w')"
  shows "mem_bytes (w_mem w') (pkt_Frame (pool_buffer pf j)) 1518
    = mem_bytes (w_mem w) (pkt_Frame (pool_buffer pf j)) 1518"
  using assms(1,3-5) same_outside_mono [OF PacketRx_frame [OF assms(2,6)]] by (rule frame_bytes_kept) simp

section \<open>The interrupts\<close>

text \<open>
  C11. The loops of the two interrupts end: in every reachable state \<open>EthernetRXInterrupt\<close> and
  \<open>EthernetTXInterrupt\<close> return, and afterwards no received frame and no sent buffer is left.
\<close>

theorem interrupts_return:
  assumes "platform_ok pf" "length mac = 6" "reachable pf b mac s"
  shows "(\<exists>e w q. EthernetRXInterrupt pf b mac (s_eth s, s_world s) = Some (e, w) \<and> implements pf e q \<and> inq q = [])
    \<and> (\<exists>e q. EthernetTXInterrupt pf (s_eth s) = Some e \<and> implements pf e q \<and> doneq q = [])"
proof -
  obtain q where q: "system_ok pf b mac s q" using reachable_system_ok [OF assms] by blast
  have "doneq (q_tx q) = []" by (simp add: q_tx_def)
  then show ?thesis
    using rx_interrupt_system_ok [OF assms(1) q] tx_interrupt_system_ok [OF assms(1) q]
    by (auto simp: system_ok_def)
qed

theorem interrupts_return_witness:
  "\<exists>e. EthernetTXInterrupt sample_platform (s_eth sample_system) = Some e"
  using interrupts_return [OF sample_platform_ok _ sample_system_reachable] by auto

text \<open>
  \<open>EthernetRXInterrupt\<close> is the queue operation: it hands the received frames to
  \<open>PacketRxInterrupt\<close> in the order of their reception, appends the buffers of answered ones with
  their lengths to the buffers to be sent, and arms the others again; frames with an error and
  fragments are armed again without being looked at.
\<close>

lemma rx_interrupt_refines:
  assumes "platform_ok pf" "implements pf e q" "length mac = 6" "trng_live b (w_hw w)" "prng_inv (w_prng w)"
  shows "\<exists>e' w' q'. EthernetRXInterrupt pf b mac (e, w) = Some (e', w')
    \<and> q_rx pf (PacketRxInterrupt b mac) (inq q) (q\<lparr>inq := []\<rparr>, w) = Some (q', w')
    \<and> implements pf e' q' \<and> inq q' = []"
proof -
  obtain g where "rings_ok pf e g" "q = queues_of g" using assms(2) by (auto simp: implements_def)
  moreover have "handler_ready b mac w" using assms(3,4,5) by (simp add: handler_ready_def)
  ultimately show ?thesis
    using prdk.rx_loop_refines [OF assms(1)] unfolding EthernetRXInterrupt_def by blast
qed

lemmas sample_implements = InitializeDma_implements [OF sample_platform_ok, of blank_eth]

text \<open>
  \<open>EthernetTXInterrupt\<close> is the queue operation: it arms all sent buffers again, in the order
  in which they were sent.
\<close>

lemma tx_interrupt_is_rearm:
  assumes "platform_ok pf" "implements pf e q"
  shows "\<exists>e'. EthernetTXInterrupt pf e = Some e'
    \<and> implements pf e' (q\<lparr>rxq := rxq q @ doneq q, doneq := []\<rparr>)"
  using assms tx_interrupt_refines [OF assms(1)] unfolding implements_def q_tx_def by metis

text \<open>
  C12. The two overruns that the code provides for never happen: whenever a received frame waits
  to be handled, the next transmit descriptor is free, and whenever a sent buffer waits to be
  taken back, the next receive descriptor belongs to the CPU.
\<close>

theorem no_overrun:
  assumes "platform_ok pf" "length mac = 6" "reachable pf b mac s"
  defines "e \<equiv> s_eth s"
  shows "(Status (kReceiveRing e ! unat (kReceiveRd e)) AND RxOWN pf = 0 \<longrightarrow>
      Status (kTransmitRing e ! unat (kTransmitRd e)) AND TxOWN pf = 0
      \<and> Buffer1Addr (kTransmitRing e ! unat (kTransmitRd e)) = 0)
    \<and> (Status (kTransmitRing e ! unat (kTransmitWr e)) AND RxOWN pf = 0
      \<and> Buffer1Addr (kTransmitRing e ! unat (kTransmitWr e)) \<noteq> 0 \<longrightarrow>
      Status (kReceiveRing e ! unat (kReceiveWr e)) AND RxOWN pf = 0)"
proof -
  obtain g where g: "rings_ok pf e g"
    using reachable_system_ok [OF assms(1-3)] by (auto simp: system_ok_def implements_def e_def)
  have len: "length (held g) + length (filled g) + length (armed g) = 8"
    "length (sent g) + length (sending g) + length (free g) = 8" "length (held g) = length (sent g) + length (sending g)"
    using rings_ok_length [OF g] g by (simp_all add: rings_ok_def)
  obtain a as where a: "armed g = a # as" using g by (cases "armed g") (auto simp: rings_ok_def rx_ring_ok_def)
  then have "length (sent g @ sending g) < 8" using len by simp
  then obtain f fs where f: "free g = f # fs" using len(2) by (cases "free g") auto
  have ownTx: "TxOWN pf = RxOWN pf" using assms(1) by (simp add: platform_ok_def)
  have "kTransmitRing e ! unat (kTransmitRd e) = f"
    using g rotate_head [of "unat (kTransmitWr e)" "kTransmitRing e" "sent g @ sending g" f fs] f
    by (simp add: rings_ok_def tx_ring_ok_def)
  then have 1: "Status (kTransmitRing e ! unat (kTransmitRd e)) AND TxOWN pf = 0"
    "Buffer1Addr (kTransmitRing e ! unat (kTransmitRd e)) = 0"
    using g f by (simp_all add: rings_ok_def tx_ring_ok_def rx_own_def ownTx)
  have 2: "Status (kReceiveRing e ! unat (kReceiveWr e)) AND RxOWN pf = 0"
    if "Status (kTransmitRing e ! unat (kTransmitWr e)) AND RxOWN pf = 0"
      "Buffer1Addr (kTransmitRing e ! unat (kTransmitWr e)) \<noteq> 0"
  proof -
    have "sent g \<noteq> []" using tx_iter_stop [OF g] that by (auto simp: tx_iter_def Let_def)
    then obtain c cs where c: "held g = c # cs" using len(3) by (cases "held g") auto
    have "kReceiveRing e ! unat (kReceiveWr e) = c"
      using g rotate_head [of "unat (kReceiveWr e)" "kReceiveRing e" "[]" c "cs @ filled g @ armed g"] c
      by (simp add: rings_ok_def rx_ring_ok_def)
    then show ?thesis using g c by (simp add: rings_ok_def rx_ring_ok_def rx_own_def)
  qed
  from 1 2 show ?thesis by blast
qed

text \<open>The sample system after the reception of a frame.\<close>

definition received_system :: system where
  "received_system = sample_system\<lparr>s_eth := (s_eth sample_system)\<lparr>kReceiveRing :=
      dma_status 0 0x00400300 (kReceiveRing (s_eth sample_system))\<rparr>, rx_pos := 1\<rparr>"

lemma received_system_reachable: "reachable sample_platform ready_board [2, 0, 0, 0, 0, 1] received_system"
proof -
  note rx = InitializeDma_rx_ring [OF sample_platform_ok, of blank_eth]
  have "rx_own sample_platform (kReceiveRing (s_eth sample_system) ! i)" if "i < 8" for i
    using rx(1,3) nth_mem [of i "kReceiveRing (s_eth sample_system)"] that
    by (auto simp: sample_system_def rx_own_def sample_platform_def)
  moreover have "rx_pos sample_system = 0" by (simp add: sample_system_def)
  ultimately have "eth_step sample_platform ready_board [2, 0, 0, 0, 0, 1] sample_system
      (sample_system\<lparr>s_eth := (s_eth sample_system)\<lparr>kReceiveRing :=
          dma_status (rx_pos sample_system) 0x00400300 (kReceiveRing (s_eth sample_system))\<rparr>,
        s_world := (s_world sample_system)\<lparr>w_mem := w_mem (s_world sample_system)\<rparr>,
        rx_pos := (rx_pos sample_system + 1) mod 8\<rparr>)"
    by (intro eth_step.receive [OF _ _ refl]) (simp_all add: sample_platform_def)
  then have "eth_step sample_platform ready_board [2, 0, 0, 0, 0, 1] sample_system received_system"
    by (simp add: received_system_def sample_system_def)
  then show ?thesis by (rule reachable.step [OF sample_system_reachable])
qed

theorem no_overrun_witness:
  "Buffer1Addr (kTransmitRing (s_eth received_system) ! unat (kTransmitRd (s_eth received_system))) = 0"
proof -
  have "Status (kReceiveRing (s_eth received_system) ! unat (kReceiveRd (s_eth received_system))) AND RxOWN sample_platform = 0"
    using InitializeDma_rx_ring(1) [OF sample_platform_ok, of blank_eth]
    by (simp add: received_system_def sample_system_def dma_status_def InitializeDma_indices)
      (simp add: sample_platform_def)
  then show ?thesis
    using no_overrun [OF sample_platform_ok _ received_system_reachable] by simp
qed

end
