(* ===== verification/Eth_Init.thy ===== *)
theory Eth_Init
  imports Eth_Properties
begin

text \<open>
  The initialisation of the Ethernet controller in \<open>src/ethernet.c\<close>: clocks, reset, the MAC's
  registers and the descriptor rings.

  The masks and values of the vendor's headers are the parameter \<open>mac_consts\<close>, with the values
  that the vendor's \<open>ETH_StructInit\<close> stores and what the PLL's flag reads after a history of
  accesses.  A loop that waits for the hardware returns \<open>None\<close> when it never ends.
\<close>

datatype init_field =
    ETH_AutoNegotiation | ETH_Watchdog | ETH_Jabber | ETH_InterFrameGap | ETH_CarrierSense
  | ETH_Speed | ETH_ReceiveOwn | ETH_LoopbackMode | ETH_Mode | ETH_ChecksumOffload
  | ETH_RetryTransmission | ETH_AutomaticPadCRCStrip | ETH_BackOffLimit | ETH_DeferralCheck
  | ETH_ReceiveAll | ETH_SourceAddrFilter | ETH_PassControlFrames | ETH_BroadcastFramesReception
  | ETH_DestinationAddrFilter | ETH_PromiscuousMode | ETH_MulticastFramesFilter
  | ETH_UnicastFramesFilter | ETH_HashTableHigh | ETH_HashTableLow | ETH_PauseTime
  | ETH_ZeroQuantaPause | ETH_PauseLowThreshold | ETH_UnicastPauseFrameDetect
  | ETH_ReceiveFlowControl | ETH_TransmitFlowControl | ETH_VLANTagComparison
  | ETH_VLANTagIdentifier | ETH_DropTCPIPChecksumErrorFrame | ETH_ReceiveStoreForward
  | ETH_FlushReceivedFrame | ETH_TransmitStoreForward | ETH_TransmitThresholdControl
  | ETH_ForwardErrorFrames | ETH_ForwardUndersizedGoodFrames | ETH_ReceiveThresholdControl
  | ETH_SecondFrameOperate

type_synonym eth_init = "init_field \<Rightarrow> u32"

record mac_consts =
  MACMIIAR_CR_MASK :: u32
  ETH_MACMIIAR_CR_Div42 :: u32
  MACCR_CLEAR_MASK :: u32
  ETH_Internal_Pull_Up_Res_Enable :: u32
  MACFCR_CLEAR_MASK :: u32
  DMAOMR_CLEAR_MASK :: u32
  ETH_DMABMR_SR :: u32
  Speed_10M :: u32
  AutoNegotiation_Enable :: u32
  LoopbackMode_Disable :: u32
  RetryTransmission_Disable :: u32
  AutomaticPadCRCStrip_Disable :: u32
  ReceiveAll_Disable :: u32
  BroadcastFramesReception_Enable :: u32
  PromiscuousMode_Disable :: u32
  MulticastFramesFilter_Perfect :: u32
  UnicastFramesFilter_Perfect :: u32
  DropTCPIPChecksumErrorFrame_Enable :: u32
  ReceiveStoreForward_Enable :: u32
  TransmitStoreForward_Enable :: u32
  ForwardErrorFrames_Enable :: u32
  ForwardUndersizedGoodFrames_Enable :: u32
  SecondFrameOperate_Disable :: u32
  StructInit_values :: eth_init
  PLL3RDY :: "eth_log \<Rightarrow> bool"

section \<open>Waiting and registers\<close>

text \<open>Both waiting loops make one access per iteration and end when what it reads says so.\<close>

partial_function (option) poll_until :: "eth_call \<Rightarrow> (eth_log \<Rightarrow> bool) \<Rightarrow> eth \<Rightarrow> eth option" where
  "poll_until c ready e =
     (if ready (eth_log e) then Some (eth_do c e) else poll_until c ready (eth_do c e))"

definition eth_modify :: "platform \<Rightarrow> eth_reg \<Rightarrow> (u32 \<Rightarrow> u32) \<Rightarrow> eth \<Rightarrow> eth" where
  "eth_modify pf r f e = (let (v, e) = eth_read pf r e in eth_do (RegWrite r (f v)) e)"

definition EthernetDeinitialize :: "eth \<Rightarrow> eth" where
  "EthernetDeinitialize e = eth_do (RCC_AHBPeriphResetCmd False) (eth_do (RCC_AHBPeriphResetCmd True) e)"

definition EthernetSoftwareReset :: "platform \<Rightarrow> mac_consts \<Rightarrow> eth \<Rightarrow> eth option" where
  "EthernetSoftwareReset pf c e =
     poll_until (RegRead DMABMR) (\<lambda>log. reg_value pf log DMABMR AND ETH_DMABMR_SR c = 0)
       (eth_modify pf DMABMR (\<lambda>v. v OR ETH_DMABMR_SR c) e)"

definition EthernetSetClock :: "mac_consts \<Rightarrow> eth \<Rightarrow> eth option" where
  "EthernetSetClock c e =
     (let e = eth_do (RCC_PLL3Cmd False) e;
          e = eth_do RCC_PREDIV2Config e;
          e = eth_do RCC_PLL3Config e;
          e = eth_do (RCC_PLL3Cmd True) e
      in poll_until PLL3_poll (PLL3RDY c) e)"

section \<open>The registers of the MAC\<close>

definition MACCR_init :: "eth_init \<Rightarrow> u32" where
  "MACCR_init ini = ini ETH_AutoNegotiation OR ini ETH_Watchdog OR ini ETH_Jabber OR ini ETH_InterFrameGap
     OR ini ETH_CarrierSense OR ini ETH_Speed OR ini ETH_ReceiveOwn OR ini ETH_LoopbackMode OR ini ETH_Mode
     OR ini ETH_ChecksumOffload OR ini ETH_RetryTransmission OR ini ETH_AutomaticPadCRCStrip
     OR ini ETH_BackOffLimit OR ini ETH_DeferralCheck"

definition MACFFR_init :: "eth_init \<Rightarrow> u32" where
  "MACFFR_init ini = ini ETH_ReceiveAll OR ini ETH_SourceAddrFilter OR ini ETH_PassControlFrames
     OR ini ETH_BroadcastFramesReception OR ini ETH_DestinationAddrFilter OR ini ETH_PromiscuousMode
     OR ini ETH_MulticastFramesFilter OR ini ETH_UnicastFramesFilter"

definition MACFCR_init :: "eth_init \<Rightarrow> u32" where
  "MACFCR_init ini = push_bit 16 (ini ETH_PauseTime) OR ini ETH_ZeroQuantaPause OR ini ETH_PauseLowThreshold
     OR ini ETH_UnicastPauseFrameDetect OR ini ETH_ReceiveFlowControl OR ini ETH_TransmitFlowControl"

definition DMAOMR_init :: "eth_init \<Rightarrow> u32" where
  "DMAOMR_init ini = ini ETH_DropTCPIPChecksumErrorFrame OR ini ETH_ReceiveStoreForward
     OR ini ETH_FlushReceivedFrame OR ini ETH_TransmitStoreForward OR ini ETH_TransmitThresholdControl
     OR ini ETH_ForwardErrorFrames OR ini ETH_ForwardUndersizedGoodFrames OR ini ETH_ReceiveThresholdControl
     OR ini ETH_SecondFrameOperate"

definition PHY_PN_SWITCH_AUTO :: u16 where
  "PHY_PN_SWITCH_AUTO = push_bit 2 2"

definition EthernetInitializeRegisters ::
  "platform \<Rightarrow> mac_consts \<Rightarrow> eth_init \<Rightarrow> u16 \<Rightarrow> eth \<Rightarrow> eth" where
  "EthernetInitializeRegisters pf c ethernet_init phy_address e =
     (let e = eth_modify pf MACMIIAR (\<lambda>v. (v AND MACMIIAR_CR_MASK c) OR ETH_MACMIIAR_CR_Div42 c) e;
          e = eth_modify pf MACCR (\<lambda>v. (v AND MACCR_CLEAR_MASK c) OR MACCR_init ethernet_init) e;
          e = eth_modify pf MACCR (\<lambda>v. v OR ETH_Internal_Pull_Up_Res_Enable c) e;
          e = eth_do (RegWrite MACFFR (MACFFR_init ethernet_init)) e;
          e = eth_do (RegWrite MACHTHR (ethernet_init ETH_HashTableHigh)) e;
          e = eth_do (RegWrite MACHTLR (ethernet_init ETH_HashTableLow)) e;
          e = eth_modify pf MACFCR (\<lambda>v. (v AND MACFCR_CLEAR_MASK c) OR MACFCR_init ethernet_init) e;
          e = eth_do (RegWrite MACVLANTR (ethernet_init ETH_VLANTagComparison OR ethernet_init ETH_VLANTagIdentifier)) e;
          e = eth_modify pf DMAOMR (\<lambda>v. (v AND DMAOMR_CLEAR_MASK c) OR DMAOMR_init ethernet_init) e;
          e = eth_do (PHYWrite phy_address (PHY_BCR pf) (PHY_Reset pf)) e
      in eth_do (PHYWrite phy_address (PHY_MDIX pf) PHY_PN_SWITCH_AUTO) e)"

definition ethernet_init :: "platform \<Rightarrow> mac_consts \<Rightarrow> eth_init" where
  "ethernet_init pf c = (StructInit_values c)
     (ETH_Mode := Mode_FullDuplex pf,
      ETH_Speed := Speed_10M c,
      ETH_AutoNegotiation := AutoNegotiation_Enable c,
      ETH_LoopbackMode := LoopbackMode_Disable c,
      ETH_RetryTransmission := RetryTransmission_Disable c,
      ETH_AutomaticPadCRCStrip := AutomaticPadCRCStrip_Disable c,
      ETH_ReceiveAll := ReceiveAll_Disable c,
      ETH_BroadcastFramesReception := BroadcastFramesReception_Enable c,
      ETH_PromiscuousMode := PromiscuousMode_Disable c,
      ETH_MulticastFramesFilter := MulticastFramesFilter_Perfect c,
      ETH_UnicastFramesFilter := UnicastFramesFilter_Perfect c,
      ETH_DropTCPIPChecksumErrorFrame := DropTCPIPChecksumErrorFrame_Enable c,
      ETH_ReceiveStoreForward := ReceiveStoreForward_Enable c,
      ETH_TransmitStoreForward := TransmitStoreForward_Enable c,
      ETH_ForwardErrorFrames := ForwardErrorFrames_Enable c,
      ETH_ForwardUndersizedGoodFrames := ForwardUndersizedGoodFrames_Enable c,
      ETH_SecondFrameOperate := SecondFrameOperate_Disable c)"

text \<open>The two registers of the MAC's address; a shift by 24 of a byte is one of a 32-bit word.\<close>

definition MACA0HR_value :: "u8 list \<Rightarrow> u32" where
  "MACA0HR_value bytes = push_bit 8 (ucast (bytes ! 5)) OR ucast (bytes ! 4)"

definition MACA0LR_value :: "u8 list \<Rightarrow> u32" where
  "MACA0LR_value bytes = ucast (bytes ! 0) OR push_bit 8 (ucast (bytes ! 1)) OR push_bit 16 (ucast (bytes ! 2))
     OR push_bit 24 (ucast (bytes ! 3))"

definition EthernetInitialize :: "platform \<Rightarrow> mac_consts \<Rightarrow> u8 list \<Rightarrow> eth \<Rightarrow> eth option" where
  "EthernetInitialize pf c mac_address e = do {
     let e = eth_do RCC_AHBPeriphClockCmd e;
     let e = e\<lparr>current_phy_address := 1\<rparr>;
     e \<leftarrow> EthernetSetClock c e;
     let e = eth_modify pf EXTEN_CTR (\<lambda>v. v OR EXTEN_ETH_10M_EN pf) e;
     let e = EthernetDeinitialize e;
     e \<leftarrow> EthernetSoftwareReset pf c e;
     let e = eth_do ETH_StructInit e;
     let e = EthernetInitializeRegisters pf c (ethernet_init pf c) (current_phy_address e) e;
     let e = eth_do (RegWrite MACA0HR (MACA0HR_value mac_address)) e;
     let e = eth_do (RegWrite MACA0LR (MACA0LR_value mac_address)) e;
     let e = EthernetInitializeDma pf e;
     Some (eth_do NVIC_EnableIRQ e)
   }"

section \<open>The waiting loops\<close>

text \<open>
  What the accesses so far have done to the clock and the power of the controller.  The divider and
  the factor of the PLL only take effect while it is off; the controller answers once the PLL runs
  with them, its bus clock is on, it is out of reset and the internal 10 Mbit transceiver is enabled.
\<close>

record mac_power =
  pll_divider :: bool
  pll_factor :: bool
  pll_on :: bool
  mac_clock :: bool
  mac_reset :: bool
  phy_10m :: bool

fun power_step :: "platform \<Rightarrow> eth_call \<Rightarrow> mac_power \<Rightarrow> mac_power" where
  "power_step pf (RCC_PLL3Cmd on) p = p\<lparr>pll_on := on\<rparr>"
| "power_step pf RCC_PREDIV2Config p = p\<lparr>pll_divider := pll_divider p \<or> \<not> pll_on p\<rparr>"
| "power_step pf RCC_PLL3Config p = p\<lparr>pll_factor := pll_factor p \<or> \<not> pll_on p\<rparr>"
| "power_step pf RCC_AHBPeriphClockCmd p = p\<lparr>mac_clock := True\<rparr>"
| "power_step pf (RCC_AHBPeriphResetCmd on) p = p\<lparr>mac_reset := on\<rparr>"
| "power_step pf (RegWrite r v) p =
     (if r = EXTEN_CTR then p\<lparr>phy_10m := v AND EXTEN_ETH_10M_EN pf = EXTEN_ETH_10M_EN pf\<rparr> else p)"
| "power_step pf _ p = p"

definition power_after :: "platform \<Rightarrow> eth_log \<Rightarrow> mac_power" where
  "power_after pf log = fold (power_step pf) log
     \<lparr>pll_divider = False, pll_factor = False, pll_on = False, mac_clock = False, mac_reset = False, phy_10m = False\<rparr>"

definition pll_runs :: "mac_power \<Rightarrow> bool" where
  "pll_runs p \<longleftrightarrow> pll_divider p \<and> pll_factor p \<and> pll_on p"

definition mac_runs :: "mac_power \<Rightarrow> bool" where
  "mac_runs p \<longleftrightarrow> pll_runs p \<and> mac_clock p \<and> \<not> mac_reset p \<and> phy_10m p"

text \<open>
  A PLL that is set and switched on locks after some polls, and a controller that runs finishes its
  software reset; before that, the flag and the bit may read anything for ever.
\<close>

definition hardware_wakes :: "platform \<Rightarrow> mac_consts \<Rightarrow> bool" where
  "hardware_wakes pf c \<longleftrightarrow>
     (\<forall>log. pll_runs (power_after pf log) \<longrightarrow> (\<exists>n. PLL3RDY c (log @ replicate n PLL3_poll)))
     \<and> (\<forall>log. mac_runs (power_after pf log) \<longrightarrow>
          (\<exists>n. reg_value pf (log @ replicate n (RegRead DMABMR)) DMABMR AND ETH_DMABMR_SR c = 0))"

lemma power_after_snoc [simp]: "power_after pf (log @ [c]) = power_step pf c (power_after pf log)"
  by (simp add: power_after_def)

lemma power_after_polls:
  assumes "\<And>p. power_step pf c p = p"
  shows "power_after pf (log @ replicate k c) = power_after pf log"
  using assms by (induction k) (simp_all add: power_after_def)

lemma eth_log_do [simp]: "eth_log (eth_do c e) = eth_log e @ [c]"
  by (simp add: eth_do_def)

lemma eth_do_state [simp]: "current_phy_address (eth_do c e) = current_phy_address e"
  "phy_link_ready (eth_do c e) = phy_link_ready e" "kReceiveRing (eth_do c e) = kReceiveRing e"
  "kTransmitRing (eth_do c e) = kTransmitRing e" "kReceiveRd (eth_do c e) = kReceiveRd e"
  "kReceiveWr (eth_do c e) = kReceiveWr e" "kTransmitRd (eth_do c e) = kTransmitRd e"
  "kTransmitWr (eth_do c e) = kTransmitWr e"
  by (simp_all add: eth_do_def)

lemma poll_until_returns:
  assumes "ready (eth_log e @ replicate n c)"
  shows "\<exists>k e'. poll_until c ready e = Some e' \<and> eth_log e' = eth_log e @ replicate k c
    \<and> current_phy_address e' = current_phy_address e"
  using assms
proof (induction n arbitrary: e)
  case 0
  then have "poll_until c ready e = Some (eth_do c e)" by (subst poll_until.simps) simp
  moreover have "eth_log (eth_do c e) = eth_log e @ replicate 1 c" by simp
  ultimately show ?case by (intro exI [of _ 1] exI [of _ "eth_do c e"]) simp
next
  case (Suc n)
  show ?case
  proof (cases "ready (eth_log e)")
    case True
    then have "poll_until c ready e = Some (eth_do c e)" by (subst poll_until.simps) simp
    moreover have "eth_log (eth_do c e) = eth_log e @ replicate 1 c" by simp
    ultimately show ?thesis by (intro exI [of _ 1] exI [of _ "eth_do c e"]) simp
  next
    case False
    then have step: "poll_until c ready e = poll_until c ready (eth_do c e)" by (subst poll_until.simps) simp
    from Suc.prems have "ready (eth_log (eth_do c e) @ replicate n c)" by simp
    from Suc.IH [OF this] obtain k e' where "poll_until c ready (eth_do c e) = Some e'"
        "eth_log e' = eth_log e @ replicate (Suc k) c" "current_phy_address e' = current_phy_address e" by auto
    with step show ?thesis by (intro exI [of _ "Suc k"] exI [of _ e']) simp
  qed
qed

lemma eth_modify_log: "\<exists>v. eth_log (eth_modify pf r f e) = eth_log e @ [RegRead r, RegWrite r v]"
  by (simp add: eth_modify_def eth_read_def)

lemma eth_modify_phy [simp]: "current_phy_address (eth_modify pf r f e) = current_phy_address e"
  by (simp add: eth_modify_def eth_read_def)

text \<open>Calls that let the controller move frames or interrupt.\<close>

fun starts_frames :: "eth_call \<Rightarrow> bool" where
  "starts_frames (ETH_DMAReceptionCmd on) = True"
| "starts_frames (ETH_DMATransmissionCmd on) = True"
| "starts_frames NVIC_EnableIRQ = True"
| "starts_frames ETH_Start = True"
| "starts_frames ETH_ResumeDMATransmission = True"
| "starts_frames _ = False"

definition quiet_after :: "eth \<Rightarrow> eth \<Rightarrow> bool" where
  "quiet_after e e' \<longleftrightarrow> (\<exists>mid. eth_log e' = eth_log e @ mid \<and> \<not> list_ex starts_frames mid)"

lemma quiet_refl: "quiet_after e e"
  by (simp add: quiet_after_def)

lemma quiet_do: "quiet_after e0 e \<Longrightarrow> \<not> starts_frames c \<Longrightarrow> quiet_after e0 (eth_do c e)"
  by (auto simp: quiet_after_def)

lemma quiet_modify: "quiet_after e0 e \<Longrightarrow> quiet_after e0 (eth_modify pf r f e)"
  by (auto simp: quiet_after_def eth_modify_def eth_read_def)

lemma quiet_poll: "quiet_after e0 e \<Longrightarrow> \<not> starts_frames c \<Longrightarrow> eth_log e' = eth_log e @ replicate k c \<Longrightarrow> quiet_after e0 e'"
  by (auto simp: quiet_after_def list_ex_iff)

lemma quiet_log: "quiet_after e0 e \<Longrightarrow> eth_log e' = eth_log e \<Longrightarrow> quiet_after e0 e'"
  by (simp add: quiet_after_def)

lemmas quiet_intros = quiet_refl quiet_do quiet_modify

lemma EthernetSetClock_returns:
  assumes "hardware_wakes pf c"
  shows "\<exists>e'. EthernetSetClock c e = Some e' \<and> quiet_after e e' \<and> current_phy_address e' = current_phy_address e
    \<and> pll_runs (power_after pf (eth_log e'))
    \<and> mac_clock (power_after pf (eth_log e')) = mac_clock (power_after pf (eth_log e))"
proof -
  define e1 where "e1 = eth_do (RCC_PLL3Cmd True) (eth_do RCC_PLL3Config (eth_do RCC_PREDIV2Config (eth_do (RCC_PLL3Cmd False) e)))"
  have q: "quiet_after e e1" unfolding e1_def by (intro quiet_intros) simp_all
  have p: "eth_log e1 = (((eth_log e @ [RCC_PLL3Cmd False]) @ [RCC_PREDIV2Config]) @ [RCC_PLL3Config]) @ [RCC_PLL3Cmd True]"
    by (simp add: e1_def)
  have runs: "pll_runs (power_after pf (eth_log e1))"
    and clock: "mac_clock (power_after pf (eth_log e1)) = mac_clock (power_after pf (eth_log e))"
    unfolding p power_after_snoc by (simp_all add: pll_runs_def)
  obtain n where "PLL3RDY c (eth_log e1 @ replicate n PLL3_poll)" using assms runs by (auto simp: hardware_wakes_def)
  from poll_until_returns [of "PLL3RDY c", OF this] obtain k e2 where 2: "poll_until PLL3_poll (PLL3RDY c) e1 = Some e2"
      "eth_log e2 = eth_log e1 @ replicate k PLL3_poll" "current_phy_address e2 = current_phy_address e1" by blast
  have "EthernetSetClock c e = Some e2" using 2(1) by (simp add: EthernetSetClock_def Let_def e1_def)
  moreover have "quiet_after e e2" by (rule quiet_poll [OF q _ 2(2)]) simp
  moreover have "current_phy_address e2 = current_phy_address e" using 2(3) by (simp add: e1_def)
  moreover have "power_after pf (eth_log e2) = power_after pf (eth_log e1)"
    unfolding 2(2) by (rule power_after_polls) simp
  ultimately show ?thesis using runs clock by auto
qed

lemma eth_modify_power:
  "power_after pf (eth_log (eth_modify pf r f e)) = (if r = EXTEN_CTR
     then (power_after pf (eth_log e))\<lparr>phy_10m := f (reg_value pf (eth_log e) r) AND EXTEN_ETH_10M_EN pf = EXTEN_ETH_10M_EN pf\<rparr>
     else power_after pf (eth_log e))"
proof -
  have "eth_log (eth_modify pf r f e) = (eth_log e @ [RegRead r]) @ [RegWrite r (f (reg_value pf (eth_log e) r))]"
    by (simp add: eth_modify_def eth_read_def)
  then show ?thesis by (simp only: power_after_snoc) simp
qed

lemma EthernetSoftwareReset_returns:
  assumes "hardware_wakes pf c" "mac_runs (power_after pf (eth_log e))"
  shows "\<exists>e'. EthernetSoftwareReset pf c e = Some e' \<and> quiet_after e e' \<and> current_phy_address e' = current_phy_address e"
proof -
  define e1 where "e1 = eth_modify pf DMABMR (\<lambda>v. v OR ETH_DMABMR_SR c) e"
  let ?ready = "\<lambda>log. reg_value pf log DMABMR AND ETH_DMABMR_SR c = 0"
  have q: "quiet_after e e1" unfolding e1_def by (intro quiet_intros)
  have "mac_runs (power_after pf (eth_log e1))" using assms(2) by (simp add: e1_def eth_modify_power)
  then obtain n where "?ready (eth_log e1 @ replicate n (RegRead DMABMR))" using assms(1) by (auto simp: hardware_wakes_def)
  from poll_until_returns [of ?ready, OF this] obtain k e2 where "poll_until (RegRead DMABMR) ?ready e1 = Some e2"
      "eth_log e2 = eth_log e1 @ replicate k (RegRead DMABMR)" "current_phy_address e2 = current_phy_address e1" by blast
  then show ?thesis using quiet_poll [OF q, of "RegRead DMABMR"] by (auto simp: EthernetSoftwareReset_def e1_def)
qed

text \<open>What the start-up has done before the software reset: everything the controller needs to answer.\<close>

lemma power_before_reset:
  assumes "pll_runs (power_after pf (eth_log e))" "mac_clock (power_after pf (eth_log e))"
  shows "mac_runs (power_after pf (eth_log (EthernetDeinitialize (eth_modify pf EXTEN_CTR (\<lambda>v. v OR EXTEN_ETH_10M_EN pf) e))))"
proof -
  let ?e = "eth_modify pf EXTEN_CTR (\<lambda>v. v OR EXTEN_ETH_10M_EN pf) e"
  have log: "eth_log (EthernetDeinitialize ?e)
      = (eth_log ?e @ [RCC_AHBPeriphResetCmd True]) @ [RCC_AHBPeriphResetCmd False]"
    by (simp add: EthernetDeinitialize_def)
  have "(v OR m) AND m = m" for v m :: u32 by (simp add: bit_eq_iff bit_simps)
  with assms show ?thesis
    unfolding log power_after_snoc eth_modify_power by (simp add: mac_runs_def pll_runs_def)
qed

lemma quiet_InitializeRegisters:
  "quiet_after e0 e \<Longrightarrow> quiet_after e0 (EthernetInitializeRegisters pf c ini phy e)"
  unfolding EthernetInitializeRegisters_def Let_def by (intro quiet_intros) simp_all

lemma InitializeDma_log:
  "eth_log (EthernetInitializeDma pf e) = eth_log e @ [RegWrite DMATDLAR (kTransmitRing_addr pf),
     RegWrite DMARDLAR (kReceiveRing_addr pf),
     ETH_DMAITConfig (IT_NIS pf OR IT_R pf OR IT_T pf OR IT_AIS pf OR IT_RBU pf OR IT_PHYLINK pf),
     ETH_DMAReceptionCmd True, ETH_DMATransmissionCmd True]"
  by (simp add: EthernetInitializeDma_def Let_def)

lemma InitializeDma_phy: "current_phy_address (EthernetInitializeDma pf e) = current_phy_address e"
  by (simp add: EthernetInitializeDma_def Let_def)

lemma InitializeRegisters_phy:
  "current_phy_address (EthernetInitializeRegisters pf c ini phy e) = current_phy_address e"
  by (simp add: EthernetInitializeRegisters_def Let_def)

text \<open>The two address registers hold the bytes in the order of the wire.\<close>

lemma word_of_four_bytes:
  fixes a b c d :: u8
  defines "x \<equiv> (ucast a OR push_bit 8 (ucast b) OR push_bit 16 (ucast c) OR push_bit 24 (ucast d)) :: u32"
  shows "ucast x = a" "ucast (drop_bit 8 x) = b" "ucast (drop_bit 16 x) = c" "ucast (drop_bit 24 x) = d"
  by (rule bit_word_eqI; use bit_imp_le_length in \<open>fastforce simp: x_def bit_simps\<close>)+

lemma word_of_two_bytes:
  fixes a b :: u8
  defines "x \<equiv> (push_bit 8 (ucast b) OR ucast a) :: u32"
  shows "ucast x = a" "ucast (drop_bit 8 x) = b"
  by (rule bit_word_eqI; use bit_imp_le_length in \<open>fastforce simp: x_def bit_simps\<close>)+

lemma MACA0_bytes:
  assumes "length mac = 6"
  shows "bytes32 (MACA0LR_value mac) @ take 2 (bytes32 (MACA0HR_value mac)) = mac"
proof -
  obtain s0 s1 s2 s3 s4 s5 where s: "mac = [s0, s1, s2, s3, s4, s5]"
    using assms by (auto simp: length_Suc_conv numeral_eq_Suc)
  show ?thesis
    by (simp add: s bytes32_def MACA0LR_value_def MACA0HR_value_def word_of_four_bytes word_of_two_bytes del: drop_bit_or)
qed

lemma rings_of_do: "same_rings e (eth_do c e)"
  by (simp add: same_rings_def same_rx_def same_tx_def eth_do_def)

lemma EthernetInitialize_result:
  assumes "hardware_wakes pf c"
  shows "\<exists>e1. EthernetInitialize pf c mac e = Some (eth_do NVIC_EnableIRQ (EthernetInitializeDma pf
      (eth_do (RegWrite MACA0LR (MACA0LR_value mac)) (eth_do (RegWrite MACA0HR (MACA0HR_value mac)) e1))))
    \<and> quiet_after e e1 \<and> current_phy_address e1 = 1"
proof -
  let ?e1 = "(eth_do RCC_AHBPeriphClockCmd e)\<lparr>current_phy_address := 1\<rparr>"
  have "eth_log ?e1 = eth_log e @ [RCC_AHBPeriphClockCmd]" by simp
  then have "mac_clock (power_after pf (eth_log ?e1))" by (simp only: power_after_snoc) simp
  then obtain e2 where 2: "EthernetSetClock c ?e1 = Some e2" "quiet_after ?e1 e2" "current_phy_address e2 = 1"
    and runs: "pll_runs (power_after pf (eth_log e2))" "mac_clock (power_after pf (eth_log e2))"
    using EthernetSetClock_returns [OF assms, of ?e1] by auto
  let ?e3 = "EthernetDeinitialize (eth_modify pf EXTEN_CTR (\<lambda>v. v OR EXTEN_ETH_10M_EN pf) e2)"
  obtain e4 where 4: "EthernetSoftwareReset pf c ?e3 = Some e4" "quiet_after ?e3 e4"
      "current_phy_address e4 = current_phy_address ?e3"
    using EthernetSoftwareReset_returns [OF assms power_before_reset [OF runs]] by blast
  let ?e5 = "EthernetInitializeRegisters pf c (ethernet_init pf c) (current_phy_address (eth_do ETH_StructInit e4)) (eth_do ETH_StructInit e4)"
  have trans: "quiet_after a b \<Longrightarrow> quiet_after b c \<Longrightarrow> quiet_after a c" for a b c by (auto simp: quiet_after_def)
  have "quiet_after e ?e1" by (rule quiet_log [of _ "eth_do RCC_AHBPeriphClockCmd e"]) (simp_all add: quiet_intros)
  moreover have "quiet_after e2 ?e3" unfolding EthernetDeinitialize_def by (intro quiet_intros) simp_all
  moreover have "quiet_after e4 ?e5" by (intro quiet_InitializeRegisters quiet_intros) simp
  ultimately have "quiet_after e ?e5" using 2(2) 4(2) trans by blast
  moreover have "current_phy_address ?e5 = 1"
    using 2(3) 4(3) by (simp add: InitializeRegisters_phy EthernetDeinitialize_def)
  moreover have "EthernetInitialize pf c mac e = Some (eth_do NVIC_EnableIRQ (EthernetInitializeDma pf
      (eth_do (RegWrite MACA0LR (MACA0LR_value mac)) (eth_do (RegWrite MACA0HR (MACA0HR_value mac)) ?e5))))"
    by (simp add: EthernetInitialize_def Let_def 2(1) 4(1))
  ultimately show ?thesis by blast
qed

text \<open>
  C20. \<open>EthernetInitialize\<close> returns: it sets up and switches on the PLL before it waits for the lock,
  and clocks, resets and powers the controller before it waits for the end of its software reset.  It
  leaves the eight buffers armed for reception; the controller is started, and its interrupt
  enabled, only after the last register and both rings are set; and the address registers hold
  the MAC address in the order of the wire.
\<close>

theorem EthernetInitialize_ready:
  assumes "platform_ok pf" "hardware_wakes pf c" "length mac = 6"
  shows "\<exists>e' mid lr hr. EthernetInitialize pf c mac e = Some e'
    \<and> implements pf e' \<lparr>rxq = pool_frames pf, inq = [], doneq = [], txq = []\<rparr>
    \<and> current_phy_address e' = 1
    \<and> eth_log e' = eth_log e @ mid
      @ [RegWrite MACA0HR hr, RegWrite MACA0LR lr,
         RegWrite DMATDLAR (kTransmitRing_addr pf), RegWrite DMARDLAR (kReceiveRing_addr pf),
         ETH_DMAITConfig (IT_NIS pf OR IT_R pf OR IT_T pf OR IT_AIS pf OR IT_RBU pf OR IT_PHYLINK pf),
         ETH_DMAReceptionCmd True, ETH_DMATransmissionCmd True, NVIC_EnableIRQ]
    \<and> \<not> list_ex starts_frames mid
    \<and> bytes32 lr @ take 2 (bytes32 hr) = mac"
proof -
  obtain e1 mid where 1: "EthernetInitialize pf c mac e = Some (eth_do NVIC_EnableIRQ (EthernetInitializeDma pf
      (eth_do (RegWrite MACA0LR (MACA0LR_value mac)) (eth_do (RegWrite MACA0HR (MACA0HR_value mac)) e1))))"
    "eth_log e1 = eth_log e @ mid" "\<not> list_ex starts_frames mid" "current_phy_address e1 = 1"
    using EthernetInitialize_result [OF assms(2)] unfolding quiet_after_def by blast
  let ?e2 = "eth_do (RegWrite MACA0LR (MACA0LR_value mac)) (eth_do (RegWrite MACA0HR (MACA0HR_value mac)) e1)"
  have "implements pf (EthernetInitializeDma pf ?e2) \<lparr>rxq = pool_frames pf, inq = [], doneq = [], txq = []\<rparr>"
    by (rule InitializeDma_implements [OF assms(1)])
  then have "implements pf (eth_do NVIC_EnableIRQ (EthernetInitializeDma pf ?e2))
      \<lparr>rxq = pool_frames pf, inq = [], doneq = [], txq = []\<rparr>"
    by (rule implements_same_rings [OF rings_of_do])
  with 1 show ?thesis
    by (intro exI [of _ "eth_do NVIC_EnableIRQ (EthernetInitializeDma pf ?e2)"] exI [of _ mid]
        exI [of _ "MACA0LR_value mac"] exI [of _ "MACA0HR_value mac"])
      (simp add: InitializeDma_log InitializeDma_phy MACA0_bytes [OF assms(3)])
qed

definition sample_consts :: mac_consts where
  "sample_consts = \<lparr>MACMIIAR_CR_MASK = 0xFFFFFFE3, ETH_MACMIIAR_CR_Div42 = 0, MACCR_CLEAR_MASK = 0xFF20810F,
     ETH_Internal_Pull_Up_Res_Enable = 0x100000, MACFCR_CLEAR_MASK = 0xFF41, DMAOMR_CLEAR_MASK = 0xF8DE3F23,
     ETH_DMABMR_SR = 1, Speed_10M = 0, AutoNegotiation_Enable = 1, LoopbackMode_Disable = 0,
     RetryTransmission_Disable = 0x200, AutomaticPadCRCStrip_Disable = 0, ReceiveAll_Disable = 0,
     BroadcastFramesReception_Enable = 0, PromiscuousMode_Disable = 0, MulticastFramesFilter_Perfect = 0,
     UnicastFramesFilter_Perfect = 0, DropTCPIPChecksumErrorFrame_Enable = 0, ReceiveStoreForward_Enable = 0x2000000,
     TransmitStoreForward_Enable = 0x200000, ForwardErrorFrames_Enable = 0x80,
     ForwardUndersizedGoodFrames_Enable = 0x40, SecondFrameOperate_Disable = 0,
     StructInit_values = \<lambda>_. 0, PLL3RDY = \<lambda>log. log \<noteq> [] \<and> last log = PLL3_poll\<rparr>"

lemma sample_hardware_wakes:
  assumes "\<And>log. reg_value pf log DMABMR = 0"
  shows "hardware_wakes pf sample_consts"
proof -
  have "PLL3RDY sample_consts (log @ replicate 1 PLL3_poll)" for log by (simp add: sample_consts_def)
  then show ?thesis using assms by (auto simp: hardware_wakes_def simp del: One_nat_def)
qed

theorem EthernetInitialize_ready_witness:
  "\<exists>e'. EthernetInitialize sample_platform sample_consts [2, 0, 0, 0, 0, 1] blank_eth = Some e'
     \<and> implements sample_platform e' \<lparr>rxq = pool_frames sample_platform, inq = [], doneq = [], txq = []\<rparr>"
proof -
  have "hardware_wakes sample_platform sample_consts"
    by (rule sample_hardware_wakes) (simp add: sample_platform_def)
  from EthernetInitialize_ready [OF sample_platform_ok this, of "[2, 0, 0, 0, 0, 1]" blank_eth]
  show ?thesis by auto
qed

end
