(* ===== verification/Eth_Irq.thy ===== *)
theory Eth_Irq
  imports Eth_Init Dhcp
begin

text \<open>
  The interrupt handler of \<open>src/ethernet.c\<close>, and what it does when the link of the internal
  10 Mbit PHY changes.

  The record \<open>node\<close> holds all the state of the firmware that the handler and the main loop
  share: the driver's, the memory, the generators and the hardware, and the DHCP client's.  The
  handler runs to its end without the DMA engine or another context in between.
\<close>

record node =
  n_eth :: eth
  n_world :: world
  n_dhcp :: dhcp

section \<open>The link\<close>

definition EthernetPHYLinkChangeInterrupt :: "bool \<Rightarrow> dhcp \<Rightarrow> dhcp" where
  "EthernetPHYLinkChangeInterrupt ready d = (if ready then DHCPReset d else d)"

definition PHYSR_Loopback_10M :: u16 where
  "PHYSR_Loopback_10M = push_bit 3 1"

definition PHYSR_Full_10M :: u16 where
  "PHYSR_Full_10M = push_bit 2 1"

definition PHY_ANLPAR_SELECTOR :: u16 where
  "PHY_ANLPAR_SELECTOR = 0x1F"

definition PHY_ANLPAR_SELECT_CSMACD :: u16 where
  "PHY_ANLPAR_SELECT_CSMACD = 0x01"

definition ETH_ReadPHYRegister :: "platform \<Rightarrow> u16 \<Rightarrow> eth \<Rightarrow> u16 \<times> eth" where
  "ETH_ReadPHYRegister pf r e =
     (phy_value pf (eth_log e) (current_phy_address e) r, eth_do (PHYRead (current_phy_address e) r) e)"

text \<open>\<open>EthernetPHYBusyWait\<close> only burns cycles: it is the entry \<open>PHYBusyWait\<close> of the log.\<close>

definition Internal10MPhyReset :: "platform \<Rightarrow> eth \<times> dhcp \<Rightarrow> eth \<times> dhcp" where
  "Internal10MPhyReset pf = (\<lambda>(e, d).
     let e = eth_do (PHYWrite (current_phy_address e) (PHY_BCR pf) (PHY_Reset pf)) e;
         e = eth_modify pf EXTEN_CTR (\<lambda>v. v AND NOT (EXTEN_ETH_10M_EN pf)) e;
         e = eth_do PHYBusyWait e;
         e = eth_modify pf EXTEN_CTR (\<lambda>v. v OR EXTEN_ETH_10M_EN pf) e;
         e = e\<lparr>phy_link_ready := False\<rparr>;
         d = EthernetPHYLinkChangeInterrupt (phy_link_ready e) d
     in (eth_do (PHYWrite (current_phy_address e) (PHY_MDIX pf) PHY_PN_SWITCH_AUTO) e, d))"

definition EthernetProcessPHYLinkInterrupt :: "platform \<Rightarrow> eth \<times> dhcp \<Rightarrow> eth \<times> dhcp" where
  "EthernetProcessPHYLinkInterrupt pf = (\<lambda>(e, d).
     let (phy_anlpar, e) = ETH_ReadPHYRegister pf (PHY_ANLPAR pf) e;
         (phy_basic_status, e) = ETH_ReadPHYRegister pf (PHY_BSR pf) e
     in if phy_basic_status AND PHY_Linked_Status pf \<noteq> 0 \<and> phy_anlpar = 0 then Internal10MPhyReset pf (e, d)
        else if phy_basic_status AND PHY_Linked_Status pf \<noteq> 0 \<and> phy_basic_status AND PHY_AutoNego_Complete pf \<noteq> 0 then
          let (phy_status, e) = ETH_ReadPHYRegister pf (PHY_STATUS pf) e;
              e = (if phy_status AND PHYSR_Full_10M \<noteq> 0 then eth_modify pf MACCR (\<lambda>v. v OR Mode_FullDuplex pf) e
                   else if phy_anlpar AND PHY_ANLPAR_SELECTOR \<noteq> PHY_ANLPAR_SELECT_CSMACD
                   then eth_modify pf MACCR (\<lambda>v. v OR Mode_FullDuplex pf) e
                   else eth_modify pf MACCR (\<lambda>v. v AND NOT (Mode_FullDuplex pf)) e);
              e = eth_modify pf MACCR (\<lambda>v. v AND NOT (Speed_100M pf OR Speed_1000M pf)) e;
              e = e\<lparr>phy_link_ready := True\<rparr>;
              d = EthernetPHYLinkChangeInterrupt (phy_link_ready e) d
          in (eth_do ETH_Start e, d)
        else Internal10MPhyReset pf (e, d))"

section \<open>The handler\<close>

definition IRQ_abnormal :: "platform \<Rightarrow> u32 \<Rightarrow> eth \<Rightarrow> eth" where
  "IRQ_abnormal pf status e =
     (if status AND DMASR_AIS pf \<noteq> 0 then
        let e = (if status AND DMASR_RBUS pf \<noteq> 0 then eth_do (ETH_DMAClearITPendingBit (IT_RBU pf)) e else e)
        in eth_do (ETH_DMAClearITPendingBit (IT_AIS pf)) e
      else e)"

definition IRQ_normal :: "platform \<Rightarrow> board \<Rightarrow> u8 list \<Rightarrow> u32 \<Rightarrow> node \<Rightarrow> node option" where
  "IRQ_normal pf b kMACAddress status n =
     (if status AND DMASR_NIS pf \<noteq> 0 then do {
        n \<leftarrow> (if status AND DMASR_RS pf \<noteq> 0 then do {
               (e, w) \<leftarrow> EthernetRXInterrupt pf b kMACAddress (n_eth n, n_world n);
               Some (n\<lparr>n_eth := eth_do (ETH_DMAClearITPendingBit (IT_R pf)) e, n_world := w\<rparr>)
             } else Some n);
        n \<leftarrow> (if status AND DMASR_TS pf \<noteq> 0 then do {
               e \<leftarrow> EthernetTXInterrupt pf (n_eth n);
               Some (n\<lparr>n_eth := eth_do (ETH_DMAClearITPendingBit (IT_T pf)) e\<rparr>)
             } else Some n);
        let n = (if status AND IT_PHYLINK pf \<noteq> 0 then
                   let (e, d) = EthernetProcessPHYLinkInterrupt pf (n_eth n, n_dhcp n)
                   in n\<lparr>n_eth := eth_do (ETH_DMAClearITPendingBit (IT_PHYLINK pf)) e, n_dhcp := d\<rparr>
                 else n);
        let n = (if status AND DMASR_TBUS pf \<noteq> 0
                 then n\<lparr>n_eth := eth_do (ETH_DMAClearITPendingBit (IT_TBU pf)) (n_eth n)\<rparr> else n);
        Some (n\<lparr>n_eth := eth_do (ETH_DMAClearITPendingBit (IT_NIS pf)) (n_eth n)\<rparr>)
      } else Some n)"

definition ETH_IRQHandler :: "platform \<Rightarrow> board \<Rightarrow> u8 list \<Rightarrow> node \<Rightarrow> node option" where
  "ETH_IRQHandler pf b kMACAddress n = do {
     let w = n_world n;
     let (IRQTick, h) = SysTickCnt32 b (w_hw w);
     let n = n\<lparr>n_world := w\<lparr>w_hw := h\<rparr>\<rparr>;
     let (status, e) = eth_read pf DMASR (n_eth n);
     let n = n\<lparr>n_eth := IRQ_abnormal pf status e\<rparr>;
     n \<leftarrow> IRQ_normal pf b kMACAddress status n;
     let w = n_world n;
     Some (n\<lparr>n_world := w\<lparr>w_prng := CSPrngInjectLowbits IRQTick (w_prng w)\<rparr>\<rparr>)
   }"

section \<open>The handler on queues\<close>

lemma modify_rings:
  "same_rings e e'" if "e' = eth_modify pf r f e" for e e'
  by (simp add: that eth_modify_def eth_read_def same_rings_def same_rx_def same_tx_def eth_do_def)

lemma same_rings_refl: "same_rings e e"
  by (simp add: same_rings_def same_rx_def same_tx_def)

lemma same_rings_trans: "same_rings a b \<Longrightarrow> same_rings b c \<Longrightarrow> same_rings a c"
  by (simp add: same_rings_def same_rx_def same_tx_def)

lemma same_rings_do: "same_rings e0 e \<Longrightarrow> same_rings e0 (eth_do c e)"
  using same_rings_trans rings_of_do by blast

lemma same_rings_modify: "same_rings e0 e \<Longrightarrow> same_rings e0 (eth_modify pf r f e)"
  using same_rings_trans modify_rings by blast

lemma same_rings_ready: "same_rings e0 e \<Longrightarrow> same_rings e0 (e\<lparr>phy_link_ready := x\<rparr>)"
  by (simp add: same_rings_def same_rx_def same_tx_def)

lemmas same_rings_intros = same_rings_refl same_rings_do same_rings_modify same_rings_ready

lemma IRQ_abnormal_rings: "same_rings e (IRQ_abnormal pf status e)"
  by (simp add: IRQ_abnormal_def Let_def same_rings_intros)

lemma PHYLink_rings: "same_rings e (fst (EthernetProcessPHYLinkInterrupt pf (e, d)))"
  by (simp add: EthernetProcessPHYLinkInterrupt_def Internal10MPhyReset_def ETH_ReadPHYRegister_def Let_def
      same_rings_intros)

text \<open>The tail of the normal branch: it leaves the rings and the world alone.\<close>

definition IRQ_tail :: "platform \<Rightarrow> u32 \<Rightarrow> node \<Rightarrow> node" where
  "IRQ_tail pf status n =
     (let n = (if status AND IT_PHYLINK pf \<noteq> 0 then
                   let (e, d) = EthernetProcessPHYLinkInterrupt pf (n_eth n, n_dhcp n)
                   in n\<lparr>n_eth := eth_do (ETH_DMAClearITPendingBit (IT_PHYLINK pf)) e, n_dhcp := d\<rparr>
                 else n);
          n = (if status AND DMASR_TBUS pf \<noteq> 0
                 then n\<lparr>n_eth := eth_do (ETH_DMAClearITPendingBit (IT_TBU pf)) (n_eth n)\<rparr> else n)
      in n\<lparr>n_eth := eth_do (ETH_DMAClearITPendingBit (IT_NIS pf)) (n_eth n)\<rparr>)"

lemma IRQ_tail_frame: "same_rings (n_eth n) (n_eth (IRQ_tail pf status n))" "n_world (IRQ_tail pf status n) = n_world n"
  using PHYLink_rings [of "n_eth n" pf "n_dhcp n"]
  by (auto simp: IRQ_tail_def Let_def same_rings_intros split: prod.splits)

definition rx_due :: "platform \<Rightarrow> u32 \<Rightarrow> bool" where
  "rx_due pf status \<longleftrightarrow> status AND DMASR_NIS pf \<noteq> 0 \<and> status AND DMASR_RS pf \<noteq> 0"

definition tx_due :: "platform \<Rightarrow> u32 \<Rightarrow> bool" where
  "tx_due pf status \<longleftrightarrow> status AND DMASR_NIS pf \<noteq> 0 \<and> status AND DMASR_TS pf \<noteq> 0"

lemma IRQ_normal_result:
  assumes rx: "rx_due pf status \<Longrightarrow> EthernetRXInterrupt pf b mac (n_eth n, n_world n) = Some (e1, w1)"
    and norx: "\<not> rx_due pf status \<Longrightarrow> e1 = n_eth n \<and> w1 = n_world n"
    and tx: "\<And>e. tx_due pf status \<Longrightarrow> same_rings e1 e \<Longrightarrow> \<exists>e'. EthernetTXInterrupt pf e = Some e' \<and> P e'"
    and notx: "\<And>e. \<not> tx_due pf status \<Longrightarrow> same_rings e1 e \<Longrightarrow> P e"
    and P: "\<And>e e'. P e \<Longrightarrow> same_rings e e' \<Longrightarrow> P e'"
  shows "\<exists>n'. IRQ_normal pf b mac status n = Some n' \<and> P (n_eth n') \<and> n_world n' = w1"
proof (cases "status AND DMASR_NIS pf = 0")
  case True
  then show ?thesis using norx notx [of e1] by (simp add: IRQ_normal_def rx_due_def tx_due_def same_rings_refl)
next
  case nis: False
  let ?n1 = "if status AND DMASR_RS pf \<noteq> 0
    then n\<lparr>n_eth := eth_do (ETH_DMAClearITPendingBit (IT_R pf)) e1, n_world := w1\<rparr> else n"
  have n1: "same_rings e1 (n_eth ?n1)" "n_world ?n1 = w1"
    using norx nis by (auto simp: rx_due_def same_rings_intros)
  have "\<exists>n2. (if status AND DMASR_TS pf \<noteq> 0 then do {
               e \<leftarrow> EthernetTXInterrupt pf (n_eth ?n1);
               Some (?n1\<lparr>n_eth := eth_do (ETH_DMAClearITPendingBit (IT_T pf)) e\<rparr>)
             } else Some ?n1) = Some n2 \<and> P (n_eth n2) \<and> n_world n2 = w1"
  proof (cases "status AND DMASR_TS pf = 0")
    case True
    then show ?thesis using notx [OF _ n1(1)] n1(2) by (simp add: tx_due_def)
  next
    case False
    then obtain e' where "EthernetTXInterrupt pf (n_eth ?n1) = Some e'" "P e'"
      using tx [OF _ n1(1)] nis by (auto simp: tx_due_def)
    with False show ?thesis using n1(2) P rings_of_do by auto
  qed
  then obtain n2 where n2: "(if status AND DMASR_TS pf \<noteq> 0 then do {
               e \<leftarrow> EthernetTXInterrupt pf (n_eth ?n1);
               Some (?n1\<lparr>n_eth := eth_do (ETH_DMAClearITPendingBit (IT_T pf)) e\<rparr>)
             } else Some ?n1) = Some n2" "P (n_eth n2)" "n_world n2 = w1" by blast
  have "(if status AND DMASR_RS pf \<noteq> 0 then do {
               (e, w) \<leftarrow> EthernetRXInterrupt pf b mac (n_eth n, n_world n);
               Some (n\<lparr>n_eth := eth_do (ETH_DMAClearITPendingBit (IT_R pf)) e, n_world := w\<rparr>)
             } else Some n) = Some ?n1"
    using rx nis by (simp add: rx_due_def)
  then have "IRQ_normal pf b mac status n = Some (IRQ_tail pf status n2)"
    using nis n2(1) unfolding IRQ_normal_def by (simp only: Option.bind.bind_lunit if_False if_True not_not simp_thms IRQ_tail_def Let_def)
  then show ?thesis using P [OF n2(2) IRQ_tail_frame(1)] n2(3) IRQ_tail_frame(2) by auto
qed

lemma trng_live_SysTick32: "trng_live b h \<Longrightarrow> trng_live b (snd (SysTickCnt32 b h))"
  by (simp add: SysTickCnt32_def trng_live_tick)

lemma IRQ_on_queues:
  assumes "platform_ok pf" "implements pf (n_eth n) q" "length mac = 6"
    and "trng_live b (w_hw (n_world n))" "prng_inv (w_prng (n_world n))"
  defines "status \<equiv> reg_value pf (eth_log (n_eth n)) DMASR"
    and "w0 \<equiv> (n_world n)\<lparr>w_hw := tick (w_hw (n_world n))\<rparr>"
  shows "\<exists>n' q1 w1. ETH_IRQHandler pf b mac n = Some n'
    \<and> (if rx_due pf status
        then q_rx pf (PacketRxInterrupt b mac) (inq q) (q\<lparr>inq := []\<rparr>, w0) = Some (q1, w1) \<and> inq q1 = []
        else q1 = q \<and> w1 = w0)
    \<and> implements pf (n_eth n') (if tx_due pf status then q1\<lparr>rxq := rxq q1 @ doneq q1, doneq := []\<rparr> else q1)
    \<and> n_world n' = w1\<lparr>w_prng := CSPrngInjectLowbits (cnt_lo b (w_hw (n_world n))) (w_prng w1)\<rparr>
    \<and> trng_live b (w_hw (n_world n')) \<and> prng_inv (w_prng (n_world n'))"
proof -
  let ?e = "IRQ_abnormal pf status (eth_do (RegRead DMASR) (n_eth n))"
  let ?n = "n\<lparr>n_world := w0, n_eth := ?e\<rparr>"
  have w0: "handler_ready b mac w0"
    using assms(3-5) by (simp add: handler_ready_def w0_def trng_live_tick)
  have imp: "implements pf ?e q"
    using assms(2) implements_same_rings rings_of_do IRQ_abnormal_rings by blast
  have "\<exists>e1 w1 q1. (rx_due pf status \<longrightarrow> EthernetRXInterrupt pf b mac (?e, w0) = Some (e1, w1)
        \<and> q_rx pf (PacketRxInterrupt b mac) (inq q) (q\<lparr>inq := []\<rparr>, w0) = Some (q1, w1) \<and> inq q1 = [])
      \<and> (\<not> rx_due pf status \<longrightarrow> e1 = ?e \<and> q1 = q \<and> w1 = w0) \<and> implements pf e1 q1 \<and> handler_ready b mac w1"
  proof (cases "rx_due pf status")
    case True
    obtain g where "rings_ok pf ?e g" "q = queues_of g" using imp by (auto simp: implements_def)
    with True prdk.rx_loop_refines [OF assms(1) _ w0] show ?thesis
      unfolding EthernetRXInterrupt_def by blast
  next
    case False
    then show ?thesis using imp w0 by blast
  qed
  then obtain e1 w1 q1 where 1: "rx_due pf status \<Longrightarrow> EthernetRXInterrupt pf b mac (?e, w0) = Some (e1, w1)
        \<and> q_rx pf (PacketRxInterrupt b mac) (inq q) (q\<lparr>inq := []\<rparr>, w0) = Some (q1, w1) \<and> inq q1 = []"
      "\<not> rx_due pf status \<Longrightarrow> e1 = ?e \<and> q1 = q \<and> w1 = w0" "implements pf e1 q1" "handler_ready b mac w1"
    by blast
  let ?q2 = "if tx_due pf status then q1\<lparr>rxq := rxq q1 @ doneq q1, doneq := []\<rparr> else q1"
  have tx: "\<exists>e'. EthernetTXInterrupt pf e = Some e' \<and> implements pf e' ?q2"
    if due: "tx_due pf status" and same: "same_rings e1 e" for e
  proof -
    obtain g where "rings_ok pf e g" "q1 = queues_of g"
      using implements_same_rings [OF same 1(3)] by (auto simp: implements_def)
    with tx_interrupt_refines [OF assms(1)] due show ?thesis by (auto simp: q_tx_def)
  qed
  have "\<exists>n'. IRQ_normal pf b mac status ?n = Some n' \<and> implements pf (n_eth n') ?q2 \<and> n_world n' = w1"
    by (rule IRQ_normal_result [where ?e1.0 = e1])
      (use 1 tx in \<open>auto intro: implements_same_rings\<close>)
  then obtain n' where n': "IRQ_normal pf b mac status ?n = Some n'" "implements pf (n_eth n') ?q2" "n_world n' = w1"
    by blast
  have "ETH_IRQHandler pf b mac n
      = Some (n'\<lparr>n_world := w1\<lparr>w_prng := CSPrngInjectLowbits (cnt_lo b (w_hw (n_world n))) (w_prng w1)\<rparr>\<rparr>)"
    using n' by (simp add: ETH_IRQHandler_def Let_def SysTickCnt32_def eth_read_def status_def w0_def)
  then show ?thesis
    using 1 n'(2) by (intro exI conjI) (assumption | auto simp: handler_ready_def prng_inv_InjectLowbits)+
qed

lemma ETH_IRQHandler_returns:
  assumes "platform_ok pf" "implements pf (n_eth n) q" "length mac = 6"
    and "trng_live b (w_hw (n_world n))" "prng_inv (w_prng (n_world n))"
  shows "\<exists>n'. ETH_IRQHandler pf b mac n = Some n'"
  using IRQ_on_queues [OF assms] by blast

text \<open>
  C8. The interrupt handler returns, and does what the status register says: with the summary
  bit and the receive bit set it serves the received frames, with the summary bit and the
  transmit bit it arms the sent buffers again, in this order; nothing else touches the queues.
  Last, it stirs the tick counter as read on entry into the key, and the invariant of the
  generators and the memory otherwise are as the frames left them.
\<close>

theorem ETH_IRQHandler_refines:
  assumes "platform_ok pf" "implements pf (n_eth n) q" "length mac = 6"
    and "trng_live b (w_hw (n_world n))" "prng_inv (w_prng (n_world n))"
  defines "status \<equiv> reg_value pf (eth_log (n_eth n)) DMASR"
    and "w0 \<equiv> (n_world n)\<lparr>w_hw := tick (w_hw (n_world n))\<rparr>"
  shows "\<exists>n' q1 w1. ETH_IRQHandler pf b mac n = Some n'
    \<and> (if rx_due pf status
        then q_rx pf (PacketRxInterrupt b mac) (inq q) (q\<lparr>inq := []\<rparr>, w0) = Some (q1, w1) \<and> inq q1 = []
        else q1 = q \<and> w1 = w0)
    \<and> implements pf (n_eth n') (if tx_due pf status then q1\<lparr>rxq := rxq q1 @ doneq q1, doneq := []\<rparr> else q1)
    \<and> n_world n' = w1\<lparr>w_prng := CSPrngInjectLowbits (cnt_lo b (w_hw (n_world n))) (w_prng w1)\<rparr>
    \<and> trng_live b (w_hw (n_world n')) \<and> prng_inv (w_prng (n_world n'))"
  using assms(1-5) unfolding status_def w0_def by (rule IRQ_on_queues)

section \<open>Acknowledgements\<close>

fun is_ack :: "eth_call \<Rightarrow> bool" where
  "is_ack (ETH_DMAClearITPendingBit it) = True"
| "is_ack _ = False"

definition acks :: "eth \<Rightarrow> eth_call list" where
  "acks e = filter is_ack (eth_log e)"

lemma acks_do [simp]: "acks (eth_do c e) = acks e @ (if is_ack c then [c] else [])"
  by (simp add: acks_def)

lemma acks_log: "eth_log e' = eth_log e \<Longrightarrow> acks e' = acks e"
  by (simp add: acks_def)

lemma acks_fields [simp]: "acks (e\<lparr>kReceiveRing := r\<rparr>) = acks e" "acks (e\<lparr>kTransmitRing := r\<rparr>) = acks e"
  "acks (e\<lparr>kReceiveRd := i\<rparr>) = acks e" "acks (e\<lparr>kTransmitWr := i\<rparr>) = acks e" "acks (e\<lparr>phy_link_ready := x\<rparr>) = acks e"
  by (simp_all add: acks_def)

lemma acks_modify [simp]: "acks (eth_modify pf r f e) = acks e"
  by (simp add: eth_modify_def eth_read_def)

lemma acks_PacketDone [simp]: "acks (PacketDoneFromInterrupt pf pkt e) = acks e"
  by (rule acks_log) (simp add: PacketDoneFromInterrupt_def Let_def)

lemma acks_EnqueueTx [simp]: "acks (EnqueueTxFromInterrupt pf pkt len e) = acks e"
  by (simp add: EnqueueTxFromInterrupt_def IsTxDmaSuspended_def eth_read_def Let_def acks_def
      PacketDoneFromInterrupt_def)

lemma acks_rx_iter: "rx_iter pf handle s = Some (again, e', w') \<Longrightarrow> acks e' = acks (fst s)"
  by (cases s) (auto simp: rx_iter_def Let_def Option.bind_eq_Some_conv split: if_splits)

lemma acks_rx_loop:
  assumes "rx_loop pf handle s = Some s'"
  shows "acks (fst s') = acks (fst s)"
  using assms
proof (rule rx_loop.raw_induct [where P = "\<lambda>pf handle s s'. acks (fst s') = acks (fst s)", rotated])
  fix f pf handle s s'
  assume IH: "\<And>pf handle s s'. f pf handle s = Some s' \<Longrightarrow> acks (fst s') = acks (fst s)"
    and "do { (again, s) \<leftarrow> rx_iter pf handle s; if again then f pf handle s else Some s } = Some s'"
  then obtain again e w where "rx_iter pf handle s = Some (again, e, w)"
      "(if again then f pf handle (e, w) else Some (e, w)) = Some s'"
    by (auto simp: Option.bind_eq_Some_conv)
  with IH [of pf handle "(e, w)" s'] show "acks (fst s') = acks (fst s)"
    by (auto dest: acks_rx_iter split: if_splits)
qed

lemma acks_tx_iter: "tx_iter pf e = (again, e') \<Longrightarrow> acks e' = acks e"
  by (auto simp: tx_iter_def Let_def split: if_splits)

lemma acks_TXInterrupt:
  assumes "EthernetTXInterrupt pf e = Some e'"
  shows "acks e' = acks e"
  using assms
proof (rule EthernetTXInterrupt.raw_induct [where P = "\<lambda>pf e e'. acks e' = acks e", rotated])
  fix f pf e e'
  assume IH: "\<And>pf e e'. f pf e = Some e' \<Longrightarrow> acks e' = acks e"
    and "(let (again, e) = tx_iter pf e in if again then f pf e else Some e) = Some e'"
  then obtain again e1 where "tx_iter pf e = (again, e1)" "(if again then f pf e1 else Some e1) = Some e'"
    by (auto split: prod.splits)
  with IH [of pf e1 e'] show "acks e' = acks e" by (auto dest: acks_tx_iter split: if_splits)
qed

lemma acks_PHYLink: "acks (fst (EthernetProcessPHYLinkInterrupt pf (e, d))) = acks e"
  by (simp add: EthernetProcessPHYLinkInterrupt_def Internal10MPhyReset_def ETH_ReadPHYRegister_def Let_def
      acks_def eth_modify_def eth_read_def)

lemma acks_tail:
  "acks (n_eth (IRQ_tail pf status n)) = acks (n_eth n)
     @ (if status AND IT_PHYLINK pf = 0 then [] else [ETH_DMAClearITPendingBit (IT_PHYLINK pf)])
     @ (if status AND DMASR_TBUS pf = 0 then [] else [ETH_DMAClearITPendingBit (IT_TBU pf)])
     @ [ETH_DMAClearITPendingBit (IT_NIS pf)]"
  using acks_PHYLink [of pf "n_eth n" "n_dhcp n"] by (simp add: IRQ_tail_def Let_def case_prod_beta')

lemma IRQ_normal_tail:
  assumes "status AND DMASR_NIS pf \<noteq> 0"
  shows "IRQ_normal pf b mac status n = do {
        n \<leftarrow> (if status AND DMASR_RS pf \<noteq> 0 then do {
               (e, w) \<leftarrow> EthernetRXInterrupt pf b mac (n_eth n, n_world n);
               Some (n\<lparr>n_eth := eth_do (ETH_DMAClearITPendingBit (IT_R pf)) e, n_world := w\<rparr>)
             } else Some n);
        n \<leftarrow> (if status AND DMASR_TS pf \<noteq> 0 then do {
               e \<leftarrow> EthernetTXInterrupt pf (n_eth n);
               Some (n\<lparr>n_eth := eth_do (ETH_DMAClearITPendingBit (IT_T pf)) e\<rparr>)
             } else Some n);
        Some (IRQ_tail pf status n)
      }"
  using assms by (simp only: IRQ_normal_def IRQ_tail_def Let_def if_True simp_thms)

lemma IRQ_normal_acks:
  assumes "IRQ_normal pf b mac status n = Some n'"
  shows "acks (n_eth n') = acks (n_eth n) @ (if status AND DMASR_NIS pf = 0 then [] else
       (if status AND DMASR_RS pf = 0 then [] else [ETH_DMAClearITPendingBit (IT_R pf)])
       @ (if status AND DMASR_TS pf = 0 then [] else [ETH_DMAClearITPendingBit (IT_T pf)])
       @ (if status AND IT_PHYLINK pf = 0 then [] else [ETH_DMAClearITPendingBit (IT_PHYLINK pf)])
       @ (if status AND DMASR_TBUS pf = 0 then [] else [ETH_DMAClearITPendingBit (IT_TBU pf)])
       @ [ETH_DMAClearITPendingBit (IT_NIS pf)])"
proof (cases "status AND DMASR_NIS pf = 0")
  case True
  then show ?thesis using assms by (simp add: IRQ_normal_def)
next
  case False
  from assms [unfolded IRQ_normal_tail [OF False] Option.bind_eq_Some_conv] obtain n1 n2 where
    1: "(if status AND DMASR_RS pf \<noteq> 0 then do {
           (e, w) \<leftarrow> EthernetRXInterrupt pf b mac (n_eth n, n_world n);
           Some (n\<lparr>n_eth := eth_do (ETH_DMAClearITPendingBit (IT_R pf)) e, n_world := w\<rparr>)
         } else Some n) = Some n1"
    and 2: "(if status AND DMASR_TS pf \<noteq> 0 then do {
           e \<leftarrow> EthernetTXInterrupt pf (n_eth n1);
           Some (n1\<lparr>n_eth := eth_do (ETH_DMAClearITPendingBit (IT_T pf)) e\<rparr>)
         } else Some n1) = Some n2"
    and n': "n' = IRQ_tail pf status n2" by blast
  have "acks (n_eth n1) = acks (n_eth n)
      @ (if status AND DMASR_RS pf = 0 then [] else [ETH_DMAClearITPendingBit (IT_R pf)])"
    using 1 acks_rx_loop [of pf "PacketRxInterrupt b mac" "(n_eth n, n_world n)"]
    by (auto simp: EthernetRXInterrupt_def Option.bind_eq_Some_conv split: if_splits)
  moreover have "acks (n_eth n2) = acks (n_eth n1)
      @ (if status AND DMASR_TS pf = 0 then [] else [ETH_DMAClearITPendingBit (IT_T pf)])"
    using 2 acks_TXInterrupt by (auto simp: Option.bind_eq_Some_conv split: if_splits)
  ultimately show ?thesis using False by (simp only: n' acks_tail if_False append_assoc)
qed

text \<open>
  What the handler acknowledges is decided by the status as read on entry, and by nothing
  that happens while it runs: for an abnormal interrupt the missing receive buffer, if reported,
  and the summary; for a normal one reception, transmission, the link and the missing transmit
  buffer, each if reported, and the summary; in this order, and nothing else.
\<close>

lemma ETH_IRQHandler_acks:
  assumes "ETH_IRQHandler pf b mac n = Some n'"
  defines "status \<equiv> reg_value pf (eth_log (n_eth n)) DMASR"
  shows "acks (n_eth n') = acks (n_eth n) @
    (if status AND DMASR_AIS pf = 0 then [] else
       (if status AND DMASR_RBUS pf = 0 then [] else [ETH_DMAClearITPendingBit (IT_RBU pf)])
       @ [ETH_DMAClearITPendingBit (IT_AIS pf)]) @
    (if status AND DMASR_NIS pf = 0 then [] else
       (if status AND DMASR_RS pf = 0 then [] else [ETH_DMAClearITPendingBit (IT_R pf)])
       @ (if status AND DMASR_TS pf = 0 then [] else [ETH_DMAClearITPendingBit (IT_T pf)])
       @ (if status AND IT_PHYLINK pf = 0 then [] else [ETH_DMAClearITPendingBit (IT_PHYLINK pf)])
       @ (if status AND DMASR_TBUS pf = 0 then [] else [ETH_DMAClearITPendingBit (IT_TBU pf)])
       @ [ETH_DMAClearITPendingBit (IT_NIS pf)])"
proof -
  let ?e = "IRQ_abnormal pf status (eth_do (RegRead DMASR) (n_eth n))"
  obtain n1 where n1: "IRQ_normal pf b mac status
        (n\<lparr>n_world := (n_world n)\<lparr>w_hw := tick (w_hw (n_world n))\<rparr>, n_eth := ?e\<rparr>) = Some n1"
      "acks (n_eth n') = acks (n_eth n1)"
    using assms(1) unfolding status_def
    by (auto simp: ETH_IRQHandler_def Let_def SysTickCnt32_def eth_read_def Option.bind_eq_Some_conv)
  moreover have "acks ?e = acks (n_eth n) @ (if status AND DMASR_AIS pf = 0 then [] else
       (if status AND DMASR_RBUS pf = 0 then [] else [ETH_DMAClearITPendingBit (IT_RBU pf)])
       @ [ETH_DMAClearITPendingBit (IT_AIS pf)])"
    by (simp add: IRQ_abnormal_def)
  ultimately show ?thesis using IRQ_normal_acks [OF n1(1)] by simp
qed

text \<open>The sample node: a received frame waits in the ring, and the status reports it.\<close>

definition irq_platform :: platform where
  "irq_platform = sample_platform\<lparr>reg_value := \<lambda>log r. if r = DMASR then 0x10041 else 0\<rparr>"

lemma irq_platform_ok: "platform_ok irq_platform"
  by (simp add: platform_ok_def irq_platform_def sample_platform_def)

definition sample_node :: node where
  "sample_node = \<lparr>n_eth = EthernetInitializeDma irq_platform blank_eth, n_world = s_world sample_system,
     n_dhcp = \<lparr>dhcp_state = DHCP_STATE_SENT_DISCOVER, current_transaction_id = 7\<rparr>\<rparr>"

lemmas sample_node_implements = InitializeDma_implements [OF irq_platform_ok, of blank_eth]

lemma sample_node_handler:
  "trng_live ready_board (w_hw (n_world sample_node))" "prng_inv (w_prng (n_world sample_node))"
  "n_eth sample_node = EthernetInitializeDma irq_platform blank_eth"
  using ready_board_live sample_prng_inv by (simp_all add: sample_node_def sample_system_def)

theorem ETH_IRQHandler_refines_witness:
  "\<exists>n' q. ETH_IRQHandler irq_platform ready_board [2, 0, 0, 0, 0, 1] sample_node = Some n'
     \<and> implements irq_platform (n_eth n') q \<and> prng_inv (w_prng (n_world n'))"
  using ETH_IRQHandler_refines [OF irq_platform_ok, of sample_node _ "[2, 0, 0, 0, 0, 1]" ready_board]
    sample_node_implements sample_node_handler by fastforce

lemma sample_node_returns: "\<exists>n'. ETH_IRQHandler irq_platform ready_board [2, 0, 0, 0, 0, 1] sample_node = Some n'"
  by (rule ETH_IRQHandler_returns [OF irq_platform_ok])
    (use sample_node_implements sample_node_handler in auto)

section \<open>The link's state machine\<close>

definition link_up :: "platform \<Rightarrow> eth \<Rightarrow> bool" where
  "link_up pf e \<longleftrightarrow>
     (let (anlpar, e) = ETH_ReadPHYRegister pf (PHY_ANLPAR pf) e;
          (bsr, e) = ETH_ReadPHYRegister pf (PHY_BSR pf) e
      in bsr AND PHY_Linked_Status pf \<noteq> 0 \<and> anlpar \<noteq> 0 \<and> bsr AND PHY_AutoNego_Complete pf \<noteq> 0)"

lemma masks [simp]:
  fixes v m k :: "'a::len word"
  shows "(v OR m) AND m = m" "(v AND NOT m) AND m = 0" "(v AND NOT m AND NOT k) AND (m OR k) = 0"
  by (rule bit_word_eqI; auto simp: bit_simps)+

lemma PHY_values: "PHYSR_Full_10M = 4" "PHY_ANLPAR_SELECTOR = 0x1F" "PHY_ANLPAR_SELECT_CSMACD = 1" "PHY_PN_SWITCH_AUTO = 8"
  by (simp_all add: PHYSR_Full_10M_def PHY_ANLPAR_SELECTOR_def PHY_ANLPAR_SELECT_CSMACD_def PHY_PN_SWITCH_AUTO_def)

lemmas link_defs = link_up_def EthernetProcessPHYLinkInterrupt_def Internal10MPhyReset_def ETH_ReadPHYRegister_def
  EthernetPHYLinkChangeInterrupt_def eth_modify_def eth_read_def PHY_values

lemma PHYLink_dhcp:
  "EthernetProcessPHYLinkInterrupt pf (e, d) = (e', d') \<Longrightarrow> d' = d \<or> d' = DHCPReset d"
  by (auto simp: EthernetProcessPHYLinkInterrupt_def Internal10MPhyReset_def ETH_ReadPHYRegister_def
      EthernetPHYLinkChangeInterrupt_def Let_def split: if_splits)

lemma PHYLink_down:
  assumes "\<not> link_up pf e"
  shows "EthernetProcessPHYLinkInterrupt pf (e, d) = Internal10MPhyReset pf
     (eth_do (PHYRead (current_phy_address e) (PHY_BSR pf)) (eth_do (PHYRead (current_phy_address e) (PHY_ANLPAR pf)) e), d)"
  using assms by (auto simp: link_up_def EthernetProcessPHYLinkInterrupt_def ETH_ReadPHYRegister_def Let_def)

text \<open>
  C18. A change of the link: the link counts as ready exactly when the PHY reports a link, a
  completed negotiation and a partner with abilities.  Then the DHCP client starts over, the MAC
  is set to 10 Mbit and to full duplex unless a partner that only speaks CSMA/CD is met without
  the PHY's full-duplex flag, and the controller is started.  Otherwise the PHY is reset and its
  10 Mbit block switched off and on again, and DHCP goes on as it was.  The rings are untouched.
\<close>

theorem PHYLink_states:
  assumes "EthernetProcessPHYLinkInterrupt pf (e, d) = (e', d')"
  shows "phy_link_ready e' = link_up pf e
    \<and> d' = (if link_up pf e then DHCPReset d else d)
    \<and> kReceiveRing e' = kReceiveRing e \<and> kTransmitRing e' = kTransmitRing e
    \<and> (let phy = current_phy_address e in \<exists>v1 v2.
        if link_up pf e
        then eth_log e' = eth_log e @ [PHYRead phy (PHY_ANLPAR pf), PHYRead phy (PHY_BSR pf), PHYRead phy (PHY_STATUS pf),
            RegRead MACCR, RegWrite MACCR v1, RegRead MACCR, RegWrite MACCR v2, ETH_Start]
          \<and> v1 AND Mode_FullDuplex pf =
            (let anlpar = phy_value pf (eth_log e) phy (PHY_ANLPAR pf);
                 status = phy_value pf (eth_log e @ [PHYRead phy (PHY_ANLPAR pf), PHYRead phy (PHY_BSR pf)]) phy (PHY_STATUS pf)
             in if status AND 4 = 0 \<and> anlpar AND 0x1F = 1 then 0 else Mode_FullDuplex pf)
          \<and> v2 AND (Speed_100M pf OR Speed_1000M pf) = 0
        else eth_log e' = eth_log e @ [PHYRead phy (PHY_ANLPAR pf), PHYRead phy (PHY_BSR pf),
            PHYWrite phy (PHY_BCR pf) (PHY_Reset pf), RegRead EXTEN_CTR, RegWrite EXTEN_CTR v1, PHYBusyWait,
            RegRead EXTEN_CTR, RegWrite EXTEN_CTR v2, PHYWrite phy (PHY_MDIX pf) 8]
          \<and> v1 AND EXTEN_ETH_10M_EN pf = 0 \<and> v2 AND EXTEN_ETH_10M_EN pf = EXTEN_ETH_10M_EN pf)"
proof (cases "link_up pf e")
  case True
  then show ?thesis using assms unfolding link_defs Let_def prod.case by (auto simp: eth_do_def)
next
  case False
  with assms have "(e', d') = Internal10MPhyReset pf
     (eth_do (PHYRead (current_phy_address e) (PHY_BSR pf)) (eth_do (PHYRead (current_phy_address e) (PHY_ANLPAR pf)) e), d)"
    using PHYLink_down [of pf e d] by metis
  with False show ?thesis
    by (simp add: Internal10MPhyReset_def EthernetPHYLinkChangeInterrupt_def eth_modify_def eth_read_def PHY_values Let_def)
qed

theorem PHYLink_states_witness:
  "\<exists>e' d'. EthernetProcessPHYLinkInterrupt sample_platform
      (blank_eth, \<lparr>dhcp_state = DHCP_STATE_SENT_DISCOVER, current_transaction_id = 7\<rparr>) = (e', d')
    \<and> phy_link_ready e' \<and> dhcp_state d' = DHCP_STATE_NONE"
proof -
  let ?d = "\<lparr>dhcp_state = DHCP_STATE_SENT_DISCOVER, current_transaction_id = 7\<rparr>"
  obtain e' d' where run: "EthernetProcessPHYLinkInterrupt sample_platform (blank_eth, ?d) = (e', d')"
    by (cases "EthernetProcessPHYLinkInterrupt sample_platform (blank_eth, ?d)")
  have "link_up sample_platform blank_eth"
    by (simp add: link_up_def ETH_ReadPHYRegister_def sample_platform_def)
  with PHYLink_states [OF run] run show ?thesis by (simp add: DHCPReset_def)
qed

end
