(* ===== verification/Irq_Steps.thy ===== *)
theory Irq_Steps
  imports Eth_Irq
begin

text \<open>
  The interrupt handler of \<open>src/ethernet.c\<close> cut into the steps between which the DMA engine may
  act: the entry, each round of the two loops, the two acknowledgements after them, and the rest.
  Run without anything in between, the steps are the handler.
\<close>

text \<open>Where the handler is, with the tick and the status it read on entry.\<close>

datatype irq_pc =
    IrqIdle
  | IrqRx u32 u32
  | IrqRxAck u32 u32
  | IrqTx u32 u32
  | IrqTxAck u32 u32
  | IrqEnd u32 u32

fun irq_step :: "platform \<Rightarrow> board \<Rightarrow> u8 list \<Rightarrow> irq_pc \<times> node \<Rightarrow> (irq_pc \<times> node) option" where
  "irq_step pf b mac (IrqIdle, n) =
     (let w = n_world n;
          (IRQTick, h) = SysTickCnt32 b (w_hw w);
          (status, e) = eth_read pf DMASR (n_eth n)
      in Some (IrqRx IRQTick status, n\<lparr>n_world := w\<lparr>w_hw := h\<rparr>, n_eth := IRQ_abnormal pf status e\<rparr>))"
| "irq_step pf b mac (IrqRx t st, n) =
     (if rx_due pf st then do {
        (again, e, w) \<leftarrow> rx_iter pf (PacketRxInterrupt b mac) (n_eth n, n_world n);
        Some (if again then IrqRx t st else IrqRxAck t st, n\<lparr>n_eth := e, n_world := w\<rparr>)
      } else Some (IrqTx t st, n))"
| "irq_step pf b mac (IrqRxAck t st, n) =
     Some (IrqTx t st, n\<lparr>n_eth := eth_do (ETH_DMAClearITPendingBit (IT_R pf)) (n_eth n)\<rparr>)"
| "irq_step pf b mac (IrqTx t st, n) =
     (if tx_due pf st then
        let (again, e) = tx_iter pf (n_eth n)
        in Some (if again then IrqTx t st else IrqTxAck t st, n\<lparr>n_eth := e\<rparr>)
      else Some (IrqEnd t st, n))"
| "irq_step pf b mac (IrqTxAck t st, n) =
     Some (IrqEnd t st, n\<lparr>n_eth := eth_do (ETH_DMAClearITPendingBit (IT_T pf)) (n_eth n)\<rparr>)"
| "irq_step pf b mac (IrqEnd t st, n) =
     (let n = (if st AND DMASR_NIS pf \<noteq> 0 then IRQ_tail pf st n else n);
          w = n_world n
      in Some (IrqIdle, n\<lparr>n_world := w\<lparr>w_prng := CSPrngInjectLowbits t (w_prng w)\<rparr>\<rparr>))"

partial_function (option) irq_run :: "platform \<Rightarrow> board \<Rightarrow> u8 list \<Rightarrow> irq_pc \<times> node \<Rightarrow> node option" where
  "irq_run pf b mac c = do {
     (pc, n) \<leftarrow> irq_step pf b mac c;
     if pc = IrqIdle then Some n else irq_run pf b mac (pc, n)
   }"

section \<open>The steps make the handler\<close>

text \<open>A partial function that is a loop, and the run of its rounds.\<close>

lemma run_rx_loop:
  assumes "rx_loop pf (PacketRxInterrupt b mac) s = Some s'" "rx_due pf st"
    and "n_eth n = fst s" "n_world n = snd s"
  shows "irq_run pf b mac (IrqRx t st, n) = irq_run pf b mac (IrqRxAck t st, n\<lparr>n_eth := fst s', n_world := snd s'\<rparr>)"
proof -
  define P where "P pf handle s s' \<longleftrightarrow> handle = PacketRxInterrupt b mac \<and> rx_due pf st \<longrightarrow>
    (\<forall>n. n_eth n = fst s \<longrightarrow> n_world n = snd s \<longrightarrow>
      irq_run pf b mac (IrqRx t st, n) = irq_run pf b mac (IrqRxAck t st, n\<lparr>n_eth := fst s', n_world := snd s'\<rparr>))"
    for pf handle and s s' :: "eth \<times> world"
  from assms(1) have "P pf (PacketRxInterrupt b mac) s s'"
  proof (rule rx_loop.raw_induct [where P = P, rotated])
    fix f pf handle and s s' :: "eth \<times> world"
    assume IH: "\<And>pf handle s s'. f pf handle s = Some s' \<Longrightarrow> P pf handle s s'"
      and "do { (again, s) \<leftarrow> rx_iter pf handle s; if again then f pf handle s else Some s } = Some s'"
    then obtain again e w where it: "rx_iter pf handle s = Some (again, e, w)"
      and go: "(if again then f pf handle (e, w) else Some (e, w)) = Some s'"
      by (auto simp: Option.bind_eq_Some_conv)
    have step: "irq_run pf b mac (IrqRx t st, n) = irq_run pf b mac
        (if again then IrqRx t st else IrqRxAck t st, n\<lparr>n_eth := e, n_world := w\<rparr>)"
      if "handle = PacketRxInterrupt b mac" "rx_due pf st" "n_eth n = fst s" "n_world n = snd s" for n
      using it that by (subst irq_run.simps) simp
    show "P pf handle s s'"
      using go IH [of pf handle "(e, w)" s'] step by (auto simp: P_def split: if_splits)
  qed
  with assms(2-4) show ?thesis by (simp add: P_def)
qed

lemma rx_loop_run:
  assumes "irq_run pf b mac (IrqRx t st, n) = Some r" "rx_due pf st"
  shows "\<exists>s'. rx_loop pf (PacketRxInterrupt b mac) (n_eth n, n_world n) = Some s'"
proof -
  define P where "P pf b mac c r \<longleftrightarrow> (\<forall>n. c = (IrqRx t st, n) \<longrightarrow> rx_due pf st \<longrightarrow>
      (\<exists>s'. rx_loop pf (PacketRxInterrupt b mac) (n_eth n, n_world n) = Some s'))" for pf b mac and c :: "irq_pc \<times> node" and r :: node
  from assms(1) have "P pf b mac (IrqRx t st, n) r"
  proof (rule irq_run.raw_induct [where P = P, rotated])
    fix f pf b mac and c :: "irq_pc \<times> node" and r :: node
    assume IH: "\<And>pf b mac c r. f pf b mac c = Some r \<Longrightarrow> P pf b mac c r"
      and eq: "do { (pc, n) \<leftarrow> irq_step pf b mac c; if pc = IrqIdle then Some n else f pf b mac (pc, n) } = Some r"
    show "P pf b mac c r"
      unfolding P_def
    proof (intro allI impI)
      fix n assume c: "c = (IrqRx t st, n)" and due: "rx_due pf st"
      with eq obtain again e w where it: "rx_iter pf (PacketRxInterrupt b mac) (n_eth n, n_world n) = Some (again, e, w)"
        and go: "f pf b mac (if again then IrqRx t st else IrqRxAck t st, n\<lparr>n_eth := e, n_world := w\<rparr>) = Some r"
        by (auto simp: Option.bind_eq_Some_conv split: if_splits)
      then show "\<exists>s'. rx_loop pf (PacketRxInterrupt b mac) (n_eth n, n_world n) = Some s'"
        using IH [OF go] due by (subst rx_loop.simps) (auto simp: P_def)
    qed
  qed
  with assms(2) show ?thesis by (simp add: P_def)
qed

lemma run_tx_loop:
  assumes "EthernetTXInterrupt pf e = Some e'" "tx_due pf st" "n_eth n = e"
  shows "irq_run pf b mac (IrqTx t st, n) = irq_run pf b mac (IrqTxAck t st, n\<lparr>n_eth := e'\<rparr>)"
proof -
  define P where "P pf e e' \<longleftrightarrow> (tx_due pf st \<longrightarrow> (\<forall>n. n_eth n = e \<longrightarrow>
      irq_run pf b mac (IrqTx t st, n) = irq_run pf b mac (IrqTxAck t st, n\<lparr>n_eth := e'\<rparr>)))" for pf e e'
  from assms(1) have "P pf e e'"
  proof (rule EthernetTXInterrupt.raw_induct [where P = P, rotated])
    fix f pf and e e' :: eth
    assume IH: "\<And>pf e e'. f pf e = Some e' \<Longrightarrow> P pf e e'"
      and "(let (again, e) = tx_iter pf e in if again then f pf e else Some e) = Some e'"
    then obtain again e1 where it: "tx_iter pf e = (again, e1)" and go: "(if again then f pf e1 else Some e1) = Some e'"
      by (auto split: prod.splits)
    have step: "irq_run pf b mac (IrqTx t st, n) = irq_run pf b mac
        (if again then IrqTx t st else IrqTxAck t st, n\<lparr>n_eth := e1\<rparr>)" if "tx_due pf st" "n_eth n = e" for n
      using it that by (subst irq_run.simps) simp
    show "P pf e e'" using go IH [of pf e1 e'] step by (auto simp: P_def split: if_splits)
  qed
  with assms(2,3) show ?thesis by (simp add: P_def)
qed

lemma tx_loop_run:
  assumes "irq_run pf b mac (IrqTx t st, n) = Some r" "tx_due pf st"
  shows "\<exists>e'. EthernetTXInterrupt pf (n_eth n) = Some e'"
proof -
  define P where "P pf b mac c r \<longleftrightarrow> (\<forall>n. c = (IrqTx t st, n) \<longrightarrow> tx_due pf st \<longrightarrow>
      (\<exists>e'. EthernetTXInterrupt pf (n_eth n) = Some e'))" for pf and b :: board and mac :: "u8 list" and c :: "irq_pc \<times> node" and r :: node
  from assms(1) have "P pf b mac (IrqTx t st, n) r"
  proof (rule irq_run.raw_induct [where P = P, rotated])
    fix f pf b mac and c :: "irq_pc \<times> node" and r :: node
    assume IH: "\<And>pf b mac c r. f pf b mac c = Some r \<Longrightarrow> P pf b mac c r"
      and eq: "do { (pc, n) \<leftarrow> irq_step pf b mac c; if pc = IrqIdle then Some n else f pf b mac (pc, n) } = Some r"
    show "P pf b mac c r"
      unfolding P_def
    proof (intro allI impI)
      fix n assume c: "c = (IrqTx t st, n)" and due: "tx_due pf st"
      obtain again e where it: "tx_iter pf (n_eth n) = (again, e)" by fastforce
      with eq c due have "f pf b mac (if again then IrqTx t st else IrqTxAck t st, n\<lparr>n_eth := e\<rparr>) = Some r"
        by (auto split: if_splits)
      then show "\<exists>e'. EthernetTXInterrupt pf (n_eth n) = Some e'"
        using IH [of pf b mac "(IrqTx t st, n\<lparr>n_eth := e\<rparr>)" r] it due
        by (subst EthernetTXInterrupt.simps) (auto simp: P_def)
    qed
  qed
  with assms(2) show ?thesis by (simp add: P_def)
qed

lemma irq_run_rx:
  "irq_run pf b mac (IrqRx t st, n) =
     (if rx_due pf st then do {
        (e, w) \<leftarrow> EthernetRXInterrupt pf b mac (n_eth n, n_world n);
        irq_run pf b mac (IrqTx t st, n\<lparr>n_eth := eth_do (ETH_DMAClearITPendingBit (IT_R pf)) e, n_world := w\<rparr>)
      } else irq_run pf b mac (IrqTx t st, n))"
proof (cases "rx_due pf st")
  case True
  have ack: "irq_run pf b mac (IrqRxAck t st, n) = irq_run pf b mac
      (IrqTx t st, n\<lparr>n_eth := eth_do (ETH_DMAClearITPendingBit (IT_R pf)) (n_eth n)\<rparr>)" for n
    by (subst irq_run.simps) simp
  show ?thesis
  proof (cases "EthernetRXInterrupt pf b mac (n_eth n, n_world n)")
    case None
    with True rx_loop_run [of pf b mac t st n] show ?thesis
      by (cases "irq_run pf b mac (IrqRx t st, n)") (auto simp: EthernetRXInterrupt_def)
  next
    case (Some s')
    with True run_rx_loop [of pf b mac "(n_eth n, n_world n)" s' st n] show ?thesis
      by (cases n) (simp add: EthernetRXInterrupt_def ack case_prod_beta')
  qed
qed (subst irq_run.simps, simp)

lemma irq_run_tx:
  "irq_run pf b mac (IrqTx t st, n) =
     (if tx_due pf st then do {
        e \<leftarrow> EthernetTXInterrupt pf (n_eth n);
        irq_run pf b mac (IrqEnd t st, n\<lparr>n_eth := eth_do (ETH_DMAClearITPendingBit (IT_T pf)) e\<rparr>)
      } else irq_run pf b mac (IrqEnd t st, n))"
proof (cases "tx_due pf st")
  case True
  have ack: "irq_run pf b mac (IrqTxAck t st, n) = irq_run pf b mac
      (IrqEnd t st, n\<lparr>n_eth := eth_do (ETH_DMAClearITPendingBit (IT_T pf)) (n_eth n)\<rparr>)" for n
    by (subst irq_run.simps) simp
  show ?thesis
  proof (cases "EthernetTXInterrupt pf (n_eth n)")
    case None
    with True tx_loop_run [of pf b mac t st n] show ?thesis
      by (cases "irq_run pf b mac (IrqTx t st, n)") auto
  next
    case (Some e')
    with True run_tx_loop [of pf "n_eth n" e' st n] show ?thesis by (simp add: ack)
  qed
qed (subst irq_run.simps, simp)

lemma irq_run_end:
  "irq_run pf b mac (IrqEnd t st, n) =
     (let n = (if st AND DMASR_NIS pf \<noteq> 0 then IRQ_tail pf st n else n); w = n_world n
      in Some (n\<lparr>n_world := w\<lparr>w_prng := CSPrngInjectLowbits t (w_prng w)\<rparr>\<rparr>))"
  by (subst irq_run.simps) (simp add: Let_def)

lemma irq_run_tx_normal:
  assumes "st AND DMASR_NIS pf \<noteq> 0"
  shows "irq_run pf b mac (IrqTx t st, n) = do {
      n \<leftarrow> (if st AND DMASR_TS pf \<noteq> 0 then do {
             e \<leftarrow> EthernetTXInterrupt pf (n_eth n);
             Some (n\<lparr>n_eth := eth_do (ETH_DMAClearITPendingBit (IT_T pf)) e\<rparr>)
           } else Some n);
      let n = IRQ_tail pf st n;
      Some (n\<lparr>n_world := (n_world n)\<lparr>w_prng := CSPrngInjectLowbits t (w_prng (n_world n))\<rparr>\<rparr>)
    }"
  using assms by (cases "EthernetTXInterrupt pf (n_eth n)") (simp_all add: irq_run_tx irq_run_end tx_due_def Let_def)

lemma irq_run_handler: "irq_run pf b mac (IrqIdle, n) = ETH_IRQHandler pf b mac n"
proof -
  define w where "w = n_world n"
  define st where "st = reg_value pf (eth_log (n_eth n)) DMASR"
  define t where "t = cnt_lo b (w_hw w)"
  let ?n = "n\<lparr>n_world := w\<lparr>w_hw := tick (w_hw w)\<rparr>, n_eth := IRQ_abnormal pf st (eth_do (RegRead DMASR) (n_eth n))\<rparr>"
  have enter: "irq_run pf b mac (IrqIdle, n) = irq_run pf b mac (IrqRx t st, ?n)"
    by (subst irq_run.simps) (simp add: Let_def SysTickCnt32_def eth_read_def w_def st_def t_def)
  have handler: "ETH_IRQHandler pf b mac n = do {
      n \<leftarrow> IRQ_normal pf b mac st ?n;
      Some (n\<lparr>n_world := (n_world n)\<lparr>w_prng := CSPrngInjectLowbits t (w_prng (n_world n))\<rparr>\<rparr>) }"
    by (simp add: ETH_IRQHandler_def Let_def SysTickCnt32_def eth_read_def w_def st_def t_def)
  show ?thesis
  proof (cases "st AND DMASR_NIS pf = 0")
    case True
    then show ?thesis
      unfolding enter handler irq_run_rx irq_run_tx irq_run_end by (simp add: rx_due_def tx_due_def IRQ_normal_def)
  next
    case False
    show ?thesis
    proof (cases "st AND DMASR_RS pf = 0")
      case True
      with False show ?thesis
        by (cases "EthernetTXInterrupt pf (n_eth ?n)")
          (simp_all add: enter handler irq_run_rx irq_run_tx_normal IRQ_normal_tail rx_due_def Let_def)
    next
      case rs: False
      show ?thesis
      proof (cases "EthernetRXInterrupt pf b mac (n_eth ?n, n_world ?n)")
        case None
        with rs False show ?thesis
          by (simp add: enter handler irq_run_rx IRQ_normal_tail rx_due_def Let_def)
      next
        case (Some s')
        with rs False show ?thesis
          by (cases "EthernetTXInterrupt pf (eth_do (ETH_DMAClearITPendingBit (IT_R pf)) (fst s'))")
            (simp_all add: enter handler irq_run_rx irq_run_tx_normal IRQ_normal_tail rx_due_def Let_def case_prod_beta')
      qed
    qed
  qed
qed

text \<open>
  C19. The handler and its steps are the same: run from the entry until it is idle again, with
  nothing in between, the machine of steps returns exactly when \<open>ETH_IRQHandler\<close> does, in the
  same state.
\<close>

theorem irq_run_is_handler: "irq_run pf b mac (IrqIdle, n) = ETH_IRQHandler pf b mac n"
  by (rule irq_run_handler)

end
