(* ===== verification/Main_Steps.thy ===== *)
theory Main_Steps
  imports Irq_Steps
begin

text \<open>
  One iteration of the main loop of \<open>src/main.c\<close> and the steps it is made of: an interrupt may come
  between any two of them.  The loop shares its variables with the handler without any protection,
  so a variable that it updates is loaded in one step and stored in another, and the poll of the
  random number generator is a step of its own.  Run without an interrupt, the steps are the
  iteration.

  The key word is loaded after the call that draws the number, and the index is computed from
  the count that was stored, which are the orders that C leaves to the compiler.
\<close>

definition kTestPacket :: "u8 list" where
  "kTestPacket = [
     255, 255, 255, 255, 255, 255, 4, 24, 214, 195, 46, 191, 8, 0, 69, 0, 1, 28, 0, 0,
     64, 0, 64, 17, 45, 206, 10, 0, 2, 4, 255, 255, 255, 255, 222, 73, 39, 17, 1, 8,
     200, 40, 2, 11, 0, 90, 2, 0, 10, 4, 24, 214, 195, 46, 191, 10, 0, 2, 4, 1,
     0, 6, 4, 24, 214, 195, 46, 191, 19, 0, 6, 4, 24, 214, 195, 46, 191, 18, 0, 1,
     72, 10, 0, 4, 0, 21, 251, 77, 22, 0, 10, 53, 46, 48, 46, 49, 52, 46, 54, 54,
     48, 27, 0, 10, 53, 46, 48, 46, 49, 52, 46, 54, 54, 48, 21, 0, 3, 85, 80, 53,
     29, 0, 9, 52, 46, 56, 46, 51, 46, 56, 50, 50, 23, 0, 1, 1, 0, 0, 0, 0,
     0, 0, 0, 0, 0, 0, 0, 0, 0, 0, 0, 0, 0, 0, 0, 0, 0, 0, 0, 0,
     0, 0, 0, 0, 0, 0, 0, 0, 0, 0, 0, 0, 0, 0, 0, 0, 0, 0, 0, 0,
     0, 0, 0, 0, 0, 0, 0, 0, 0, 0, 0, 0, 0, 0, 0, 0, 0, 0, 0, 0,
     0, 0, 0, 0, 0, 0, 0, 0, 0, 0, 0, 0, 0, 0, 0, 0, 0, 0, 0, 0,
     0, 0, 0, 0, 0, 0, 0, 0, 0, 0, 0, 0, 0, 0, 0, 0, 0, 0, 0, 0,
     0, 0, 0, 0, 0, 0, 0, 0, 0, 0, 0, 0, 0, 0, 0, 0, 0, 0, 0, 0,
     0, 0, 0, 0, 0, 0, 0, 0, 0, 0, 0, 0, 0, 0, 0, 0, 0, 0, 0, 0,
     0, 0, 0, 0, 0, 0, 0, 0, 0, 0, 0, 0, 0, 0, 0, 0, 0, 0]"

definition ProcessDHCP :: "board \<Rightarrow> u8 list \<Rightarrow> node \<Rightarrow> node option" where
  "ProcessDHCP b kMACAddress n =
     (if DHCPGetState (n_dhcp n) = DHCP_STATE_NONE \<or> DHCPGetState (n_dhcp n) = DHCP_STATE_SENT_DISCOVER then do {
        (packet, d, h) \<leftarrow> DHCPSendDiscover b kMACAddress (n_dhcp n) (w_hw (n_world n));
        Some (n\<lparr>n_eth := EthernetTransmit packet (length packet) (n_eth n), n_dhcp := d,
          n_world := (n_world n)\<lparr>w_hw := h\<rparr>\<rparr>)
      } else Some n)"

definition main_iteration :: "board \<Rightarrow> u8 list \<Rightarrow> node \<Rightarrow> node option" where
  "main_iteration b mac n = do {
     (p, h) \<leftarrow> CSPrngInjectRandom b (w_prng (n_world n)) (w_hw (n_world n));
     let n = n\<lparr>n_world := (n_world n)\<lparr>w_prng := p, w_hw := h\<rparr>\<rparr>;
     let n = n\<lparr>n_eth := EthernetTransmit kTestPacket (length kTestPacket) (n_eth n)\<rparr>;
     ProcessDHCP b mac n
   }"

section \<open>The steps\<close>

text \<open>Where the loop is, with what it holds in registers.\<close>

datatype main_pc =
    AtCount
  | AtCountStore u32
  | AtPoll nat
  | AtRead nat
  | AtKey nat u32
  | AtKeyStore nat u32
  | AtTransmit
  | AtDHCP
  | AtDHCPPoll
  | AtDHCPRead
  | AtDHCPSend

abbreviation n_prng :: "node \<Rightarrow> prng" where "n_prng n \<equiv> w_prng (n_world n)"
abbreviation n_hw :: "node \<Rightarrow> hw" where "n_hw n \<equiv> w_hw (n_world n)"

definition with_prng :: "prng \<Rightarrow> node \<Rightarrow> node" where
  "with_prng p n = n\<lparr>n_world := (n_world n)\<lparr>w_prng := p\<rparr>\<rparr>"

definition with_hw :: "hw \<Rightarrow> node \<Rightarrow> node" where
  "with_hw h n = n\<lparr>n_world := (n_world n)\<lparr>w_hw := h\<rparr>\<rparr>"

fun main_step :: "board \<Rightarrow> u8 list \<Rightarrow> main_pc \<times> node \<Rightarrow> main_pc \<times> node" where
  "main_step b mac (AtCount, n) = (AtCountStore (kInCount (n_prng n) + 32), n)"
| "main_step b mac (AtCountStore c, n) =
     (AtPoll (unat (drop_bit 5 c AND 3)), with_prng ((n_prng n)\<lparr>kInCount := c\<rparr>) n)"
| "main_step b mac (AtPoll ndx, n) =
     (if RNG_DRDY b (n_hw n) then AtRead ndx else AtPoll ndx, with_hw (tick (n_hw n)) n)"
| "main_step b mac (AtRead ndx, n) = (AtKey ndx (RNG_DATA b (n_hw n)), with_hw (tick (n_hw n)) n)"
| "main_step b mac (AtKey ndx r, n) = (AtKeyStore ndx (kPrngKey (n_prng n) ! ndx XOR r), n)"
| "main_step b mac (AtKeyStore ndx v, n) =
     (AtTransmit, with_prng ((n_prng n)\<lparr>kPrngKey := (kPrngKey (n_prng n))[ndx := v]\<rparr>) n)"
| "main_step b mac (AtTransmit, n) =
     (AtDHCP, n\<lparr>n_eth := EthernetTransmit kTestPacket (length kTestPacket) (n_eth n)\<rparr>)"
| "main_step b mac (AtDHCP, n) =
     (if DHCPGetState (n_dhcp n) = DHCP_STATE_NONE \<or> DHCPGetState (n_dhcp n) = DHCP_STATE_SENT_DISCOVER
      then AtDHCPPoll else AtCount, n)"
| "main_step b mac (AtDHCPPoll, n) =
     (if RNG_DRDY b (n_hw n) then AtDHCPRead else AtDHCPPoll, with_hw (tick (n_hw n)) n)"
| "main_step b mac (AtDHCPRead, n) =
     (AtDHCPSend, (with_hw (tick (n_hw n)) n)\<lparr>n_dhcp := (n_dhcp n)\<lparr>current_transaction_id := RNG_DATA b (n_hw n)\<rparr>\<rparr>)"
| "main_step b mac (AtDHCPSend, n) =
     (let packet = discover_packet mac (current_transaction_id (n_dhcp n))
      in (AtCount, n\<lparr>n_eth := EthernetTransmit packet (length packet) (n_eth n),
            n_dhcp := (n_dhcp n)\<lparr>dhcp_state := DHCP_STATE_SENT_DISCOVER\<rparr>\<rparr>))"

partial_function (option) main_run :: "board \<Rightarrow> u8 list \<Rightarrow> main_pc \<times> node \<Rightarrow> node option" where
  "main_run b mac c =
     (let (pc, n) = main_step b mac c in if pc = AtCount then Some n else main_run b mac (pc, n))"

lemma with_hw_simps [simp]:
  "n_hw (with_hw h n) = h" "n_prng (with_hw h n) = n_prng n" "w_mem (n_world (with_hw h n)) = w_mem (n_world n)"
  "n_eth (with_hw h n) = n_eth n" "n_dhcp (with_hw h n) = n_dhcp n" "with_hw h (with_hw h' n) = with_hw h n"
  by (simp_all add: with_hw_def)

lemma with_prng_simps [simp]:
  "n_prng (with_prng p n) = p" "n_hw (with_prng p n) = n_hw n" "w_mem (n_world (with_prng p n)) = w_mem (n_world n)"
  "n_eth (with_prng p n) = n_eth n" "n_dhcp (with_prng p n) = n_dhcp n" "with_prng p (with_prng p' n) = with_prng p n"
  by (simp_all add: with_prng_def)

lemma main_run_step:
  "main_step b mac (pc, n) = (pc', n') \<Longrightarrow> pc' \<noteq> AtCount \<Longrightarrow> main_run b mac (pc, n) = main_run b mac (pc', n')"
  by (subst main_run.simps) simp

section \<open>Polling\<close>

text \<open>
  What the two polls of the loop have in common: \<open>P\<close> polls, \<open>R\<close> reads the number, and \<open>cont\<close> goes on
  with it.
\<close>

locale trng_poll =
  fixes b :: board and mac :: "u8 list" and P R :: main_pc and cont :: "u32 \<Rightarrow> node \<Rightarrow> main_pc \<times> node"
  assumes poll: "main_step b mac (P, n) = (if RNG_DRDY b (n_hw n) then R else P, with_hw (tick (n_hw n)) n)"
    and read: "main_step b mac (R, n) = cont (RNG_DATA b (n_hw n)) (with_hw (tick (n_hw n)) n)"
    and P: "P \<noteq> AtCount" "R \<noteq> AtCount" and go: "fst (cont r n) \<noteq> AtCount"
begin

lemma poll_ready:
  assumes ready: "RNG_DRDY b ((tick ^^ k) (n_hw n))" "\<And>i. i < k \<Longrightarrow> \<not> RNG_DRDY b ((tick ^^ i) (n_hw n))"
  shows "main_run b mac (P, n) = main_run b mac (R, with_hw ((tick ^^ Suc k) (n_hw n)) n)"
  using ready
proof (induction k arbitrary: n)
  case 0
  then show ?case using P by (subst main_run.simps) (simp add: poll)
next
  case (Suc k)
  let ?n = "with_hw (tick (n_hw n)) n"
  have "\<not> RNG_DRDY b (n_hw n)" using Suc.prems(2) [of 0] by simp
  then have "main_run b mac (P, n) = main_run b mac (P, ?n)"
    using P by (subst main_run.simps) (simp add: poll)
  also have "\<dots> = main_run b mac (R, with_hw ((tick ^^ Suc k) (n_hw ?n)) ?n)"
  proof (rule Suc.IH)
    show "RNG_DRDY b ((tick ^^ k) (n_hw ?n))" using Suc.prems(1) by (simp only: with_hw_simps tick_pow_Suc)
    show "\<not> RNG_DRDY b ((tick ^^ i) (n_hw ?n))" if "i < k" for i
      using Suc.prems(2) [of "Suc i"] that by (simp only: with_hw_simps tick_pow_Suc Suc_less_eq not_False_eq_True)
  qed
  finally show ?case by (simp only: with_hw_simps tick_pow_Suc)
qed

lemma poll_returns:
  assumes "main_run b mac (P, n) = Some r"
  shows "\<exists>k. RNG_DRDY b ((tick ^^ k) (n_hw n))"
proof -
  define Q where "Q b' mac' c r \<longleftrightarrow> (b' = b \<and> mac' = mac \<longrightarrow> (\<forall>n. c = (P, n) \<longrightarrow> (\<exists>k. RNG_DRDY b ((tick ^^ k) (n_hw n)))))"
    for b' mac' c and r :: node
  from assms(1) have "Q b mac (P, n) r"
  proof (rule main_run.raw_induct [where P = Q, rotated])
    fix f b' mac' c and r :: node
    assume IH: "\<And>b' mac' c r. f b' mac' c = Some r \<Longrightarrow> Q b' mac' c r"
      and eq: "(let (pc, n) = main_step b' mac' c in if pc = AtCount then Some n else f b' mac' (pc, n)) = Some r"
    show "Q b' mac' c r"
      unfolding Q_def
    proof (intro impI allI)
      fix n assume e: "b' = b \<and> mac' = mac" "c = (P, n)"
      show "\<exists>k. RNG_DRDY b ((tick ^^ k) (n_hw n))"
      proof (cases "RNG_DRDY b (n_hw n)")
        case True
        then show ?thesis by (intro exI [of _ 0]) simp
      next
        case False
        with eq e P have "f b mac (P, with_hw (tick (n_hw n)) n) = Some r" by (simp add: poll)
        from IH [OF this] obtain k where "RNG_DRDY b ((tick ^^ k) (tick (n_hw n)))" by (auto simp: Q_def)
        then show ?thesis by (intro exI [of _ "Suc k"]) (simp only: tick_pow_Suc)
      qed
    qed
  qed
  then show ?thesis by (simp add: Q_def)
qed

lemma run_draw:
  "main_run b mac (P, n) = do { (r, h) \<leftarrow> RandomUInt32 b (n_hw n); main_run b mac (cont r (with_hw h n)) }"
proof (cases "\<exists>k. RNG_DRDY b ((tick ^^ k) (n_hw n))")
  case True
  define k where "k = (LEAST k. RNG_DRDY b ((tick ^^ k) (n_hw n)))"
  have k: "RNG_DRDY b ((tick ^^ k) (n_hw n))" "\<And>i. i < k \<Longrightarrow> \<not> RNG_DRDY b ((tick ^^ i) (n_hw n))"
    using True unfolding k_def by (auto intro: LeastI_ex dest: not_less_Least)
  let ?h = "(tick ^^ Suc k) (n_hw n)"
  have "main_run b mac (P, n) = main_run b mac (R, with_hw ?h n)"
    using poll_ready [OF k] by simp
  also have "\<dots> = main_run b mac (cont (RNG_DATA b ?h) (with_hw (tick ?h) n))"
    using go by (subst main_run.simps) (simp add: read case_prod_beta')
  finally show ?thesis using RandomUInt32_at [OF k] by simp
next
  case False
  then have "main_run b mac (P, n) = None"
    using poll_returns by (cases "main_run b mac (P, n)") auto
  moreover have "RandomUInt32 b (n_hw n) = None"
    using RandomUInt32_Some [of b "n_hw n"] False by (cases "RandomUInt32 b (n_hw n)") auto
  ultimately show ?thesis by simp
qed

end

interpretation key_poll: trng_poll b mac "AtPoll ndx" "AtRead ndx" "\<lambda>r n. (AtKey ndx r, n)" for b mac ndx
  by unfold_locales simp_all

interpretation xid_poll: trng_poll b mac AtDHCPPoll AtDHCPRead
    "\<lambda>r n. (AtDHCPSend, n\<lparr>n_dhcp := (n_dhcp n)\<lparr>current_transaction_id := r\<rparr>\<rparr>)" for b mac
  by unfold_locales simp_all

section \<open>The steps make the iteration\<close>

lemma run_AtPoll:
  "main_run b mac (AtPoll ndx, n) = do { (r, h) \<leftarrow> RandomUInt32 b (n_hw n); main_run b mac (AtKey ndx r, with_hw h n) }"
  by (rule key_poll.run_draw)

lemma run_AtDHCPPoll:
  "main_run b mac (AtDHCPPoll, n) = do { (r, h) \<leftarrow> RandomUInt32 b (n_hw n);
     main_run b mac (AtDHCPSend, (with_hw h n)\<lparr>n_dhcp := (n_dhcp n)\<lparr>current_transaction_id := r\<rparr>\<rparr>) }"
  using xid_poll.run_draw [of b mac n] by simp

lemma run_AtDHCP: "main_run b mac (AtDHCP, n) = ProcessDHCP b mac n"
proof -
  have send: "main_run b mac (AtDHCPSend, n) = Some (n\<lparr>n_eth := EthernetTransmit packet (length packet) (n_eth n),
      n_dhcp := (n_dhcp n)\<lparr>dhcp_state := DHCP_STATE_SENT_DISCOVER\<rparr>\<rparr>)"
    if "packet = discover_packet mac (current_transaction_id (n_dhcp n))" for n packet
    using that by (subst main_run.simps) (simp add: Let_def)
  show ?thesis
    by (subst main_run.simps)
      (auto simp: run_AtDHCPPoll send ProcessDHCP_def DHCPSendDiscover_def Let_def with_hw_def EthernetTransmit_def
        split: option.split Option.bind_split)
qed

lemma main_run_iteration: "main_run b mac (AtCount, n) = main_iteration b mac n"
proof -
  let ?count = "kInCount (n_prng n) + 32"
  let ?ndx = "unat (drop_bit 5 ?count AND 3)"
  let ?n1 = "with_prng ((n_prng n)\<lparr>kInCount := ?count\<rparr>) n"
  have "main_run b mac (AtCount, n) = main_run b mac (AtPoll ?ndx, ?n1)"
    using main_run_step [of b mac AtCount n] main_run_step [of b mac "AtCountStore ?count" n] by simp
  moreover have "main_run b mac (AtKey ndx r, n)
      = main_run b mac (AtDHCP, (with_prng ((n_prng n)\<lparr>kPrngKey := (kPrngKey (n_prng n))[ndx := kPrngKey (n_prng n) ! ndx XOR r]\<rparr>) n)
          \<lparr>n_eth := EthernetTransmit kTestPacket (length kTestPacket) (n_eth n)\<rparr>)" for ndx r n
    using main_run_step [of b mac "AtKey ndx r" n] main_run_step [of b mac AtTransmit]
      main_run_step [of b mac "AtKeyStore ndx (kPrngKey (n_prng n) ! ndx XOR r)" n] by simp
  moreover obtain e m p h d where "n = \<lparr>n_eth = e, n_world = \<lparr>w_mem = m, w_prng = p, w_hw = h\<rparr>, n_dhcp = d\<rparr>"
    by (metis node.cases world.cases)
  ultimately show ?thesis
    by (auto simp: main_iteration_def CSPrngInjectRandom_def Let_def run_AtPoll run_AtDHCP with_prng_def with_hw_def
        split: option.split Option.bind_split)
qed

text \<open>
  C14. Without an interrupt the steps of the main loop, run from its head until they come back to
  it, are one iteration of the C code: the generator's key is stirred, the test packet is handed
  over and the DHCP client is served; and they come back exactly when the iteration returns.
\<close>

theorem main_run_is_iteration: "main_run b mac (AtCount, n) = main_iteration b mac n"
  by (rule main_run_iteration)

text \<open>While the random number generator is alive, the loop comes around from wherever it is.\<close>

lemma main_run_returns:
  assumes "trng_live b (n_hw n)"
  shows "\<exists>n'. main_run b mac (pc, n) = Some n'"
proof -
  have draws: "\<exists>r h. RandomUInt32 b (n_hw n) = Some (r, h) \<and> trng_live b h" if "trng_live b (n_hw n)" for n
    using trng_live_returns [OF that] by blast
  have dhcp: "\<exists>n'. main_run b mac (AtDHCP, n) = Some n'" if "trng_live b (n_hw n)" for n
    using draws [OF that] by (auto simp: run_AtDHCP ProcessDHCP_def DHCPSendDiscover_def)
  have send: "\<exists>n'. main_run b mac (AtDHCPSend, n) = Some n'" for n
    by (subst main_run.simps) (simp add: Let_def)
  have dread: "\<exists>n'. main_run b mac (AtDHCPRead, n) = Some n'" for n
    by (subst main_run.simps) (simp add: send)
  have transmit: "\<exists>n'. main_run b mac (AtTransmit, n) = Some n'" if "trng_live b (n_hw n)" for n
    using that by (subst main_run.simps) (simp add: dhcp)
  have store: "\<exists>n'. main_run b mac (AtKeyStore ndx v, n) = Some n'" if "trng_live b (n_hw n)" for ndx v n
    using that by (subst main_run.simps) (simp add: transmit)
  have key: "\<exists>n'. main_run b mac (AtKey ndx r, n) = Some n'" if "trng_live b (n_hw n)" for ndx r n
    using that by (subst main_run.simps) (simp add: store)
  have read: "\<exists>n'. main_run b mac (AtRead ndx, n) = Some n'" if "trng_live b (n_hw n)" for ndx n
    using trng_live_tick [OF that] by (subst main_run.simps) (simp add: key)
  have poll: "\<exists>n'. main_run b mac (AtPoll ndx, n) = Some n'" if "trng_live b (n_hw n)" for ndx n
    using draws [OF that] key by (fastforce simp: run_AtPoll)
  have count: "\<exists>n'. main_run b mac (AtCountStore c, n) = Some n'" if "trng_live b (n_hw n)" for c n
    using that by (subst main_run.simps) (simp add: poll)
  show ?thesis
  proof (cases pc)
    case AtCount
    then show ?thesis using assms by (subst main_run.simps) (simp add: count)
  next
    case AtDHCPPoll
    then show ?thesis using draws [OF assms] send by (fastforce simp: run_AtDHCPPoll)
  qed (use assms count poll read key store transmit dhcp dread send in simp_all)
qed

end
