(* ===== verification/Bench.thy ===== *)
theory Bench
  imports Prng
begin

text \<open>
  The benchmark that \<open>src/main.c\<close> runs at boot.  It draws numbers and advances the generators,
  so that the state in which the firmware starts depends on it.  The operation under test is a
  constant of the source; here it is an argument.  Switching the counter on
  and the number of ticks per call, which is printed in floating point, are left out.
\<close>

datatype uBenchEnum =
    readSysTick
  | callSysTick32
  | callSysTick64
  | callChaskey8
  | callRandomUInt32
  | callCSPrngUInt64
  | callCSPrngUInt64x2
  | callPcgUInt32
  | callCksumAlign0
  | callCksumAlign1
  | callCksumAlign2
  | callCksumAlign3

definition cksum32 :: "mem \<Rightarrow> u32 \<Rightarrow> u32" where
  "cksum32 m begin_i = fold (\<lambda>i ret. ret XOR ld32 m (begin_i + 4 * of_nat i)) [0..<12 * 1024] 0"

definition RAMADDRSTART :: u32 where
  "RAMADDRSTART = 0x20000000"

text \<open>The 64-bit counter read as a whole: the compiler reads the low half first.\<close>

definition SysTick_read :: "board \<Rightarrow> hw \<Rightarrow> u64 \<times> hw" where
  "SysTick_read b h = (cnt_lo_hi b h, tick (tick h))"

record bench =
  b_tmp :: u32
  b_msg :: "u32 list"
  b_prng :: prng
  b_hw :: hw

fun uBench_op :: "board \<Rightarrow> mem \<Rightarrow> u32 list \<Rightarrow> uBenchEnum \<Rightarrow> bench \<Rightarrow> bench option" where
  "uBench_op b m key readSysTick s =
     (let (c, h) = SysTick_read b (b_hw s) in Some (s\<lparr>b_tmp := b_tmp s XOR ucast c, b_hw := h\<rparr>))"
| "uBench_op b m key callSysTick32 s =
     (let (c, h) = SysTickCnt32 b (b_hw s) in Some (s\<lparr>b_tmp := b_tmp s XOR c, b_hw := h\<rparr>))"
| "uBench_op b m key callSysTick64 s =
     (let (c, h) = SysTickCnt64 b (b_hw s) in Some (s\<lparr>b_tmp := b_tmp s XOR ucast c, b_hw := h\<rparr>))"
| "uBench_op b m key callChaskey8 s = Some (s\<lparr>b_msg := chaskey8 (b_msg s) key\<rparr>)"
| "uBench_op b m key callRandomUInt32 s = do {
     (r, h) \<leftarrow> RandomUInt32 b (b_hw s);
     Some (s\<lparr>b_tmp := b_tmp s + r, b_hw := h\<rparr>)
   }"
| "uBench_op b m key callCSPrngUInt64 s =
     (let (r, h) = CSPrngUInt64 b (b_prng s) (b_hw s) in Some (s\<lparr>b_tmp := b_tmp s + ucast r, b_hw := h\<rparr>))"
| "uBench_op b m key callCSPrngUInt64x2 s =
     (let ((r, dst), h) = CSPrngUInt64x2 b (b_prng s) (b_hw s)
      in Some (s\<lparr>b_tmp := b_tmp s + ucast r, b_msg := (b_msg s)[0 := dst ! 0, 1 := dst ! 1], b_hw := h\<rparr>))"
| "uBench_op b m key callPcgUInt32 s =
     (let (r, p) = PcgUInt32 (b_prng s) in Some (s\<lparr>b_tmp := b_tmp s + r, b_prng := p\<rparr>))"
| "uBench_op b m key callCksumAlign0 s = Some (s\<lparr>b_tmp := b_tmp s XOR cksum32 m (0 + RAMADDRSTART)\<rparr>)"
| "uBench_op b m key callCksumAlign1 s = Some (s\<lparr>b_tmp := b_tmp s XOR cksum32 m (1 + RAMADDRSTART)\<rparr>)"
| "uBench_op b m key callCksumAlign2 s = Some (s\<lparr>b_tmp := b_tmp s XOR cksum32 m (2 + RAMADDRSTART)\<rparr>)"
| "uBench_op b m key callCksumAlign3 s = Some (s\<lparr>b_tmp := b_tmp s XOR cksum32 m (3 + RAMADDRSTART)\<rparr>)"

fun uBench_repeat :: "board \<Rightarrow> mem \<Rightarrow> u32 list \<Rightarrow> uBenchEnum \<Rightarrow> nat \<Rightarrow> bench \<Rightarrow> bench option" where
  "uBench_repeat b m key bno 0 s = Some s"
| "uBench_repeat b m key bno (Suc i) s = do {
     s \<leftarrow> uBench_op b m key bno s;
     uBench_repeat b m key bno i s
   }"

text \<open>
  The loop that fills \<open>msg\<close> and \<open>key\<close> draws for them in turn.  The result is what is printed:
  the time, the time in ticks of the core clock and the final value of \<open>tmp\<close>.
\<close>

fun uBench_fill :: "nat \<Rightarrow> prng \<Rightarrow> u32 list \<times> u32 list \<times> prng" where
  "uBench_fill 0 p = ([], [], p)"
| "uBench_fill (Suc n) p =
     (let (a, p) = PcgUInt32 p; (k, p) = PcgUInt32 p; (msg, key, p) = uBench_fill n p
      in (a # msg, k # key, p))"

definition uBench :: "board \<Rightarrow> mem \<Rightarrow> bool \<Rightarrow> uBenchEnum \<Rightarrow> prng \<Rightarrow> hw \<Rightarrow> ((u64 \<times> u64 \<times> u32) \<times> prng \<times> hw) option" where
  "uBench b m stclk bno p h = do {
     let shift = (if stclk then 0 else 3);
     let (tmp, p) = PcgUInt32 p;
     let (msg, key, p) = uBench_fill 4 p;
     let (start, h) = SysTick_read b h;
     s \<leftarrow> uBench_repeat b m key bno 4096 \<lparr>b_tmp = tmp, b_msg = msg, b_prng = p, b_hw = h\<rparr>;
     let (stop, h) = SysTick_read b (b_hw s);
     let dt = stop - start;
     let dtick = push_bit shift dt;
     Some ((dt, dtick, fold (\<lambda>i tmp. tmp XOR (b_msg s ! i XOR key ! i)) [0..<4] (b_tmp s)), b_prng s, h)
   }"

text \<open>The debugging loop of \<open>src/systick.c\<close>, when it is enabled, never returns.\<close>

partial_function (option) SysTickDebug_forever :: "board \<Rightarrow> tick_report \<times> hw \<Rightarrow> hw option" where
  "SysTickDebug_forever b s = (let (out, t, h) = SysTickDebug_iter b (fst s) (snd s) in SysTickDebug_forever b (t, h))"

definition SysTickDebugMain :: "board \<Rightarrow> bool \<Rightarrow> hw \<Rightarrow> hw option" where
  "SysTickDebugMain b SysTickDebugEnabled h =
     (if \<not> SysTickDebugEnabled then Some h
      else let (prev, h) = SysTickCnt64 b h
           in SysTickDebug_forever b (\<lparr>prev = prev, skip_one = False\<rparr>, h))"

section \<open>What the benchmark keeps\<close>

lemma SysTickDebug_forever_None: "SysTickDebug_forever b s = None"
proof (rule ccontr)
  assume "SysTickDebug_forever b s \<noteq> None"
  then obtain h where "SysTickDebug_forever b s = Some h" by blast
  then show False
  proof (rule SysTickDebug_forever.raw_induct [where P = "\<lambda>b s h. False", rotated])
    fix f :: "board \<Rightarrow> tick_report \<times> hw \<Rightarrow> hw option" and b s h
    assume "\<And>b s h. f b s = Some h \<Longrightarrow> False"
      and "(let (out, t, h) = SysTickDebug_iter b (fst s) (snd s) in f b (t, h)) = Some h"
    then show False by (auto split: prod.splits)
  qed
qed

lemma SysTickDebugMain_returns: "SysTickDebugMain b enabled h = (if enabled then None else Some h)"
  by (simp add: SysTickDebugMain_def SysTickDebug_forever_None split: prod.splits)

lemma uBench_op_returns:
  assumes "trng_live b (b_hw s)" "prng_inv (b_prng s)"
  shows "\<exists>s'. uBench_op b m key bno s = Some s' \<and> trng_live b (b_hw s') \<and> prng_inv (b_prng s')"
proof -
  have "trng_live b (snd (SysTickCnt64 b (b_hw s)))" using assms(1) by (rule SysTickCnt64_live)
  moreover obtain r h where "RandomUInt32 b (b_hw s) = Some (r, h)" "trng_live b h"
    using trng_live_returns [OF assms(1)] by blast
  ultimately show ?thesis
    using assms prng_inv_PcgUInt32 [OF assms(2)]
    by (cases bno) (simp_all add: SysTick_read_def SysTickCnt32_def CSPrngUInt64_def CSPrngUInt64x2_def
        trng_live_tick Let_def case_prod_beta')
qed

lemma uBench_repeat_returns:
  "trng_live b (b_hw s) \<Longrightarrow> prng_inv (b_prng s) \<Longrightarrow>
   \<exists>s'. uBench_repeat b m key bno n s = Some s' \<and> trng_live b (b_hw s') \<and> prng_inv (b_prng s')"
proof (induction n arbitrary: s)
  case (Suc n)
  then show ?case using uBench_op_returns [OF Suc.prems, of m key bno] by auto
qed simp

lemma prng_inv_fill: "prng_inv p \<Longrightarrow> prng_inv (snd (snd (uBench_fill n p)))"
proof (induction n arbitrary: p)
  case (Suc n)
  have "prng_inv (snd (PcgUInt32 (snd (PcgUInt32 p))))" using Suc.prems by (intro prng_inv_PcgUInt32)
  then show ?case using Suc.IH by (simp add: Let_def case_prod_beta')
qed simp

lemma uBench_returns:
  assumes "trng_live b h" "prng_inv p"
  shows "\<exists>out p' h'. uBench b m stclk bno p h = Some (out, p', h') \<and> trng_live b h' \<and> prng_inv p'"
proof -
  let ?s = "\<lparr>b_tmp = fst (PcgUInt32 p), b_msg = fst (uBench_fill 4 (snd (PcgUInt32 p))),
    b_prng = snd (snd (uBench_fill 4 (snd (PcgUInt32 p)))), b_hw = tick (tick h)\<rparr>"
  have "trng_live b (b_hw ?s)" "prng_inv (b_prng ?s)"
    using assms by (simp_all add: trng_live_tick prng_inv_fill prng_inv_PcgUInt32 del: uBench_fill.simps)
  from uBench_repeat_returns [OF this] obtain s' where
    "uBench_repeat b m (fst (snd (uBench_fill 4 (snd (PcgUInt32 p))))) bno 4096 ?s = Some s'"
    "trng_live b (b_hw s')" "prng_inv (b_prng s')" by blast
  then show ?thesis
    by (simp add: uBench_def SysTick_read_def Let_def case_prod_beta' trng_live_tick del: uBench_fill.simps uBench_repeat.simps)
qed

end
