(* ===== verification/Ethaddr.thy ===== *)
theory Ethaddr
  imports Chaskey
begin

text \<open>
  The MAC address of the board: \<open>src/ethaddr.c\<close> derives it with Chaskey-8 from the
  electronic signature that \<open>src/esig.h\<close> reads at fixed addresses.  The signature is part of
  the memory; the two user bytes of the option bytes (\<open>OB->Data0\<close>, \<open>OB->Data1\<close>, 16-bit
  registers of the vendor library) are parameters.
\<close>

definition R16_ESIG_FLACAP :: "mem \<Rightarrow> u16" where
  "R16_ESIG_FLACAP m = ld16 m 0x1FFFF7E0"

definition ROM_CFG_USERADR_ID :: u32 where
  "ROM_CFG_USERADR_ID = 0x1FFFF7E8"

definition R32_ESIG_UNIID1 :: "mem \<Rightarrow> u32" where
  "R32_ESIG_UNIID1 m = ld32 m ROM_CFG_USERADR_ID"

definition R32_ESIG_UNIID2 :: "mem \<Rightarrow> u32" where
  "R32_ESIG_UNIID2 m = ld32 m (ROM_CFG_USERADR_ID + 4)"

definition R32_ESIG_UNIID3 :: "mem \<Rightarrow> u32" where
  "R32_ESIG_UNIID3 m = ld32 m (ROM_CFG_USERADR_ID + 8)"

definition mac_context :: "u32 \<Rightarrow> u32 list" where
  "mac_context index = [0x45746865, 0x726e6574, 0x4d414330 + index, 0x41646472]"

definition mac_key :: "mem \<Rightarrow> u16 \<Rightarrow> u16 \<Rightarrow> u32 list" where
  "mac_key m Data0 Data1 =
     [0x61707865 XOR push_bit 16 (ucast (R16_ESIG_FLACAP m)) XOR push_bit 8 (ucast Data1) XOR ucast Data0,
      0x3020646e XOR R32_ESIG_UNIID1 m,
      0x79622d38 XOR R32_ESIG_UNIID2 m,
      0x6b206574 XOR R32_ESIG_UNIID3 m]"

definition MacAddressInitialize :: "mem \<Rightarrow> u16 \<Rightarrow> u16 \<Rightarrow> u32 \<Rightarrow> u8 list" where
  "MacAddressInitialize m Data0 Data1 index =
     (let ctx = chaskey8 (mac_context index) (mac_key m Data0 Data1);
          ctx = ctx[0 := ctx ! 0 XOR ctx ! 2];
          ctx = ctx[1 := ctx ! 1 XOR ctx ! 3];
          mac = take 6 (concat (map bytes32 ctx))
      in mac[0 := (mac ! 0 AND 0xF0) OR 0x02])"

lemma length_MacAddressInitialize: "length (MacAddressInitialize m d0 d1 index) = 6"
  by (simp add: MacAddressInitialize_def Let_def length_concat_bytes32)

text \<open>
  Whatever the signature of the chip is, the address has six bytes, is a unicast and
  locally administered one (bit 0 of the first byte clear, bit 1 set), and has the low nibble
  \<open>2\<close> of the quadrant that IEEE 802c reserves for administratively assigned addresses.
\<close>

lemma MacAddress_unicast_local:
  "length (MacAddressInitialize m d0 d1 index) = 6
   \<and> \<not> bit (MacAddressInitialize m d0 d1 index ! 0) 0
   \<and> bit (MacAddressInitialize m d0 d1 index ! 0) 1
   \<and> MacAddressInitialize m d0 d1 index ! 0 AND 0x0F = 2"
proof -
  define x where "x = take 6 (concat (map bytes32 (let ctx = chaskey8 (mac_context index) (mac_key m d0 d1);
          ctx = ctx[0 := ctx ! 0 XOR ctx ! 2] in ctx[1 := ctx ! 1 XOR ctx ! 3])))"
  have "length x = 6" by (simp add: x_def Let_def length_concat_bytes32)
  moreover have "MacAddressInitialize m d0 d1 index = x[0 := (x ! 0 AND 0xF0) OR 0x02]"
    by (simp add: MacAddressInitialize_def x_def Let_def)
  moreover have "((y AND 0xF0) OR 0x02) AND 0x0F = 2" "\<not> bit ((y AND 0xF0) OR 0x02) 0"
    "bit ((y AND 0xF0) OR 0x02) 1" for y :: u8
  proof -
    have "(y AND 0xF0) AND 0x0F = 0" by (simp add: and.assoc)
    then show "((y AND 0xF0) OR 0x02) AND 0x0F = 2" by (simp add: bit.conj_disj_distrib2)
  qed (simp_all add: bit_simps bit_numeral_rec)
  ultimately show ?thesis by simp
qed

text \<open>
  The derivation does not confuse boards or interfaces: the keys of two boards with the
  same flash size and option bytes are equal only if their 96-bit unique ids are, and for one
  key the cipher blocks of two interface numbers are equal only if the numbers are.
\<close>

lemma mac_derivation_distinct:
  assumes "R16_ESIG_FLACAP m = R16_ESIG_FLACAP m'"
  shows "(mac_key m d0 d1 = mac_key m' d0 d1 \<longleftrightarrow>
      mem_bytes m ROM_CFG_USERADR_ID 12 = mem_bytes m' ROM_CFG_USERADR_ID 12)
    \<and> (chaskey8 (mac_context i) key = chaskey8 (mac_context j) key \<longleftrightarrow> i = j)"
proof
  have split: "mem_bytes m a 12 = bytes32 (ld32 m a) @ bytes32 (ld32 m (a + 4)) @ bytes32 (ld32 m (a + 8))"
    for m :: mem and a
  proof -
    have "[0..<12] = [0..<4] @ map (\<lambda>i. i + 4) [0..<4] @ map (\<lambda>i. i + 8) [0..<4 :: nat]"
      by (simp add: upt_rec)
    then show ?thesis
      by (simp only: bytes32_ld32 [symmetric]) (simp add: mem_bytes_def ac_simps comp_def)
  qed
  have "mac_key m d0 d1 = mac_key m' d0 d1 \<longleftrightarrow> R32_ESIG_UNIID1 m = R32_ESIG_UNIID1 m'
      \<and> R32_ESIG_UNIID2 m = R32_ESIG_UNIID2 m' \<and> R32_ESIG_UNIID3 m = R32_ESIG_UNIID3 m'"
    by (simp add: mac_key_def assms)
  then show "mac_key m d0 d1 = mac_key m' d0 d1 \<longleftrightarrow>
      mem_bytes m ROM_CFG_USERADR_ID 12 = mem_bytes m' ROM_CFG_USERADR_ID 12"
    by (simp add: split R32_ESIG_UNIID1_def R32_ESIG_UNIID2_def R32_ESIG_UNIID3_def)
  show "chaskey8 (mac_context i) key = chaskey8 (mac_context j) key \<longleftrightarrow> i = j"
    by (simp add: chaskey.enc_inject mac_context_def)
qed

end
