(* ===== verification/Main_Loop.thy ===== *)
theory Main_Loop
  imports Main_Steps Bench Ethaddr
begin

text \<open>
  The boot sequence of \<open>src/main.c\<close>, and the whole firmware: the steps of the main loop, those of the
  interrupt handler and the DMA engine in any order.

  \<open>node\<close> is the state of the firmware; the option bytes, the clock source of the counter and
  whether the counter's debugging loop is enabled are parameters of the boot.  Delays are left
  out, and console output is modelled apart in \<open>Console\<close>.
\<close>

record boot_params =
  OB_Data0 :: u16
  OB_Data1 :: u16
  STK_CTLR_STCLK :: bool
  SysTickDebugEnabled :: bool

text \<open>What runs before the loop; the first result is \<open>kMACAddress\<close>.\<close>

definition main_boot :: "platform \<Rightarrow> mac_consts \<Rightarrow> board \<Rightarrow> boot_params \<Rightarrow> node \<Rightarrow> (u8 list \<times> node) option" where
  "main_boot pf c b bp n = do {
     let m = w_mem (n_world n);
     let h = RandomInitialize (w_hw (n_world n));
     (p, h) \<leftarrow> PrngInit b (w_prng (n_world n)) h;
     let (boot, p) = PcgUInt32 p;
     h \<leftarrow> SysTickDebugMain b (SysTickDebugEnabled bp) h;
     (printed, p, h) \<leftarrow> uBench b m (STK_CTLR_STCLK bp) callRandomUInt32 p h;
     let kMACAddress = MacAddressInitialize m (OB_Data0 bp) (OB_Data1 bp) 0;
     e \<leftarrow> EthernetInitialize pf c kMACAddress (n_eth n);
     Some (kMACAddress, n\<lparr>n_eth := e, n_world := \<lparr>w_mem = m, w_prng = p, w_hw = h\<rparr>\<rparr>)
   }"

section \<open>The boot\<close>

lemma main_boot_result:
  assumes "hardware_wakes pf c" "\<not> SysTickDebugEnabled bp"
    and "trng_live b (RandomInitialize (w_hw (n_world n)))"
  shows "\<exists>n' e1. main_boot pf c b bp n = Some (MacAddressInitialize (w_mem (n_world n)) (OB_Data0 bp) (OB_Data1 bp) 0, n')
    \<and> n_eth n' = eth_do NVIC_EnableIRQ (EthernetInitializeDma pf e1)
    \<and> w_mem (n_world n') = w_mem (n_world n) \<and> n_dhcp n' = n_dhcp n
    \<and> trng_live b (w_hw (n_world n')) \<and> prng_inv (w_prng (n_world n'))"
proof -
  obtain p1 h1 where 1: "PrngInit b (w_prng (n_world n)) (RandomInitialize (w_hw (n_world n))) = Some (p1, h1)"
      "prng_inv p1" "trng_live b h1"
    using PrngInit_returns [OF assms(3)] by blast
  have "prng_inv (snd (PcgUInt32 p1))" using 1(2) by (rule prng_inv_PcgUInt32)
  from uBench_returns [OF 1(3) this] obtain out p2 h2 where
    2: "uBench b (w_mem (n_world n)) (STK_CTLR_STCLK bp) callRandomUInt32 (snd (PcgUInt32 p1)) h1 = Some (out, p2, h2)"
      "trng_live b h2" "prng_inv p2" by blast
  obtain e1 where "EthernetInitialize pf c (MacAddressInitialize (w_mem (n_world n)) (OB_Data0 bp) (OB_Data1 bp) 0) (n_eth n)
      = Some (eth_do NVIC_EnableIRQ (EthernetInitializeDma pf e1))"
    using EthernetInitialize_result [OF assms(1)] by blast
  with 1 2 assms(2) show ?thesis
    by (simp add: main_boot_def Let_def case_prod_beta' SysTickDebugMain_returns) (intro exI, rule refl)
qed

lemma main_boot_Some:
  assumes "main_boot pf c b bp n = Some (mac, n')"
    and "hardware_wakes pf c" "trng_live b (RandomInitialize (w_hw (n_world n)))"
  shows "mac = MacAddressInitialize (w_mem (n_world n)) (OB_Data0 bp) (OB_Data1 bp) 0
    \<and> (\<exists>e1. n_eth n' = eth_do NVIC_EnableIRQ (EthernetInitializeDma pf e1)) \<and> n_dhcp n' = n_dhcp n
    \<and> trng_live b (w_hw (n_world n')) \<and> prng_inv (w_prng (n_world n'))"
proof -
  have "\<not> SysTickDebugEnabled bp"
    using assms(1) by (auto simp: main_boot_def Let_def SysTickDebugMain_returns Option.bind_eq_Some_conv case_prod_beta' split: if_splits)
  from main_boot_result [OF assms(2) this assms(3)] assms(1) show ?thesis by auto
qed

section \<open>The firmware\<close>

text \<open>
  Besides the program's state: where the main loop and the handler are, the engine's next
  descriptors, and the status bits that it sets when it has received or sent a frame and that the
  acknowledgements clear.
\<close>

record firmware =
  fw_pc :: main_pc
  fw_irq :: irq_pc
  fw_node :: node
  fw_rx :: nat
  fw_tx :: nat
  fw_rs :: bool
  fw_ts :: bool

definition system_of :: "firmware \<Rightarrow> system" where
  "system_of s = \<lparr>s_eth = n_eth (fw_node s), s_world = n_world (fw_node s), rx_pos = fw_rx s, tx_pos = fw_tx s\<rparr>"

fun acks_rx :: "irq_pc \<Rightarrow> bool" where
  "acks_rx (IrqRxAck t st) = True"
| "acks_rx pc = False"

fun acks_tx :: "irq_pc \<Rightarrow> bool" where
  "acks_tx (IrqTxAck t st) = True"
| "acks_tx pc = False"

text \<open>
  The steps of the whole: the main loop goes on to its next interrupt point while the handler is
  idle, the handler takes a step, or the DMA engine receives or sends a frame as in \<open>eth_step\<close>.
\<close>

inductive fw_step :: "platform \<Rightarrow> board \<Rightarrow> u8 list \<Rightarrow> firmware \<Rightarrow> firmware \<Rightarrow> bool"
  for pf b mac where
  main: "\<lbrakk>fw_irq s = IrqIdle; main_step b mac (fw_pc s, fw_node s) = (pc, n)\<rbrakk>
    \<Longrightarrow> fw_step pf b mac s (s\<lparr>fw_pc := pc, fw_node := n\<rparr>)"
| irq: "irq_step pf b mac (fw_irq s, fw_node s) = Some (pc, n)
    \<Longrightarrow> fw_step pf b mac s (s\<lparr>fw_irq := pc, fw_node := n,
        fw_rs := fw_rs s \<and> \<not> acks_rx (fw_irq s), fw_ts := fw_ts s \<and> \<not> acks_tx (fw_irq s)\<rparr>)"
| engine_rx: "\<lbrakk>n = fw_node s; e = n_eth n; rx_own pf (kReceiveRing e ! fw_rx s);
      rx_own pf (kReceiveRing e ! ((fw_rx s + 1) mod 8)); st AND RxOWN pf = 0;
      same_outside (w_mem (n_world n)) m (Buffer1Addr (kReceiveRing e ! fw_rx s)) 1518\<rbrakk>
    \<Longrightarrow> fw_step pf b mac s (s\<lparr>fw_node := n\<lparr>n_eth := e\<lparr>kReceiveRing := dma_status (fw_rx s) st (kReceiveRing e)\<rparr>,
        n_world := (n_world n)\<lparr>w_mem := m\<rparr>\<rparr>, fw_rx := (fw_rx s + 1) mod 8, fw_rs := True\<rparr>)"
| engine_tx: "\<lbrakk>n = fw_node s; e = n_eth n; rx_own pf (kTransmitRing e ! fw_tx s); st AND RxOWN pf = 0\<rbrakk>
    \<Longrightarrow> fw_step pf b mac s (s\<lparr>fw_node := n\<lparr>n_eth := e\<lparr>kTransmitRing := dma_status (fw_tx s) st (kTransmitRing e)\<rparr>\<rparr>,
        fw_tx := (fw_tx s + 1) mod 8, fw_ts := True\<rparr>)"

inductive fw_reachable :: "platform \<Rightarrow> mac_consts \<Rightarrow> board \<Rightarrow> boot_params \<Rightarrow> u8 list \<Rightarrow> firmware \<Rightarrow> bool"
  for pf c b bp mac where
  boot: "\<lbrakk>main_boot pf c b bp n0 = Some (mac, n); trng_live b (RandomInitialize (w_hw (n_world n0)));
      dhcp_state (n_dhcp n0) = DHCP_STATE_NONE\<rbrakk>
    \<Longrightarrow> fw_reachable pf c b bp mac \<lparr>fw_pc = AtCount, fw_irq = IrqIdle, fw_node = n, fw_rx = 0, fw_tx = 0,
          fw_rs = False, fw_ts = False\<rparr>"
| step: "fw_reachable pf c b bp mac s \<Longrightarrow> fw_step pf b mac s s' \<Longrightarrow> fw_reachable pf c b bp mac s'"

text \<open>Steps of the system that the firmware makes of a register access and of a draw.\<close>

abbreviation node_system :: "node \<Rightarrow> nat \<Rightarrow> nat \<Rightarrow> system" where
  "node_system n r t \<equiv> \<lparr>s_eth = n_eth n, s_world = n_world n, rx_pos = r, tx_pos = t\<rparr>"

lemma reachable_rings:
  assumes "reachable pf b mac (node_system n r t)" "same_rings (n_eth n) (n_eth n')" "n_world n' = n_world n"
  shows "reachable pf b mac (node_system n' r t)"
  using reachable.step [OF assms(1) eth_step.registers, of "n_eth n'"] assms(2,3) by simp

lemma reachable_world:
  assumes "reachable pf b mac (node_system n r t)" "n_eth n' = n_eth n" "w_mem (n_world n') = w_mem (n_world n)"
    "trng_live b (w_hw (n_world n'))" "prng_inv (w_prng (n_world n'))"
  shows "reachable pf b mac (node_system n' r t)"
  using reachable.step [OF assms(1) eth_step.main_loop, of "n_world n'"] assms(2-) by simp

lemma reachable_ready:
  assumes "platform_ok pf" "length mac = 6" "reachable pf b mac (node_system n r t)"
  shows "trng_live b (w_hw (n_world n))" "prng_inv (w_prng (n_world n))" "\<exists>q. implements pf (n_eth n) q"
  using reachable_system_ok [OF assms] by (auto simp: system_ok_def handler_ready_def)

lemma IRQ_tail_dhcp: "n_dhcp (IRQ_tail pf status m) = n_dhcp m \<or> n_dhcp (IRQ_tail pf status m) = DHCPReset (n_dhcp m)"
proof -
  obtain e d where "EthernetProcessPHYLinkInterrupt pf (n_eth m, n_dhcp m) = (e, d)" by fastforce
  then show ?thesis using PHYLink_dhcp [of pf "n_eth m" "n_dhcp m" e d] by (auto simp: IRQ_tail_def Let_def)
qed

text \<open>Every step of the handler is possible, and is made of steps of the system.\<close>

lemma reachable_irq:
  assumes "platform_ok pf" "length mac = 6" "reachable pf b mac (node_system n r t)"
  shows "\<exists>pc' n'. irq_step pf b mac (pc, n) = Some (pc', n') \<and> reachable pf b mac (node_system n' r t)
    \<and> (n_dhcp n' = n_dhcp n \<or> n_dhcp n' = DHCPReset (n_dhcp n))"
proof -
  note ready = reachable_ready [OF assms(1,2)]
  obtain q where q: "system_ok pf b mac (node_system n r t) q" using reachable_system_ok [OF assms] by blast
  show ?thesis
  proof (cases pc)
    case IrqIdle
    let ?st = "reg_value pf (eth_log (n_eth n)) DMASR"
    let ?n0 = "n\<lparr>n_world := (n_world n)\<lparr>w_hw := tick (w_hw (n_world n))\<rparr>\<rparr>"
    let ?n1 = "?n0\<lparr>n_eth := IRQ_abnormal pf ?st (eth_do (RegRead DMASR) (n_eth n))\<rparr>"
    have "reachable pf b mac (node_system ?n0 r t)"
      using ready [OF assms(3)] by (intro reachable_world [OF assms(3)]) (simp_all add: trng_live_tick)
    then have "reachable pf b mac (node_system ?n1 r t)"
      by (rule reachable_rings) (simp_all add: same_rings_trans [OF rings_of_do IRQ_abnormal_rings])
    then show ?thesis using IrqIdle by (simp add: Let_def SysTickCnt32_def eth_read_def)
  next
    case (IrqRx tk st)
    obtain again e w where it: "rx_iter pf (PacketRxInterrupt b mac) (n_eth n, n_world n) = Some (again, e, w)"
      using rx_iteration_ok [OF assms(1) q] by auto
    have "reachable pf b mac (node_system (n\<lparr>n_eth := e, n_world := w\<rparr>) r t)"
      using reachable.step [OF assms(3) eth_step.rx_iteration, of again e w] it by simp
    then show ?thesis using IrqRx it assms(3) by simp
  next
    case (IrqRxAck tk st)
    have "reachable pf b mac (node_system (n\<lparr>n_eth := eth_do (ETH_DMAClearITPendingBit (IT_R pf)) (n_eth n)\<rparr>) r t)"
      by (rule reachable_rings [OF assms(3)]) (simp_all add: rings_of_do)
    then show ?thesis using IrqRxAck by simp
  next
    case (IrqTx tk st)
    obtain again e where it: "tx_iter pf (n_eth n) = (again, e)" by fastforce
    have "reachable pf b mac (node_system (n\<lparr>n_eth := e\<rparr>) r t)"
      using reachable.step [OF assms(3) eth_step.tx_iteration, of again e] it by simp
    then show ?thesis using IrqTx it assms(3) by simp
  next
    case (IrqTxAck tk st)
    have "reachable pf b mac (node_system (n\<lparr>n_eth := eth_do (ETH_DMAClearITPendingBit (IT_T pf)) (n_eth n)\<rparr>) r t)"
      by (rule reachable_rings [OF assms(3)]) (simp_all add: rings_of_do)
    then show ?thesis using IrqTxAck by simp
  next
    case (IrqEnd tk st)
    let ?n1 = "if st AND DMASR_NIS pf \<noteq> 0 then IRQ_tail pf st n else n"
    let ?n2 = "?n1\<lparr>n_world := (n_world ?n1)\<lparr>w_prng := CSPrngInjectLowbits tk (w_prng (n_world ?n1))\<rparr>\<rparr>"
    have r1: "reachable pf b mac (node_system ?n1 r t)"
      by (rule reachable_rings [OF assms(3)]) (simp_all add: IRQ_tail_frame same_rings_refl)
    have "reachable pf b mac (node_system ?n2 r t)"
      using ready [OF r1] by (intro reachable_world [OF r1]) (simp_all add: prng_inv_InjectLowbits)
    then show ?thesis using IrqEnd IRQ_tail_dhcp [of pf st n] by (simp add: Let_def)
  qed
qed

lemma reachable_main:
  assumes "platform_ok pf" "length mac = 6" "reachable pf b mac (node_system n r t)"
    and "main_step b mac (pc, n) = (pc', n')"
  shows "reachable pf b mac (node_system n' r t)"
proof -
  note ready = reachable_ready [OF assms(1-3)]
  have count: "prng_inv ((n_prng n)\<lparr>kInCount := c\<rparr>)" for c
    using ready(2) by (simp add: prng_inv_def)
  have key: "prng_inv ((n_prng n)\<lparr>kPrngKey := (kPrngKey (n_prng n))[ndx := v]\<rparr>)" for ndx v
    using ready(2) by (simp add: prng_inv_def)
  show ?thesis
    using assms(4) ready trng_live_tick [OF ready(1)]
    by (intro reachable_world [OF assms(3)]; cases pc)
      (auto simp: count key EthernetTransmit_def Let_def split: if_splits)
qed

lemma main_step_dhcp:
  assumes "main_step b mac (pc, n) = (pc', n')"
    and "dhcp_state (n_dhcp n) \<in> {DHCP_STATE_NONE, DHCP_STATE_SENT_DISCOVER}"
  shows "dhcp_state (n_dhcp n') \<in> {DHCP_STATE_NONE, DHCP_STATE_SENT_DISCOVER}"
  using assms by (cases pc) (auto simp: Let_def split: if_splits)

section \<open>What the firmware guarantees\<close>

text \<open>
  C21. Boot returns: once the random number generator delivers, the PLL locks and the controller
  comes out of reset, \<open>main\<close> reaches its loop, with all buffers armed for reception, the
  generators' invariant established and the frames' memory as it was.
\<close>

theorem main_boot_returns:
  assumes "platform_ok pf" "hardware_wakes pf c" "\<not> SysTickDebugEnabled bp"
    and "trng_live b (RandomInitialize (w_hw (n_world n)))"
  shows "\<exists>mac n'. main_boot pf c b bp n = Some (mac, n') \<and> length mac = 6
    \<and> implements pf (n_eth n') \<lparr>rxq = pool_frames pf, inq = [], doneq = [], txq = []\<rparr>
    \<and> prng_inv (w_prng (n_world n')) \<and> trng_live b (w_hw (n_world n')) \<and> w_mem (n_world n') = w_mem (n_world n)"
proof -
  obtain n' e1 where boot: "main_boot pf c b bp n = Some (MacAddressInitialize (w_mem (n_world n)) (OB_Data0 bp) (OB_Data1 bp) 0, n')"
    and n': "n_eth n' = eth_do NVIC_EnableIRQ (EthernetInitializeDma pf e1)" "w_mem (n_world n') = w_mem (n_world n)"
      "trng_live b (w_hw (n_world n'))" "prng_inv (w_prng (n_world n'))"
    using main_boot_result [OF assms(2-4)] by blast
  moreover have "implements pf (n_eth n') \<lparr>rxq = pool_frames pf, inq = [], doneq = [], txq = []\<rparr>"
    unfolding n'(1) by (rule implements_same_rings [OF rings_of_do InitializeDma_implements [OF assms(1)]])
  ultimately show ?thesis using length_MacAddressInitialize by blast
qed

definition firmware_ok :: "platform \<Rightarrow> board \<Rightarrow> u8 list \<Rightarrow> firmware \<Rightarrow> bool" where
  "firmware_ok pf b mac s \<longleftrightarrow> length mac = 6 \<and> reachable pf b mac (system_of s)
     \<and> dhcp_state (n_dhcp (fw_node s)) \<in> {DHCP_STATE_NONE, DHCP_STATE_SENT_DISCOVER}"

lemma fw_step_ok:
  assumes "platform_ok pf" "firmware_ok pf b mac s" "fw_step pf b mac s s'"
  shows "firmware_ok pf b mac s'"
proof -
  have ok: "length mac = 6" "reachable pf b mac (node_system (fw_node s) (fw_rx s) (fw_tx s))"
      "dhcp_state (n_dhcp (fw_node s)) \<in> {DHCP_STATE_NONE, DHCP_STATE_SENT_DISCOVER}"
    using assms(2) by (simp_all add: firmware_ok_def system_of_def)
  from assms(3) show ?thesis
  proof cases
    case (main pc n)
    from reachable_main [OF assms(1) ok(1,2) this(3)] main_step_dhcp [OF this(3) ok(3)] this(1) ok(1)
    show ?thesis by (simp add: firmware_ok_def system_of_def)
  next
    case (irq pc n)
    with reachable_irq [OF assms(1) ok(1,2), of "fw_irq s"] ok show ?thesis
      by (auto simp: firmware_ok_def system_of_def DHCPReset_def)
  next
    case (engine_rx n e st m)
    from reachable.step [OF ok(2) eth_step.receive [where e = e and st = st and m = m]] engine_rx ok show ?thesis
      by (simp add: firmware_ok_def system_of_def)
  next
    case (engine_tx n e st)
    from reachable.step [OF ok(2) eth_step.transmit [where e = e and st = st]] engine_tx ok show ?thesis
      by (simp add: firmware_ok_def system_of_def)
  qed
qed

lemma fw_reachable_ok:
  assumes "platform_ok pf" "hardware_wakes pf c" "fw_reachable pf c b bp mac s"
  shows "firmware_ok pf b mac s"
  using assms(3)
proof induction
  case (boot n0 n)
  from main_boot_Some [OF boot(1) assms(2) boot(2)] obtain e1 where
    n: "mac = MacAddressInitialize (w_mem (n_world n0)) (OB_Data0 bp) (OB_Data1 bp) 0"
      "n_eth n = eth_do NVIC_EnableIRQ (EthernetInitializeDma pf e1)" "n_dhcp n = n_dhcp n0"
      "trng_live b (w_hw (n_world n))" "prng_inv (w_prng (n_world n))" by blast
  have "reachable pf b mac (node_system (n\<lparr>n_eth := EthernetInitializeDma pf e1\<rparr>) 0 0)"
    using reachable.start [OF n(4,5)] by simp
  then have "reachable pf b mac (node_system n 0 0)"
    by (rule reachable_rings) (simp_all add: n(2) rings_of_do)
  then show ?case using boot(3) n(1,3) length_MacAddressInitialize by (simp add: firmware_ok_def system_of_def)
next
  case (step s s')
  then show ?case using fw_step_ok [OF assms(1)] by blast
qed

text \<open>
  C2. The firmware refines the system of buffers: whatever the order in which the main loop, the
  steps of the interrupt handler and the DMA engine follow after the boot, the state is one that
  the abstract steps reach, so that its buffers are accounted for; the handler can always take
  its next step, and returns if the engine is quiet; the main loop comes around from wherever it
  is if nothing interrupts it; and the DHCP client knows only its first two states.
\<close>

theorem firmware_refines_system:
  assumes "platform_ok pf" "hardware_wakes pf c" "fw_reachable pf c b bp mac s"
  shows "reachable pf b mac (system_of s)
    \<and> (\<exists>q. system_ok pf b mac (system_of s) q)
    \<and> (\<exists>pc n. irq_step pf b mac (fw_irq s, fw_node s) = Some (pc, n))
    \<and> (\<exists>n. ETH_IRQHandler pf b mac (fw_node s) = Some n)
    \<and> (\<exists>n. main_run b mac (fw_pc s, fw_node s) = Some n)
    \<and> dhcp_state (n_dhcp (fw_node s)) \<in> {DHCP_STATE_NONE, DHCP_STATE_SENT_DISCOVER}"
proof -
  note ok = fw_reachable_ok [OF assms]
  then have r: "length mac = 6" "reachable pf b mac (node_system (fw_node s) (fw_rx s) (fw_tx s))"
    by (simp_all add: firmware_ok_def system_of_def)
  note ready = reachable_ready [OF assms(1) r]
  obtain q where "implements pf (n_eth (fw_node s)) q" using ready(3) by blast
  from ETH_IRQHandler_returns [OF assms(1) this r(1) ready(1,2)]
  show ?thesis
    using ok reachable_system_ok [OF assms(1) r] main_run_returns [OF ready(1), of mac "fw_pc s"]
      reachable_irq [OF assms(1) r, of "fw_irq s"]
    by (auto simp: firmware_ok_def system_of_def)
qed

definition sample_params :: boot_params where
  "sample_params = \<lparr>OB_Data0 = 0, OB_Data1 = 0, STK_CTLR_STCLK = False, SysTickDebugEnabled = False\<rparr>"

definition cold_node :: node where
  "cold_node = \<lparr>n_eth = blank_eth, n_world = \<lparr>w_mem = \<lambda>_. 0, w_prng = sample_prng, w_hw = \<lparr>clk = 0, ahb_rng = False, rng_en = False\<rparr>\<rparr>,
     n_dhcp = \<lparr>dhcp_state = DHCP_STATE_NONE, current_transaction_id = 0\<rparr>\<rparr>"

lemma sample_wakes: "hardware_wakes sample_platform sample_consts"
  by (rule sample_hardware_wakes) (simp add: sample_platform_def)

lemma ready_board_boots: "trng_live ready_board (RandomInitialize (w_hw (n_world cold_node)))"
proof -
  have "\<exists>m\<ge>n. odd m" for n :: nat by (rule exI [of _ "2 * n + 1"]) simp
  then show ?thesis by (simp add: trng_live_def ready_board_def cold_node_def RandomInitialize_def Let_def)
qed

theorem main_boot_returns_witness:
  "\<exists>mac n'. main_boot sample_platform sample_consts ready_board sample_params cold_node = Some (mac, n') \<and> length mac = 6"
  using main_boot_returns [OF sample_platform_ok sample_wakes _ ready_board_boots, of sample_params]
  by (auto simp: sample_params_def)

lemma sample_boots: "\<exists>mac s. fw_reachable sample_platform sample_consts ready_board sample_params mac s"
proof -
  obtain n' e1 where "main_boot sample_platform sample_consts ready_board sample_params cold_node
      = Some (MacAddressInitialize (w_mem (n_world cold_node)) (OB_Data0 sample_params) (OB_Data1 sample_params) 0, n')"
    using main_boot_result [OF sample_wakes _ ready_board_boots, of sample_params] by (auto simp: sample_params_def)
  from fw_reachable.boot [OF this ready_board_boots]
  have "fw_reachable sample_platform sample_consts ready_board sample_params
      (MacAddressInitialize (w_mem (n_world cold_node)) (OB_Data0 sample_params) (OB_Data1 sample_params) 0)
      \<lparr>fw_pc = AtCount, fw_irq = IrqIdle, fw_node = n', fw_rx = 0, fw_tx = 0, fw_rs = False, fw_ts = False\<rparr>"
    by (simp add: cold_node_def)
  then show ?thesis by blast
qed

theorem firmware_refines_system_witness:
  "\<exists>mac s n. fw_reachable sample_platform sample_consts ready_board sample_params mac s
     \<and> ETH_IRQHandler sample_platform ready_board mac (fw_node s) = Some n"
  using sample_boots firmware_refines_system [OF sample_platform_ok sample_wakes] by blast

section \<open>A lost interrupt\<close>

lemma irq_rtrancl:
  assumes "irq_step pf b mac (fw_irq s, fw_node s) = Some (pc, n)"
  shows "(fw_step pf b mac)\<^sup>*\<^sup>* s (s\<lparr>fw_irq := pc, fw_node := n,
      fw_rs := fw_rs s \<and> \<not> acks_rx (fw_irq s), fw_ts := fw_ts s \<and> \<not> acks_tx (fw_irq s)\<rparr>)"
  using fw_step.irq [OF assms] by (rule r_into_rtranclp)

lemma finish_after_ack:
  assumes "fw_irq s = IrqRxAck t st" "\<not> tx_due pf st"
  shows "\<exists>s'. (fw_step pf b mac)\<^sup>*\<^sup>* s s' \<and> fw_irq s' = IrqIdle \<and> \<not> fw_rs s'
    \<and> same_rings (n_eth (fw_node s)) (n_eth (fw_node s'))"
proof -
  let ?n1 = "(fw_node s)\<lparr>n_eth := eth_do (ETH_DMAClearITPendingBit (IT_R pf)) (n_eth (fw_node s))\<rparr>"
  let ?s1 = "s\<lparr>fw_irq := IrqTx t st, fw_node := ?n1, fw_rs := False\<rparr>"
  let ?s2 = "s\<lparr>fw_irq := IrqEnd t st, fw_node := ?n1, fw_rs := False\<rparr>"
  let ?n3 = "if st AND DMASR_NIS pf \<noteq> 0 then IRQ_tail pf st ?n1 else ?n1"
  let ?n4 = "?n3\<lparr>n_world := (n_world ?n3)\<lparr>w_prng := CSPrngInjectLowbits t (w_prng (n_world ?n3))\<rparr>\<rparr>"
  let ?s3 = "s\<lparr>fw_irq := IrqIdle, fw_node := ?n4, fw_rs := False\<rparr>"
  have "(fw_step pf b mac)\<^sup>*\<^sup>* s ?s1" using irq_rtrancl [of pf b mac s "IrqTx t st" ?n1] assms(1) by simp
  moreover have "(fw_step pf b mac)\<^sup>*\<^sup>* ?s1 ?s2" using irq_rtrancl [of pf b mac ?s1 "IrqEnd t st" ?n1] assms(2) by simp
  moreover have "(fw_step pf b mac)\<^sup>*\<^sup>* ?s2 ?s3" using irq_rtrancl [of pf b mac ?s2 IrqIdle ?n4] by (simp add: Let_def)
  ultimately have "(fw_step pf b mac)\<^sup>*\<^sup>* s ?s3" by (meson rtranclp_trans)
  moreover have "same_rings (n_eth (fw_node s)) (n_eth ?n4)"
    using same_rings_trans [of "n_eth (fw_node s)" "n_eth ?n1" "n_eth (IRQ_tail pf st ?n1)"] IRQ_tail_frame(1) [of ?n1 pf st]
    by (simp add: rings_of_do)
  ultimately show ?thesis by (intro exI [of _ ?s3]) simp
qed

text \<open>
  C13. The handler can lose an interrupt: it acknowledges reception after it has looked at the
  ring for the last time.  Whenever it stands between the two and the engine can receive, a frame
  that arrives is left behind: the handler ends, the status bit of the frame is cleared, and the
  frame still waits in the ring, until another one arrives.
\<close>

theorem receive_interrupt_lost:
  assumes "platform_ok pf" "hardware_wakes pf c" "fw_reachable pf c b bp mac s"
    and "fw_irq s = IrqRxAck t st" "\<not> tx_due pf st"
  defines "ring \<equiv> kReceiveRing (n_eth (fw_node s))"
  assumes "rx_own pf (ring ! fw_rx s)" "rx_own pf (ring ! ((fw_rx s + 1) mod 8))"
  shows "\<exists>s' q. (fw_step pf b mac)\<^sup>*\<^sup>* s s' \<and> fw_irq s' = IrqIdle \<and> \<not> fw_rs s'
    \<and> implements pf (n_eth (fw_node s')) q \<and> inq q \<noteq> []"
proof -
  let ?n = "fw_node s" and ?m = "w_mem (n_world (fw_node s))"
  let ?s1 = "s\<lparr>fw_node := ?n\<lparr>n_eth := (n_eth ?n)\<lparr>kReceiveRing := dma_status (fw_rx s) 0 (kReceiveRing (n_eth ?n))\<rparr>,
        n_world := (n_world ?n)\<lparr>w_mem := ?m\<rparr>\<rparr>, fw_rx := (fw_rx s + 1) mod 8, fw_rs := True\<rparr>"
  have step: "fw_step pf b mac s ?s1"
    using assms(7,8) by (intro fw_step.engine_rx refl) (simp_all add: ring_def same_outside_refl)
  obtain q0 where q0: "system_ok pf b mac (system_of s) q0"
    using fw_reachable_ok [OF assms(1-3)] reachable_system_ok [OF assms(1)] unfolding firmware_ok_def by blast
  obtain q where q: "implements pf (n_eth (fw_node ?s1)) q" "inq q \<noteq> []"
    using receive_system_ok [OF q0, of 0 ?m] assms(8) by (fastforce simp: system_of_def ring_def system_ok_def)
  obtain s' where s': "(fw_step pf b mac)\<^sup>*\<^sup>* ?s1 s'" "fw_irq s' = IrqIdle" "\<not> fw_rs s'"
      "same_rings (n_eth (fw_node ?s1)) (n_eth (fw_node s'))"
    using finish_after_ack [of ?s1 t st pf b mac] assms(4,5) by auto
  from implements_same_rings [OF s'(4) q(1)] s'(1-3) q(2) step show ?thesis
    by (meson converse_rtranclp_into_rtranclp)
qed

text \<open>A board on which the status reports reception, right after the boot.\<close>

definition rx_platform :: platform where
  "rx_platform = sample_platform\<lparr>reg_value := \<lambda>log r. if r = DMASR then 0x10040 else 0\<rparr>"

lemma rx_platform_ok: "platform_ok rx_platform" "hardware_wakes rx_platform sample_consts"
  by (simp add: platform_ok_def rx_platform_def sample_platform_def)
    (rule sample_hardware_wakes, simp add: rx_platform_def)

lemma rx_platform_due: "rx_due rx_platform 0x10040" "\<not> tx_due rx_platform 0x10040"
  by (simp_all add: rx_due_def tx_due_def rx_platform_def sample_platform_def)

lemma boot_to_ack:
  "\<exists>mac s t. fw_reachable rx_platform sample_consts ready_board sample_params mac s
     \<and> fw_irq s = IrqRxAck t 0x10040 \<and> fw_rx s = 0
     \<and> (\<forall>d\<in>set (kReceiveRing (n_eth (fw_node s))). rx_own rx_platform d) \<and> length (kReceiveRing (n_eth (fw_node s))) = 8"
proof -
  define mac where "mac = MacAddressInitialize (w_mem (n_world cold_node)) (OB_Data0 sample_params) (OB_Data1 sample_params) 0"
  obtain n e1 where boot: "main_boot rx_platform sample_consts ready_board sample_params cold_node = Some (mac, n)"
      and n: "n_eth n = eth_do NVIC_EnableIRQ (EthernetInitializeDma rx_platform e1)"
    using main_boot_result [OF rx_platform_ok(2) _ ready_board_boots, of sample_params]
    by (auto simp: sample_params_def mac_def)
  let ?s0 = "\<lparr>fw_pc = AtCount, fw_irq = IrqIdle, fw_node = n, fw_rx = 0, fw_tx = 0, fw_rs = False, fw_ts = False\<rparr>"
  let ?t = "cnt_lo ready_board (w_hw (n_world n))"
  let ?n1 = "n\<lparr>n_world := (n_world n)\<lparr>w_hw := tick (w_hw (n_world n))\<rparr>,
    n_eth := IRQ_abnormal rx_platform 0x10040 (eth_do (RegRead DMASR) (n_eth n))\<rparr>"
  let ?dma = "EthernetInitializeDma rx_platform e1"
  have same: "same_rings ?dma (n_eth ?n1)"
    using same_rings_trans [OF rings_of_do same_rings_trans [OF rings_of_do IRQ_abnormal_rings]] by (simp add: n)
  then have "rings_ok rx_platform (n_eth ?n1) (initial_segments ?dma)"
    using rings_ok_same InitializeDma_rings_ok [OF rx_platform_ok(1)] by blast
  then have stop: "rx_iter rx_platform (PacketRxInterrupt ready_board mac) (n_eth ?n1, n_world ?n1) = Some (False, n_eth ?n1, n_world ?n1)"
    by (rule rx_iter_stop) (simp add: initial_segments_def)
  have "fw_reachable rx_platform sample_consts ready_board sample_params mac ?s0"
    by (rule fw_reachable.boot [OF boot ready_board_boots]) (simp add: cold_node_def)
  moreover have "irq_step rx_platform ready_board mac (fw_irq ?s0, fw_node ?s0) = Some (IrqRx ?t 0x10040, ?n1)"
    by (simp add: Let_def SysTickCnt32_def eth_read_def) (simp add: rx_platform_def)
  from fw_step.irq [OF this]
  have "fw_step rx_platform ready_board mac ?s0 (?s0\<lparr>fw_irq := IrqRx ?t 0x10040, fw_node := ?n1\<rparr>)" by simp
  ultimately have "fw_reachable rx_platform sample_consts ready_board sample_params mac
      (?s0\<lparr>fw_irq := IrqRx ?t 0x10040, fw_node := ?n1\<rparr>)" by (rule fw_reachable.step)
  moreover have "irq_step rx_platform ready_board mac (IrqRx ?t 0x10040, ?n1) = Some (IrqRxAck ?t 0x10040, ?n1)"
    using stop by (simp add: rx_platform_due)
  with fw_step.irq [of rx_platform ready_board mac "?s0\<lparr>fw_irq := IrqRx ?t 0x10040, fw_node := ?n1\<rparr>" "IrqRxAck ?t 0x10040" ?n1]
  have "fw_step rx_platform ready_board mac (?s0\<lparr>fw_irq := IrqRx ?t 0x10040, fw_node := ?n1\<rparr>)
      (?s0\<lparr>fw_irq := IrqRxAck ?t 0x10040, fw_node := ?n1\<rparr>)" by simp
  ultimately have "fw_reachable rx_platform sample_consts ready_board sample_params mac
      (?s0\<lparr>fw_irq := IrqRxAck ?t 0x10040, fw_node := ?n1\<rparr>)" by (rule fw_reachable.step)
  moreover have "kReceiveRing (n_eth ?n1) = kReceiveRing ?dma" using same by (simp add: same_rings_def same_rx_def)
  moreover have "\<forall>d\<in>set (kReceiveRing ?dma). rx_own rx_platform d" "length (kReceiveRing ?dma) = 8"
    using InitializeDma_rx_ring [OF rx_platform_ok(1), of e1] by (auto simp: rx_own_def rx_platform_def sample_platform_def)
  ultimately show ?thesis
    by (intro exI [of _ mac] exI [of _ "?s0\<lparr>fw_irq := IrqRxAck ?t 0x10040, fw_node := ?n1\<rparr>"] exI [of _ ?t]) simp
qed

theorem receive_interrupt_lost_witness:
  "\<exists>mac s s' q. fw_reachable rx_platform sample_consts ready_board sample_params mac s
     \<and> (fw_step rx_platform ready_board mac)\<^sup>*\<^sup>* s s' \<and> fw_irq s' = IrqIdle \<and> \<not> fw_rs s'
     \<and> implements rx_platform (n_eth (fw_node s')) q \<and> inq q \<noteq> []"
proof -
  obtain mac s t where s: "fw_reachable rx_platform sample_consts ready_board sample_params mac s"
      "fw_irq s = IrqRxAck t 0x10040" "fw_rx s = 0"
      "\<forall>d\<in>set (kReceiveRing (n_eth (fw_node s))). rx_own rx_platform d" "length (kReceiveRing (n_eth (fw_node s))) = 8"
    using boot_to_ack by blast
  then have "rx_own rx_platform (kReceiveRing (n_eth (fw_node s)) ! fw_rx s)"
    "rx_own rx_platform (kReceiveRing (n_eth (fw_node s)) ! ((fw_rx s + 1) mod 8))" by simp_all
  from receive_interrupt_lost [OF rx_platform_ok s(1,2) rx_platform_due(2) this] s(1) show ?thesis by blast
qed

end
