(* ===== verification/Races.thy ===== *)
theory Races
  imports Main_Loop
begin

text \<open>
  What an interrupt between two steps of the main loop does to the variables that both use: the
  generators of \<open>src/prng.c\<close> and the random number generator of \<open>src/random.c\<close> are shared with the
  interrupt handler, and nothing keeps the handler out while the loop updates them.
\<close>

section \<open>A whole interrupt\<close>

text \<open>The steps of the handler are steps of the firmware, so a whole run of it may follow any state.\<close>

lemma irq_run_steps:
  assumes "irq_run pf b mac (fw_irq s, fw_node s) = Some n'"
  shows "\<exists>s'. (fw_step pf b mac)\<^sup>*\<^sup>* s s' \<and> fw_irq s' = IrqIdle \<and> fw_node s' = n' \<and> fw_pc s' = fw_pc s"
proof -
  define P where "P pf b mac c n' \<longleftrightarrow> (\<forall>s :: firmware. c = (fw_irq s, fw_node s) \<longrightarrow>
      (\<exists>s'. (fw_step pf b mac)\<^sup>*\<^sup>* s s' \<and> fw_irq s' = IrqIdle \<and> fw_node s' = n' \<and> fw_pc s' = fw_pc s))"
    for pf b mac and c :: "irq_pc \<times> node" and n' :: node
  from assms have "P pf b mac (fw_irq s, fw_node s) n'"
  proof (rule irq_run.raw_induct [where P = P, rotated])
    fix f pf b mac and c :: "irq_pc \<times> node" and n' :: node
    assume IH: "\<And>pf b mac c n'. f pf b mac c = Some n' \<Longrightarrow> P pf b mac c n'"
      and eq: "do { (pc, n) \<leftarrow> irq_step pf b mac c; if pc = IrqIdle then Some n else f pf b mac (pc, n) } = Some n'"
    show "P pf b mac c n'"
      unfolding P_def
    proof (intro allI impI)
      fix s :: firmware assume c: "c = (fw_irq s, fw_node s)"
      obtain pc n where st: "irq_step pf b mac (fw_irq s, fw_node s) = Some (pc, n)"
        and go: "(if pc = IrqIdle then Some n else f pf b mac (pc, n)) = Some n'"
        using eq c by (auto simp: Option.bind_eq_Some_conv)
      let ?s1 = "s\<lparr>fw_irq := pc, fw_node := n, fw_rs := fw_rs s \<and> \<not> acks_rx (fw_irq s), fw_ts := fw_ts s \<and> \<not> acks_tx (fw_irq s)\<rparr>"
      have s1: "fw_step pf b mac s ?s1" using st by (rule fw_step.irq)
      show "\<exists>s'. (fw_step pf b mac)\<^sup>*\<^sup>* s s' \<and> fw_irq s' = IrqIdle \<and> fw_node s' = n' \<and> fw_pc s' = fw_pc s"
      proof (cases "pc = IrqIdle")
        case True
        with go s1 show ?thesis by (intro exI [of _ ?s1]) auto
      next
        case False
        with go IH [of pf b mac "(pc, n)" n'] obtain s' where
          "(fw_step pf b mac)\<^sup>*\<^sup>* ?s1 s'" "fw_irq s' = IrqIdle" "fw_node s' = n'" "fw_pc s' = fw_pc ?s1"
          by (fastforce simp: P_def dest: spec [of _ ?s1])
        with s1 show ?thesis by (auto intro: converse_rtranclp_into_rtranclp)
      qed
    qed
  qed
  then show ?thesis by (simp add: P_def)
qed

lemma interrupt_steps:
  assumes "fw_irq s = IrqIdle" "ETH_IRQHandler pf b mac (fw_node s) = Some n'"
  shows "\<exists>s'. (fw_step pf b mac)\<^sup>*\<^sup>* s s' \<and> fw_irq s' = IrqIdle \<and> fw_node s' = n' \<and> fw_pc s' = fw_pc s"
  using irq_run_steps [of pf b mac s n'] assms by (simp add: irq_run_handler)

lemma main_rtrancl:
  assumes "fw_irq s = IrqIdle" "main_step b mac (fw_pc s, fw_node s) = (pc, n)"
  shows "\<exists>s'. (fw_step pf b mac)\<^sup>*\<^sup>* s s' \<and> fw_irq s' = IrqIdle \<and> fw_pc s' = pc \<and> fw_node s' = n"
  using fw_step.main [OF assms, of pf] assms(1) by (intro exI conjI) (erule r_into_rtranclp, simp_all)

text \<open>A step of the loop, an interrupt, and the next step of the loop.\<close>

lemma interrupted_step:
  assumes "fw_irq s = IrqIdle" "main_step b mac (fw_pc s, fw_node s) = (pc1, n1)"
    and "ETH_IRQHandler pf b mac n1 = Some n2" "main_step b mac (pc1, n2) = (pc3, n3)"
  shows "\<exists>s'. (fw_step pf b mac)\<^sup>*\<^sup>* s s' \<and> fw_irq s' = IrqIdle \<and> fw_pc s' = pc3 \<and> fw_node s' = n3"
proof -
  obtain s1 where s1: "(fw_step pf b mac)\<^sup>*\<^sup>* s s1" "fw_irq s1 = IrqIdle" "fw_pc s1 = pc1" "fw_node s1 = n1"
    using main_rtrancl [OF assms(1,2)] by blast
  obtain s2 where s2: "(fw_step pf b mac)\<^sup>*\<^sup>* s1 s2" "fw_irq s2 = IrqIdle" "fw_node s2 = n2" "fw_pc s2 = pc1"
    using interrupt_steps [OF s1(2), of pf b mac n2] assms(3) s1 by auto
  obtain s3 where "(fw_step pf b mac)\<^sup>*\<^sup>* s2 s3" "fw_irq s3 = IrqIdle" "fw_pc s3 = pc3" "fw_node s3 = n3"
    using main_rtrancl [OF s2(2)] assms(4) s2 by metis
  with rtranclp_trans [OF s1(1) rtranclp_trans [OF s2(1)]] show ?thesis by blast
qed

text \<open>An interrupt, and then two steps of the loop.\<close>

lemma interrupt_first:
  assumes "fw_irq s = IrqIdle" "ETH_IRQHandler pf b mac (fw_node s) = Some n1"
    and "main_step b mac (fw_pc s, n1) = (pc2, n2)" "main_step b mac (pc2, n2) = (pc3, n3)"
  shows "\<exists>s'. (fw_step pf b mac)\<^sup>*\<^sup>* s s' \<and> fw_irq s' = IrqIdle \<and> fw_pc s' = pc3 \<and> fw_node s' = n3"
proof -
  obtain s1 where s1: "(fw_step pf b mac)\<^sup>*\<^sup>* s s1" "fw_irq s1 = IrqIdle" "fw_node s1 = n1" "fw_pc s1 = fw_pc s"
    using interrupt_steps [OF assms(1,2)] by blast
  obtain s2 where s2: "(fw_step pf b mac)\<^sup>*\<^sup>* s1 s2" "fw_irq s2 = IrqIdle" "fw_pc s2 = pc2" "fw_node s2 = n2"
    using main_rtrancl [OF s1(2)] assms(3) s1 by metis
  obtain s3 where "(fw_step pf b mac)\<^sup>*\<^sup>* s2 s3" "fw_irq s3 = IrqIdle" "fw_pc s3 = pc3" "fw_node s3 = n3"
    using main_rtrancl [OF s2(2)] assms(4) s2 by metis
  with rtranclp_trans [OF s1(1) rtranclp_trans [OF s2(1)]] show ?thesis by blast
qed

section \<open>Lost updates\<close>

text \<open>The count: whatever the handler added while the loop held the old value is forgotten.\<close>

lemma count_update_lost:
  assumes "fw_irq s = IrqIdle" "fw_pc s = AtCount" "ETH_IRQHandler pf b mac (fw_node s) = Some n'"
  shows "\<exists>s'. (fw_step pf b mac)\<^sup>*\<^sup>* s s' \<and> fw_irq s' = IrqIdle
    \<and> kInCount (n_prng (fw_node s')) = kInCount (n_prng (fw_node s)) + 32"
  using interrupted_step [OF assms(1), of b mac "AtCountStore (kInCount (n_prng (fw_node s)) + 32)" "fw_node s" pf n'] assms
  by fastforce

text \<open>
  C15. Entropy that the interrupt handler injects can be lost.  Let the main loop have drawn its
  number \<open>r\<close> and an interrupt be taken.  Before the loop loads the key word, the word ends as what
  the handler has left in it, mixed with \<open>r\<close>; between the load and the store, it ends as the old
  word mixed with \<open>r\<close>, and what the handler mixed into it is gone.  Nothing else differs.
\<close>

theorem injected_entropy_lost:
  assumes "fw_irq s = IrqIdle" "fw_pc s = AtKey ndx r" "ETH_IRQHandler pf b mac (fw_node s) = Some n'"
  defines "stored \<equiv> \<lambda>v. with_prng ((n_prng n')\<lparr>kPrngKey := (kPrngKey (n_prng n'))[ndx := v]\<rparr>) n'"
  shows "(\<exists>s'. (fw_step pf b mac)\<^sup>*\<^sup>* s s' \<and> fw_irq s' = IrqIdle \<and> fw_pc s' = AtTransmit
      \<and> fw_node s' = stored (kPrngKey (n_prng n') ! ndx XOR r))
    \<and> (\<exists>s'. (fw_step pf b mac)\<^sup>*\<^sup>* s s' \<and> fw_irq s' = IrqIdle \<and> fw_pc s' = AtTransmit
      \<and> fw_node s' = stored (kPrngKey (n_prng (fw_node s)) ! ndx XOR r))"
proof (rule conjI)
  show "\<exists>s'. (fw_step pf b mac)\<^sup>*\<^sup>* s s' \<and> fw_irq s' = IrqIdle \<and> fw_pc s' = AtTransmit
      \<and> fw_node s' = stored (kPrngKey (n_prng n') ! ndx XOR r)"
    using interrupt_first [OF assms(1,3)] assms(2) by (simp add: stored_def)
  show "\<exists>s'. (fw_step pf b mac)\<^sup>*\<^sup>* s s' \<and> fw_irq s' = IrqIdle \<and> fw_pc s' = AtTransmit
      \<and> fw_node s' = stored (kPrngKey (n_prng (fw_node s)) ! ndx XOR r)"
    using interrupted_step [OF assms(1) _ assms(3)] assms(2) by (simp add: stored_def)
qed

text \<open>A handler that finds nothing to do still injects its tick.\<close>

lemma quiet_handler:
  "ETH_IRQHandler sample_platform b mac n = Some
     (let h = n_hw n in
      n\<lparr>n_eth := eth_do (RegRead DMASR) (n_eth n),
        n_world := (n_world n)\<lparr>w_hw := tick h, w_prng := CSPrngInjectLowbits (cnt_lo b h) (n_prng n)\<rparr>\<rparr>)"
  by (simp add: ETH_IRQHandler_def SysTickCnt32_def eth_read_def IRQ_abnormal_def IRQ_normal_def
      sample_platform_def Let_def)

definition race_state :: "main_pc \<Rightarrow> nat \<Rightarrow> firmware" where
  "race_state pc clock = \<lparr>fw_pc = pc, fw_irq = IrqIdle,
     fw_node = \<lparr>n_eth = blank_eth,
       n_world = \<lparr>w_mem = \<lambda>_. 0, w_prng = sample_prng\<lparr>kInject := 5, kInCount := 31\<rparr>,
         w_hw = \<lparr>clk = clock, ahb_rng = True, rng_en = True\<rparr>\<rparr>,
       n_dhcp = \<lparr>dhcp_state = DHCP_STATE_NONE, current_transaction_id = 0\<rparr>\<rparr>,
     fw_rx = 0, fw_tx = 0, fw_rs = False, fw_ts = False\<rparr>"

theorem injected_entropy_lost_witness:
  "\<exists>s1 s2. (fw_step sample_platform ready_board [])\<^sup>*\<^sup>* (race_state (AtKey 1 7) 0) s1
     \<and> (fw_step sample_platform ready_board [])\<^sup>*\<^sup>* (race_state (AtKey 1 7) 0) s2
     \<and> kPrngKey (n_prng (fw_node s1)) = [1, 2 XOR 5 XOR 7, 3, 4]
     \<and> kPrngKey (n_prng (fw_node s2)) = [1, 2 XOR 7, 3, 4]"
proof -
  let ?s = "race_state (AtKey 1 7) 0"
  from injected_entropy_lost [OF _ _ quiet_handler, of ?s 1 7 ready_board "[]"]
  obtain s1 s2 where "(fw_step sample_platform ready_board [])\<^sup>*\<^sup>* ?s s1" "(fw_step sample_platform ready_board [])\<^sup>*\<^sup>* ?s s2"
    "kPrngKey (n_prng (fw_node s1)) = [1, 2 XOR 5 XOR 7, 3, 4]" "kPrngKey (n_prng (fw_node s2)) = [1, 2 XOR 7, 3, 4]"
    by (auto simp: race_state_def sample_prng_def CSPrngInjectLowbits_def Let_def)
  then show ?thesis by blast
qed

section \<open>An unchecked number\<close>

text \<open>
  C16. The main loop can mix a number into the key that the generator has not delivered.  If an
  interrupt comes between the poll that finds the generator ready and the read, and leaves the
  generator not ready, as a request for its numbers does, the loop reads the data register all
  the same.
\<close>

theorem unready_number_mixed:
  assumes "fw_irq s = IrqIdle" "fw_pc s = AtPoll ndx" "RNG_DRDY b (n_hw (fw_node s))"
    and "ETH_IRQHandler pf b mac (with_hw (tick (n_hw (fw_node s))) (fw_node s)) = Some n'"
    and "\<not> RNG_DRDY b (n_hw n')"
  shows "\<exists>s'. (fw_step pf b mac)\<^sup>*\<^sup>* s s' \<and> fw_irq s' = IrqIdle
    \<and> fw_pc s' = AtKey ndx (RNG_DATA b (n_hw n'))"
  using interrupted_step [OF assms(1) _ assms(4)] assms(2,3) by fastforce

definition drained_board :: board where
  "drained_board = ready_board\<lparr>RNG_DRDY := \<lambda>h. clk h mod 4 = 1\<rparr>"

theorem unready_number_mixed_witness:
  "\<exists>s'. (fw_step sample_platform drained_board [])\<^sup>*\<^sup>* (race_state (AtPoll 1) 1) s'
     \<and> fw_pc s' = AtKey 1 3 \<and> \<not> RNG_DRDY drained_board \<lparr>clk = 3, ahb_rng = True, rng_en = True\<rparr>"
  using unready_number_mixed [OF _ _ _ quiet_handler, of "race_state (AtPoll 1) 1" 1 drained_board "[]"]
  by (auto simp: race_state_def drained_board_def ready_board_def tick_def Let_def)

end
