(* ===== verification/Answers.thy ===== *)
theory Answers
  imports Prdk_Safety Eth_Properties
begin

text \<open>
  The answers of the frame handler of \<open>src/prdk.c\<close> as a function of the received frame: whether
  there is one, its length and its first bytes depend on nothing but the bytes of the frame.  What
  the driver's receive loop does to a sequence of frames, in these terms.
\<close>

section \<open>The answers as a function of the frame\<close>

definition answer_of :: "u8 list \<Rightarrow> u32 \<Rightarrow> mem \<Rightarrow> (int \<times> u8 list) option" where
  "answer_of mac f m =
     (if echo_request f m then Some (14 + int (unat (be16 m (f + 16))), icmp_answer mac f m)
      else if chargen_request f m then Some (1514, chargen_answer mac f m)
      else if arp_request f m then Some (42, arp_answer mac f m)
      else None)"

definition reply :: "platform \<Rightarrow> u8 list \<Rightarrow> mem \<Rightarrow> u32 \<times> u32 \<Rightarrow> (int \<times> u8 list) option" where
  "reply pf mac m = (\<lambda>(f, st). if good_frame pf st then answer_of mac f m else None)"

text \<open>What the handler does to a frame, in these terms.\<close>

lemma q_answer_reply:
  assumes "q_answer pf (PacketRxInterrupt b mac) f st w = Some (r, w')" "length mac = 6"
  shows "case reply pf mac (w_mem w) (f, st) of
      None \<Rightarrow> r = PACKET_PROCESSED \<and> w' = w
    | Some (n, bs) \<Rightarrow> r = n \<and> 0 \<le> n \<and> same_outside (w_mem w) (w_mem w') f 1514
        \<and> mem_bytes (w_mem w') f (length bs) = bs"
proof (cases "good_frame pf st")
  case True
  let ?m = "w_mem w"
  have spec: "PacketRx_spec b mac f w = Some (r, w')" using assms(1) True by (simp add: q_answer_def PacketRx_eq [OF assms(2)])
  have len: "length (icmp_answer mac f ?m) = 36" "length (chargen_answer mac f ?m) = 42" "length (arp_answer mac f ?m) = 42"
    using length_answers [OF assms(2)] by blast+
  have put: "mem_bytes (mem_put ?m f bs) f (length bs) = bs" if "length bs = n" "n < 100" for bs n
    using that by (intro mem_bytes_mem_put) simp
  have put2: "mem_bytes (mem_put ?m f (chargen_answer mac f ?m @ bs)) f 42 = chargen_answer mac f ?m" if "length bs \<le> 1472" for bs
  proof -
    have "mem_bytes (mem_put ?m f (chargen_answer mac f ?m @ bs)) f (42 + length bs) = chargen_answer mac f ?m @ bs"
      using mem_bytes_mem_put [of "chargen_answer mac f ?m @ bs" ?m f] that by (simp add: len)
    then show ?thesis using len(2) by (simp add: mem_bytes_append)
  qed
  have out: "same_outside ?m (w_mem w') f 1514" using assms True PacketRx_frame by (simp add: q_answer_def)
  show ?thesis
    using spec True put [OF len(1)] put [OF len(3)] put2 out
    by (auto simp: PacketRx_spec_def answer_of_def reply_def Let_def len dest!: chargen_stream_length split: if_splits)
next
  case False
  then show ?thesis using assms(1) by (simp add: q_answer_def reply_def)
qed

text \<open>What is answered, and how, depends on the bytes of the frame only.\<close>

lemma answer_of_cong:
  assumes "mem_bytes m' f 1518 = mem_bytes m f 1518"
  shows "answer_of mac f m' = answer_of mac f m"
proof -
  have "m' (f + of_nat i) = m (f + of_nat i)" if "i < 1518" for i
    using that assms mem_bytes_nth by metis
  then have eq: "m' (f + numeral k) = m (f + numeral k)" if "numeral k < (1518 :: nat)" for k
    using that by (metis of_nat_numeral)
  have eq1: "m' f = m f" "m' (f + 1) = m (f + 1)"
    using \<open>\<And>i. i < 1518 \<Longrightarrow> m' (f + of_nat i) = m (f + of_nat i)\<close> [of 0]
      \<open>\<And>i. i < 1518 \<Longrightarrow> m' (f + of_nat i) = m (f + of_nat i)\<close> [of 1] by simp_all
  show ?thesis
    by (simp add: answer_of_def echo_request_def chargen_request_def arp_request_def ipv4_to_us_def be16_def
        icmp_answer_def chargen_answer_def arp_answer_def mem_bytes_simps add.assoc eq eq1)
qed

section \<open>Every frame sent is the board's\<close>

definition from_board :: "u8 list \<Rightarrow> u32 \<Rightarrow> mem \<Rightarrow> bool" where
  "from_board mac f m \<longleftrightarrow> mem_bytes m (f + 6) 6 = mac
     \<and> (mem_bytes m (f + 12) 2 = [0x08, 0x00] \<and> mem_bytes m (f + 26) 4 = [192, 168, 141, 123]
        \<or> mem_bytes m (f + 12) 2 = [0x08, 0x06]
          \<and> mem_bytes m (f + 20) 12 = [0, 2] @ mac @ [192, 168, 141, 123])"

lemma answer_from_board:
  assumes "answer_of mac f m = Some (n, bs)" "length mac = 6" "mem_bytes m' f (length bs) = bs"
  shows "from_board mac f m'"
proof -
  have part: "mem_bytes m' (f + numeral i) (numeral k) = take (numeral k) (drop (numeral i) bs)"
    if "numeral i + numeral k \<le> length bs" for i k
    using mem_bytes_part [OF assms(3), of "numeral i" "numeral k"] that by simp
  note len = length_answers [OF assms(2)]
  consider "echo_request f m" "bs = icmp_answer mac f m" | "chargen_request f m" "bs = chargen_answer mac f m"
    | "arp_request f m" "bs = arp_answer mac f m"
    using assms(1) by (auto simp: answer_of_def split: if_splits)
  then show ?thesis
    using length_6_cases [OF assms(2)]
    by cases (auto simp: from_board_def part len, auto simp: icmp_answer_def chargen_answer_def arp_answer_def
        echo_request_def chargen_request_def arp_request_def ipv4_to_us_def mem_bytes_simps add.assoc)
qed

lemma from_board_cong:
  assumes "mem_bytes m' f 1518 = mem_bytes m f 1518"
  shows "from_board mac f m' = from_board mac f m"
proof -
  have "mem_bytes m' (f + numeral i) (numeral k) = mem_bytes m (f + numeral i) (numeral k)"
    if "numeral i + numeral k \<le> (1518 :: nat)" for i k
    using mem_bytes_part [OF assms, of "numeral i" "numeral k"] mem_bytes_part [of m f 1518 _ "numeral i" "numeral k"] that
    by simp
  then show ?thesis by (simp add: from_board_def)
qed

end
