(* ===== verification/Post_Office.thy ===== *)
theory Post_Office
  imports Races Answers
begin

text \<open>
  The whole firmware as an abstract machine: four queues of buffers and the memory.  Every step of
  the main loop (\<open>src/main.c\<close>), of the interrupt handler (\<open>src/ethernet.c\<close>, \<open>src/prdk.c\<close>) and of the DMA
  engine is a step of the machine, so that what is proved of the machine holds of the firmware in
  every interleaving.
\<close>

section \<open>The abstract machine\<close>

text \<open>
  The abstract machine: four queues of buffers and the memory.  A frame arrives in the first
  free buffer, the frame that has waited longest is answered in place or dropped, the first
  answer is sent, and its buffer is free again.
\<close>

inductive post_step :: "platform \<Rightarrow> u8 list \<Rightarrow> queues \<times> mem \<Rightarrow> queues \<times> mem \<Rightarrow> bool"
  for pf mac where
  arrive: "\<lbrakk>rxq q = f # fs; same_outside m m' f 1518\<rbrakk>
    \<Longrightarrow> post_step pf mac (q, m) (q\<lparr>rxq := fs, inq := inq q @ [(f, st)]\<rparr>, m')"
| answer: "\<lbrakk>inq q = (f, st) # fs; reply pf mac m (f, st) = Some (n, bs);
      same_outside m m' f 1514; mem_bytes m' f (length bs) = bs\<rbrakk>
    \<Longrightarrow> post_step pf mac (q, m) (q\<lparr>inq := fs, txq := txq q @ [(f, of_int n AND TxTBS1 pf)]\<rparr>, m')"
| drop: "\<lbrakk>inq q = (f, st) # fs; reply pf mac m (f, st) = None\<rbrakk>
    \<Longrightarrow> post_step pf mac (q, m) (q\<lparr>inq := fs, rxq := rxq q @ [f]\<rparr>, m)"
| send: "txq q = (f, n) # fs \<Longrightarrow> post_step pf mac (q, m) (q\<lparr>txq := fs, doneq := doneq q @ [f]\<rparr>, m)"
| recycle: "doneq q = f # fs \<Longrightarrow> post_step pf mac (q, m) (q\<lparr>rxq := rxq q @ [f], doneq := fs\<rparr>, m)"
| idle: "post_step pf mac (q, m) (q, m)"

definition fw_mem :: "firmware \<Rightarrow> mem" where
  "fw_mem s = w_mem (n_world (fw_node s))"

lemma system_ok_rings:
  assumes "system_ok pf b mac (node_system n r t) q" "same_rings (n_eth n) (n_eth n')" "handler_ready b mac (n_world n')"
  shows "system_ok pf b mac (node_system n' r t) q"
  using assms implements_same_rings [OF assms(2)]
  by (auto simp: system_ok_def same_rings_def same_rx_def same_tx_def)

lemma main_step_frame:
  assumes "main_step b mac (pc, n) = (pc', n')"
  shows "n_eth n' = n_eth n" "w_mem (n_world n') = w_mem (n_world n)"
  using assms by (cases pc; auto simp: EthernetTransmit_def Let_def split: if_splits)+

text \<open>A step of the handler that is not a round of its two loops.\<close>

lemma irq_step_quiet:
  assumes "irq_step pf b mac (pc, n) = Some (pc', n')"
    and "\<not> (\<exists>t st. pc = IrqRx t st \<and> rx_due pf st)" "\<not> (\<exists>t st. pc = IrqTx t st \<and> tx_due pf st)"
  shows "same_rings (n_eth n) (n_eth n')" "w_mem (n_world n') = w_mem (n_world n)"
  using assms
  by (cases pc; auto simp: Let_def SysTickCnt32_def eth_read_def IRQ_tail_frame same_rings_refl rings_of_do
      same_rings_trans [OF rings_of_do IRQ_abnormal_rings] split: if_splits)+

lemma irq_simulates:
  assumes "platform_ok pf" "length mac = 6" "system_ok pf b mac (node_system n r t) q"
    and "irq_step pf b mac (pc, n) = Some (pc', n')" "handler_ready b mac (n_world n')"
  shows "\<exists>q'. system_ok pf b mac (node_system n' r t) q'
    \<and> post_step pf mac (q, w_mem (n_world n)) (q', w_mem (n_world n'))"
proof (cases "(\<exists>t st. pc = IrqRx t st \<and> rx_due pf st) \<or> (\<exists>t st. pc = IrqTx t st \<and> tx_due pf st)")
  case False
  then have "same_rings (n_eth n) (n_eth n')" "w_mem (n_world n') = w_mem (n_world n)"
    using irq_step_quiet [OF assms(4)] by blast+
  with system_ok_rings [OF assms(3) _ assms(5)] post_step.idle show ?thesis by metis
next
  case True
  then consider tk st where "pc = IrqRx tk st" "rx_due pf st" | tk st where "pc = IrqTx tk st" "tx_due pf st" by blast
  then show ?thesis
  proof cases
    case 1
    obtain e w q' where
      it: "rx_iter pf (PacketRxInterrupt b mac) (n_eth n, n_world n) = Some (inq q \<noteq> [], e, w)"
      and ok: "system_ok pf b mac \<lparr>s_eth = e, s_world = w, rx_pos = r, tx_pos = t\<rparr> q'"
      and q': "case inq q of [] \<Rightarrow> q' = q \<and> w = n_world n
        | (f, st) # fs \<Rightarrow> \<exists>r. q_answer pf (PacketRxInterrupt b mac) f st (n_world n) = Some (r, w)
            \<and> q' = q_place pf r f (q\<lparr>inq := fs\<rparr>)"
      using rx_iteration_ok [OF assms(1,3)] by (simp only: system.simps node.simps) blast
    have n': "n' = n\<lparr>n_eth := e, n_world := w\<rparr>" using assms(4) 1 it by auto
    have "post_step pf mac (q, w_mem (n_world n)) (q', w_mem w)"
    proof (cases "inq q")
      case Nil
      then show ?thesis using q' post_step.idle by simp
    next
      case (Cons a fs)
      then obtain f st x where f: "inq q = (f, st) # fs" and a: "q_answer pf (PacketRxInterrupt b mac) f st (n_world n) = Some (x, w)"
        and q': "q' = q_place pf x f (q\<lparr>inq := fs\<rparr>)" using q' by (cases a) auto
      show ?thesis
      proof (cases "reply pf mac (w_mem (n_world n)) (f, st)")
        case None
        then show ?thesis
          using q_answer_reply [OF a assms(2)] q' post_step.drop [OF f None] by (simp add: q_place_def PACKET_PROCESSED_def)
      next
        case (Some y)
        then obtain k bs where k: "reply pf mac (w_mem (n_world n)) (f, st) = Some (k, bs)" by (cases y) auto
        then show ?thesis
          using q_answer_reply [OF a assms(2)] q' post_step.answer [OF f k, of "w_mem w"] by (simp add: q_place_def)
      qed
    qed
    with ok n' show ?thesis by auto
  next
    case 2
    obtain e q' where it: "tx_iter pf (n_eth n) = (doneq q \<noteq> [], e)"
      and ok: "system_ok pf b mac \<lparr>s_eth = e, s_world = n_world n, rx_pos = r, tx_pos = t\<rparr> q'"
      and q': "case doneq q of [] \<Rightarrow> q' = q | f # fs \<Rightarrow> q' = q\<lparr>rxq := rxq q @ [f], doneq := fs\<rparr>"
      using tx_iteration_ok [OF assms(1,3)] by (simp only: system.simps node.simps) blast
    have "n' = n\<lparr>n_eth := e\<rparr>" using assms(4) 2 it by auto
    moreover have "post_step pf mac (q, m) (q', m)" for m
      using q' post_step.recycle [of q] post_step.idle by (cases "doneq q") auto
    ultimately show ?thesis using ok by auto
  qed
qed

lemma fw_step_simulates:
  assumes "platform_ok pf" "firmware_ok pf b mac s" "fw_step pf b mac s s'" "system_ok pf b mac (system_of s) q"
  shows "\<exists>q'. system_ok pf b mac (system_of s') q' \<and> post_step pf mac (q, fw_mem s) (q', fw_mem s')"
proof -
  have mac: "length mac = 6" using assms(2) by (simp add: firmware_ok_def)
  have ok: "system_ok pf b mac (node_system (fw_node s) (fw_rx s) (fw_tx s)) q" using assms(4) by (simp add: system_of_def)
  have "reachable pf b mac (node_system (fw_node s') (fw_rx s') (fw_tx s'))"
    using fw_step_ok [OF assms(1-3)] by (simp add: firmware_ok_def system_of_def)
  from reachable_ready [OF assms(1) mac this] mac have ready: "handler_ready b mac (n_world (fw_node s'))"
    by (simp add: handler_ready_def)
  from assms(3) show ?thesis
  proof cases
    case (main pc n)
    then show ?thesis
      using main_step_frame [OF main(3)] system_ok_rings [OF ok, of n] ready post_step.idle
      by (auto simp: system_of_def fw_mem_def same_rings_refl)
  next
    case (irq pc n)
    then show ?thesis
      using irq_simulates [OF assms(1) mac ok irq(2)] ready by (simp add: system_of_def fw_mem_def)
  next
    case (engine_rx n e st m)
    then show ?thesis
      using receive_system_ok [OF ok, of st m] post_step.arrive [of q _ _ "fw_mem s" m pf mac st]
      by (auto simp: system_of_def fw_mem_def)
  next
    case (engine_tx n e st)
    then show ?thesis
      using transmit_system_ok [OF ok, of st] post_step.send [of q _ _ _ pf mac "fw_mem s"]
      by (auto simp: system_of_def fw_mem_def)
  qed
qed

definition empty_queues :: "platform \<Rightarrow> queues" where
  "empty_queues pf = \<lparr>rxq = pool_frames pf, inq = [], doneq = [], txq = []\<rparr>"

lemma boot_system_ok:
  assumes "platform_ok pf" "hardware_wakes pf c" "main_boot pf c b bp n0 = Some (mac, n)"
    and "trng_live b (RandomInitialize (w_hw (n_world n0)))"
  shows "system_ok pf b mac (node_system n 0 0) (empty_queues pf)"
proof -
  from main_boot_Some [OF assms(3,2,4)] obtain e1 where
    n: "mac = MacAddressInitialize (w_mem (n_world n0)) (OB_Data0 bp) (OB_Data1 bp) 0"
      "n_eth n = eth_do NVIC_EnableIRQ (EthernetInitializeDma pf e1)"
      "trng_live b (w_hw (n_world n))" "prng_inv (w_prng (n_world n))" by blast
  have "implements pf (n_eth n) (empty_queues pf)"
    unfolding n(2) empty_queues_def by (rule implements_same_rings [OF rings_of_do InitializeDma_implements [OF assms(1)]])
  then show ?thesis
    using n length_MacAddressInitialize
    by (simp add: system_ok_def handler_ready_def empty_queues_def q_buffers_def InitializeDma_indices)
qed

lemma firmware_run:
  assumes "platform_ok pf" "hardware_wakes pf c" "fw_reachable pf c b bp mac s"
  shows "\<exists>q m0. system_ok pf b mac (system_of s) q \<and> (post_step pf mac)\<^sup>*\<^sup>* (empty_queues pf, m0) (q, fw_mem s)"
  using assms(3)
proof induction
  case (boot n0 n)
  then show ?case using boot_system_ok [OF assms(1,2) boot(1,2)] by (auto simp: system_of_def)
next
  case (step s s')
  then obtain q m0 where q: "system_ok pf b mac (system_of s) q" "(post_step pf mac)\<^sup>*\<^sup>* (empty_queues pf, m0) (q, fw_mem s)" by blast
  from fw_step_simulates [OF assms(1) fw_reachable_ok [OF assms(1,2) step(1)] step(2) q(1)] q(2)
  show ?case by (meson rtranclp.rtrancl_into_rtrancl)
qed

section \<open>What the abstract machine guarantees\<close>

definition post_ok :: "platform \<Rightarrow> queues \<Rightarrow> bool" where
  "post_ok pf q \<longleftrightarrow> q_buffers q = mset (pool_frames pf)"

lemma post_step_buffers: "post_step pf mac (q, m) (q', m') \<Longrightarrow> q_buffers q' = q_buffers q"
  by (erule post_step.cases) (auto simp: q_buffers_def)

lemma post_step_ok: "post_step pf mac (q, m) (q', m') \<Longrightarrow> post_ok pf q \<Longrightarrow> post_ok pf q'"
  by (simp add: post_ok_def post_step_buffers)

lemma post_ok_bufs:
  assumes "post_ok pf q" "platform_ok pf"
  shows "distinct (rxq q @ map fst (inq q) @ map fst (txq q) @ doneq q)"
    "set (rxq q @ map fst (inq q) @ map fst (txq q) @ doneq q) = set (pool_frames pf)"
proof -
  have "mset (rxq q @ map fst (inq q) @ map fst (txq q) @ doneq q) = mset (pool_frames pf)"
    using assms(1) by (simp add: post_ok_def q_buffers_def ac_simps)
  then show "distinct (rxq q @ map fst (inq q) @ map fst (txq q) @ doneq q)"
    "set (rxq q @ map fst (inq q) @ map fst (txq q) @ doneq q) = set (pool_frames pf)"
    using pool_frames_distinct [OF assms(2)] mset_eq_imp_distinct_iff mset_eq_setD by blast+
qed

text \<open>A write to the frame of one buffer leaves those of the others alone.\<close>

lemma other_frame_kept:
  assumes "platform_ok pf" "a \<in> set (pool_frames pf)" "f \<in> set (pool_frames pf)" "f \<noteq> a" "same_outside m m' a n" "n \<le> 1518"
  shows "mem_bytes m' f 1518 = mem_bytes m f 1518"
proof -
  obtain i j where "i < 8" "a = pkt_Frame (pool_buffer pf i)" "j < 8" "f = pkt_Frame (pool_buffer pf j)"
    using assms(2,3) by (auto simp: pool_frames_def simp del: upt_rec_numeral)
  with frame_bytes_kept [OF assms(1), of i j m m'] same_outside_mono [OF assms(5,6)] assms(4) show ?thesis by auto
qed

lemma post_step_stable:
  assumes "post_step pf mac (q, m) (q', m')" "platform_ok pf" "post_ok pf q"
    and "f \<in> fst ` set (txq q) \<union> fst ` set (tl (inq q))"
  shows "mem_bytes m' f 1518 = mem_bytes m f 1518"
proof -
  note bufs = post_ok_bufs [OF assms(3,2)]
  have f: "f \<in> set (pool_frames pf)"
    using assms(4) bufs(2) by (cases "inq q") auto
  have kept: ?thesis if "same_outside m m' a n" "n \<le> 1518" "a \<in> set (pool_frames pf)" "a \<noteq> f" for a n
    using other_frame_kept [OF assms(2) that(3) f _ that(1,2)] that(4) by simp
  from assms(1) show ?thesis
  proof cases
    case (arrive a fs st)
    then have "a \<notin> fst ` set (txq q) \<union> fst ` set (inq q)" "a \<in> set (pool_frames pf)" using bufs by auto
    then have "a \<noteq> f" using assms(4) by (cases "inq q") auto
    with kept arrive \<open>a \<in> set (pool_frames pf)\<close> show ?thesis by blast
  next
    case (answer a st fs n bs)
    then have "a \<notin> fst ` set (txq q) \<union> fst ` set fs" "a \<in> set (pool_frames pf)" using bufs by auto
    then have "a \<noteq> f" using assms(4) answer by auto
    with kept [of a 1514] answer \<open>a \<in> set (pool_frames pf)\<close> show ?thesis by simp
  qed simp_all
qed

definition outgoing_ok :: "u8 list \<Rightarrow> queues \<times> mem \<Rightarrow> bool" where
  "outgoing_ok mac = (\<lambda>(q, m). \<forall>(f, n)\<in>set (txq q). from_board mac f m)"

lemma post_step_outgoing:
  assumes "post_step pf mac (q, m) (q', m')" "platform_ok pf" "post_ok pf q" "length mac = 6" "outgoing_ok mac (q, m)"
  shows "outgoing_ok mac (q', m')"
proof -
  have old: "from_board mac f m'" if "(f, n) \<in> set (txq q)" for f n
  proof -
    have "mem_bytes m' f 1518 = mem_bytes m f 1518"
      using that by (intro post_step_stable [OF assms(1-3)]) force
    from from_board_cong [OF this, of mac] show ?thesis using that assms(5) by (auto simp: outgoing_ok_def)
  qed
  from assms(1) show ?thesis
  proof cases
    case (answer f st fs n bs)
    then have "from_board mac f m'"
      using answer_from_board [OF _ assms(4), of f m n bs m'] by (auto simp: reply_def split: if_splits)
    with answer old show ?thesis by (auto simp: outgoing_ok_def)
  qed (use old in \<open>auto simp: outgoing_ok_def\<close>)
qed

lemma post_run_outgoing:
  assumes "(post_step pf mac)\<^sup>*\<^sup>* (empty_queues pf, m0) (q, m)" "platform_ok pf" "length mac = 6"
  shows "post_ok pf q \<and> outgoing_ok mac (q, m)"
  using assms(1)
proof (induction rule: rtranclp_induct2)
  case refl
  then show ?case by (simp add: post_ok_def empty_queues_def q_buffers_def outgoing_ok_def)
next
  case (step q m q' m')
  with post_step_ok post_step_outgoing [OF step(2) assms(2) _ assms(3)] show ?case by blast
qed

end
