(* ===== verification/Service.thy ===== *)
theory Service
  imports Post_Office
begin

text \<open>
  What a host that sends frames to the board can rely on: a frame that waits is left alone, only
  answers leave the board, and every request is answered when the interrupt is served.
\<close>

section \<open>Every request is answered\<close>

text \<open>
  The frames of \<open>fs\<close> that ask for an answer hold it in \<open>m'\<close>, and the others are as they were.
\<close>

definition replied :: "platform \<Rightarrow> u8 list \<Rightarrow> mem \<Rightarrow> mem \<Rightarrow> (u32 \<times> u32) list \<Rightarrow> bool" where
  "replied pf mac m m' fs \<longleftrightarrow>
     (\<forall>x\<in>set fs. case reply pf mac m x of None \<Rightarrow> True | Some (n, bs) \<Rightarrow> mem_bytes m' (fst x) (length bs) = bs)
     \<and> (\<forall>f\<in>set (pool_frames pf). (\<forall>x\<in>set fs. fst x = f \<longrightarrow> reply pf mac m x = None) \<longrightarrow>
         mem_bytes m' f 1518 = mem_bytes m f 1518)"

definition reply_queue :: "platform \<Rightarrow> u8 list \<Rightarrow> mem \<Rightarrow> (u32 \<times> u32) list \<Rightarrow> (u32 \<times> u32) list" where
  "reply_queue pf mac m fs = map (\<lambda>x. (fst x, of_int (fst (the (reply pf mac m x))) AND TxTBS1 pf))
     (filter (\<lambda>x. reply pf mac m x \<noteq> None) fs)"

lemma reply_cong:
  assumes "\<And>x. x \<in> set fs \<Longrightarrow> mem_bytes m' (fst x) 1518 = mem_bytes m (fst x) 1518" "x \<in> set fs"
  shows "reply pf mac m' x = reply pf mac m x"
  using answer_of_cong [OF assms(1) [OF assms(2)]] by (cases x) (simp add: reply_def)

lemma reply_queue_cong:
  assumes "\<And>x. x \<in> set fs \<Longrightarrow> mem_bytes m' (fst x) 1518 = mem_bytes m (fst x) 1518"
  shows "reply_queue pf mac m' fs = reply_queue pf mac m fs"
  using reply_cong [OF assms] unfolding reply_queue_def by (intro map_cong filter_cong) auto

lemma length_reply: "length mac = 6 \<Longrightarrow> reply pf mac m x = Some (n, bs) \<Longrightarrow> length bs \<le> 1518"
  using length_answers [of mac "fst x" m] by (auto simp: reply_def answer_of_def split: if_splits prod.splits)

lemma mem_bytes_prefix:
  "mem_bytes m' a n = mem_bytes m a n \<Longrightarrow> k \<le> n \<Longrightarrow> mem_bytes m' a k = mem_bytes m a k"
  using mem_bytes_part [of m' a n _ 0 k] mem_bytes_part [of m a n _ 0 k] by simp

lemma q_answer_kept:
  assumes "q_answer pf (PacketRxInterrupt b mac) f st w = Some (r, w')" "length mac = 6" "platform_ok pf"
    and "f \<in> set (pool_frames pf)" "f' \<in> set (pool_frames pf)" "f' \<noteq> f"
  shows "mem_bytes (w_mem w') f' 1518 = mem_bytes (w_mem w) f' 1518"
proof (cases "reply pf mac (w_mem w) (f, st)")
  case None
  then show ?thesis using q_answer_reply [OF assms(1,2)] by simp
next
  case (Some y)
  then have "same_outside (w_mem w) (w_mem w') f 1514" using q_answer_reply [OF assms(1,2)] by (auto split: prod.splits)
  from other_frame_kept [OF assms(3-6) this] show ?thesis by simp
qed

lemma replied_Cons:
  assumes "case reply pf mac m x of None \<Rightarrow> m1 = m | Some (n, bs) \<Rightarrow> mem_bytes m1 (fst x) (length bs) = bs"
    and "replied pf mac m1 m' fs" "length mac = 6" "fst x \<in> set (pool_frames pf)" "fst x \<notin> fst ` set fs"
    and "fst ` set fs \<subseteq> set (pool_frames pf)"
    and "\<And>f. f \<in> set (pool_frames pf) \<Longrightarrow> f \<noteq> fst x \<Longrightarrow> mem_bytes m1 f 1518 = mem_bytes m f 1518"
  shows "replied pf mac m m' (x # fs)"
proof -
  have "fst y \<in> set (pool_frames pf)" "fst y \<noteq> fst x" if "y \<in> set fs" for y
    using that assms(5,6) by (auto simp: rev_image_eqI)
  then have same: "reply pf mac m1 y = reply pf mac m y" if "y \<in> set fs" for y
    using that by (intro reply_cong assms(7)) auto
  have first: "mem_bytes m' (fst x) 1518 = mem_bytes m1 (fst x) 1518"
    using assms(2,4) \<open>\<And>y. y \<in> set fs \<Longrightarrow> fst y \<noteq> fst x\<close> by (simp add: replied_def)
  then have "mem_bytes m' (fst x) (length bs) = bs" if "reply pf mac m x = Some (n, bs)" for n bs
    using mem_bytes_prefix [OF first length_reply [OF assms(3) that]] assms(1) that by simp
  moreover have "mem_bytes m' f 1518 = mem_bytes m f 1518"
    if "f \<in> set (pool_frames pf)" "\<forall>y\<in>set (x # fs). fst y = f \<longrightarrow> reply pf mac m y = None" for f
  proof (cases "f = fst x")
    case True
    then show ?thesis using first assms(1) that(2) by simp
  next
    case False
    then show ?thesis using assms(2,7) that same by (auto simp: replied_def)
  qed
  moreover have "case reply pf mac m y of None \<Rightarrow> True | Some (n, bs) \<Rightarrow> mem_bytes m' (fst y) (length bs) = bs"
    if "y \<in> set fs" for y
    using assms(2) that same [OF that] by (auto simp: replied_def)
  ultimately show ?thesis by (auto simp: replied_def split: option.split)
qed

lemma q_rx_replies:
  assumes "q_rx pf (PacketRxInterrupt b mac) fs (q, w) = Some (q', w')" "length mac = 6" "platform_ok pf"
    and "distinct (map fst fs)" "fst ` set fs \<subseteq> set (pool_frames pf)"
  shows "txq q' = txq q @ reply_queue pf mac (w_mem w) fs \<and> replied pf mac (w_mem w) (w_mem w') fs"
  using assms(1,4,5)
proof (induction fs arbitrary: q w)
  case Nil
  then show ?case by (simp add: reply_queue_def replied_def)
next
  case (Cons x fs)
  obtain f st where x: "x = (f, st)" by (cases x)
  obtain r w1 where a: "q_answer pf (PacketRxInterrupt b mac) f st w = Some (r, w1)"
    and go: "q_rx pf (PacketRxInterrupt b mac) fs (q_place pf r f q, w1) = Some (q', w')"
    using Cons.prems(1) by (auto simp: x Option.bind_eq_Some_conv)
  have f: "f \<in> set (pool_frames pf)" "f \<notin> fst ` set fs" and d: "distinct (map fst fs)" "fst ` set fs \<subseteq> set (pool_frames pf)"
    using Cons.prems(2,3) by (auto simp: x)
  note ans = q_answer_reply [OF a assms(2)] and kept = q_answer_kept [OF a assms(2,3) f(1)]
  note IH = Cons.IH [OF go d]
  have "reply_queue pf mac (w_mem w1) fs = reply_queue pf mac (w_mem w) fs"
    using kept f(2) d(2) by (intro reply_queue_cong) (auto simp: image_iff)
  then have "txq q' = txq q @ reply_queue pf mac (w_mem w) (x # fs)"
    using IH ans by (cases "reply pf mac (w_mem w) (f, st)") (auto simp: x q_place_def PACKET_PROCESSED_def reply_queue_def)
  moreover have "replied pf mac (w_mem w) (w_mem w') (x # fs)"
    using IH ans f d kept assms(2) by (intro replied_Cons [where ?m1.0 = "w_mem w1"]) (auto simp: x split: option.splits)
  ultimately show ?case ..
qed

lemma handler_replies:
  assumes "platform_ok pf" "system_ok pf b mac (node_system n r t) q"
    and "rx_due pf (reg_value pf (eth_log (n_eth n)) DMASR)"
  shows "\<exists>n' q'. ETH_IRQHandler pf b mac n = Some n' \<and> implements pf (n_eth n') q' \<and> inq q' = []
    \<and> txq q' = txq q @ reply_queue pf mac (w_mem (n_world n)) (inq q)
    \<and> replied pf mac (w_mem (n_world n)) (w_mem (n_world n')) (inq q)"
proof -
  have ok: "implements pf (n_eth n) q" "length mac = 6" "trng_live b (n_hw n)" "prng_inv (n_prng n)" "post_ok pf q"
    using assms(2) by (simp_all add: system_ok_def handler_ready_def post_ok_def)
  let ?w0 = "(n_world n)\<lparr>w_hw := tick (n_hw n)\<rparr>"
  obtain n' q1 w1 where h: "ETH_IRQHandler pf b mac n = Some n'"
      "q_rx pf (PacketRxInterrupt b mac) (inq q) (q\<lparr>inq := []\<rparr>, ?w0) = Some (q1, w1)" "inq q1 = []"
      "implements pf (n_eth n') (if tx_due pf (reg_value pf (eth_log (n_eth n)) DMASR)
        then q1\<lparr>rxq := rxq q1 @ doneq q1, doneq := []\<rparr> else q1)"
      "n_world n' = w1\<lparr>w_prng := CSPrngInjectLowbits (cnt_lo b (n_hw n)) (w_prng w1)\<rparr>"
    using IRQ_on_queues [OF assms(1) ok(1-4)] assms(3) by auto
  have "distinct (map fst (inq q))" "fst ` set (inq q) \<subseteq> set (pool_frames pf)"
    using post_ok_bufs [OF ok(5) assms(1)] by auto
  from q_rx_replies [OF h(2) ok(2) assms(1) this] h show ?thesis by (auto split: if_splits)
qed

section \<open>The queues of a state\<close>

text \<open>The queues are determined by the driver's state.\<close>

lemma takeWhile_append_all:
  assumes "\<forall>x\<in>set xs. P x" "ys = [] \<or> \<not> P (hd ys)"
  shows "takeWhile P (xs @ ys) = xs" "dropWhile P (xs @ ys) = ys"
  using assms by (cases ys; simp add: takeWhile_append dropWhile_append)+

lemma takeWhile_unique:
  assumes "xs @ ys = xs' @ ys'" "\<forall>x\<in>set xs. P x" "\<forall>x\<in>set xs'. P x"
    and "\<forall>y\<in>set ys. \<not> P y" "\<forall>y\<in>set ys'. \<not> P y"
  shows "xs = xs' \<and> ys = ys'"
proof -
  have *: "ys = [] \<or> \<not> P (hd ys)" "ys' = [] \<or> \<not> P (hd ys')" using assms(4,5) by (cases ys; cases ys'; simp)+
  show ?thesis
    using takeWhile_append_all [OF assms(2) *(1)] takeWhile_append_all [OF assms(3) *(2)] assms(1) by simp
qed

lemma rings_unique:
  assumes "rings_ok pf e g" "rings_ok pf e g'"
  shows "queues_of g = queues_of g'"
proof -
  have few: "length (held h) < 8" if "rings_ok pf e h" for h
    using rings_ok_length(1) [OF that] that by (cases "armed h") (auto simp: rings_ok_def rx_ring_ok_def)
  have own: "\<forall>d\<in>set (held h @ filled h). \<not> rx_own pf d" "\<forall>d\<in>set (armed h). rx_own pf d"
      "\<forall>d\<in>set (sent h). \<not> rx_own pf d \<and> Buffer1Addr d \<noteq> 0" "\<forall>d\<in>set (sending h). rx_own pf d"
      "\<forall>d\<in>set (free h). \<not> rx_own pf d \<and> Buffer1Addr d = 0" "\<forall>d\<in>set (sent h @ sending h). Buffer1Addr d \<noteq> 0"
      "unat (kReceiveRd e) = (unat (kReceiveWr e) + length (held h)) mod 8"
      "rotate (unat (kReceiveWr e)) (kReceiveRing e) = (held h @ filled h) @ armed h"
      "rotate (unat (kTransmitWr e)) (kTransmitRing e) = (sent h @ sending h) @ free h"
    if "rings_ok pf e h" for h
    using that by (simp_all add: rings_ok_def rx_ring_ok_def tx_ring_ok_def ball_Un)
  note g = own [OF assms(1)] and g' = own [OF assms(2)]
  have "held g @ filled g = held g' @ filled g' \<and> armed g = armed g'"
    by (rule takeWhile_unique [of _ _ _ _ "\<lambda>d. \<not> rx_own pf d"])
      (use g(1,2) g'(1,2) in simp_all, metis g(8) g'(8) append_assoc)
  moreover have "length (held g) = length (held g')"
    using add_mod_inject [of "unat (kReceiveWr e)" "length (held g)" 8 "length (held g')"] g(7) g'(7) few assms by simp
  moreover have "sent g @ sending g = sent g' @ sending g' \<and> free g = free g'"
    by (rule takeWhile_unique [of _ _ _ _ "\<lambda>d. Buffer1Addr d \<noteq> 0"])
      (use g(5,6) g'(5,6) in simp_all, metis g(9) g'(9) append_assoc)
  moreover from this have "sent g = sent g' \<and> sending g = sending g'"
    by (intro takeWhile_unique [of _ _ _ _ "\<lambda>d. \<not> rx_own pf d"]) (use g(3,4) g'(3,4) in auto)
  ultimately show ?thesis by (simp add: queues_of_def)
qed

lemma implements_unique: "implements pf e q \<Longrightarrow> implements pf e q' \<Longrightarrow> q = q'"
  using rings_unique by (auto simp: implements_def)

lemma reachable_queues:
  assumes "platform_ok pf" "hardware_wakes pf c" "fw_reachable pf c b bp mac s" "implements pf (n_eth (fw_node s)) q"
  shows "system_ok pf b mac (system_of s) q \<and> length mac = 6 \<and> post_ok pf q \<and> outgoing_ok mac (q, fw_mem s)
    \<and> (\<exists>m0. (post_step pf mac)\<^sup>*\<^sup>* (empty_queues pf, m0) (q, fw_mem s))"
proof -
  obtain q1 m0 where q1: "system_ok pf b mac (system_of s) q1" "(post_step pf mac)\<^sup>*\<^sup>* (empty_queues pf, m0) (q1, fw_mem s)"
    using firmware_run [OF assms(1-3)] by blast
  then have "q1 = q" using implements_unique [OF _ assms(4)] by (simp add: system_ok_def system_of_def)
  moreover have "length mac = 6" using q1(1) by (simp add: system_ok_def handler_ready_def)
  ultimately show ?thesis using q1 post_run_outgoing [OF q1(2) assms(1)] by blast
qed

section \<open>What a host can rely on\<close>

text \<open>
  C3. The firmware is a post office: whatever it did since the boot is a run of the abstract
  machine from eight empty buffers, and each of its steps, of the main loop, of the interrupt
  handler or of the DMA engine, is a step of that machine or none.
\<close>

theorem firmware_is_post_office:
  assumes "platform_ok pf" "hardware_wakes pf c" "fw_reachable pf c b bp mac s"
    and "implements pf (n_eth (fw_node s)) q"
  shows "(\<exists>m0. (post_step pf mac)\<^sup>*\<^sup>* (empty_queues pf, m0) (q, fw_mem s))
    \<and> (\<forall>s'. fw_step pf b mac s s' \<longrightarrow>
        (\<exists>q'. implements pf (n_eth (fw_node s')) q' \<and> post_step pf mac (q, fw_mem s) (q', fw_mem s')))"
  using fw_step_simulates [OF assms(1) fw_reachable_ok [OF assms(1-3)]] reachable_queues [OF assms]
  by (auto simp: system_ok_def system_of_def)

text \<open>
  C6. A frame that waits stays as it is: no step, whoever takes it, changes a byte of a buffer
  that is queued for sending or of a received frame that is not the next one to be answered.
\<close>

theorem queued_frames_stable:
  assumes "platform_ok pf" "hardware_wakes pf c" "fw_reachable pf c b bp mac s"
    and "implements pf (n_eth (fw_node s)) q" "fw_step pf b mac s s'"
    and "f \<in> fst ` set (txq q) \<union> fst ` set (tl (inq q))"
  shows "mem_bytes (fw_mem s') f 1518 = mem_bytes (fw_mem s) f 1518"
  using fw_step_simulates [OF assms(1) fw_reachable_ok [OF assms(1-3)] assms(5)] reachable_queues [OF assms(1-4)]
    post_step_stable [OF _ assms(1) _ assms(6)] by blast

text \<open>
  C5. Nothing but answers leaves the board: in every reachable state each frame queued for
  sending carries the board's MAC address as its source and is an IPv4 packet from the board's
  address or an ARP reply for it.
\<close>

theorem outgoing_from_board:
  assumes "platform_ok pf" "hardware_wakes pf c" "fw_reachable pf c b bp mac s"
    and "implements pf (n_eth (fw_node s)) q"
  shows "\<forall>(f, n)\<in>set (txq q). from_board mac f (fw_mem s)"
  using reachable_queues [OF assms] by (simp add: outgoing_ok_def)

text \<open>
  C4. Requests are answered: when an interrupt reports reception, the handler runs to its end
  from any reachable state, and afterwards no received frame waits, the buffer of every request
  among them is queued for sending with its length, in the order of reception and behind what was
  queued before, and holds its answer, while all other buffers hold what they held.
\<close>

theorem requests_answered:
  assumes "platform_ok pf" "hardware_wakes pf c" "fw_reachable pf c b bp mac s"
    and "implements pf (n_eth (fw_node s)) q" "fw_irq s = IrqIdle"
    and "rx_due pf (reg_value pf (eth_log (n_eth (fw_node s))) DMASR)"
  shows "\<exists>s' q'. (fw_step pf b mac)\<^sup>*\<^sup>* s s' \<and> fw_irq s' = IrqIdle \<and> fw_pc s' = fw_pc s
    \<and> implements pf (n_eth (fw_node s')) q' \<and> inq q' = []
    \<and> txq q' = txq q @ reply_queue pf mac (fw_mem s) (inq q)
    \<and> replied pf mac (fw_mem s) (fw_mem s') (inq q)"
proof -
  have "system_ok pf b mac (node_system (fw_node s) (fw_rx s) (fw_tx s)) q"
    using reachable_queues [OF assms(1-4)] by (simp add: system_of_def)
  from handler_replies [OF assms(1) this assms(6)] interrupt_steps [OF assms(5)] show ?thesis
    by (fastforce simp: fw_mem_def)
qed

section \<open>A request after the boot\<close>

lemma fw_reachable_run:
  "(fw_step pf b mac)\<^sup>*\<^sup>* s s' \<Longrightarrow> fw_reachable pf c b bp mac s \<Longrightarrow> fw_reachable pf c b bp mac s'"
  by (induction rule: rtranclp_induct) (auto intro: fw_reachable.step)

definition request_mem :: mem where
  "request_mem = mem_put (\<lambda>_. 0) 0x20001002 sample_arp"

abbreviation sample_firmware :: "u8 list \<Rightarrow> firmware \<Rightarrow> bool" where
  "sample_firmware \<equiv> fw_reachable rx_platform sample_consts ready_board sample_params"

lemma pool_frames_rx_platform: "\<exists>fs. pool_frames rx_platform = 0x20001002 # fs"
proof -
  have "pool_frames rx_platform = map (\<lambda>i. pkt_Frame (pool_buffer rx_platform i)) (0 # [1..<8])"
    by (simp add: pool_frames_def upt_conv_Cons del: upt_rec_numeral)
  then show ?thesis by (simp add: pkt_Frame_eq pool_buffer_eq rx_platform_def sample_platform_def del: upt_rec_numeral)
qed

lemma request_arrives:
  "\<exists>mac s s' q'. sample_firmware mac s \<and> fw_irq s = IrqIdle \<and> implements rx_platform (n_eth (fw_node s)) (empty_queues rx_platform)
     \<and> fw_step rx_platform ready_board mac s s' \<and> fw_irq s' = IrqIdle
     \<and> implements rx_platform (n_eth (fw_node s')) q' \<and> inq q' = [(0x20001002, 0x003C0300)] \<and> txq q' = []
     \<and> fw_mem s' = request_mem"
proof -
  define mac where "mac = MacAddressInitialize (w_mem (n_world cold_node)) (OB_Data0 sample_params) (OB_Data1 sample_params) 0"
  obtain n e1 where boot: "main_boot rx_platform sample_consts ready_board sample_params cold_node = Some (mac, n)"
      and n: "n_eth n = eth_do NVIC_EnableIRQ (EthernetInitializeDma rx_platform e1)" "w_mem (n_world n) = (\<lambda>_. 0)"
    using main_boot_result [OF rx_platform_ok(2) _ ready_board_boots, of sample_params]
    by (auto simp: sample_params_def mac_def cold_node_def)
  let ?s = "\<lparr>fw_pc = AtCount, fw_irq = IrqIdle, fw_node = n, fw_rx = 0, fw_tx = 0, fw_rs = False, fw_ts = False\<rparr>"
  have r: "sample_firmware mac ?s" by (rule fw_reachable.boot [OF boot ready_board_boots]) (simp add: cold_node_def)
  have ok: "system_ok rx_platform ready_board mac (node_system n 0 0) (empty_queues rx_platform)"
    by (rule boot_system_ok [OF rx_platform_ok boot ready_board_boots])
  obtain fs where fs: "pool_frames rx_platform = 0x20001002 # fs" using pool_frames_rx_platform by blast
  have own: "rx_own rx_platform (kReceiveRing (n_eth n) ! i)" if "i < 8" for i
    using InitializeDma_rx_ring(1,3) [OF rx_platform_ok(1), of e1] that
    by (auto simp: n(1) rx_own_def rx_platform_def sample_platform_def)
  have st: "(0x003C0300 :: u32) AND RxOWN rx_platform = 0" by (simp add: rx_platform_def sample_platform_def)
  from receive_system_ok [OF ok _ st, of request_mem] own [of 1]
  have addr: "Buffer1Addr (kReceiveRing (n_eth n) ! 0) = 0x20001002"
    and ok': "system_ok rx_platform ready_board mac \<lparr>s_eth = (n_eth n)\<lparr>kReceiveRing := dma_status 0 0x003C0300 (kReceiveRing (n_eth n))\<rparr>,
        s_world = (n_world n)\<lparr>w_mem := request_mem\<rparr>, rx_pos = 1, tx_pos = 0\<rparr>
      ((empty_queues rx_platform)\<lparr>rxq := fs, inq := [(0x20001002, 0x003C0300)]\<rparr>)"
    using fs by (auto simp: empty_queues_def)
  let ?n = "n\<lparr>n_eth := (n_eth n)\<lparr>kReceiveRing := dma_status 0 0x003C0300 (kReceiveRing (n_eth n))\<rparr>,
      n_world := (n_world n)\<lparr>w_mem := request_mem\<rparr>\<rparr>"
  have "same_outside (w_mem (n_world n)) request_mem 0x20001002 1518"
    by (simp add: n(2) request_mem_def) (rule same_outside_put_at, simp add: sample_arp_def)
  then have step: "fw_step rx_platform ready_board mac ?s (?s\<lparr>fw_node := ?n, fw_rx := 1, fw_rs := True\<rparr>)"
    using fw_step.engine_rx [OF refl refl, of rx_platform ?s "0x003C0300" request_mem ready_board mac] own [of 0] own [of 1] st addr
    by simp
  have "implements rx_platform (n_eth n) (empty_queues rx_platform)" using ok by (simp add: system_ok_def)
  moreover have "implements rx_platform (n_eth ?n) ((empty_queues rx_platform)\<lparr>rxq := fs, inq := [(0x20001002, 0x003C0300)]\<rparr>)"
    using ok' by (simp add: system_ok_def)
  ultimately show ?thesis
    using r step by (intro exI conjI) (assumption | simp add: fw_mem_def empty_queues_def)+
qed

lemma sample_request: "reply rx_platform mac request_mem (0x20001002, 0x003C0300) = Some (42, arp_answer mac 0x20001002 request_mem)"
  by (simp add: reply_def good_frame_def answer_of_def rx_platform_def sample_platform_def request_mem_def sample_simps sample_arp_def)

lemma sample_reply_queue: "reply_queue rx_platform mac request_mem [(0x20001002, 0x003C0300)] = [(0x20001002, 42)]"
  by (simp add: reply_queue_def sample_request) (simp add: rx_platform_def sample_platform_def)

lemma rx_platform_reports: "rx_due rx_platform (reg_value rx_platform log DMASR)"
proof -
  have "reg_value rx_platform log DMASR = 0x10040" by (simp add: rx_platform_def)
  then show ?thesis using rx_platform_due(1) by simp
qed

lemma request_answered:
  "\<exists>mac s q. sample_firmware mac s \<and> implements rx_platform (n_eth (fw_node s)) q \<and> txq q = [(0x20001002, 42)]"
proof -
  obtain mac s s' q' where s: "sample_firmware mac s" "fw_step rx_platform ready_board mac s s'" "fw_irq s' = IrqIdle"
      "implements rx_platform (n_eth (fw_node s')) q'" "inq q' = [(0x20001002, 0x003C0300)]" "txq q' = []" "fw_mem s' = request_mem"
    using request_arrives by blast
  then have r: "sample_firmware mac s'" by (blast intro: fw_reachable.step)
  then have "system_ok rx_platform ready_board mac (node_system (fw_node s') (fw_rx s') (fw_tx s')) q'"
    using reachable_queues [OF rx_platform_ok r s(4)] by (simp add: system_of_def)
  from handler_replies [OF rx_platform_ok(1) this rx_platform_reports] interrupt_steps [OF s(3)] s(5-7)
  obtain s2 q2 where "(fw_step rx_platform ready_board mac)\<^sup>*\<^sup>* s' s2" "implements rx_platform (n_eth (fw_node s2)) q2"
      "txq q2 = [(0x20001002, 42)]"
    by (fastforce simp: fw_mem_def sample_reply_queue)
  with r show ?thesis using fw_reachable_run by blast
qed

theorem firmware_is_post_office_witness:
  "\<exists>mac s s' q'. sample_firmware mac s \<and> post_step rx_platform mac (empty_queues rx_platform, fw_mem s) (q', fw_mem s')
     \<and> fw_mem s' = request_mem"
  using request_arrives firmware_is_post_office [OF rx_platform_ok] by metis

theorem queued_frames_stable_witness:
  "\<exists>mac s s'. sample_firmware mac s \<and> fw_step rx_platform ready_board mac s s'
     \<and> mem_bytes (fw_mem s') 0x20001002 1518 = mem_bytes (fw_mem s) 0x20001002 1518"
proof -
  obtain mac s q where s: "sample_firmware mac s" "implements rx_platform (n_eth (fw_node s)) q" "txq q = [(0x20001002, 42)]"
    using request_answered by blast
  have "length mac = 6" "reachable rx_platform ready_board mac (node_system (fw_node s) (fw_rx s) (fw_tx s))"
    using fw_reachable_ok [OF rx_platform_ok s(1)] by (simp_all add: firmware_ok_def system_of_def)
  then obtain s' where "fw_step rx_platform ready_board mac s s'"
    using reachable_irq [OF rx_platform_ok(1)] fw_step.irq by blast
  with queued_frames_stable [OF rx_platform_ok s(1,2) this, of "0x20001002"] s show ?thesis by auto
qed

theorem outgoing_from_board_witness:
  "\<exists>mac s. sample_firmware mac s \<and> from_board mac 0x20001002 (fw_mem s)"
  using request_answered outgoing_from_board [OF rx_platform_ok] by (metis (mono_tags, lifting) case_prodD list.set_intros(1))

theorem requests_answered_witness:
  "\<exists>mac s s' q. sample_firmware mac s \<and> (fw_step rx_platform ready_board mac)\<^sup>*\<^sup>* s s'
     \<and> implements rx_platform (n_eth (fw_node s')) q \<and> txq q = [(0x20001002, 42)]
     \<and> mem_bytes (fw_mem s') 0x20001002 42 = arp_answer mac 0x20001002 request_mem"
proof -
  obtain mac s s1 q1 where s: "sample_firmware mac s" "fw_step rx_platform ready_board mac s s1" "fw_irq s1 = IrqIdle"
      "implements rx_platform (n_eth (fw_node s1)) q1" "inq q1 = [(0x20001002, 0x003C0300)]" "txq q1 = []" "fw_mem s1 = request_mem"
    using request_arrives by blast
  then have r: "sample_firmware mac s1" by (blast intro: fw_reachable.step)
  then have mac: "length mac = 6" using fw_reachable_ok [OF rx_platform_ok] by (simp add: firmware_ok_def)
  from requests_answered [OF rx_platform_ok r s(4,3) rx_platform_reports] r s(5-7) show ?thesis
    by (fastforce simp: sample_reply_queue replied_def sample_request length_answers [OF mac])
qed

end
