(* ===== verification/Stale_Descriptor.thy ===== *)
theory Stale_Descriptor
  imports Service
begin

text \<open>
  What the receive interrupt of \<open>src/ethernet.c\<close> owes to the DMA engine's habit of keeping one
  descriptor back: with an engine that fills every descriptor it owns, the loop meets a descriptor
  whose address is stale, and one buffer is armed for reception and queued for sending at once.
\<close>

section \<open>One iteration\<close>

text \<open>A frame that is not answered: its buffer goes to the descriptor at \<open>kReceiveWr\<close>.\<close>

lemma rx_iter_drop:
  assumes "d = kReceiveRing e ! unat (kReceiveRd e)" "\<not> rx_own pf d" "Buffer1Addr d \<noteq> 0"
    and "q_answer pf handle (Buffer1Addr d) (Status d) w = Some (PACKET_PROCESSED, w')"
    and "0 \<le> kInPool e" "\<not> rx_own pf (kReceiveRing e ! unat (kReceiveWr e))"
  shows "rx_iter pf handle (e, w) = Some (True, e\<lparr>kReceiveRd := PACKET_RING_INC (kReceiveRd e),
      kReceiveWr := PACKET_RING_INC (kReceiveWr e), kReceiveRing := (kReceiveRing e)[unat (kReceiveWr e) :=
        rearm pf (kReceiveRing e ! unat (kReceiveWr e)) (Buffer1Addr d)]\<rparr>, w')"
  using assms(4-6) unfolding rx_iter_eq_at [OF assms(1-3)]
  by (simp add: assms(1) [symmetric] PACKET_PROCESSED_def PacketDoneFromInterrupt_def rearm_def pkt_Frame_eq
      getPacketFromRing_eq rx_own_def Let_def)

text \<open>A frame that is answered: its buffer goes to the descriptor at \<open>kTransmitRd\<close>.\<close>

lemma rx_iter_answer:
  assumes "d = kReceiveRing e ! unat (kReceiveRd e)" "\<not> rx_own pf d" "Buffer1Addr d \<noteq> 0"
    and "q_answer pf handle (Buffer1Addr d) (Status d) w = Some (r, w')" "0 \<le> r"
    and "platform_ok pf" "t = kTransmitRing e ! unat (kTransmitRd e)" "\<not> rx_own pf t"
  shows "\<exists>log. rx_iter pf handle (e, w) = Some (True, e\<lparr>kReceiveRd := PACKET_RING_INC (kReceiveRd e),
      kReceiveRing := (kReceiveRing e)[unat (kReceiveRd e) := d\<lparr>Buffer1Addr := 0\<rparr>],
      kTransmitRd := PACKET_RING_INC (kTransmitRd e),
      kTransmitRing := (kTransmitRing e)[unat (kTransmitRd e) := enqueued pf t (Buffer1Addr d) r],
      eth_log := log\<rparr>, w')"
proof -
  have own: "TxOWN pf = RxOWN pf" using assms(6) by (simp add: platform_ok_def)
  then show ?thesis
    using assms(4,5,8) unfolding rx_iter_eq_at [OF assms(1-3)]
    by (auto simp: assms(7) [symmetric] PACKET_PROCESSED_def EnqueueTxFromInterrupt_def enqueued_def pkt_Frame_eq
        rx_own_def Let_def IsTxDmaSuspended_def eth_read_def eth_do_def)
qed

section \<open>The answer is not answered\<close>

lemma answered_is_silent:
  assumes "q_answer pf (PacketRxInterrupt b mac) f st w = Some (r, w')" "length mac = 6" "r \<noteq> PACKET_PROCESSED"
  shows "answer_of mac f (w_mem w') = None"
proof -
  have spec: "PacketRx_spec b mac f w = Some (r, w')"
    using assms by (auto simp: q_answer_def PacketRx_eq split: if_splits)
  show ?thesis
    using spec assms(2,3)
    by (auto simp: answer_of_def PacketRx_spec_def Let_def icmp_answer_silent chargen_answer_silent arp_answer_silent
        split: if_splits)
qed

lemma unanswered:
  assumes "reply pf mac (w_mem w) (f, st) = None" "length mac = 6" "handler_ready b mac w"
  shows "q_answer pf (PacketRxInterrupt b mac) f st w = Some (PACKET_PROCESSED, w)"
  using prdk.answer_returns [OF assms(3), of pf f st] q_answer_reply [OF _ assms(2), of pf b f st w] assms(1) by fastforce

lemma answered:
  assumes "reply pf mac (w_mem w) (f, st) \<noteq> None" "handler_ready b mac w"
  shows "\<exists>r w'. q_answer pf (PacketRxInterrupt b mac) f st w = Some (r, w') \<and> handler_ready b mac w' \<and> 0 \<le> r
    \<and> answer_of mac f (w_mem w') = None"
proof -
  have mac: "length mac = 6" using assms(2) by (simp add: handler_ready_def)
  obtain r w' where a: "q_answer pf (PacketRxInterrupt b mac) f st w = Some (r, w')" "handler_ready b mac w'"
    using prdk.answer_returns [OF assms(2), of pf f st] by blast
  have "0 \<le> r" using q_answer_reply [OF a(1) mac] assms(1) by (auto split: prod.splits)
  then show ?thesis using answered_is_silent [OF a(1) mac] a by (auto simp: PACKET_PROCESSED_def)
qed

section \<open>The two interrupts\<close>

text \<open>The engine writes the status of the first descriptors of the receive ring.\<close>

definition fill_rx :: "u32 list \<Rightarrow> eth \<Rightarrow> eth" where
  "fill_rx sts e = e\<lparr>kReceiveRing :=
     map (\<lambda>i. if i < length sts then (kReceiveRing e ! i)\<lparr>Status := sts ! i\<rparr> else kReceiveRing e ! i)
       [0..<length (kReceiveRing e)]\<rparr>"

text \<open>
  The first interrupt after its first frame, which is answered, and \<open>k\<close> more, which are not: their
  buffers have moved one descriptor down.
\<close>

definition moved_down :: "platform \<Rightarrow> u32 list \<Rightarrow> nat \<Rightarrow> eth \<Rightarrow> bool" where
  "moved_down pf sts k e \<longleftrightarrow> length (kReceiveRing e) = 8 \<and> length (kTransmitRing e) = 8 \<and> 0 \<le> kInPool e
     \<and> unat (kReceiveRd e) = (k + 1) mod 8 \<and> unat (kReceiveWr e) = k \<and> unat (kTransmitRd e) = 1
     \<and> (\<forall>j. 0 < j \<and> j < 8 \<longrightarrow> \<not> rx_own pf (kTransmitRing e ! j))
     \<and> (\<forall>j<8. Status (kReceiveRing e ! j) = (if j < k then RxOWN pf else sts ! j))
     \<and> (\<forall>j<8. 0 < j + k \<longrightarrow> Buffer1Addr (kReceiveRing e ! j) = pool_frames pf ! (if j < k then j + 1 else j))"

lemma length_pool_frames: "length (pool_frames pf) = 8"
  by (simp add: pool_frames_def)

lemma pool_frames_nth_nonzero: "platform_ok pf \<Longrightarrow> i < 8 \<Longrightarrow> pool_frames pf ! i \<noteq> 0"
  using pool_frame_nonzero [of pf i] by (simp add: pool_frames_def del: upt_rec_numeral)

lemma moved_down_step:
  assumes "moved_down pf sts k e" "k < 7" "platform_ok pf" "handler_ready b mac w"
    and "\<forall>j<8. sts ! j AND RxOWN pf = 0"
    and "reply pf mac (w_mem w) (pool_frames pf ! (k + 1), sts ! (k + 1)) = None"
  shows "\<exists>e'. rx_iter pf (PacketRxInterrupt b mac) (e, w) = Some (True, e', w) \<and> moved_down pf sts (k + 1) e'"
proof -
  define d where "d = kReceiveRing e ! unat (kReceiveRd e)"
  have d: "d = kReceiveRing e ! (k + 1)" "Buffer1Addr d = pool_frames pf ! (k + 1)" "Status d = sts ! (k + 1)"
    using assms(1,2) by (simp_all add: d_def moved_down_def)
  have "length mac = 6" using assms(4) by (simp add: handler_ready_def)
  then have ans: "q_answer pf (PacketRxInterrupt b mac) (Buffer1Addr d) (Status d) w = Some (PACKET_PROCESSED, w)"
    using unanswered [OF assms(6) _ assms(4)] by (simp add: d(2,3))
  have "\<not> rx_own pf d" "\<not> rx_own pf (kReceiveRing e ! unat (kReceiveWr e))" "Buffer1Addr d \<noteq> 0" "0 \<le> kInPool e"
    using assms(1,2,5) pool_frames_nth_nonzero [OF assms(3), of "k + 1"] by (simp_all add: rx_own_def d moved_down_def)
  note rx_iter_drop [OF d_def this(1,3) ans this(4,2)]
  moreover have "unat (PACKET_RING_INC (kReceiveRd e)) = (k + 1 + 1) mod 8" "unat (PACKET_RING_INC (kReceiveWr e)) = k + 1"
    using assms(1,2) by (simp_all add: RING_INC moved_down_def)
  ultimately show ?thesis
    using assms(1,2) d(2) by (auto simp: moved_down_def nth_list_update rearm_def)
qed

text \<open>The second interrupt after \<open>k\<close> frames, all of which are answered.\<close>

definition moved_out :: "platform \<Rightarrow> u32 \<Rightarrow> u32 list \<Rightarrow> nat \<Rightarrow> eth \<Rightarrow> bool" where
  "moved_out pf st sts k e \<longleftrightarrow> length (kReceiveRing e) = 8 \<and> length (kTransmitRing e) = 8 \<and> 0 \<le> kInPool e
     \<and> unat (kReceiveRd e) = k \<and> unat (kReceiveWr e) = 7 \<and> unat (kTransmitRd e) = (k + 1) mod 8
     \<and> (\<forall>j. k < j \<and> j < 8 \<longrightarrow> \<not> rx_own pf (kTransmitRing e ! j))
     \<and> (0 < k \<longrightarrow> rx_own pf (kTransmitRing e ! k) \<and> Buffer1Addr (kTransmitRing e ! k) = pool_frames pf ! k)
     \<and> (\<forall>j<7. Status (kReceiveRing e ! j) = sts ! j
          \<and> Buffer1Addr (kReceiveRing e ! j) = (if j < k then 0 else pool_frames pf ! (j + 1)))
     \<and> Status (kReceiveRing e ! 7) = st \<and> Buffer1Addr (kReceiveRing e ! 7) = pool_frames pf ! 7"

lemma moved_out_step:
  assumes "moved_out pf st sts k e" "k < 7" "platform_ok pf" "handler_ready b mac w"
    and "\<forall>j<7. sts ! j AND RxOWN pf = 0"
    and "reply pf mac (w_mem w) (pool_frames pf ! (k + 1), sts ! k) \<noteq> None"
  shows "\<exists>e' w'. rx_iter pf (PacketRxInterrupt b mac) (e, w) = Some (True, e', w') \<and> moved_out pf st sts (k + 1) e'
    \<and> handler_ready b mac w' \<and> answer_of mac (pool_frames pf ! (k + 1)) (w_mem w') = None
    \<and> (\<forall>f\<in>set (pool_frames pf). f \<noteq> pool_frames pf ! (k + 1) \<longrightarrow> mem_bytes (w_mem w') f 1518 = mem_bytes (w_mem w) f 1518)"
proof -
  define d where "d = kReceiveRing e ! unat (kReceiveRd e)"
  define t where "t = kTransmitRing e ! unat (kTransmitRd e)"
  have d: "d = kReceiveRing e ! k" "Buffer1Addr d = pool_frames pf ! (k + 1)" "Status d = sts ! k"
    using assms(1,2) by (simp_all add: d_def moved_out_def)
  have t: "t = kTransmitRing e ! (k + 1)" using assms(1,2) by (simp add: t_def moved_out_def)
  have mac: "length mac = 6" using assms(4) by (simp add: handler_ready_def)
  obtain r w' where a: "q_answer pf (PacketRxInterrupt b mac) (Buffer1Addr d) (Status d) w = Some (r, w')"
      "handler_ready b mac w'" "0 \<le> r" "answer_of mac (pool_frames pf ! (k + 1)) (w_mem w') = None"
    using answered [OF assms(6,4)] by (auto simp: d(2,3))
  have "\<not> rx_own pf d" "Buffer1Addr d \<noteq> 0" "\<not> rx_own pf t"
    using assms(1,2,5) pool_frames_nth_nonzero [OF assms(3), of "k + 1"] t by (simp_all add: rx_own_def d moved_out_def)
  from rx_iter_answer [OF d_def this(1,2) a(1,3) assms(3) t_def this(3)]
  obtain log where "rx_iter pf (PacketRxInterrupt b mac) (e, w) = Some (True, e\<lparr>kReceiveRd := PACKET_RING_INC (kReceiveRd e),
      kReceiveRing := (kReceiveRing e)[unat (kReceiveRd e) := d\<lparr>Buffer1Addr := 0\<rparr>],
      kTransmitRd := PACKET_RING_INC (kTransmitRd e),
      kTransmitRing := (kTransmitRing e)[unat (kTransmitRd e) := enqueued pf t (Buffer1Addr d) r],
      eth_log := log\<rparr>, w')" ..
  moreover have "unat (PACKET_RING_INC (kReceiveRd e)) = k + 1" "unat (PACKET_RING_INC (kTransmitRd e)) = (k + 1 + 1) mod 8"
    using assms(1,2) by (simp_all add: RING_INC moved_out_def)
  moreover have "pool_frames pf ! (k + 1) \<in> set (pool_frames pf)" using assms(2) by (simp add: length_pool_frames)
  then have "mem_bytes (w_mem w') f 1518 = mem_bytes (w_mem w) f 1518"
    if "f \<in> set (pool_frames pf)" "f \<noteq> pool_frames pf ! (k + 1)" for f
    using q_answer_kept [OF a(1) mac assms(3)] that by (simp add: d(2))
  moreover have "rx_own pf (enqueued pf t (Buffer1Addr d) r)" by (rule rx_own_enqueued [OF assms(3)])
  moreover have "Buffer1Addr (enqueued pf t (Buffer1Addr d) r) = pool_frames pf ! (k + 1)"
    by (simp add: enqueued_def d(2))
  ultimately show ?thesis
    using assms(1,2) a(2,4) d(3) by (auto simp: moved_out_def nth_list_update)
qed

section \<open>A buffer in both rings\<close>

lemma rx_loop_step: "rx_iter pf h (e, w) = Some (True, e', w') \<Longrightarrow> rx_loop pf h (e, w) = rx_loop pf h (e', w')"
  by (subst rx_loop.simps) simp

lemma rx_loop_stop: "rx_iter pf h (e, w) = Some (False, e', w') \<Longrightarrow> rx_loop pf h (e, w) = Some (e', w')"
  by (subst rx_loop.simps) simp

lemma moved_down_rest:
  assumes "moved_down pf sts k e" "k \<le> 7" "platform_ok pf" "handler_ready b mac w"
    and "\<forall>j<8. sts ! j AND RxOWN pf = 0"
    and "\<forall>j. k < j \<and> j < 8 \<longrightarrow> reply pf mac (w_mem w) (pool_frames pf ! j, sts ! j) = None"
  shows "\<exists>e'. rx_loop pf (PacketRxInterrupt b mac) (e, w) = Some (e', w) \<and> moved_down pf sts 7 e'"
  using assms(1,2,6)
proof (induction "7 - k" arbitrary: k e)
  case 0
  then have "k = 7" by simp
  then have e: "moved_down pf sts 7 e" using 0 by simp
  then have "Status (kReceiveRing e ! 0) = RxOWN pf" "unat (kReceiveRd e) = 0" by (simp_all add: moved_down_def)
  then have "rx_iter pf (PacketRxInterrupt b mac) (e, w) = Some (False, e, w)"
    using assms(3) by (simp add: rx_iter_def Let_def platform_ok_def)
  from rx_loop_stop [OF this] e show ?case by blast
next
  case (Suc n)
  have "k < 7" "reply pf mac (w_mem w) (pool_frames pf ! (k + 1), sts ! (k + 1)) = None"
    using Suc.hyps(2) Suc.prems(3) by simp_all
  from moved_down_step [OF Suc.prems(1) this(1) assms(3-5) this(2)]
  obtain e1 where 1: "rx_iter pf (PacketRxInterrupt b mac) (e, w) = Some (True, e1, w)" "moved_down pf sts (k + 1) e1"
    by blast
  show ?case
    unfolding rx_loop_step [OF 1(1)] using Suc.hyps(2) Suc.prems(2,3) by (intro Suc.hyps(1) [OF _ 1(2)]) auto
qed

lemma moved_out_rest:
  assumes "moved_out pf st sts k e" "k \<le> 7" "platform_ok pf" "handler_ready b mac w" "st AND RxOWN pf = 0"
    and "\<forall>j<7. sts ! j AND RxOWN pf = 0"
    and "\<forall>j. k \<le> j \<and> j < 7 \<longrightarrow> reply pf mac (w_mem w) (pool_frames pf ! (j + 1), sts ! j) \<noteq> None"
    and "k = 7 \<longrightarrow> answer_of mac (pool_frames pf ! 7) (w_mem w) = None"
  shows "\<exists>e' w'. rx_loop pf (PacketRxInterrupt b mac) (e, w) = Some (e', w')
    \<and> rx_own pf (kReceiveRing e' ! 7) \<and> Buffer1Addr (kReceiveRing e' ! 7) = pool_frames pf ! 7
    \<and> rx_own pf (kTransmitRing e' ! 7) \<and> Buffer1Addr (kTransmitRing e' ! 7) = pool_frames pf ! 7"
  using assms(1,2,4,7,8)
proof (induction "7 - k" arbitrary: k e w)
  case 0
  then have k: "k = 7" by simp
  define d where "d = kReceiveRing e ! unat (kReceiveRd e)"
  have d: "Buffer1Addr d = pool_frames pf ! 7" "Status d = st" and i: "unat (kReceiveRd e) = 7" "unat (kReceiveWr e) = 7"
    using 0 k by (simp_all add: d_def moved_out_def)
  have "length mac = 6" using 0 by (simp add: handler_ready_def)
  moreover have "reply pf mac (w_mem w) (pool_frames pf ! 7, st) = None" using 0 k by (simp add: reply_def)
  ultimately have a: "q_answer pf (PacketRxInterrupt b mac) (Buffer1Addr d) (Status d) w = Some (PACKET_PROCESSED, w)"
    using unanswered 0 d by simp
  have own: "\<not> rx_own pf d" "\<not> rx_own pf (kReceiveRing e ! unat (kReceiveWr e))" "Buffer1Addr d \<noteq> 0" "0 \<le> kInPool e"
    using 0 k assms(5) d i pool_frames_nth_nonzero [OF assms(3), of 7] by (simp_all add: rx_own_def moved_out_def)
  define e1 where "e1 = e\<lparr>kReceiveRd := PACKET_RING_INC (kReceiveRd e), kReceiveWr := PACKET_RING_INC (kReceiveWr e),
    kReceiveRing := (kReceiveRing e)[unat (kReceiveWr e) := rearm pf (kReceiveRing e ! unat (kReceiveWr e)) (Buffer1Addr d)]\<rparr>"
  have 1: "rx_iter pf (PacketRxInterrupt b mac) (e, w) = Some (True, e1, w)"
    unfolding e1_def by (rule rx_iter_drop [OF d_def own(1,3) a own(4,2)])
  have "unat (kReceiveRd e1) = 0" using i by (simp add: e1_def RING_INC)
  then have "rx_iter pf (PacketRxInterrupt b mac) (e1, w) = Some (False, e1, w)"
    using 0 k assms(6) i by (simp add: rx_iter_def Let_def e1_def moved_out_def)
  then have "rx_loop pf (PacketRxInterrupt b mac) (e, w) = Some (e1, w)"
    using rx_loop_step [OF 1] rx_loop_stop by metis
  moreover have "rx_own pf (kReceiveRing e1 ! 7)" "Buffer1Addr (kReceiveRing e1 ! 7) = pool_frames pf ! 7"
    "kTransmitRing e1 = kTransmitRing e"
    using 0 k i d rx_own_rearm [OF assms(3)] by (simp_all add: e1_def moved_out_def)
  ultimately show ?case using 0 k by (simp add: moved_out_def)
next
  case (Suc n)
  have k: "k < 7" "k + 1 \<le> 7" "n = 7 - (k + 1)" using Suc.hyps(2) by simp_all
  have "reply pf mac (w_mem w) (pool_frames pf ! (k + 1), sts ! k) \<noteq> None" using Suc.prems(4) k(1) by simp
  from moved_out_step [OF Suc.prems(1) k(1) assms(3) Suc.prems(3) assms(6) this]
  obtain e1 w1 where 1: "rx_iter pf (PacketRxInterrupt b mac) (e, w) = Some (True, e1, w1)" "moved_out pf st sts (k + 1) e1"
      "handler_ready b mac w1" "answer_of mac (pool_frames pf ! (k + 1)) (w_mem w1) = None"
      "\<forall>f\<in>set (pool_frames pf). f \<noteq> pool_frames pf ! (k + 1) \<longrightarrow> mem_bytes (w_mem w1) f 1518 = mem_bytes (w_mem w) f 1518"
    by blast
  have "reply pf mac (w_mem w1) (pool_frames pf ! (j + 1), sts ! j) \<noteq> None" if "k + 1 \<le> j" "j < 7" for j
  proof -
    have "pool_frames pf ! (j + 1) \<noteq> pool_frames pf ! (k + 1)"
      using pool_frames_distinct [OF assms(3)] that k by (simp add: nth_eq_iff_index_eq length_pool_frames)
    then have "mem_bytes (w_mem w1) (pool_frames pf ! (j + 1)) 1518 = mem_bytes (w_mem w) (pool_frames pf ! (j + 1)) 1518"
      using 1(5) that by (simp add: length_pool_frames)
    from answer_of_cong [OF this]
    have "reply pf mac (w_mem w1) (pool_frames pf ! (j + 1), sts ! j) = reply pf mac (w_mem w) (pool_frames pf ! (j + 1), sts ! j)"
      by (simp only: reply_def case_prod_conv)
    then show ?thesis using Suc.prems(4) that by simp
  qed
  moreover have "answer_of mac (pool_frames pf ! 7) (w_mem w1) = None" if "k + 1 = 7" using 1(4) by (simp only: that)
  ultimately show ?case
    unfolding rx_loop_step [OF 1(1)] by (intro Suc.hyps(1) [OF k(3) 1(2) k(2) 1(3)]) (simp, blast)
qed

lemma fill_rx_nth:
  assumes "i < length (kReceiveRing e)"
  shows "Status (kReceiveRing (fill_rx sts e) ! i) = (if i < length sts then sts ! i else Status (kReceiveRing e ! i))"
    "Buffer1Addr (kReceiveRing (fill_rx sts e) ! i) = Buffer1Addr (kReceiveRing e ! i)"
  using assms by (simp_all add: fill_rx_def)

lemma fill_rx_other [simp]:
  "length (kReceiveRing (fill_rx sts e)) = length (kReceiveRing e)" "kTransmitRing (fill_rx sts e) = kTransmitRing e"
  "kReceiveRd (fill_rx sts e) = kReceiveRd e" "kReceiveWr (fill_rx sts e) = kReceiveWr e"
  "kTransmitRd (fill_rx sts e) = kTransmitRd e" "kInPool (fill_rx sts e) = kInPool e"
  by (simp_all add: fill_rx_def)

lemma first_answer:
  assumes "platform_ok pf" "handler_ready b mac w" "length sts = 8" "\<forall>j<8. sts ! j AND RxOWN pf = 0"
    and "reply pf mac (w_mem w) (pool_frames pf ! 0, sts ! 0) \<noteq> None"
  shows "\<exists>e' w'. rx_iter pf (PacketRxInterrupt b mac) (fill_rx sts (EthernetInitializeDma pf e), w) = Some (True, e', w')
    \<and> moved_down pf sts 0 e' \<and> handler_ready b mac w'
    \<and> (\<forall>f\<in>set (pool_frames pf). f \<noteq> pool_frames pf ! 0 \<longrightarrow> mem_bytes (w_mem w') f 1518 = mem_bytes (w_mem w) f 1518)"
proof -
  let ?e = "fill_rx sts (EthernetInitializeDma pf e)"
  note rx = InitializeDma_rx_ring [OF assms(1), of e] and tx = InitializeDma_tx_ring [OF assms(1), of e]
  have addr: "Buffer1Addr (kReceiveRing ?e ! j) = pool_frames pf ! j" "Status (kReceiveRing ?e ! j) = sts ! j" if "j < 8" for j
  proof -
    have "Buffer1Addr (kReceiveRing (EthernetInitializeDma pf e) ! j) = map Buffer1Addr (kReceiveRing (EthernetInitializeDma pf e)) ! j"
      using that rx(1) by simp
    then show "Buffer1Addr (kReceiveRing ?e ! j) = pool_frames pf ! j" "Status (kReceiveRing ?e ! j) = sts ! j"
      using that rx(1) assms(3) by (simp_all add: fill_rx_nth rx(2))
  qed
  have free: "\<not> rx_own pf (kTransmitRing ?e ! j)" if "j < 8" for j using tx that by simp
  define d where "d = kReceiveRing ?e ! unat (kReceiveRd ?e)"
  define t where "t = kTransmitRing ?e ! unat (kTransmitRd ?e)"
  have d: "Buffer1Addr d = pool_frames pf ! 0" "Status d = sts ! 0"
    using addr [of 0] by (simp_all add: d_def InitializeDma_indices)
  have mac: "length mac = 6" using assms(2) by (simp add: handler_ready_def)
  obtain r w' where a: "q_answer pf (PacketRxInterrupt b mac) (Buffer1Addr d) (Status d) w = Some (r, w')"
      "handler_ready b mac w'" "0 \<le> r"
    using answered [OF assms(5,2)] by (auto simp: d)
  have "\<not> rx_own pf d" "Buffer1Addr d \<noteq> 0" "\<not> rx_own pf t"
    using assms(4) d pool_frames_nth_nonzero [OF assms(1), of 0] free [of 0]
    by (simp_all add: rx_own_def t_def InitializeDma_indices)
  from rx_iter_answer [OF d_def this(1,2) a(1,3) assms(1) t_def this(3)]
  obtain log where 1: "rx_iter pf (PacketRxInterrupt b mac) (?e, w) = Some (True, ?e\<lparr>kReceiveRd := PACKET_RING_INC (kReceiveRd ?e),
      kReceiveRing := (kReceiveRing ?e)[unat (kReceiveRd ?e) := d\<lparr>Buffer1Addr := 0\<rparr>],
      kTransmitRd := PACKET_RING_INC (kTransmitRd ?e),
      kTransmitRing := (kTransmitRing ?e)[unat (kTransmitRd ?e) := enqueued pf t (Buffer1Addr d) r],
      eth_log := log\<rparr>, w')" (is "_ = Some (True, ?e1, w')") ..
  have "moved_down pf sts 0 ?e1"
    using rx(1) tx(1) addr free d by (simp add: moved_down_def InitializeDma_indices RING_INC nth_list_update)
  moreover have "pool_frames pf ! 0 \<in> set (pool_frames pf)" by (simp add: length_pool_frames)
  then have "mem_bytes (w_mem w') f 1518 = mem_bytes (w_mem w) f 1518"
    if "f \<in> set (pool_frames pf)" "f \<noteq> pool_frames pf ! 0" for f
    using q_answer_kept [OF a(1) mac assms(1)] that by (simp add: d(1))
  ultimately show ?thesis using 1 a(2) by blast
qed

text \<open>
  C37. The comment in \<open>EthernetRXInterrupt\<close> is right to worry: with an engine that fills every
  descriptor it owns, the loop runs into a descriptor with a stale address.  If of eight frames,
  received in all eight descriptors, only the first is answered, the last descriptor stays with the
  CPU and keeps the address of a buffer that is armed again in another one; if the engine then
  fills the seven descriptors that it owns with frames that are answered, the buffer is, when the
  interrupt returns, armed for reception and queued for sending at once.
\<close>

theorem stale_descriptor_without_habit:
  assumes "platform_ok pf" "handler_ready b mac w" "length sts = 8" "length sts' = 7"
    and "\<forall>st\<in>set sts \<union> set sts'. st AND RxOWN pf = 0"
    and "reply pf mac (w_mem w) (pool_frames pf ! 0, sts ! 0) \<noteq> None"
    and "\<forall>j. 0 < j \<and> j < 8 \<longrightarrow> reply pf mac (w_mem w) (pool_frames pf ! j, sts ! j) = None"
    and "\<forall>j<7. reply pf mac m (pool_frames pf ! (j + 1), sts' ! j) \<noteq> None"
  shows "\<exists>e1 w1 e2 w2. EthernetRXInterrupt pf b mac (fill_rx sts (EthernetInitializeDma pf e), w) = Some (e1, w1)
    \<and> (\<forall>j<7. rx_own pf (kReceiveRing e1 ! j) \<and> Buffer1Addr (kReceiveRing e1 ! j) = pool_frames pf ! (j + 1))
    \<and> \<not> rx_own pf (kReceiveRing e1 ! 7) \<and> Buffer1Addr (kReceiveRing e1 ! 7) = pool_frames pf ! 7
    \<and> EthernetRXInterrupt pf b mac (fill_rx sts' e1, w1\<lparr>w_mem := m\<rparr>) = Some (e2, w2)
    \<and> rx_own pf (kReceiveRing e2 ! 7) \<and> Buffer1Addr (kReceiveRing e2 ! 7) = pool_frames pf ! 7
    \<and> rx_own pf (kTransmitRing e2 ! 7) \<and> Buffer1Addr (kTransmitRing e2 ! 7) = pool_frames pf ! 7"
proof -
  have own: "\<forall>j<8. sts ! j AND RxOWN pf = 0" "\<forall>j<7. sts' ! j AND RxOWN pf = 0" using assms(3-5) by auto
  obtain e0 w1 where 0: "rx_iter pf (PacketRxInterrupt b mac) (fill_rx sts (EthernetInitializeDma pf e), w) = Some (True, e0, w1)"
      "moved_down pf sts 0 e0" "handler_ready b mac w1"
      "\<forall>f\<in>set (pool_frames pf). f \<noteq> pool_frames pf ! 0 \<longrightarrow> mem_bytes (w_mem w1) f 1518 = mem_bytes (w_mem w) f 1518"
    using first_answer [OF assms(1-3) own(1) assms(6)] by blast
  have "reply pf mac (w_mem w1) (pool_frames pf ! j, sts ! j) = None" if "0 < j" "j < 8" for j
  proof -
    have "pool_frames pf ! j \<noteq> pool_frames pf ! 0"
      using pool_frames_distinct [OF assms(1)] that by (simp add: nth_eq_iff_index_eq length_pool_frames)
    then have "mem_bytes (w_mem w1) (pool_frames pf ! j) 1518 = mem_bytes (w_mem w) (pool_frames pf ! j) 1518"
      using 0(4) that by (simp add: length_pool_frames)
    from answer_of_cong [OF this]
    have "reply pf mac (w_mem w1) (pool_frames pf ! j, sts ! j) = reply pf mac (w_mem w) (pool_frames pf ! j, sts ! j)"
      by (simp only: reply_def case_prod_conv)
    then show ?thesis using assms(7) that by simp
  qed
  then obtain e1 where 1: "rx_loop pf (PacketRxInterrupt b mac) (e0, w1) = Some (e1, w1)" "moved_down pf sts 7 e1"
    using moved_down_rest [OF 0(2) _ assms(1) 0(3) own(1)] by auto
  have e1: "rx_own pf (kReceiveRing e1 ! j) \<and> Buffer1Addr (kReceiveRing e1 ! j) = pool_frames pf ! (j + 1)"
    if "j < 7" for j
    using 1(2) that assms(1) by (simp add: moved_down_def rx_own_def platform_ok_def)
  have stale: "\<not> rx_own pf (kReceiveRing e1 ! 7)" "Buffer1Addr (kReceiveRing e1 ! 7) = pool_frames pf ! 7"
    "Status (kReceiveRing e1 ! 7) = sts ! 7"
    using 1(2) own(1) by (simp_all add: moved_down_def rx_own_def)
  have out: "moved_out pf (sts ! 7) sts' 0 (fill_rx sts' e1)"
    using 1(2) assms(4) by (simp add: moved_out_def moved_down_def fill_rx_nth)
  have ready: "handler_ready b mac (w1\<lparr>w_mem := m\<rparr>)" using 0(3) by (simp add: handler_ready_def)
  have "sts ! 7 AND RxOWN pf = 0"
    "\<forall>j. 0 \<le> j \<and> j < 7 \<longrightarrow> reply pf mac (w_mem (w1\<lparr>w_mem := m\<rparr>)) (pool_frames pf ! (j + 1), sts' ! j) \<noteq> None"
    using own(1) assms(8) by auto
  from moved_out_rest [OF out _ assms(1) ready this(1) own(2) this(2)]
  have "\<exists>e2 w2. rx_loop pf (PacketRxInterrupt b mac) (fill_rx sts' e1, w1\<lparr>w_mem := m\<rparr>) = Some (e2, w2)
    \<and> rx_own pf (kReceiveRing e2 ! 7) \<and> Buffer1Addr (kReceiveRing e2 ! 7) = pool_frames pf ! 7
    \<and> rx_own pf (kTransmitRing e2 ! 7) \<and> Buffer1Addr (kTransmitRing e2 ! 7) = pool_frames pf ! 7"
    by simp
  moreover have "rx_loop pf (PacketRxInterrupt b mac) (fill_rx sts (EthernetInitializeDma pf e), w) = Some (e1, w1)"
    using rx_loop_step [OF 0(1)] 1(1) by simp
  ultimately show ?thesis unfolding EthernetRXInterrupt_def using e1 stale by blast
qed

text \<open>An ARP request for the board in every buffer of the pool, and how the engine reports it.\<close>

definition requests_everywhere :: mem where
  "requests_everywhere a = (let k = (unat a - 0x20001002) mod 1520 in if k < 42 then sample_arp ! k else 0)"

lemma requested:
  assumes "j < 8"
  shows "reply sample_platform mac requests_everywhere (pool_frames sample_platform ! j, 0x003C0300) \<noteq> None"
proof -
  have f: "pool_frames sample_platform ! j = pkt_Frame (pool_buffer sample_platform j)"
    using assms by (simp add: pool_frames_def del: upt_rec_numeral)
  have "requests_everywhere (pool_frames sample_platform ! j + of_nat k) = sample_arp ! k" if "k < 42" for k
  proof -
    have "unat (pool_frames sample_platform ! j + of_nat k) = 0x20001002 + 1520 * j + k"
    proof -
      have "unat (of_nat k :: u32) = k" using that by (intro unat_of_nat_32) simp
      then show ?thesis
        unfolding f using pool_frame [OF sample_platform_ok, of j] assms that
        by (simp add: unat_word_ariths sample_platform_def)
    qed
    then show ?thesis using that by (simp add: requests_everywhere_def)
  qed
  then have "mem_bytes requests_everywhere (pool_frames sample_platform ! j) 42 = sample_arp"
    by (intro nth_equalityI) (simp_all add: mem_bytes_nth sample_arp_def)
  note part = mem_bytes_part [OF this]
  have "arp_request (pool_frames sample_platform ! j) requests_everywhere"
    using part [of 12 10] part [of 38 4]
    by (simp add: arp_request_def sample_arp_def)
  then show ?thesis by (simp add: reply_def good_frame_def answer_of_def sample_platform_def)
qed

theorem stale_descriptor_without_habit_witness:
  "\<exists>e1 w1 e2 w2. EthernetRXInterrupt sample_platform ready_board [2, 0, 0, 0, 0, 1]
      (fill_rx (0x003C0300 # replicate 7 0x003C8300) (EthernetInitializeDma sample_platform blank_eth),
       \<lparr>w_mem = requests_everywhere, w_prng = sample_prng, w_hw = \<lparr>clk = 0, ahb_rng = True, rng_en = True\<rparr>\<rparr>)
      = Some (e1, w1)
    \<and> EthernetRXInterrupt sample_platform ready_board [2, 0, 0, 0, 0, 1]
      (fill_rx (replicate 7 0x003C0300) e1, w1\<lparr>w_mem := requests_everywhere\<rparr>) = Some (e2, w2)
    \<and> rx_own sample_platform (kReceiveRing e2 ! 7) \<and> rx_own sample_platform (kTransmitRing e2 ! 7)"
proof -
  let ?w = "\<lparr>w_mem = requests_everywhere, w_prng = sample_prng, w_hw = \<lparr>clk = 0, ahb_rng = True, rng_en = True\<rparr>\<rparr>"
  let ?sts = "0x003C0300 # replicate 7 0x003C8300 :: u32 list" and ?sts' = "replicate 7 0x003C0300 :: u32 list"
  have ready: "handler_ready ready_board [2, 0, 0, 0, 0, 1] ?w"
    using ready_board_live sample_prng_inv by (simp add: handler_ready_def)
  have own: "\<forall>st\<in>set ?sts \<union> set ?sts'. st AND RxOWN sample_platform = 0" by (simp add: sample_platform_def)
  have len: "length ?sts = 8" "length ?sts' = 7" by simp_all
  have first: "reply sample_platform [2, 0, 0, 0, 0, 1] (w_mem ?w) (pool_frames sample_platform ! 0, ?sts ! 0) \<noteq> None"
    using requested [of 0 "[2, 0, 0, 0, 0, 1]"] by simp
  have "reply sample_platform [2, 0, 0, 0, 0, 1] m (f, 0x003C8300) = None" for m f
    by (simp add: reply_def good_frame_def sample_platform_def)
  then have rest: "\<forall>j. 0 < j \<and> j < 8 \<longrightarrow>
      reply sample_platform [2, 0, 0, 0, 0, 1] (w_mem ?w) (pool_frames sample_platform ! j, ?sts ! j) = None"
    by (auto simp: nth_Cons')
  have second: "\<forall>j<7. reply sample_platform [2, 0, 0, 0, 0, 1] requests_everywhere
      (pool_frames sample_platform ! (j + 1), ?sts' ! j) \<noteq> None"
  proof (intro allI impI)
    fix j :: nat assume "j < 7"
    then show "reply sample_platform [2, 0, 0, 0, 0, 1] requests_everywhere
        (pool_frames sample_platform ! (j + 1), ?sts' ! j) \<noteq> None"
      using requested [of "j + 1" "[2, 0, 0, 0, 0, 1]"] by simp
  qed
  show ?thesis
    using stale_descriptor_without_habit [OF sample_platform_ok ready len own first rest second, of blank_eth] by blast
qed

end
