(* ===== verification/Pcg_Unbiased.thy ===== *)
theory Pcg_Unbiased
  imports Prng
begin

text \<open>
  Bounded draws are unbiased: calling \<open>boundedrand_r\<close> of \<open>src/pcg_variants.h\<close> over a whole
  period of its generator returns every number below the bound equally often.  The calls skip
  the words below the threshold; the words that they accept are the same number for every
  result, and over a period the generator outputs every word equally often.
\<close>

section \<open>The calls and the words they accept\<close>

text \<open>
  The words that the loop accepts, in the order in which the generator draws them, are what
  the calls return, one after the other.
\<close>

lemma draws_accepted:
  fixes random :: "'s \<Rightarrow> 'b::len word \<times> 's" and bound :: "'b word" and s :: 's
  assumes b: "bound \<noteq> 0" and "i \<le> P"
  defines "ok \<equiv> \<lambda>i. (- bound) mod bound \<le> nth_draw random i s"
  shows "\<exists>s'. draws (boundedrand_loop random bound) (length (filter ok [i..<P])) (((\<lambda>s. snd (random s)) ^^ i) s)
    = Some (map (\<lambda>i. nth_draw random i s mod bound) (filter ok [i..<P]), s')"
  using assms(2)
proof (induction "P - i" arbitrary: i)
  case 0
  then show ?case by simp
next
  case (Suc n)
  let ?s = "((\<lambda>s. snd (random s)) ^^ i) s"
  have i: "[i..<P] = i # [Suc i..<P]" "n = P - Suc i" "Suc i \<le> P" using Suc by (simp_all add: upt_conv_Cons)
  obtain s' where IH: "draws (boundedrand_loop random bound) (length (filter ok [Suc i..<P])) (snd (random ?s))
      = Some (map (\<lambda>i. nth_draw random i s mod bound) (filter ok [Suc i..<P]), s')"
    using Suc(1) [OF i(2,3)] by auto
  have r: "nth_draw random i s = fst (random ?s)" by (simp add: nth_draw_def)
  show ?case
  proof (cases "ok i")
    case True
    then have "boundedrand_loop random bound ?s = Some (nth_draw random i s mod bound, snd (random ?s))"
      using b by (simp add: boundedrand_loop_def draw_until.simps [of random _ ?s] ok_def r case_prod_beta')
    with IH True show ?thesis by (simp add: i(1))
  next
    case False
    then have skip: "boundedrand_loop random bound ?s = boundedrand_loop random bound (snd (random ?s))"
      using b by (simp add: boundedrand_loop_def draw_until.simps [of random _ ?s] ok_def r)
    show ?thesis using IH False by (cases "filter ok [Suc i..<P]") (simp_all add: i(1) skip)
  qed
qed

lemma accepted_words:
  fixes bound :: "'b::len word"
  assumes "k < bound"
  shows "card {r. (- bound) mod bound \<le> r \<and> r mod bound = k} = 2 ^ LENGTH('b) div unat bound"
proof -
  have b: "bound \<noteq> 0" using assms by auto
  have "(- bound) mod bound \<le> r \<and> r mod bound = k \<longleftrightarrow> 2 ^ LENGTH('b) mod unat bound \<le> unat r \<and> unat r mod unat bound = unat k" for r
  proof -
    have "(- bound) mod bound \<le> r \<longleftrightarrow> 2 ^ LENGTH('b) mod unat bound \<le> unat r"
      by (simp only: word_le_nat_alt threshold_eq [OF b])
    then show ?thesis by (simp only: word_unat_eq_iff unat_mod)
  qed
  then have "unat ` {r. (- bound) mod bound \<le> r \<and> r mod bound = k}
      = {n. 2 ^ LENGTH('b) mod unat bound \<le> n \<and> n < 2 ^ LENGTH('b) \<and> n mod unat bound = unat k}"
    by (auto simp: image_iff dest!: ex_unat [where 'a = 'b])
  moreover have "card (unat ` R) = card R" for R :: "'b word set"
    by (rule card_image, rule inj_onI) (simp only: word_unat_eq_iff)
  ultimately show ?thesis
    using card_residue_class [of "unat k" "unat bound" "2 ^ LENGTH('b)"] assms by (metis word_less_nat_alt)
qed

lemma count_list_map_filter:
  "count_list (map f (filter p [0..<n])) k = card {i. i < n \<and> p i \<and> f i = k}"
proof -
  have "count_list (map f (filter p [0..<n])) k = length (filter (\<lambda>i. p i \<and> f i = k) [0..<n])"
    by (induction n) auto
  also have "\<dots> = card {i. i < n \<and> p i \<and> f i = k}"
    by (simp add: distinct_length_filter) (rule arg_cong [where f = card], auto)
  finally show ?thesis .
qed

text \<open>
  Over a run of draws in which every word occurs equally often, every bounded result does.
\<close>

lemma bounded_draws_uniform:
  fixes random :: "'s \<Rightarrow> 'b::len word \<times> 's" and bound :: "'b word"
  assumes b: "bound \<noteq> 0" and m: "\<And>v. card {i. i < P \<and> nth_draw random i s = v} = m"
  defines "c \<equiv> m * (2 ^ LENGTH('b) div unat bound)"
  shows "\<exists>rs s'. draws (boundedrand_loop random bound) (c * unat bound) s = Some (rs, s')
    \<and> (\<forall>k<bound. count_list rs k = c)"
proof -
  let ?ok = "\<lambda>i. (- bound) mod bound \<le> nth_draw random i s"
  let ?rs = "map (\<lambda>i. nth_draw random i s mod bound) (filter ?ok [0..<P])"
  have count: "count_list ?rs k = c" if k: "k < bound" for k
  proof -
    let ?V = "{r. (- bound) mod bound \<le> r \<and> r mod bound = k}"
    have "{i. i < P \<and> ?ok i \<and> nth_draw random i s mod bound = k} = (\<Union>v\<in>?V. {i. i < P \<and> nth_draw random i s = v})"
      by auto
    moreover have "card (\<Union>v\<in>?V. {i. i < P \<and> nth_draw random i s = v}) = (\<Sum>v\<in>?V. card {i. i < P \<and> nth_draw random i s = v})"
      by (rule card_UN_disjoint) auto
    ultimately show ?thesis
      by (simp add: count_list_map_filter m accepted_words [OF k] c_def)
  qed
  have small: "set ?rs \<subseteq> {..<bound}" using b by (auto simp: word_less_nat_alt unat_mod unat_gt_0)
  have "card {..<bound} = unat bound"
  proof -
    have "\<exists>x. x < bound \<and> unat x = n" if "n < unat bound" for n
      using ex_unat [where 'a = 'b, OF order.strict_trans [OF that unsigned_less]] that by (auto simp: word_less_nat_alt)
    then have "unat ` {..<bound} = {..<unat bound}" by (fastforce simp: image_iff word_less_nat_alt)
    moreover have "card (unat ` {..<bound}) = card {..<bound}"
      by (rule card_image, rule inj_onI) (simp only: word_unat_eq_iff)
    ultimately show ?thesis by simp
  qed
  have "length ?rs = (\<Sum>k\<in>set ?rs. count_list ?rs k)" by (rule sum_count_set [symmetric]) auto
  also have "\<dots> = (\<Sum>k\<in>{..<bound}. count_list ?rs k)"
    by (rule sum.mono_neutral_left) (use small in \<open>auto simp: count_list_0_iff simp del: set_map\<close>)
  also have "\<dots> = c * unat bound" using count \<open>card {..<bound} = unat bound\<close> by simp
  finally have "length (filter ?ok [0..<P]) = c * unat bound" by simp
  with draws_accepted [OF b, of 0 P random s] count show ?thesis by auto
qed

section \<open>Equidistribution of XSH RR\<close>

text \<open>
  The xorshift keeps the five top bits, which are the amount of the rotation; for each amount the
  word before the rotation lies in the bits below them, so every output has \<open>2 ^ 32\<close> preimages.
\<close>

lemma card_high_bits:
  fixes c :: u64
  assumes "unat c < 2 ^ 37"
  shows "card {x :: u64. drop_bit 27 x = c} = 2 ^ 27"
proof -
  have c: "\<not> bit c n" if "37 \<le> n" for n
  proof -
    have "take_bit 37 c = c" using assms by (simp add: word_unat_eq_iff unsigned_take_bit_eq take_bit_nat_eq_self)
    with that show ?thesis by (metis bit_take_bit_iff not_le)
  qed
  have "{x. drop_bit 27 x = c} = {x. \<forall>i\<in>{27..<64}. bit x i = bit (push_bit 27 c) i}"
  proof (rule Collect_cong, rule iffI)
    fix x assume "drop_bit 27 x = c"
    then have "bit c n = bit x (27 + n)" for n by (auto simp: bit_drop_bit_eq)
    then show "\<forall>i\<in>{27..<64}. bit x i = bit (push_bit 27 c) i" by (auto simp: bit_simps)
  next
    fix x :: u64 assume *: "\<forall>i\<in>{27..<64}. bit x i = bit (push_bit 27 c) i"
    show "drop_bit 27 x = c"
    proof (rule bit_word_eqI)
      fix n :: nat assume "n < LENGTH(64)"
      then show "bit (drop_bit 27 x) n = bit c n"
        using bspec [OF *, of "27 + n"] c [of n] bit_imp_le_length [of x "27 + n"]
        by (cases "n < 37") (auto simp: bit_simps)
    qed
  qed
  then show ?thesis using card_prescribed_bits [of "{27..<64}" "push_bit 27 c"] by (simp add: subset_iff)
qed

lemma word_of_halves:
  fixes h :: u64 and r :: u32
  assumes h: "take_bit 5 h = h"
  defines "c \<equiv> push_bit 32 h OR ucast r"
  shows "take_bit 37 c = c" and "drop_bit 32 y = h \<and> ucast y = r \<longleftrightarrow> y = c"
proof -
  have h: "bit h n \<Longrightarrow> n < 5" for n using assms by (metis bit_take_bit_iff)
  have r: "bit r n \<Longrightarrow> n < 32" for n using bit_imp_le_length [of r n] by simp
  have c: "bit c n \<longleftrightarrow> (32 \<le> n \<and> bit h (n - 32)) \<or> bit r n" for n
    using h [of "n - 32"] r [of n] by (auto simp: c_def bit_or_iff bit_push_bit_iff bit_unsigned_iff)
  show "take_bit 37 c = c"
    by (rule bit_word_eqI) (use h r in \<open>fastforce simp: bit_take_bit_iff c\<close>)
  show "drop_bit 32 y = h \<and> ucast y = r \<longleftrightarrow> y = c"
  proof
    assume y: "drop_bit 32 y = h \<and> ucast y = r"
    show "y = c"
    proof (rule bit_word_eqI)
      fix n :: nat
      have "bit y n \<longleftrightarrow> bit h (n - 32)" if "32 \<le> n" using y that by (auto simp: bit_drop_bit_eq)
      moreover have "bit y n \<longleftrightarrow> bit r n" if "n < 32" using y that by (auto simp: bit_unsigned_iff)
      ultimately show "bit y n = bit c n" using r [of n] by (cases "n < 32") (auto simp: c)
    qed
  next
    assume y: "y = c"
    have "drop_bit 32 c = h"
      by (rule bit_word_eqI) (use r in \<open>fastforce simp: bit_drop_bit_eq c\<close>)
    moreover have "ucast c = r"
      by (rule bit_word_eqI) (auto simp: bit_unsigned_iff c)
    ultimately show "drop_bit 32 y = h \<and> ucast y = r" using y by simp
  qed
qed

lemma card_rotated:
  fixes v :: u32
  assumes "t < 32"
  shows "card {x :: u64. unat (drop_bit 59 x) = t \<and> word_rotr t (ucast (drop_bit 27 x)) = v} = 2 ^ 27"
proof -
  let ?h = "of_nat t :: u64" and ?r = "word_rotl t v"
  have h: "take_bit 5 ?h = ?h"
    using assms by (simp add: word_unat_eq_iff unsigned_take_bit_eq unat_of_nat take_bit_nat_eq_self)
  have "unat (drop_bit 59 x) = t \<and> word_rotr t (ucast (drop_bit 27 x)) = v
      \<longleftrightarrow> drop_bit 27 x = push_bit 32 ?h OR ucast ?r" for x :: u64
  proof -
    have "unat (drop_bit 59 x) = t \<longleftrightarrow> drop_bit 59 x = ?h"
      using assms by (auto simp: unat_of_nat take_bit_nat_eq_self)
    moreover have "drop_bit 59 x = drop_bit 32 (drop_bit 27 x)" by simp
    moreover have "word_rotr t (ucast (drop_bit 27 x)) = v \<longleftrightarrow> ucast (drop_bit 27 x) = ?r"
      using word_rot_lr [of t "ucast (drop_bit 27 x)"] word_rot_rl [of t v] by auto
    ultimately show ?thesis by (simp only: word_of_halves(2) [OF h])
  qed
  moreover have "unat (push_bit 32 ?h OR ucast ?r) < 2 ^ 37"
    by (subst word_of_halves(1) [OF h, symmetric]) (simp only: unsigned_take_bit_eq take_bit_nat_less_exp)
  ultimately show ?thesis by (simp only: card_high_bits)
qed

lemma card_xsh_rr_64_32: "card {s. pcg_output_xsh_rr_64_32 s = v} = 2 ^ 32"
proof -
  let ?X = "\<lambda>s :: u64. drop_bit 18 s XOR s"
  let ?A = "\<lambda>t. {x :: u64. unat (drop_bit 59 x) = t \<and> word_rotr t (ucast (drop_bit 27 x)) = v}"
  have bij: "bij ?X" by (intro bij_word_inj inj_xorshift) simp
  have "drop_bit 59 (?X s) = drop_bit 59 s" for s by simp
  then have "{s. pcg_output_xsh_rr_64_32 s = v} = ?X -` (\<Union>t\<in>{..<32}. ?A t)"
    using unat_drop_bit_less [of 59 "_ :: u64"] by (auto simp: xsh_rr_rotates)
  then have "card {s. pcg_output_xsh_rr_64_32 s = v} = card (\<Union>t\<in>{..<32}. ?A t)"
    using bij by (simp add: card_vimage_inj bij_def)
  also have "\<dots> = (\<Sum>t<32. card (?A t))"
    by (rule card_UN_disjoint) auto
  also have "\<dots> = 2 ^ 32" by (simp add: card_rotated)
  finally show ?thesis .
qed

section \<open>The generators of the firmware\<close>

text \<open>\<open>c * bound\<close> calls return, and every number below the bound occurs \<open>c\<close> times among the results.\<close>

definition evenly_drawn :: "('s \<Rightarrow> ('b::len word \<times> 's) option) \<Rightarrow> nat \<Rightarrow> 'b word \<Rightarrow> 's \<Rightarrow> bool" where
  "evenly_drawn draw c bound s \<longleftrightarrow> (\<exists>rs s'. draws draw (c * unat bound) s = Some (rs, s')
     \<and> length rs = c * unat bound \<and> (\<forall>k<bound. count_list rs k = c))"

lemma evenly_drawn_source:
  fixes random :: "'s \<Rightarrow> 'b::len word \<times> 's" and st :: "nat \<Rightarrow> 'a::len word"
  assumes "bij_betw st {..<2 ^ LENGTH('a)} UNIV" "\<And>k. nth_draw random k s = out (st k)"
    and m: "\<And>v. card {x. out x = v} = m" and b: "bound \<noteq> 0"
  shows "evenly_drawn (boundedrand_loop random bound) (m * (2 ^ LENGTH('b) div unat bound)) bound s"
proof -
  have "card {i. i < 2 ^ LENGTH('a) \<and> nth_draw random i s = v} = m" for v
    using card_draws [of st "2 ^ LENGTH('a)" "\<lambda>k. nth_draw random k s" out v, OF assms(1,2)] m by simp
  from bounded_draws_uniform [OF b this] show ?thesis
    by (auto simp: evenly_drawn_def dest: length_draws)
qed

lemma card_rxs_m_xs_32_32: "card {s. pcg_output_rxs_m_xs_32_32 s = v} = 1"
proof -
  have "{s. pcg_output_rxs_m_xs_32_32 s = v} = pcg_output_rxs_m_xs_32_32 -` {v}" by auto
  then show ?thesis using bij_rxs_m_xs_32_32 by (simp add: card_vimage_inj bij_def)
qed

text \<open>
  C27. Bounded draws are unbiased, for \<open>pcg32\<close> and for the two generators that the firmware draws
  from, \<open>pcg32i\<close> and \<open>pcg_setseq_32_xsh_rs_16\<close>: from every state with an odd increment and for
  every bound but \<open>0\<close>, the next \<open>c * bound\<close> calls of \<open>boundedrand_r\<close> all return, and return every
  number below the bound exactly \<open>c\<close> times, where \<open>c\<close> is how often a period of the generator
  outputs an accepted word of that number (for \<open>pcg32\<close>, \<open>2 ^ 32 * (2 ^ 32 div bound)\<close> times).
\<close>

theorem boundedrand_unbiased:
  assumes "odd (sq_inc rng)" "odd (sq_inc rngi)" "bound \<noteq> 0" "bound16 \<noteq> 0"
  shows "evenly_drawn (\<lambda>s. pcg_setseq_64_xsh_rr_32_boundedrand_r s bound) (2 ^ 32 * (2 ^ 32 div unat bound)) bound rng
    \<and> evenly_drawn (\<lambda>s. pcg_setseq_32_rxs_m_xs_32_boundedrand_r s bound) (2 ^ 32 div unat bound) bound rngi
    \<and> evenly_drawn (\<lambda>s. pcg_setseq_32_xsh_rs_16_boundedrand_r s bound16) (2 ^ 16 * (2 ^ 16 div unat bound16)) bound16 rngi"
proof (intro conjI)
  let ?st = "\<lambda>random k. sq_state (((\<lambda>s. snd (random s)) ^^ k) rng)"
  let ?sti = "\<lambda>random k. sq_state (((\<lambda>s. snd (random s)) ^^ k) rngi)"
  have "bij_betw (?st pcg_setseq_64_xsh_rr_32_random_r) {..<2 ^ LENGTH(64)} UNIV"
    using full_period_64 assms(1)
    by (rule setseq_states) (simp_all add: pcg_setseq_64_xsh_rr_32_random_r_def pcg_setseq_64_step_r_def Let_def)
  from evenly_drawn_source [OF this, of pcg_setseq_64_xsh_rr_32_random_r rng pcg_output_xsh_rr_64_32 "2 ^ 32" bound]
  show "evenly_drawn (\<lambda>s. pcg_setseq_64_xsh_rr_32_boundedrand_r s bound) (2 ^ 32 * (2 ^ 32 div unat bound)) bound rng"
    using assms(3) by (simp add: card_xsh_rr_64_32 nth_draw_def pcg_setseq_64_xsh_rr_32_random_r_def Let_def
        pcg_setseq_64_xsh_rr_32_boundedrand_r_def [abs_def])
  have "bij_betw (?sti pcg_setseq_32_rxs_m_xs_32_random_r) {..<2 ^ LENGTH(32)} UNIV"
    using full_period_32 assms(2) by (rule setseq_states) (simp_all add: pcg_firmware_defs)
  from evenly_drawn_source [OF this, of pcg_setseq_32_rxs_m_xs_32_random_r rngi pcg_output_rxs_m_xs_32_32 1 bound]
  show "evenly_drawn (\<lambda>s. pcg_setseq_32_rxs_m_xs_32_boundedrand_r s bound) (2 ^ 32 div unat bound) bound rngi"
    using assms(3) by (simp add: card_rxs_m_xs_32_32 pcg_firmware_defs pcg_setseq_32_rxs_m_xs_32_boundedrand_r_def [abs_def])
  have "bij_betw (?sti pcg_setseq_32_xsh_rs_16_random_r) {..<2 ^ LENGTH(32)} UNIV"
    using full_period_32 assms(2) by (rule setseq_states) (simp_all add: pcg_firmware_defs)
  from evenly_drawn_source [OF this, of pcg_setseq_32_xsh_rs_16_random_r rngi pcg_output_xsh_rs_32_16 "2 ^ 16" bound16]
  show "evenly_drawn (\<lambda>s. pcg_setseq_32_xsh_rs_16_boundedrand_r s bound16) (2 ^ 16 * (2 ^ 16 div unat bound16)) bound16 rngi"
    using assms(4) by (simp add: card_xsh_rs_32_16 pcg_firmware_defs pcg_setseq_32_xsh_rs_16_boundedrand_r_def [abs_def])
qed

theorem boundedrand_unbiased_witness:
  "evenly_drawn (\<lambda>s. pcg_setseq_64_xsh_rr_32_boundedrand_r s 6) (2 ^ 32 * (2 ^ 32 div unat (6 :: u32))) 6
     \<lparr>sq_state = 7, sq_inc = 9\<rparr>"
  using boundedrand_unbiased [of "\<lparr>sq_state = 7, sq_inc = 9\<rparr>" "\<lparr>sq_state = 7, sq_inc = 9\<rparr>" 6 6] by simp

end
