(* ===== verification/Firmware_Types.thy ===== *)
theory Firmware_Types
  imports Main_Loop
begin

text \<open>
  What the types of the C program do not say but its array accesses rely on: the lengths of the
  arrays and the bounds of the variables that index them, in every state that the firmware
  reaches.
\<close>

definition eth_typed :: "eth \<Rightarrow> bool" where
  "eth_typed e \<longleftrightarrow> length (kReceiveRing e) = PACKET_RING_LEN \<and> length (kTransmitRing e) = PACKET_RING_LEN
     \<and> unat (kReceiveRd e) < PACKET_RING_LEN \<and> unat (kReceiveWr e) < PACKET_RING_LEN
     \<and> unat (kTransmitRd e) < PACKET_RING_LEN \<and> unat (kTransmitWr e) < PACKET_RING_LEN \<and> 0 \<le> kInPool e"

text \<open>The key word that the main loop is about to change.\<close>

fun pc_typed :: "main_pc \<Rightarrow> bool" where
  "pc_typed (AtPoll ndx) = (ndx < 4)"
| "pc_typed (AtRead ndx) = (ndx < 4)"
| "pc_typed (AtKey ndx r) = (ndx < 4)"
| "pc_typed (AtKeyStore ndx v) = (ndx < 4)"
| "pc_typed pc = True"

lemma implements_typed:
  assumes "implements pf e q"
  shows "eth_typed e"
proof -
  have m: "x mod 8 < (8 :: nat)" for x by simp
  from assms obtain g where "rings_ok pf e g" by (auto simp: implements_def)
  then show ?thesis
    by (simp add: rings_ok_def rx_ring_ok_def tx_ring_ok_def eth_typed_def PACKET_RING_LEN_def PACKET_POOL_LEN_def m)
qed

lemma main_step_typed: "pc_typed pc \<Longrightarrow> main_step b mac (pc, n) = (pc', n') \<Longrightarrow> pc_typed pc'"
  by (cases pc) (auto simp: Let_def split: if_splits)

lemma fw_reachable_pc: "fw_reachable pf c b bp mac s \<Longrightarrow> pc_typed (fw_pc s)"
proof (induction rule: fw_reachable.induct)
  case (step s s')
  from step(2) step.IH show ?case
    by cases (auto dest: main_step_typed)
qed simp

text \<open>
  C17. In every state that the firmware reaches the rings have their eight descriptors, their four
  indices and the index of the key word that the main loop holds are within the arrays, no buffer
  index of the pool is negative, the key has its four words, the MAC address its six bytes, and
  the increment of the PCG is odd.
\<close>

theorem firmware_typed:
  assumes "platform_ok pf" "hardware_wakes pf c" "fw_reachable pf c b bp mac s"
  shows "eth_typed (n_eth (fw_node s)) \<and> pc_typed (fw_pc s) \<and> length mac = 6
    \<and> length (kPrngKey (n_prng (fw_node s))) = 4 \<and> odd (sq_inc (pcg32 (n_prng (fw_node s))))"
proof -
  have ok: "length mac = 6" "reachable pf b mac (node_system (fw_node s) (fw_rx s) (fw_tx s))"
    using fw_reachable_ok [OF assms] by (simp_all add: firmware_ok_def system_of_def)
  note ready = reachable_ready [OF assms(1) ok]
  show ?thesis
    using ready(2,3) ok(1) fw_reachable_pc [OF assms(3)] implements_typed by (auto simp: prng_inv_def)
qed

theorem firmware_typed_witness:
  "\<exists>mac s. fw_reachable sample_platform sample_consts ready_board sample_params mac s
     \<and> length (kReceiveRing (n_eth (fw_node s))) = 8 \<and> length (kPrngKey (n_prng (fw_node s))) = 4"
proof -
  obtain mac s where s: "fw_reachable sample_platform sample_consts ready_board sample_params mac s"
    using sample_boots by blast
  from firmware_typed [OF sample_platform_ok sample_wakes s] s show ?thesis
    by (auto simp: eth_typed_def PACKET_RING_LEN_def PACKET_POOL_LEN_def)
qed

end
