(* ===== verification/Header_Properties.thy ===== *)
theory Header_Properties
  imports Eth_Properties
begin

text \<open>
  What the layouts of the headers give: a header that is written through the packed
  structures of \<open>packet.h\<close> is read back through the structures of \<open>src/include\<close>, and every access
  of the frame handler to a buffer of the pool is aligned.
\<close>

section \<open>A header written through one description and read through the other\<close>

lemma be16_mem_bytes: "mem_bytes m a 2 = rev (bytes16 (be16 m a))"
  using be16_bytes [of m a] by (simp add: mem_bytes_simps bytes16_def)

lemma byte_members_read:
  "byte_member struct_ether_header ''ether_dhost'' = Some (0, 6)"
  "byte_member struct_ether_header ''ether_shost'' = Some (6, 6)"
  "byte_member struct_ether_header ''ether_type'' = Some (12, 2)"
  "byte_member struct_ip ''ip_tos'' = Some (1, 1)" "byte_member struct_ip ''ip_len'' = Some (2, 2)"
  "byte_member struct_ip ''ip_id'' = Some (4, 2)" "byte_member struct_ip ''ip_off'' = Some (6, 2)"
  "byte_member struct_ip ''ip_ttl'' = Some (8, 1)" "byte_member struct_ip ''ip_p'' = Some (9, 1)"
  "byte_member struct_ip ''ip_sum'' = Some (10, 2)" "byte_member struct_ip ''ip_src'' = Some (12, 4)"
  "byte_member struct_ip ''ip_dst'' = Some (16, 4)"
  "byte_member struct_udphdr ''uh_sport'' = Some (0, 2)" "byte_member struct_udphdr ''uh_dport'' = Some (2, 2)"
  "byte_member struct_udphdr ''uh_ulen'' = Some (4, 2)" "byte_member struct_udphdr ''uh_sum'' = Some (6, 2)"
  by (simp_all add: byte_member_def layout_defs)

lemma ether_written_read:
  assumes "length src = 6" "length dst = 6"
  shows "ld_member struct_ether_header ''ether_dhost'' (FillEthernetHeader src dst type m a) a = dst
    \<and> ld_member struct_ether_header ''ether_shost'' (FillEthernetHeader src dst type m a) a = src
    \<and> ld_member struct_ether_header ''ether_type'' (FillEthernetHeader src dst type m a) a = rev (bytes16 type)"
  using ld_member_part [OF FillEthernetHeader_fields [OF assms] byte_members_read(1)]
    ld_member_part [OF FillEthernetHeader_fields [OF assms] byte_members_read(2)]
    ld_member_part [OF FillEthernetHeader_fields [OF assms] byte_members_read(3)] assms
  by (simp add: bytes16_def)

lemma ip_written_read:
  fixes src dst :: u32 and proto :: u8 and m :: mem and a :: u32
  assumes "len \<le> 65515"
  defines "m' \<equiv> FillIPv4Header src dst len proto m a"
  shows "ld_bits struct_ip ''ip_v'' m' a = 4 \<and> ld_bits struct_ip ''ip_hl'' m' a = 5
    \<and> ld_member struct_ip ''ip_tos'' m' a = [0]
    \<and> ld_member struct_ip ''ip_len'' m' a = rev (bytes16 (len + 20))
    \<and> ld_member struct_ip ''ip_id'' m' a = ld_member struct_ip ''ip_id'' m a
    \<and> ld_member struct_ip ''ip_off'' m' a = [0, 0]
    \<and> ld_member struct_ip ''ip_ttl'' m' a = [128]
    \<and> ld_member struct_ip ''ip_p'' m' a = [proto]
    \<and> ld_member struct_ip ''ip_sum'' m' a = ld_member struct_ip ''ip_sum'' m a
    \<and> ld_member struct_ip ''ip_src'' m' a = bytes32 src
    \<and> ld_member struct_ip ''ip_dst'' m' a = bytes32 dst"
proof -
  note bytes = FillIPv4Header_fields [of src dst len proto m a, folded m'_def]
  have "mem_bytes m' a 1 = [0x45]" using mem_bytes_part [OF bytes, of 0 1] by simp
  then have first: "m' a = 0x45" by (simp add: mem_bytes_simps)
  have "ld_bits struct_ip ''ip_v'' m' a = 4" "ld_bits struct_ip ''ip_hl'' m' a = 5"
    by (simp_all add: ld_bits_def layout first take_bit_eq_mask mask_eq_exp_minus_1)
  then show ?thesis
    using byte_members_read(4-12) [THEN ld_member_part [OF bytes]] assms(1)
    by (simp add: ld_member_def byte_members_read bytes16_def Let_def bytes32_def mem_bytes_simps)
qed


lemma udp_written_read:
  fixes sport dport :: u16 and m :: mem and a :: u32
  assumes "len \<le> 65527"
  defines "m' \<equiv> FillUDPHeader sport dport len m a"
  shows "ld_member struct_udphdr ''uh_sport'' m' a = rev (bytes16 sport)
    \<and> ld_member struct_udphdr ''uh_dport'' m' a = rev (bytes16 dport)
    \<and> ld_member struct_udphdr ''uh_ulen'' m' a = rev (bytes16 (len + 8))
    \<and> ld_member struct_udphdr ''uh_sum'' m' a = ld_member struct_udphdr ''uh_sum'' m a"
proof -
  have same: "same_outside m m' (a + of_nat 0) 6"
    using FillUDPHeader_fields [of sport dport len m a] by (simp add: m'_def)
  have "mem_bytes m' (a + of_nat 6) 2 = mem_bytes m (a + of_nat 6) 2"
    by (rule mem_bytes_apart [OF same]) simp_all
  then show ?thesis
    using FillUDPHeader_fields [of sport dport len m a] assms
    by (simp add: ld_member_def byte_members_read be16_mem_bytes)
qed

text \<open>The headers of a UDP datagram, written in the order of the DHCP client.\<close>

definition datagram_headers ::
  "u8 list \<Rightarrow> u8 list \<Rightarrow> u16 \<Rightarrow> u32 \<Rightarrow> u32 \<Rightarrow> u16 \<Rightarrow> u8 \<Rightarrow> u16 \<Rightarrow> u16 \<Rightarrow> u16 \<Rightarrow> mem \<Rightarrow> u32 \<Rightarrow> mem" where
  "datagram_headers mac_src mac_dst type src dst ip_data proto sport dport udp_data m frame =
     (let m = FillUDPHeader sport dport udp_data m (frame + of_nat UDP_HEADER_OFFSET);
          m = FillIPv4Header src dst ip_data proto m (frame + of_nat IPV4_HEADER_OFFSET)
      in FillEthernetHeader mac_src mac_dst type m (frame + of_nat ETHERNET_HEADER_OFFSET))"

text \<open>
  C33. The headers that the DHCP client's writers (\<open>FillEthernetHeader\<close>, \<open>FillIPv4Header\<close> and
  \<open>FillUDPHeader\<close>, through the packed structures of \<open>packet.h\<close>) put into a frame are read back by
  the structures of \<open>src/include\<close> that the frame handler lays over a frame: every address, port,
  type, protocol and length arrives in its member, in network order, version and header length
  are 4 and 5 words, and the members that the writers leave out keep their bytes.
\<close>

theorem headers_written_and_read:
  assumes "length mac_src = 6" "length mac_dst = 6" "ip_data \<le> 65515" "udp_data \<le> 65527"
  shows "let ip = obj_end struct_ether_header frame; udp = obj_end struct_ip ip;
      F = datagram_headers mac_src mac_dst type src dst ip_data proto sport dport udp_data m frame
    in ld_member struct_ether_header ''ether_dhost'' F frame = mac_dst
     \<and> ld_member struct_ether_header ''ether_shost'' F frame = mac_src
     \<and> ld_member struct_ether_header ''ether_type'' F frame = rev (bytes16 type)
     \<and> ld_bits struct_ip ''ip_v'' F ip = 4 \<and> ld_bits struct_ip ''ip_hl'' F ip = 5
     \<and> ld_member struct_ip ''ip_tos'' F ip = [0]
     \<and> ld_member struct_ip ''ip_len'' F ip = rev (bytes16 (ip_data + 20))
     \<and> ld_member struct_ip ''ip_id'' F ip = ld_member struct_ip ''ip_id'' m ip
     \<and> ld_member struct_ip ''ip_off'' F ip = [0, 0]
     \<and> ld_member struct_ip ''ip_ttl'' F ip = [128]
     \<and> ld_member struct_ip ''ip_p'' F ip = [proto]
     \<and> ld_member struct_ip ''ip_sum'' F ip = ld_member struct_ip ''ip_sum'' m ip
     \<and> ld_member struct_ip ''ip_src'' F ip = bytes32 src
     \<and> ld_member struct_ip ''ip_dst'' F ip = bytes32 dst
     \<and> ld_member struct_udphdr ''uh_sport'' F udp = rev (bytes16 sport)
     \<and> ld_member struct_udphdr ''uh_dport'' F udp = rev (bytes16 dport)
     \<and> ld_member struct_udphdr ''uh_ulen'' F udp = rev (bytes16 (udp_data + 8))
     \<and> ld_member struct_udphdr ''uh_sum'' F udp = ld_member struct_udphdr ''uh_sum'' m udp"
proof -
  let ?U = "FillUDPHeader sport dport udp_data m (frame + of_nat 34)"
  let ?I = "FillIPv4Header src dst ip_data proto ?U (frame + of_nat 14)"
  let ?F = "FillEthernetHeader mac_src mac_dst type ?I (frame + of_nat 0)"
  have F: "datagram_headers mac_src mac_dst type src dst ip_data proto sport dport udp_data m frame = ?F"
    by (simp add: datagram_headers_def packet_numbers header_sizes)
  have wf: "wf_ctype struct_ip" "wf_ctype struct_udphdr" by (simp_all add: layout_defs)
  have ip: "ld_member struct_ip x ?F (frame + of_nat 14) = ld_member struct_ip x ?I (frame + of_nat 14)"
    "ld_member struct_ip x ?U (frame + of_nat 14) = ld_member struct_ip x m (frame + of_nat 14)" for x
    by (rule ld_member_apart [OF ethernet.frame wf(1)] ld_member_apart [OF udp.frame wf(1)]; simp only: header_sizes; simp)+
  have bits: "ld_bits struct_ip x ?F (frame + of_nat 14) = ld_bits struct_ip x ?I (frame + of_nat 14)"
    if "offsetof struct_ip x = of_nat 0" for x
    by (rule ld_bits_apart [OF ethernet.frame that]) simp_all
  have udp: "ld_member struct_udphdr x ?F (frame + of_nat 34) = ld_member struct_udphdr x ?I (frame + of_nat 34)"
    "ld_member struct_udphdr x ?I (frame + of_nat 34) = ld_member struct_udphdr x ?U (frame + of_nat 34)" for x
    by (rule ld_member_apart [OF ethernet.frame wf(2)] ld_member_apart [OF ipv4.frame wf(2)]; simp only: header_sizes; simp)+
  have at: "obj_end struct_ether_header frame = frame + of_nat 14"
    "obj_end struct_ip (frame + of_nat 14) = frame + of_nat 34"
    by (simp_all add: obj_end_def header_sizes)
  have "ld_bits struct_ip ''ip_v'' ?F (frame + of_nat 14) = 4" "ld_bits struct_ip ''ip_hl'' ?F (frame + of_nat 14) = 5"
    using bits ip_written_read [OF assms(3), of src dst proto ?U "frame + of_nat 14"] by (simp_all add: layout)
  moreover have zero: "frame + of_nat 0 = frame" by simp
  have "ld_member struct_ether_header ''ether_dhost'' ?F frame = mac_dst"
    "ld_member struct_ether_header ''ether_shost'' ?F frame = mac_src"
    "ld_member struct_ether_header ''ether_type'' ?F frame = rev (bytes16 type)"
    using ether_written_read [OF assms(1,2), of type ?I frame] unfolding zero by blast+
  ultimately show ?thesis
    unfolding Let_def F at
    using ip_written_read [OF assms(3), of src dst proto ?U "frame + of_nat 14"]
      udp_written_read [OF assms(4), of sport dport m "frame + of_nat 34"]
    by (simp only: ip udp simp_thms)
qed

theorem headers_written_and_read_witness:
  "ld_member struct_ip ''ip_dst''
     (datagram_headers [2, 0, 0, 0, 0, 1] [2, 0, 0, 0, 0, 2] 0x0800 1 2 100 17 67 68 92 (\<lambda>_. 0) 1000) 1014 = [2, 0, 0, 0]"
proof -
  have "bytes32 2 = [2, 0, 0, 0]" by (simp add: bytes32_def)
  then show ?thesis
    using headers_written_and_read [of "[2, 0, 0, 0, 0, 1]" "[2, 0, 0, 0, 0, 2]" 100 92 1000 2048 1 2 17]
    by (simp add: Let_def obj_end_layout)
qed

section \<open>Alignment\<close>

text \<open>Where the headers that the handler reads lie in a frame, and the words of the payload.\<close>

definition frame_headers :: "(ctype \<times> nat) list" where
  "frame_headers =
     (let ip = sizeof struct_ether_header; l4 = ip + sizeof struct_ip in
      [(struct_ether_header, 0), (struct_ip, ip), (struct_in_addr, ip + 12), (struct_in_addr, ip + 16),
       (struct_arphdr, ip), (struct_ether_arp, ip), (struct_icmp, l4), (struct_udphdr, l4),
       (CArray (ETHERMTU_UDP div 4) (CInt 4), l4 + sizeof struct_udphdr)])"

lemma frame_headers_ok:
  "list_all (\<lambda>(t, k). wf_ctype t \<and> unpacked t \<and> (k + 2) mod alignof t = 0 \<and> 4 mod alignof t = 0
     \<and> k + sizeof t < ETHER_MAX_LEN) frame_headers"
proof -
  have s: "(Suc (Suc 0)) = 2" by simp
  show ?thesis
    unfolding frame_headers_def header_sizes ETHERMTU_UDP_def Let_def
    by (simp add: layout_defs) (simp only: s; simp)
qed

lemma pool_frame_add:
  assumes "platform_ok pf" "i < 9" "k < 1518"
  shows "unat (pkt_Frame (pool_buffer pf i) + of_nat k) = unat (kPacketPool pf) + 1520 * i + 2 + k"
proof -
  have "unat (of_nat k :: u32) = k" using assms(3) by (intro unat_of_nat_32) simp
  moreover have "unat (kPacketPool pf) + 9 * 1520 \<le> 2 ^ 32" using assms(1) by (simp add: platform_ok_def)
  then have "unat (kPacketPool pf) + 1520 * i + 2 + k < 2 ^ 32" using assms(2,3) by simp
  ultimately show ?thesis
    using pool_frame [OF assms(1,2)] by (simp only: unat_word_ariths) simp
qed

lemma alignof_PacketBuffer: "alignof PacketBuffer = 4"
  by (simp add: layout_defs)

lemma unat_and_3: "unat (x AND 3 :: u32) = unat x mod 4"
proof -
  have "x AND 3 = take_bit 2 x" by (simp add: take_bit_eq_mask mask_eq_exp_minus_1)
  then have "unat (x AND 3) = unat (take_bit 2 x)" by (simp only:)
  then show ?thesis by (simp only: unsigned_take_bit_eq) (simp add: take_bit_eq_mod)
qed

text \<open>
  C32. The compiler puts the pool at a multiple of the alignment of a \<open>PacketBuffer\<close>.  Then the check of \<open>EthernetInitializeDma\<close> finds nothing to warn
  about, and in every buffer of the pool every header that the handler reads or writes, each of
  its members that is no bit-field, and the words of the payload lie at multiples of their
  alignment.
\<close>

theorem frame_accesses_aligned:
  assumes "platform_ok pf" "alignof PacketBuffer dvd unat (kPacketPool pf)" "i < 9" "(t, k) \<in> set frame_headers"
  shows "misaligned_buffers pf = []
    \<and> alignof t dvd unat (pkt_Frame (pool_buffer pf i) + of_nat k)
    \<and> (\<forall>x q u. member_at t x = Some (q, u) \<and> \<not> is_bits u \<longrightarrow>
         alignof u dvd unat (pkt_Frame (pool_buffer pf i) + of_nat k + offsetof t x))"
proof (intro conjI allI impI)
  have pool: "4 dvd unat (kPacketPool pf)" using assms(2) by (simp add: alignof_PacketBuffer)
  have "unat (pkt_Frame (pool_buffer pf j) AND 3) = 2" if "j < 9" for j
  proof -
    have "unat (pkt_Frame (pool_buffer pf j) AND 3) = unat (pkt_Frame (pool_buffer pf j)) mod 4"
      by (rule unat_and_3)
    also have "\<dots> = 2"
      using pool_frame [OF assms(1) that] pool by (auto elim!: dvdE) presburger
    finally show ?thesis .
  qed
  then show "misaligned_buffers pf = []"
    by (simp add: misaligned_buffers_def ETHER_ALIGN_def PACKET_POOL_LEN_def)
  have t: "wf_ctype t" "unpacked t" "alignof t dvd k + 2" "alignof t dvd 4" "k + sizeof t < 1518"
    using frame_headers_ok assms(4) by (auto simp: list_all_iff ETHER_MAX_LEN_def dvd_eq_mod_eq_0)
  have "alignof t dvd unat (kPacketPool pf) + 1520 * i"
    using dvd_trans [OF t(4) pool] dvd_trans [OF t(4), of "1520 * i"] by (simp add: dvd_mult2)
  then have base: "alignof t dvd unat (kPacketPool pf) + 1520 * i + 2 + k"
    using dvd_add [OF _ t(3), of "unat (kPacketPool pf) + 1520 * i"] by (simp only: ac_simps)
  then show "alignof t dvd unat (pkt_Frame (pool_buffer pf i) + of_nat k)"
    using pool_frame_add [OF assms(1,3), of k] t(5) by simp
  fix x q u assume x: "member_at t x = Some (q, u) \<and> \<not> is_bits u"
  then have u: "8 * alignof u dvd q" "alignof u dvd alignof t"
    using members_aligned(1) [OF t(1,2)] by auto
  have "q + size_bits u \<le> size_bits t" using members_inside(1) [OF t(1)] x by blast
  then have "q div 8 \<le> sizeof t" by (simp add: sizeof_def div_le_mono)
  then have "unat (pkt_Frame (pool_buffer pf i) + of_nat k + offsetof t x)
      = unat (kPacketPool pf) + 1520 * i + 2 + k + q div 8"
    using pool_frame_add [OF assms(1,3), of "k + q div 8"] t(5) x by (simp add: offsetof_def add.assoc)
  moreover have "alignof u dvd q div 8" using u(1) by (auto elim!: dvdE)
  ultimately show "alignof u dvd unat (pkt_Frame (pool_buffer pf i) + of_nat k + offsetof t x)"
    using dvd_trans [OF u(2) base] by (simp only: dvd_add)
qed

theorem frame_accesses_aligned_witness:
  "misaligned_buffers sample_platform = []
   \<and> 4 dvd unat (pkt_Frame (pool_buffer sample_platform 8) + 14 + offsetof struct_ip ''ip_dst'')"
proof -
  have "(struct_ip, 14) \<in> set frame_headers" "alignof PacketBuffer dvd unat (kPacketPool sample_platform)"
    by (simp_all add: alignof_PacketBuffer frame_headers_def header_sizes sample_platform_def)
  from frame_accesses_aligned [OF sample_platform_ok this(2) _ this(1), of 8]
  have *: "misaligned_buffers sample_platform = []"
    "member_at struct_ip ''ip_dst'' = Some (q, u) \<Longrightarrow> \<not> is_bits u \<Longrightarrow>
      alignof u dvd unat (pkt_Frame (pool_buffer sample_platform 8) + of_nat 14 + offsetof struct_ip ''ip_dst'')" for q u
    by auto
  moreover have "member_at struct_ip ''ip_dst'' = Some (128, struct_in_addr)"
    "\<not> is_bits struct_in_addr" "alignof struct_in_addr = 4"
    by (simp_all add: layout_defs is_bits_def)
  ultimately show ?thesis using *(2) [of 128 struct_in_addr] by simp
qed

end
