(* ===== verification/Console.thy ===== *)
theory Console
  imports Ethaddr
begin

text \<open>
  What the firmware writes to its console, as strings: the dump of every received frame
  (\<open>src/prdk.c\<close>), the identification of the chip and the messages of \<open>src/main.c\<close>, and the fault
  handler.  The conversions of \<open>printf\<close> that the sources use are the functions below; \<open>%p\<close>, whose
  form the C library chooses, is a parameter.
\<close>

section \<open>Conversions of \<open>printf\<close>\<close>

definition digit_chars :: string where
  "digit_chars = ''0123456789abcdef''"

definition hex_char :: "nat \<Rightarrow> char" where
  "hex_char n = digit_chars ! (n mod 16)"

text \<open>\<open>%02x\<close>, \<open>%04x\<close> and \<open>%08lx\<close> of values that have no more digits.\<close>

fun fmt_hex :: "nat \<Rightarrow> nat \<Rightarrow> string" where
  "fmt_hex 0 v = []"
| "fmt_hex (Suc k) v = fmt_hex k (v div 16) @ [hex_char v]"

text \<open>\<open>%u\<close>, \<open>%lu\<close> and \<open>%d\<close> of a value that is not negative.\<close>

fun fmt_dec :: "nat \<Rightarrow> string" where
  "fmt_dec n = (if n < 10 then [hex_char n] else fmt_dec (n div 10) @ [hex_char (n mod 10)])"

declare fmt_dec.simps [simp del]

definition crlf :: string where
  "crlf = [CHR 0x0D, CHR 0x0A]"

definition newline :: string where
  "newline = [CHR 0x0A]"

section \<open>Messages\<close>

definition PacketRx_dump :: "(u32 \<Rightarrow> string) \<Rightarrow> u32 \<Rightarrow> u32 \<Rightarrow> mem \<Rightarrow> string" where
  "PacketRx_dump fmt_p frame len m =
     ''Received '' @ fmt_dec (unat len) @ '':'' @ crlf
     @ concat (map (\<lambda>i. fmt_hex 2 (unat (m (frame + of_nat i))) @ '' ''
         @ (if (of_nat i AND 0x1F :: u32) = 0x1F then crlf else [])) [0..<unat len])
     @ crlf @ ''&eth: '' @ fmt_p frame @ crlf"

definition EthernetReceivedInterrupt :: "u32 \<Rightarrow> u32 \<Rightarrow> mem \<Rightarrow> string" where
  "EthernetReceivedInterrupt packet len m =
     ''Received '' @ fmt_dec (unat len) @ '': ''
     @ concat (map (\<lambda>i. fmt_hex 2 (unat (m (packet + of_nat i))) @ '' '') [0..<unat len]) @ newline"

definition PrintUniID :: "mem \<Rightarrow> u16 \<Rightarrow> u16 \<Rightarrow> string" where
  "PrintUniID m Data0 Data1 =
     ''Data0: '' @ fmt_hex 4 (unat Data0) @ crlf
     @ ''Data1: '' @ fmt_hex 4 (unat Data1) @ crlf
     @ ''FlaCap: '' @ fmt_hex 4 (unat (R16_ESIG_FLACAP m)) @ crlf
     @ ''UniID1: '' @ fmt_hex 8 (unat (R32_ESIG_UNIID1 m)) @ crlf
     @ ''UniID2: '' @ fmt_hex 8 (unat (R32_ESIG_UNIID2 m)) @ crlf
     @ ''UniID3: '' @ fmt_hex 8 (unat (R32_ESIG_UNIID3 m)) @ crlf"

definition print_boot :: "u32 \<Rightarrow> u32 \<Rightarrow> string" where
  "print_boot boot SystemCoreClock =
     ''Initializing boot #'' @ fmt_dec (unat boot) @ crlf @ ''Clock: '' @ fmt_dec (unat SystemCoreClock) @ crlf"

definition print_MAC :: "u8 list \<Rightarrow> string" where
  "print_MAC mac =
     ''MAC: '' @ fmt_hex 2 (unat (mac ! 0)) @ '':'' @ fmt_hex 2 (unat (mac ! 1)) @ '':'' @ fmt_hex 2 (unat (mac ! 2))
     @ '':'' @ fmt_hex 2 (unat (mac ! 3)) @ '':'' @ fmt_hex 2 (unat (mac ! 4)) @ '':'' @ fmt_hex 2 (unat (mac ! 5)) @ crlf"

text \<open>The fault handler prints and then stays in its loop: it does not return.\<close>

partial_function (option) spin :: "string \<Rightarrow> string option" where
  "spin out = spin out"

definition HardFault_Handler :: "string \<Rightarrow> string option" where
  "HardFault_Handler out = spin (out @ concat (replicate 48 (''HardFault!'' @ crlf)))"

lemma spin_None: "spin out = None"
proof (rule ccontr)
  assume "spin out \<noteq> None"
  then obtain r where "spin out = Some r" by blast
  then show False by (rule spin.raw_induct [where P = "\<lambda>out r. False", rotated]) blast
qed

lemma HardFault_never_returns: "HardFault_Handler out = None"
  by (simp add: HardFault_Handler_def spin_None)

section \<open>Reading the console back\<close>

fun index_of :: "char \<Rightarrow> string \<Rightarrow> nat" where
  "index_of c [] = 0"
| "index_of c (d # ds) = (if c = d then 0 else Suc (index_of c ds))"

definition hex_value :: "char \<Rightarrow> nat" where
  "hex_value c = index_of c digit_chars"

lemma hex_value_char: "n < 16 \<Longrightarrow> hex_value (hex_char n) = n"
proof -
  have "list_all (\<lambda>n. hex_value (hex_char n) = n) [0..<16]" by code_simp
  then show "n < 16 \<Longrightarrow> hex_value (hex_char n) = n" by (simp add: list_all_iff)
qed

definition read_hex :: "string \<Rightarrow> nat" where
  "read_hex s = foldl (\<lambda>v c. 16 * v + hex_value c) 0 s"

lemma read_fmt_hex: "v < 16 ^ k \<Longrightarrow> read_hex (fmt_hex k v) = v"
proof (induction k arbitrary: v)
  case (Suc k)
  have "hex_char v = hex_char (v mod 16)" by (simp add: hex_char_def)
  then have "hex_value (hex_char v) = v mod 16" using hex_value_char [of "v mod 16"] by simp
  moreover have "read_hex (fmt_hex k (v div 16)) = v div 16"
    using Suc.prems by (intro Suc.IH) (simp add: less_mult_imp_div_less mult.commute)
  ultimately show ?case by (simp add: read_hex_def)
qed (simp add: read_hex_def)

lemma length_fmt_hex [simp]: "length (fmt_hex k v) = k"
  by (induction k arbitrary: v) simp_all

text \<open>The bytes of a dump: two digits and a space each, line ends skipped.\<close>

fun read_bytes :: "string \<Rightarrow> nat list" where
  "read_bytes (a # b # c # s) =
     (if a = CHR 0x0D then read_bytes (c # s)
      else if c = CHR '' '' then read_hex [a, b] # read_bytes s else [])"
| "read_bytes s = []"

definition read_dump :: "string \<Rightarrow> nat list" where
  "read_dump s = read_bytes (tl (dropWhile (\<lambda>c. c \<noteq> CHR 0x0A) s))"

lemma fmt_hex_2: "fmt_hex 2 v = [hex_char (v div 16), hex_char v]"
  by (simp add: numeral_2_eq_2)

lemma hex_char_no_cr: "hex_char n \<noteq> CHR 0x0D \<and> hex_char n \<noteq> CHR 0x0A"
proof -
  have "list_all (\<lambda>n. hex_char n \<noteq> CHR 0x0D \<and> hex_char n \<noteq> CHR 0x0A) [0..<16]" by code_simp
  moreover have "hex_char n = hex_char (n mod 16)" by (simp add: hex_char_def)
  ultimately show ?thesis by (simp add: list_all_iff del: upt_rec_numeral)
qed

lemma read_bytes_byte:
  assumes "v < 256"
  shows "read_bytes (fmt_hex 2 v @ '' '' @ s) = v # read_bytes s"
proof -
  have "read_hex [hex_char (v div 16), hex_char v] = v"
    using read_fmt_hex [of v 2] assms by (simp add: fmt_hex_2)
  then show ?thesis using hex_char_no_cr by (simp add: fmt_hex_2)
qed

lemma read_bytes_crlf: "s = c # s' \<Longrightarrow> read_bytes (crlf @ s) = read_bytes s"
  by (simp add: crlf_def)

lemma read_bytes_bytes:
  assumes "\<And>i. i \<in> set ks \<Longrightarrow> v i < 256" "rest = c # rest'"
  shows "read_bytes (concat (map (\<lambda>i. fmt_hex 2 (v i) @ '' '' @ (if line i then crlf else [])) ks) @ rest)
    = map v ks @ read_bytes rest"
  using assms(1)
proof (induction ks)
  case (Cons i ks)
  let ?tail = "concat (map (\<lambda>i. fmt_hex 2 (v i) @ '' '' @ (if line i then crlf else [])) ks) @ rest"
  obtain d t where t: "?tail = d # t" using assms(2) by (cases ?tail) auto
  have "read_bytes ((if line i then crlf else []) @ ?tail) = read_bytes ?tail"
    using read_bytes_crlf [OF t] by simp
  with read_bytes_byte [of "v i" "(if line i then crlf else []) @ ?tail"] Cons show ?case by simp
qed simp

lemma fmt_dec_no_lf: "list_all (\<lambda>c. c \<noteq> CHR 0x0A) (fmt_dec n)"
proof (induction n rule: fmt_dec.induct)
  case (1 n)
  then show ?case using hex_char_no_cr by (subst fmt_dec.simps) (auto simp: Let_def)
qed

lemma dropWhile_line:
  "list_all (\<lambda>c. c \<noteq> CHR 0x0A) s \<Longrightarrow> dropWhile (\<lambda>c. c \<noteq> CHR 0x0A) (s @ crlf @ t) = CHR 0x0A # t"
  by (induction s) (simp_all add: crlf_def)

text \<open>
  C34. The dump of a received frame can be read back: whatever the frame and its length are, the
  console shows exactly its bytes, in their order, with the line ends where they do not disturb.
\<close>

theorem PacketRx_dump_readable:
  "read_dump (PacketRx_dump fmt_p frame len m) = map unat (mem_bytes m frame (unat len))"
proof -
  let ?v = "\<lambda>i. unat (m (frame + of_nat i))" and ?line = "\<lambda>i. (of_nat i AND 0x1F :: u32) = 0x1F"
  let ?head = "''Received '' @ fmt_dec (unat len) @ '':''"
  let ?body = "concat (map (\<lambda>i. fmt_hex 2 (?v i) @ '' '' @ (if ?line i then crlf else [])) [0..<unat len])"
  have head: "list_all (\<lambda>c. c \<noteq> CHR 0x0A) ?head" using fmt_dec_no_lf by simp
  have eq: "PacketRx_dump fmt_p frame len m = ?head @ crlf @ ?body @ crlf @ ''&eth: '' @ fmt_p frame @ crlf"
    unfolding PacketRx_dump_def by (simp only: append_assoc)
  have byte: "?v i < 256" for i using unsigned_less [of "m (frame + of_nat i)", where 'a = nat] by simp
  have "crlf @ ''&eth: '' @ fmt_p frame @ crlf = CHR 0x0D # CHR 0x0A # ''&eth: '' @ fmt_p frame @ crlf"
    by (simp add: crlf_def)
  from read_bytes_bytes [where v = ?v and line = ?line and ks = "[0..<unat len]", OF byte this]
  have "read_bytes (?body @ crlf @ ''&eth: '' @ fmt_p frame @ crlf)
      = map ?v [0..<unat len] @ read_bytes (crlf @ ''&eth: '' @ fmt_p frame @ crlf)" .
  moreover have "read_bytes (crlf @ ''&eth: '' @ fmt_p frame @ crlf) = []"
    by (simp add: crlf_def)
  ultimately show ?thesis
    unfolding read_dump_def eq dropWhile_line [OF head] by (simp add: mem_bytes_def comp_def)
qed

end
