(* ===== verification/Pcg_Initializers.thy ===== *)
theory Pcg_Initializers
  imports Pcg_Variants
begin

text \<open>
  The static initial states of \<open>src/pcg_variants.h\<close>, for programs that do not seed their
  generators: each satisfies the invariant that the period of its style depends on.
\<close>

definition PCG_STATE_ONESEQ_8_INITIALIZER :: pcg_state_8 where
  "PCG_STATE_ONESEQ_8_INITIALIZER = \<lparr>state = 0xd7\<rparr>"

definition PCG_STATE_ONESEQ_16_INITIALIZER :: pcg_state_16 where
  "PCG_STATE_ONESEQ_16_INITIALIZER = \<lparr>state = 0x20df\<rparr>"

definition PCG_STATE_ONESEQ_32_INITIALIZER :: pcg_state_32 where
  "PCG_STATE_ONESEQ_32_INITIALIZER = \<lparr>state = 0x46b56677\<rparr>"

definition PCG_STATE_ONESEQ_64_INITIALIZER :: pcg_state_64 where
  "PCG_STATE_ONESEQ_64_INITIALIZER = \<lparr>state = 0x4d595df4d0f33173\<rparr>"

definition PCG_STATE_ONESEQ_128_INITIALIZER :: pcg_state_128 where
  "PCG_STATE_ONESEQ_128_INITIALIZER = \<lparr>state = PCG_128BIT_CONSTANT 0xb8dc10e158a92392 0x98046df007ec0a53\<rparr>"

definition PCG_STATE_UNIQUE_8_INITIALIZER :: pcg_state_8 where
  "PCG_STATE_UNIQUE_8_INITIALIZER = PCG_STATE_ONESEQ_8_INITIALIZER"

definition PCG_STATE_UNIQUE_16_INITIALIZER :: pcg_state_16 where
  "PCG_STATE_UNIQUE_16_INITIALIZER = PCG_STATE_ONESEQ_16_INITIALIZER"

definition PCG_STATE_UNIQUE_32_INITIALIZER :: pcg_state_32 where
  "PCG_STATE_UNIQUE_32_INITIALIZER = PCG_STATE_ONESEQ_32_INITIALIZER"

definition PCG_STATE_UNIQUE_64_INITIALIZER :: pcg_state_64 where
  "PCG_STATE_UNIQUE_64_INITIALIZER = PCG_STATE_ONESEQ_64_INITIALIZER"

definition PCG_STATE_UNIQUE_128_INITIALIZER :: pcg_state_128 where
  "PCG_STATE_UNIQUE_128_INITIALIZER = PCG_STATE_ONESEQ_128_INITIALIZER"

definition PCG_STATE_MCG_8_INITIALIZER :: pcg_state_8 where
  "PCG_STATE_MCG_8_INITIALIZER = \<lparr>state = 0xe5\<rparr>"

definition PCG_STATE_MCG_16_INITIALIZER :: pcg_state_16 where
  "PCG_STATE_MCG_16_INITIALIZER = \<lparr>state = 0xa5e5\<rparr>"

definition PCG_STATE_MCG_32_INITIALIZER :: pcg_state_32 where
  "PCG_STATE_MCG_32_INITIALIZER = \<lparr>state = 0xd15ea5e5\<rparr>"

definition PCG_STATE_MCG_64_INITIALIZER :: pcg_state_64 where
  "PCG_STATE_MCG_64_INITIALIZER = \<lparr>state = 0xcafef00dd15ea5e5\<rparr>"

definition PCG_STATE_MCG_128_INITIALIZER :: pcg_state_128 where
  "PCG_STATE_MCG_128_INITIALIZER = \<lparr>state = PCG_128BIT_CONSTANT 0x0000000000000000 0xcafef00dd15ea5e5\<rparr>"

definition PCG_STATE_SETSEQ_8_INITIALIZER :: pcg_state_setseq_8 where
  "PCG_STATE_SETSEQ_8_INITIALIZER = \<lparr>sq_state = 0x9b, sq_inc = 0xdb\<rparr>"

definition PCG_STATE_SETSEQ_16_INITIALIZER :: pcg_state_setseq_16 where
  "PCG_STATE_SETSEQ_16_INITIALIZER = \<lparr>sq_state = 0xe39b, sq_inc = 0x5bdb\<rparr>"

definition PCG_STATE_SETSEQ_32_INITIALIZER :: pcg_state_setseq_32 where
  "PCG_STATE_SETSEQ_32_INITIALIZER = \<lparr>sq_state = 0xec02d89b, sq_inc = 0x94b95bdb\<rparr>"

definition PCG_STATE_SETSEQ_64_INITIALIZER :: pcg_state_setseq_64 where
  "PCG_STATE_SETSEQ_64_INITIALIZER = \<lparr>sq_state = 0x853c49e6748fea9b, sq_inc = 0xda3e39cb94b95bdb\<rparr>"

definition PCG_STATE_SETSEQ_128_INITIALIZER :: pcg_state_setseq_128 where
  "PCG_STATE_SETSEQ_128_INITIALIZER = \<lparr>sq_state = PCG_128BIT_CONSTANT 0x979c9a98d8462005 0x7d3e9cb6cfe0549b, sq_inc = PCG_128BIT_CONSTANT 0x0000000000000001 0xda3e39cb94b95bdb\<rparr>"

definition PCG32_INITIALIZER :: pcg_state_setseq_64 where
  "PCG32_INITIALIZER = PCG_STATE_SETSEQ_64_INITIALIZER"

definition PCG32U_INITIALIZER :: pcg_state_64 where
  "PCG32U_INITIALIZER = PCG_STATE_UNIQUE_64_INITIALIZER"

definition PCG32S_INITIALIZER :: pcg_state_64 where
  "PCG32S_INITIALIZER = PCG_STATE_ONESEQ_64_INITIALIZER"

definition PCG32F_INITIALIZER :: pcg_state_64 where
  "PCG32F_INITIALIZER = PCG_STATE_MCG_64_INITIALIZER"

definition PCG64_INITIALIZER :: pcg_state_setseq_128 where
  "PCG64_INITIALIZER = PCG_STATE_SETSEQ_128_INITIALIZER"

definition PCG64U_INITIALIZER :: pcg_state_128 where
  "PCG64U_INITIALIZER = PCG_STATE_UNIQUE_128_INITIALIZER"

definition PCG64S_INITIALIZER :: pcg_state_128 where
  "PCG64S_INITIALIZER = PCG_STATE_ONESEQ_128_INITIALIZER"

definition PCG64F_INITIALIZER :: pcg_state_128 where
  "PCG64F_INITIALIZER = PCG_STATE_MCG_128_INITIALIZER"

definition PCG8SI_INITIALIZER :: pcg_state_8 where
  "PCG8SI_INITIALIZER = PCG_STATE_ONESEQ_8_INITIALIZER"

definition PCG16SI_INITIALIZER :: pcg_state_16 where
  "PCG16SI_INITIALIZER = PCG_STATE_ONESEQ_16_INITIALIZER"

definition PCG32SI_INITIALIZER :: pcg_state_32 where
  "PCG32SI_INITIALIZER = PCG_STATE_ONESEQ_32_INITIALIZER"

definition PCG64SI_INITIALIZER :: pcg_state_64 where
  "PCG64SI_INITIALIZER = PCG_STATE_ONESEQ_64_INITIALIZER"

definition PCG128SI_INITIALIZER :: pcg_state_128 where
  "PCG128SI_INITIALIZER = PCG_STATE_ONESEQ_128_INITIALIZER"

definition PCG8I_INITIALIZER :: pcg_state_setseq_8 where
  "PCG8I_INITIALIZER = PCG_STATE_SETSEQ_8_INITIALIZER"

definition PCG16I_INITIALIZER :: pcg_state_setseq_16 where
  "PCG16I_INITIALIZER = PCG_STATE_SETSEQ_16_INITIALIZER"

definition PCG32I_INITIALIZER :: pcg_state_setseq_32 where
  "PCG32I_INITIALIZER = PCG_STATE_SETSEQ_32_INITIALIZER"

definition PCG64I_INITIALIZER :: pcg_state_setseq_64 where
  "PCG64I_INITIALIZER = PCG_STATE_SETSEQ_64_INITIALIZER"

definition PCG128I_INITIALIZER :: pcg_state_setseq_128 where
  "PCG128I_INITIALIZER = PCG_STATE_SETSEQ_128_INITIALIZER"

text \<open>The increments of the streams and the states of the multiplicative generators are odd.\<close>

lemma initializer_increments_odd:
  "odd (sq_inc PCG_STATE_SETSEQ_8_INITIALIZER)"
  "odd (sq_inc PCG_STATE_SETSEQ_16_INITIALIZER)"
  "odd (sq_inc PCG_STATE_SETSEQ_32_INITIALIZER)"
  "odd (sq_inc PCG_STATE_SETSEQ_64_INITIALIZER)"
  "odd (sq_inc PCG_STATE_SETSEQ_128_INITIALIZER)"
  by (simp_all add: PCG_128BIT_CONSTANT_def PCG_STATE_SETSEQ_8_INITIALIZER_def PCG_STATE_SETSEQ_16_INITIALIZER_def PCG_STATE_SETSEQ_32_INITIALIZER_def PCG_STATE_SETSEQ_64_INITIALIZER_def PCG_STATE_SETSEQ_128_INITIALIZER_def)

lemma initializer_states_odd:
  "odd (state PCG_STATE_MCG_8_INITIALIZER)"
  "odd (state PCG_STATE_MCG_16_INITIALIZER)"
  "odd (state PCG_STATE_MCG_32_INITIALIZER)"
  "odd (state PCG_STATE_MCG_64_INITIALIZER)"
  "odd (state PCG_STATE_MCG_128_INITIALIZER)"
  by (simp_all add: PCG_128BIT_CONSTANT_def PCG_STATE_MCG_8_INITIALIZER_def PCG_STATE_MCG_16_INITIALIZER_def PCG_STATE_MCG_32_INITIALIZER_def PCG_STATE_MCG_64_INITIALIZER_def PCG_STATE_MCG_128_INITIALIZER_def)

end
