(* ===== verification/Net_Tables.thy ===== *)
theory Net_Tables
  imports Net_Headers
begin

text \<open>
  The numbers and tables of the network headers under \<open>src/include\<close>: the Ethernet types of
  \<open>net/ethertypes.h\<close>, the protocol numbers of \<open>netinet/in.h\<close>, and the tables of names that
  \<open>in.h\<close> and \<open>netinet6/in6.h\<close> hold for an operating system's configuration interface, which are arrays
  indexed by these numbers.  A group of numbers is a list of names with values, in the order of the
  header; an entry of a table without a name is \<open>None\<close>.
\<close>

section \<open>Ethernet types\<close>

definition ethertypes1 :: "(string \<times> int) list" where
  "ethertypes1 = [
     (''ETHERTYPE_8023'', 0x0004), (''ETHERTYPE_PUP'', 0x0200), (''ETHERTYPE_PUPAT'', 0x0200),
     (''ETHERTYPE_SPRITE'', 0x0500), (''ETHERTYPE_NS'', 0x0600), (''ETHERTYPE_NSAT'', 0x0601),
     (''ETHERTYPE_DLOG1'', 0x0660), (''ETHERTYPE_DLOG2'', 0x0661), (''ETHERTYPE_IP'', 0x0800),
     (''ETHERTYPE_X75'', 0x0801), (''ETHERTYPE_NBS'', 0x0802), (''ETHERTYPE_ECMA'', 0x0803),
     (''ETHERTYPE_CHAOS'', 0x0804), (''ETHERTYPE_X25'', 0x0805), (''ETHERTYPE_ARP'', 0x0806),
     (''ETHERTYPE_NSCOMPAT'', 0x0807), (''ETHERTYPE_FRARP'', 0x0808), (''ETHERTYPE_UBDEBUG'', 0x0900),
     (''ETHERTYPE_IEEEPUP'', 0x0A00), (''ETHERTYPE_IEEEPUPAT'', 0x0A01), (''ETHERTYPE_VINES'', 0x0BAD),
     (''ETHERTYPE_VINESLOOP'', 0x0BAE), (''ETHERTYPE_VINESECHO'', 0x0BAF), (''ETHERTYPE_TRAIL'', 0x1000),
     (''ETHERTYPE_DCA'', 0x1234), (''ETHERTYPE_VALID'', 0x1600), (''ETHERTYPE_DOGFIGHT'', 0x1989),
     (''ETHERTYPE_RCL'', 0x1995), (''ETHERTYPE_NHRP'', 0x2001), (''ETHERTYPE_NBPVCD'', 0x3C00),
     (''ETHERTYPE_NBPSCD'', 0x3C01), (''ETHERTYPE_NBPCREQ'', 0x3C02), (''ETHERTYPE_NBPCRSP'', 0x3C03),
     (''ETHERTYPE_NBPCC'', 0x3C04), (''ETHERTYPE_NBPCLREQ'', 0x3C05), (''ETHERTYPE_NBPCLRSP'', 0x3C06),
     (''ETHERTYPE_NBPDG'', 0x3C07), (''ETHERTYPE_NBPDGB'', 0x3C08), (''ETHERTYPE_NBPCLAIM'', 0x3C09),
     (''ETHERTYPE_NBPDLTE'', 0x3C0A), (''ETHERTYPE_NBPRAS'', 0x3C0B), (''ETHERTYPE_NBPRAR'', 0x3C0C),
     (''ETHERTYPE_NBPRST'', 0x3C0D), (''ETHERTYPE_PCS'', 0x4242), (''ETHERTYPE_IMLBLDIAG'', 0x424C),
     (''ETHERTYPE_DIDDLE'', 0x4321), (''ETHERTYPE_IMLBL'', 0x4C42), (''ETHERTYPE_SIMNET'', 0x5208),
     (''ETHERTYPE_DECEXPER'', 0x6000), (''ETHERTYPE_MOPDL'', 0x6001), (''ETHERTYPE_MOPRC'', 0x6002),
     (''ETHERTYPE_DECnet'', 0x6003), (''ETHERTYPE_DN'', 0x6003), (''ETHERTYPE_LAT'', 0x6004),
     (''ETHERTYPE_DECDIAG'', 0x6005), (''ETHERTYPE_DECCUST'', 0x6006), (''ETHERTYPE_SCA'', 0x6007),
     (''ETHERTYPE_AMBER'', 0x6008), (''ETHERTYPE_DECMUMPS'', 0x6009), (''ETHERTYPE_TRANSETHER'', 0x6558),
     (''ETHERTYPE_RAWFR'', 0x6559), (''ETHERTYPE_UBDL'', 0x7000), (''ETHERTYPE_UBNIU'', 0x7001),
     (''ETHERTYPE_UBDIAGLOOP'', 0x7002), (''ETHERTYPE_UBNMC'', 0x7003), (''ETHERTYPE_UBBST'', 0x7005),
     (''ETHERTYPE_OS9'', 0x7007), (''ETHERTYPE_OS9NET'', 0x7009), (''ETHERTYPE_RACAL'', 0x7030),
     (''ETHERTYPE_PRIMENTS'', 0x7031), (''ETHERTYPE_CABLETRON'', 0x7034), (''ETHERTYPE_CRONUSVLN'', 0x8003),
     (''ETHERTYPE_CRONUS'', 0x8004), (''ETHERTYPE_HP'', 0x8005), (''ETHERTYPE_NESTAR'', 0x8006),
     (''ETHERTYPE_ATTSTANFORD'', 0x8008), (''ETHERTYPE_EXCELAN'', 0x8010), (''ETHERTYPE_SG_DIAG'', 0x8013),
     (''ETHERTYPE_SG_NETGAMES'', 0x8014), (''ETHERTYPE_SG_RESV'', 0x8015),
     (''ETHERTYPE_SG_BOUNCE'', 0x8016), (''ETHERTYPE_APOLLODOMAIN'', 0x8019),
     (''ETHERTYPE_TYMSHARE'', 0x802E), (''ETHERTYPE_TIGAN'', 0x802F), (''ETHERTYPE_REVARP'', 0x8035),
     (''ETHERTYPE_AEONIC'', 0x8036), (''ETHERTYPE_IPXNEW'', 0x8037), (''ETHERTYPE_LANBRIDGE'', 0x8038),
     (''ETHERTYPE_DSMD'', 0x8039), (''ETHERTYPE_ARGONAUT'', 0x803A), (''ETHERTYPE_VAXELN'', 0x803B),
     (''ETHERTYPE_DECDNS'', 0x803C), (''ETHERTYPE_ENCRYPT'', 0x803D), (''ETHERTYPE_DECDTS'', 0x803E),
     (''ETHERTYPE_DECLTM'', 0x803F), (''ETHERTYPE_DECNETBIOS'', 0x8040), (''ETHERTYPE_DECLAST'', 0x8041),
     (''ETHERTYPE_PLANNING'', 0x8044), (''ETHERTYPE_DECAM'', 0x8048), (''ETHERTYPE_EXPERDATA'', 0x8049),
     (''ETHERTYPE_VEXP'', 0x805B), (''ETHERTYPE_VPROD'', 0x805C), (''ETHERTYPE_ES'', 0x805D),
     (''ETHERTYPE_LITTLE'', 0x8060), (''ETHERTYPE_COUNTERPOINT'', 0x8062), (''ETHERTYPE_VEECO'', 0x8067),
     (''ETHERTYPE_GENDYN'', 0x8068)]"

definition ethertypes2 :: "(string \<times> int) list" where
  "ethertypes2 = [
     (''ETHERTYPE_ATT'', 0x8069), (''ETHERTYPE_AUTOPHON'', 0x806A), (''ETHERTYPE_COMDESIGN'', 0x806C),
     (''ETHERTYPE_COMPUGRAPHIC'', 0x806D), (''ETHERTYPE_MATRA'', 0x807A), (''ETHERTYPE_DDE'', 0x807B),
     (''ETHERTYPE_MERIT'', 0x807C), (''ETHERTYPE_VLTLMAN'', 0x8080), (''ETHERTYPE_ATALK'', 0x809B),
     (''ETHERTYPE_AT'', 0x809B), (''ETHERTYPE_APPLETALK'', 0x809B), (''ETHERTYPE_SPIDER'', 0x809F),
     (''ETHERTYPE_PACER'', 0x80C6), (''ETHERTYPE_APPLITEK'', 0x80C7), (''ETHERTYPE_SNA'', 0x80D5),
     (''ETHERTYPE_VARIAN'', 0x80DD), (''ETHERTYPE_RETIX'', 0x80F2), (''ETHERTYPE_AARP'', 0x80F3),
     (''ETHERTYPE_APOLLO'', 0x80F7), (''ETHERTYPE_VLAN'', 0x8100), (''ETHERTYPE_BOFL'', 0x8102),
     (''ETHERTYPE_WELLFLEET'', 0x8103), (''ETHERTYPE_TALARIS'', 0x812B), (''ETHERTYPE_WATERLOO'', 0x8130),
     (''ETHERTYPE_HAYES'', 0x8130), (''ETHERTYPE_VGLAB'', 0x8131), (''ETHERTYPE_IPX'', 0x8137),
     (''ETHERTYPE_NOVELL'', 0x8138), (''ETHERTYPE_MUMPS'', 0x813F), (''ETHERTYPE_AMOEBA'', 0x8145),
     (''ETHERTYPE_FLIP'', 0x8146), (''ETHERTYPE_VURESERVED'', 0x8147), (''ETHERTYPE_LOGICRAFT'', 0x8148),
     (''ETHERTYPE_NCD'', 0x8149), (''ETHERTYPE_ALPHA'', 0x814A), (''ETHERTYPE_SNMP'', 0x814C),
     (''ETHERTYPE_TEC'', 0x814F), (''ETHERTYPE_RATIONAL'', 0x8150), (''ETHERTYPE_XTP'', 0x817D),
     (''ETHERTYPE_SGITW'', 0x817E), (''ETHERTYPE_HIPPI_FP'', 0x8180), (''ETHERTYPE_STP'', 0x8181),
     (''ETHERTYPE_MOTOROLA'', 0x818D), (''ETHERTYPE_NETBEUI'', 0x8191), (''ETHERTYPE_ACCTON'', 0x8390),
     (''ETHERTYPE_TALARISMC'', 0x852B), (''ETHERTYPE_KALPANA'', 0x8582), (''ETHERTYPE_SECTRA'', 0x86DB),
     (''ETHERTYPE_IPV6'', 0x86DD), (''ETHERTYPE_DELTACON'', 0x86DE), (''ETHERTYPE_ATOMIC'', 0x86DF),
     (''ETHERTYPE_RDP'', 0x8739), (''ETHERTYPE_MICP'', 0x873A), (''ETHERTYPE_TCPCOMP'', 0x876B),
     (''ETHERTYPE_IPAS'', 0x876C), (''ETHERTYPE_SECUREDATA'', 0x876D), (''ETHERTYPE_FLOWCONTROL'', 0x8808),
     (''ETHERTYPE_SLOW'', 0x8809), (''ETHERTYPE_PPP'', 0x880B), (''ETHERTYPE_HITACHI'', 0x8820),
     (''ETHERTYPE_MPLS'', 0x8847), (''ETHERTYPE_MPLS_MCAST'', 0x8848), (''ETHERTYPE_AXIS'', 0x8856),
     (''ETHERTYPE_PPPOEDISC'', 0x8863), (''ETHERTYPE_PPPOE'', 0x8864), (''ETHERTYPE_LANPROBE'', 0x8888),
     (''ETHERTYPE_EAPOL'', 0x888E), (''ETHERTYPE_AOE'', 0x88A2), (''ETHERTYPE_QINQ'', 0x88A8),
     (''ETHERTYPE_LLDP'', 0x88CC), (''ETHERTYPE_802_EX1'', 0x88B5), (''ETHERTYPE_802_EX2'', 0x88B6),
     (''ETHERTYPE_MACSEC'', 0x88E5), (''ETHERTYPE_PBB'', 0x88E7), (''ETHERTYPE_PTP'', 0x88F7),
     (''ETHERTYPE_CFM'', 0x8902), (''ETHERTYPE_NSH'', 0x894F), (''ETHERTYPE_LOOPBACK'', 0x9000),
     (''ETHERTYPE_LBACK'', 0x9000), (''ETHERTYPE_XNSSM'', 0x9001), (''ETHERTYPE_TCPSM'', 0x9002),
     (''ETHERTYPE_BCLOOP'', 0x9003), (''ETHERTYPE_DEBNI'', 0xAAAA), (''ETHERTYPE_SONIX'', 0xFAF5),
     (''ETHERTYPE_VITAL'', 0xFF00)]"

definition ETHERTYPE_NTRAILER :: int where
  "ETHERTYPE_NTRAILER = 16"

definition ETHERTYPE_MAX :: int where
  "ETHERTYPE_MAX = 0xFFFF"

definition ethertypes :: "(string \<times> int) list" where
  "ethertypes = ethertypes1 @ ethertypes2"

section \<open>Protocols\<close>

definition ip_protocols :: "(string \<times> int) list" where
  "ip_protocols = [
     (''IPPROTO_IP'', 0), (''IPPROTO_HOPOPTS'', 0), (''IPPROTO_ICMP'', 1), (''IPPROTO_IGMP'', 2),
     (''IPPROTO_GGP'', 3), (''IPPROTO_IPIP'', 4), (''IPPROTO_IPV4'', 4), (''IPPROTO_TCP'', 6),
     (''IPPROTO_EGP'', 8), (''IPPROTO_PUP'', 12), (''IPPROTO_UDP'', 17), (''IPPROTO_IDP'', 22),
     (''IPPROTO_TP'', 29), (''IPPROTO_IPV6'', 41), (''IPPROTO_ROUTING'', 43), (''IPPROTO_FRAGMENT'', 44),
     (''IPPROTO_RSVP'', 46), (''IPPROTO_GRE'', 47), (''IPPROTO_ESP'', 50), (''IPPROTO_AH'', 51),
     (''IPPROTO_MOBILE'', 55), (''IPPROTO_ICMPV6'', 58), (''IPPROTO_NONE'', 59), (''IPPROTO_DSTOPTS'', 60),
     (''IPPROTO_EON'', 80), (''IPPROTO_ETHERIP'', 97), (''IPPROTO_ENCAP'', 98), (''IPPROTO_PIM'', 103),
     (''IPPROTO_IPCOMP'', 108), (''IPPROTO_CARP'', 112), (''IPPROTO_SCTP'', 132),
     (''IPPROTO_UDPLITE'', 136), (''IPPROTO_MPLS'', 137), (''IPPROTO_PFSYNC'', 240), (''IPPROTO_RAW'', 255),
     (''IPPROTO_MAX'', 256), (''IPPROTO_DIVERT'', 258)]"

definition IPPROTO_DONE :: int where
  "IPPROTO_DONE = 257"

definition IPPROTO_MAXID :: int where
  "IPPROTO_MAXID = the (map_of ip_protocols ''IPPROTO_DIVERT'') + 1"

definition IPV6PROTO_MAXID :: int where
  "IPV6PROTO_MAXID = the (map_of ip_protocols ''IPPROTO_DIVERT'') + 1"

section \<open>Configuration tables\<close>

text \<open>The kinds of an entry are constants of the system's \<open>sysctl.h\<close>: a parameter.\<close>

record 'a ctltypes =
  CTLTYPE_NODE :: 'a
  CTLTYPE_INT :: 'a
  CTLTYPE_STRING :: 'a
  CTLTYPE_STRUCT :: 'a

text \<open>The table of protocol names, in two halves.\<close>

definition ipproto_names_low :: "'a ctltypes \<Rightarrow> (string \<times> 'a) option list" where
  "ipproto_names_low ct = [
     Some (''ip'', CTLTYPE_NODE ct), Some (''icmp'', CTLTYPE_NODE ct), Some (''igmp'', CTLTYPE_NODE ct),
     Some (''ggp'', CTLTYPE_NODE ct), Some (''ipip'', CTLTYPE_NODE ct), None,
     Some (''tcp'', CTLTYPE_NODE ct), None, Some (''egp'', CTLTYPE_NODE ct), None, None, None,
     Some (''pup'', CTLTYPE_NODE ct), None, None, None, None, Some (''udp'', CTLTYPE_NODE ct), None,
     None, None, None, None, None, None, None, None, None, None, None, None, None, None, None, None,
     None, None, None, None, None, None, None, None, None, None, None, None,
     Some (''gre'', CTLTYPE_NODE ct), None, None, Some (''esp'', CTLTYPE_NODE ct),
     Some (''ah'', CTLTYPE_NODE ct), None, None, None, None, None, None, None, None, None, None, None,
     None, None, None, None, None, None, None, None, None, None, None, None, None, None, None, None,
     None, None, None, None, None, None, None, None, None, None, None, None, None, None, None, None,
     None, None, Some (''etherip'', CTLTYPE_NODE ct), None, None, None, None, None, None, None, None,
     None, None, Some (''ipcomp'', CTLTYPE_NODE ct), None, None, None, Some (''carp'', CTLTYPE_NODE ct),
     None, None, None, None, None, None, None, None, None, None, None, None, None, None, None, None]"

definition ipproto_names_high :: "'a ctltypes \<Rightarrow> (string \<times> 'a) option list" where
  "ipproto_names_high ct = [
     None, None, None, None, None, None, None, None, None, None, None, None, None, None, None, None,
     None, None, None, None, None, None, None, None, None, None, None, None, None, None, None, None,
     None, None, None, None, None, None, None, None, None, None, None, None, None, None, None, None,
     None, None, None, None, None, None, None, None, None, None, None, None, None, None, None, None,
     None, None, None, None, None, None, None, None, None, None, None, None, None, None, None, None,
     None, None, None, None, None, None, None, None, None, None, None, None, None, None, None, None,
     None, None, None, None, None, None, None, None, None, None, None, None, None, None, None,
     Some (''pfsync'', CTLTYPE_NODE ct), None, None, None, None, None, None, None, None, None, None,
     None, None, None, None, None, None, None, Some (''divert'', CTLTYPE_NODE ct)]"

definition CTL_IPPROTO_NAMES :: "'a ctltypes \<Rightarrow> (string \<times> 'a) option list" where
  "CTL_IPPROTO_NAMES ct = ipproto_names_low ct @ ipproto_names_high ct"

definition ipctl_numbers :: "(string \<times> int) list" where
  "ipctl_numbers = [
     (''IPCTL_FORWARDING'', 1), (''IPCTL_SENDREDIRECTS'', 2), (''IPCTL_DEFTTL'', 3),
     (''IPCTL_SOURCEROUTE'', 5), (''IPCTL_DIRECTEDBCAST'', 6), (''IPCTL_IPPORT_FIRSTAUTO'', 7),
     (''IPCTL_IPPORT_LASTAUTO'', 8), (''IPCTL_IPPORT_HIFIRSTAUTO'', 9), (''IPCTL_IPPORT_HILASTAUTO'', 10),
     (''IPCTL_IPPORT_MAXQUEUE'', 11), (''IPCTL_ENCDEBUG'', 12), (''IPCTL_IPSEC_STATS'', 13),
     (''IPCTL_IPSEC_EXPIRE_ACQUIRE'', 14), (''IPCTL_IPSEC_EMBRYONIC_SA_TIMEOUT'', 15),
     (''IPCTL_IPSEC_REQUIRE_PFS'', 16), (''IPCTL_IPSEC_SOFT_ALLOCATIONS'', 17),
     (''IPCTL_IPSEC_ALLOCATIONS'', 18), (''IPCTL_IPSEC_SOFT_BYTES'', 19), (''IPCTL_IPSEC_BYTES'', 20),
     (''IPCTL_IPSEC_TIMEOUT'', 21), (''IPCTL_IPSEC_SOFT_TIMEOUT'', 22), (''IPCTL_IPSEC_SOFT_FIRSTUSE'', 23),
     (''IPCTL_IPSEC_FIRSTUSE'', 24), (''IPCTL_IPSEC_ENC_ALGORITHM'', 25),
     (''IPCTL_IPSEC_AUTH_ALGORITHM'', 26), (''IPCTL_MTUDISC'', 27), (''IPCTL_MTUDISCTIMEOUT'', 28),
     (''IPCTL_IPSEC_IPCOMP_ALGORITHM'', 29), (''IPCTL_IFQUEUE'', 30), (''IPCTL_MFORWARDING'', 31),
     (''IPCTL_MULTIPATH'', 32), (''IPCTL_STATS'', 33), (''IPCTL_MRTPROTO'', 34), (''IPCTL_MRTSTATS'', 35),
     (''IPCTL_ARPQUEUED'', 36), (''IPCTL_MRTMFC'', 37), (''IPCTL_MRTVIF'', 38), (''IPCTL_ARPTIMEOUT'', 39),
     (''IPCTL_ARPDOWN'', 40), (''IPCTL_ARPQUEUE'', 41), (''IPCTL_MAXID'', 42)]"

definition IPCTL_NAMES :: "'a ctltypes \<Rightarrow> (string \<times> 'a) option list" where
  "IPCTL_NAMES ct = [
     None, Some (''forwarding'', CTLTYPE_INT ct), Some (''redirect'', CTLTYPE_INT ct),
     Some (''ttl'', CTLTYPE_INT ct), None, Some (''sourceroute'', CTLTYPE_INT ct),
     Some (''directed-broadcast'', CTLTYPE_INT ct), Some (''portfirst'', CTLTYPE_INT ct),
     Some (''portlast'', CTLTYPE_INT ct), Some (''porthifirst'', CTLTYPE_INT ct),
     Some (''porthilast'', CTLTYPE_INT ct), Some (''maxqueue'', CTLTYPE_INT ct),
     Some (''encdebug'', CTLTYPE_INT ct), None, Some (''ipsec-expire-acquire'', CTLTYPE_INT ct),
     Some (''ipsec-invalid-life'', CTLTYPE_INT ct), Some (''ipsec-pfs'', CTLTYPE_INT ct),
     Some (''ipsec-soft-allocs'', CTLTYPE_INT ct), Some (''ipsec-allocs'', CTLTYPE_INT ct),
     Some (''ipsec-soft-bytes'', CTLTYPE_INT ct), Some (''ipsec-bytes'', CTLTYPE_INT ct),
     Some (''ipsec-timeout'', CTLTYPE_INT ct), Some (''ipsec-soft-timeout'', CTLTYPE_INT ct),
     Some (''ipsec-soft-firstuse'', CTLTYPE_INT ct), Some (''ipsec-firstuse'', CTLTYPE_INT ct),
     Some (''ipsec-enc-alg'', CTLTYPE_STRING ct), Some (''ipsec-auth-alg'', CTLTYPE_STRING ct),
     Some (''mtudisc'', CTLTYPE_INT ct), Some (''mtudisctimeout'', CTLTYPE_INT ct),
     Some (''ipsec-comp-alg'', CTLTYPE_STRING ct), Some (''ifq'', CTLTYPE_NODE ct),
     Some (''mforwarding'', CTLTYPE_INT ct), Some (''multipath'', CTLTYPE_INT ct),
     Some (''stats'', CTLTYPE_STRUCT ct), Some (''mrtproto'', CTLTYPE_INT ct),
     Some (''mrtstats'', CTLTYPE_STRUCT ct), Some (''arpqueued'', CTLTYPE_INT ct),
     Some (''mrtmfc'', CTLTYPE_STRUCT ct), Some (''mrtvif'', CTLTYPE_STRUCT ct),
     Some (''arptimeout'', CTLTYPE_INT ct), Some (''arpdown'', CTLTYPE_INT ct),
     Some (''arpq'', CTLTYPE_NODE ct)]"

definition CTL_IPV6PROTO_NAMES :: "'a ctltypes \<Rightarrow> (string \<times> 'a) option list" where
  "CTL_IPV6PROTO_NAMES ct = [
     None, None, None, None, None, None, Some (''tcp6'', CTLTYPE_NODE ct), None, None, None, None, None,
     None, None, None, None, None, Some (''udp6'', CTLTYPE_NODE ct), None, None, None, None, None, None,
     None, None, None, None, None, None, None, None, None, None, None, None, None, None, None, None, None,
     Some (''ip6'', CTLTYPE_NODE ct), None, None, None, None, None, None, None, None, None,
     Some (''ipsec6'', CTLTYPE_NODE ct), None, None, None, None, None, None,
     Some (''icmp6'', CTLTYPE_NODE ct), None, None, None, None, None, None, None, None, None, None, None,
     None, None, None, None, None, None, None, None, None, None, None, None, None, None, None, None, None,
     None, None, None, None, None, None, None, None, None, None, None, None, None, None, None, None, None,
     None, None, None, None, None, None, None, None, None, None, None, None, None, None, None, None, None,
     None, None, None, None, None, None, None, None, None, None, None, None, None, None, None, None, None,
     None, None, None, None, None, None, None, None, None, None, None, None, None, None, None, None, None,
     None, None, None, None, None, None, None, None, None, None, None, None, None, None, None, None, None,
     None, None, None, None, None, None, None, None, None, None, None, None, None, None, None, None, None,
     None, None, None, None, None, None, None, None, None, None, None, None, None, None, None, None, None,
     None, None, None, None, None, None, None, None, None, None, None, None, None, None, None, None, None,
     None, None, None, None, None, None, None, None, None, None, None, None, None, None, None, None, None,
     None, None, None, None, None, None, None, None, None, None, None, None, None, None, None, None, None,
     None, Some (''divert'', CTLTYPE_NODE ct)]"

definition ipv6ctl_numbers :: "(string \<times> int) list" where
  "ipv6ctl_numbers = [
     (''IPV6CTL_FORWARDING'', 1), (''IPV6CTL_SENDREDIRECTS'', 2), (''IPV6CTL_DEFHLIM'', 3),
     (''IPV6CTL_FORWSRCRT'', 5), (''IPV6CTL_STATS'', 6), (''IPV6CTL_MRTSTATS'', 7),
     (''IPV6CTL_MRTPROTO'', 8), (''IPV6CTL_MAXFRAGPACKETS'', 9), (''IPV6CTL_SOURCECHECK'', 10),
     (''IPV6CTL_SOURCECHECK_LOGINT'', 11), (''IPV6CTL_ACCEPT_RTADV'', 12), (''IPV6CTL_LOG_INTERVAL'', 14),
     (''IPV6CTL_HDRNESTLIMIT'', 15), (''IPV6CTL_DAD_COUNT'', 16), (''IPV6CTL_AUTO_FLOWLABEL'', 17),
     (''IPV6CTL_DEFMCASTHLIM'', 18), (''IPV6CTL_USE_DEPRECATED'', 21), (''IPV6CTL_MAXFRAGS'', 41),
     (''IPV6CTL_MFORWARDING'', 42), (''IPV6CTL_MULTIPATH'', 43), (''IPV6CTL_MCAST_PMTU'', 44),
     (''IPV6CTL_NEIGHBORGCTHRESH'', 45), (''IPV6CTL_MAXDYNROUTES'', 48), (''IPV6CTL_DAD_PENDING'', 49),
     (''IPV6CTL_MTUDISCTIMEOUT'', 50), (''IPV6CTL_IFQUEUE'', 51), (''IPV6CTL_MRTMIF'', 52),
     (''IPV6CTL_MRTMFC'', 53), (''IPV6CTL_MAXID'', 54)]"

definition IPV6CTL_NAMES :: "'a ctltypes \<Rightarrow> (string \<times> 'a) option list" where
  "IPV6CTL_NAMES ct = [
     None, Some (''forwarding'', CTLTYPE_INT ct), Some (''redirect'', CTLTYPE_INT ct),
     Some (''hlim'', CTLTYPE_INT ct), None, Some (''forwsrcrt'', CTLTYPE_INT ct), None, None,
     Some (''mrtproto'', CTLTYPE_INT ct), Some (''maxfragpackets'', CTLTYPE_INT ct),
     Some (''sourcecheck'', CTLTYPE_INT ct), Some (''sourcecheck_logint'', CTLTYPE_INT ct), None, None,
     Some (''log_interval'', CTLTYPE_INT ct), Some (''hdrnestlimit'', CTLTYPE_INT ct),
     Some (''dad_count'', CTLTYPE_INT ct), Some (''auto_flowlabel'', CTLTYPE_INT ct),
     Some (''defmcasthlim'', CTLTYPE_INT ct), None, None, Some (''use_deprecated'', CTLTYPE_INT ct), None,
     None, None, None, None, None, None, None, None, None, None, None, None, None, None, None, None, None,
     None, Some (''maxfrags'', CTLTYPE_INT ct), Some (''mforwarding'', CTLTYPE_INT ct),
     Some (''multipath'', CTLTYPE_INT ct), Some (''multicast_mtudisc'', CTLTYPE_INT ct),
     Some (''neighborgcthresh'', CTLTYPE_INT ct), None, None, Some (''maxdynroutes'', CTLTYPE_INT ct),
     Some (''dad_pending'', CTLTYPE_INT ct), Some (''mtudisctimeout'', CTLTYPE_INT ct),
     Some (''ifq'', CTLTYPE_NODE ct), Some (''mrtmif'', CTLTYPE_STRUCT ct),
     Some (''mrtmfc'', CTLTYPE_STRUCT ct)]"

section \<open>What the tables promise\<close>

definition number :: "(string \<times> int) list \<Rightarrow> string \<Rightarrow> int" where
  "number xs n = the (map_of xs n)"

text \<open>The entries of a table that have a name, with their indices.\<close>

fun entries :: "int \<Rightarrow> (string \<times> 'a) option list \<Rightarrow> (int \<times> string) list" where
  "entries i [] = []"
| "entries i (e # es) = (case e of None \<Rightarrow> entries (i + 1) es | Some (n, _) \<Rightarrow> (i, n) # entries (i + 1) es)"

fun increasing :: "int \<Rightarrow> int list \<Rightarrow> bool" where
  "increasing i [] = True"
| "increasing i (x # xs) = (i < x \<and> increasing x xs)"

lemma increasing_sorted: "increasing i xs \<Longrightarrow> sorted_wrt (<) (i # xs)"
  by (induction i xs rule: increasing.induct) (auto dest: order.strict_trans)

text \<open>Other names of an Ethernet type, and the one that stands out of the order of the numbers.\<close>

definition ethertype_aliases :: "string list" where
  "ethertype_aliases = [''ETHERTYPE_PUPAT'', ''ETHERTYPE_DN'', ''ETHERTYPE_AT'', ''ETHERTYPE_APPLETALK'',
     ''ETHERTYPE_HAYES'', ''ETHERTYPE_LBACK'']"

lemma ethertypes_order:
  "increasing 0 (map snd (filter (\<lambda>(n, v). n \<notin> set (''ETHERTYPE_LLDP'' # ethertype_aliases)) ethertypes))"
  by code_simp

lemma ethertypes_LLDP:
  "number ethertypes ''ETHERTYPE_LLDP'' \<notin> set (map snd (filter (\<lambda>(n, v). n \<notin> set (''ETHERTYPE_LLDP'' # ethertype_aliases)) ethertypes))"
  by code_simp

lemma protocol_tables:
  "entries 0 (CTL_IPPROTO_NAMES ct) = map (\<lambda>(c, n). (number ip_protocols c, n))
      [(''IPPROTO_IP'', ''ip''), (''IPPROTO_ICMP'', ''icmp''), (''IPPROTO_IGMP'', ''igmp''), (''IPPROTO_GGP'', ''ggp''),
       (''IPPROTO_IPIP'', ''ipip''), (''IPPROTO_TCP'', ''tcp''), (''IPPROTO_EGP'', ''egp''), (''IPPROTO_PUP'', ''pup''),
       (''IPPROTO_UDP'', ''udp''), (''IPPROTO_GRE'', ''gre''), (''IPPROTO_ESP'', ''esp''), (''IPPROTO_AH'', ''ah''),
       (''IPPROTO_ETHERIP'', ''etherip''), (''IPPROTO_IPCOMP'', ''ipcomp''), (''IPPROTO_CARP'', ''carp''),
       (''IPPROTO_PFSYNC'', ''pfsync''), (''IPPROTO_DIVERT'', ''divert'')]"
  "entries 0 (CTL_IPV6PROTO_NAMES ct) = map (\<lambda>(c, n). (number ip_protocols c, n))
      [(''IPPROTO_TCP'', ''tcp6''), (''IPPROTO_UDP'', ''udp6''), (''IPPROTO_IPV6'', ''ip6''),
       (''IPPROTO_AH'', ''ipsec6''), (''IPPROTO_ICMPV6'', ''icmp6''), (''IPPROTO_DIVERT'', ''divert'')]"
  by (code_simp, code_simp)

lemma ctl_tables:
  "map fst (entries 0 (IPCTL_NAMES ct))
     = map snd (filter (\<lambda>(n, _). n \<notin> {''IPCTL_IPSEC_STATS'', ''IPCTL_MAXID''}) ipctl_numbers)"
  "map fst (entries 0 (IPV6CTL_NAMES ct))
     = map snd (filter (\<lambda>(n, _). n \<notin> {''IPV6CTL_STATS'', ''IPV6CTL_MRTSTATS'', ''IPV6CTL_ACCEPT_RTADV'', ''IPV6CTL_MAXID''})
         ipv6ctl_numbers)"
  by (code_simp, code_simp)

lemma table_lengths:
  "int (length (CTL_IPPROTO_NAMES ct)) = IPPROTO_MAXID" "int (length (CTL_IPV6PROTO_NAMES ct)) = IPV6PROTO_MAXID"
  "int (length (IPCTL_NAMES ct)) = number ipctl_numbers ''IPCTL_MAXID''"
  "int (length (IPV6CTL_NAMES ct)) = number ipv6ctl_numbers ''IPV6CTL_MAXID''"
  by (code_simp, code_simp, code_simp, code_simp)

end
