(* ===== verification/Ip_Messages.thy ===== *)
theory Ip_Messages
  imports Net_Tables
begin

text \<open>
  The rest of the declarations of \<open>netinet/ip.h\<close>, \<open>netinet/ip_icmp.h\<close>, \<open>netinet/in.h\<close>, \<open>netinet6/in6.h\<close>
  and \<open>netinet/if_ether.h\<close>: values of the type-of-service octet, IP options, ICMP types, codes and
  lengths, options of sockets, and the structures of socket addresses and requests.
\<close>

section \<open>Type of service\<close>

definition IPVERSION :: int where "IPVERSION = 4"
definition IP_RF :: u16 where "IP_RF = 0x8000"
definition IP_DF :: u16 where "IP_DF = 0x4000"
definition IP_MF :: u16 where "IP_MF = 0x2000"
definition IP_OFFMASK :: u16 where "IP_OFFMASK = 0x1FFF"
definition IP_MAXPACKET :: int where "IP_MAXPACKET = 65535"
definition IPFRAGTTL :: int where "IPFRAGTTL = 60"
definition IPTTLDEC :: int where "IPTTLDEC = 1"
definition IP_MSS :: int where "IP_MSS = 576"

definition ip_tos :: "(string \<times> int) list" where
  "ip_tos = [
     (''IPTOS_LOWDELAY'', 0x10), (''IPTOS_THROUGHPUT'', 0x08), (''IPTOS_RELIABILITY'', 0x04),
     (''IPTOS_CE'', 0x01), (''IPTOS_ECT'', 0x02), (''IPTOS_PREC_NETCONTROL'', 0xE0),
     (''IPTOS_PREC_INTERNETCONTROL'', 0xC0), (''IPTOS_PREC_CRITIC_ECP'', 0xA0),
     (''IPTOS_PREC_FLASHOVERRIDE'', 0x80), (''IPTOS_PREC_FLASH'', 0x60), (''IPTOS_PREC_IMMEDIATE'', 0x40),
     (''IPTOS_PREC_PRIORITY'', 0x20), (''IPTOS_PREC_ROUTINE'', 0x00)]"

definition dscp :: "(string \<times> int) list" where
  "dscp = [
     (''IPTOS_DSCP_CS0'', 0x00), (''IPTOS_DSCP_LE'', 0x04), (''IPTOS_DSCP_CS1'', 0x20),
     (''IPTOS_DSCP_AF11'', 0x28), (''IPTOS_DSCP_AF12'', 0x30), (''IPTOS_DSCP_AF13'', 0x38),
     (''IPTOS_DSCP_CS2'', 0x40), (''IPTOS_DSCP_AF21'', 0x48), (''IPTOS_DSCP_AF22'', 0x50),
     (''IPTOS_DSCP_AF23'', 0x58), (''IPTOS_DSCP_CS3'', 0x60), (''IPTOS_DSCP_AF31'', 0x68),
     (''IPTOS_DSCP_AF32'', 0x70), (''IPTOS_DSCP_AF33'', 0x78), (''IPTOS_DSCP_CS4'', 0x80),
     (''IPTOS_DSCP_AF41'', 0x88), (''IPTOS_DSCP_AF42'', 0x90), (''IPTOS_DSCP_AF43'', 0x98),
     (''IPTOS_DSCP_CS5'', 0xA0), (''IPTOS_DSCP_EF'', 0xB8), (''IPTOS_DSCP_CS6'', 0xC0),
     (''IPTOS_DSCP_CS7'', 0xE0)]"

definition ecn :: "(string \<times> int) list" where
  "ecn = [
     (''IPTOS_ECN_NOTECT'', 0x00), (''IPTOS_ECN_ECT1'', 0x01), (''IPTOS_ECN_ECT0'', 0x02),
     (''IPTOS_ECN_CE'', 0x03), (''IPTOS_ECN_MASK'', 0x03)]"

section \<open>IP options\<close>

definition IPOPT_COPIED :: "u8 \<Rightarrow> u8" where "IPOPT_COPIED opt = opt AND 0x80"
definition IPOPT_CLASS :: "u8 \<Rightarrow> u8" where "IPOPT_CLASS opt = opt AND 0x60"
definition IPOPT_NUMBER :: "u8 \<Rightarrow> u8" where "IPOPT_NUMBER opt = opt AND 0x1F"

definition ip_options :: "(string \<times> int) list" where
  "ip_options = [
     (''IPOPT_CONTROL'', 0x00), (''IPOPT_RESERVED1'', 0x20), (''IPOPT_DEBMEAS'', 0x40),
     (''IPOPT_RESERVED2'', 0x60), (''IPOPT_EOL'', 0), (''IPOPT_NOP'', 1), (''IPOPT_RR'', 7),
     (''IPOPT_TS'', 68), (''IPOPT_SECURITY'', 130), (''IPOPT_LSRR'', 131), (''IPOPT_SATID'', 136),
     (''IPOPT_SSRR'', 137), (''IPOPT_RA'', 148)]"

definition ipopt_offsets :: "(string \<times> int) list" where
  "ipopt_offsets = [
     (''IPOPT_OPTVAL'', 0), (''IPOPT_OLEN'', 1), (''IPOPT_OFFSET'', 2), (''IPOPT_MINOFF'', 4)]"

definition ipopt_security :: "(string \<times> int) list" where
  "ipopt_security = [
     (''IPOPT_SECUR_UNCLASS'', 0x0000), (''IPOPT_SECUR_CONFID'', 0xF135), (''IPOPT_SECUR_EFTO'', 0x789A),
     (''IPOPT_SECUR_MMMM'', 0xBC4D), (''IPOPT_SECUR_RESTR'', 0xAF13), (''IPOPT_SECUR_SECRET'', 0xD788),
     (''IPOPT_SECUR_TOPSECRET'', 0x6BC5)]"

definition struct_ip_timestamp :: ctype where
  "struct_ip_timestamp = CStruct False
    [(''ipt_code'', CInt 1), (''ipt_len'', CInt 1), (''ipt_ptr'', CInt 1), (''ipt_flg'', CBits 4 4), (''ipt_oflw'', CBits 4 4),
     (''ipt_timestamp'', CUnion
       [(''ipt_time'', CArray 1 (CInt 4)),
        (''ipt_ta'', CArray 1 (CStruct False [(''ipt_addr'', struct_in_addr), (''ipt_time'', CInt 4)]))])]"

section \<open>ICMP\<close>

definition struct_icmp_ra_addr :: ctype where
  "struct_icmp_ra_addr = CStruct False [(''ira_addr'', CInt 4), (''ira_preference'', CInt 4)]"

definition struct_icmp_ext_hdr :: ctype where
  "struct_icmp_ext_hdr = CStruct False [(''ieh_version'', CInt 1), (''ieh_res'', CInt 1), (''ieh_cksum'', CInt 2)]"

definition struct_icmp_ext_obj_hdr :: ctype where
  "struct_icmp_ext_obj_hdr = CStruct False [(''ieo_length'', CInt 2), (''ieo_cnum'', CInt 1), (''ieo_ctype'', CInt 1)]"

text \<open>The header length in the packet that an ICMP error quotes: the low nibble of its first octet.\<close>

definition icmp_ip_hl :: "mem \<Rightarrow> u32 \<Rightarrow> nat" where
  "icmp_ip_hl m p = unat (m (p + offsetof struct_icmp ''icmp_dun'') AND 0x0F)"

definition ICMP_V6ADVLENMIN :: nat where "ICMP_V6ADVLENMIN = 8 + sizeof struct_ip + 40"
definition ICMP_V6ADVLEN :: "mem \<Rightarrow> u32 \<Rightarrow> nat" where "ICMP_V6ADVLEN m p = 8 + push_bit 2 (icmp_ip_hl m p) + 40"
definition ICMP_MINLEN :: nat where "ICMP_MINLEN = 8"
definition ICMP_TSLEN :: nat where "ICMP_TSLEN = 8 + 3 * sizeof (CInt 4)"
definition ICMP_MASKLEN :: nat where "ICMP_MASKLEN = 12"
definition ICMP_ADVLENMIN :: nat where "ICMP_ADVLENMIN = 8 + sizeof struct_ip + 8"
definition ICMP_ADVLENMAX :: nat where "ICMP_ADVLENMAX = 8 + 60 + 40"
definition ICMP_ADVLEN :: "mem \<Rightarrow> u32 \<Rightarrow> nat" where "ICMP_ADVLEN m p = 8 + push_bit 2 (icmp_ip_hl m p) + 8"

text \<open>The types of ICMP messages with their codes.\<close>

definition icmp_types :: "(string \<times> int \<times> (string \<times> int) list) list" where
  "icmp_types = [
     (''ICMP_ECHOREPLY'', 0, []), (''ICMP_UNREACH'', 3, [(''ICMP_UNREACH_NET'', 0),
     (''ICMP_UNREACH_HOST'', 1), (''ICMP_UNREACH_PROTOCOL'', 2), (''ICMP_UNREACH_PORT'', 3),
     (''ICMP_UNREACH_NEEDFRAG'', 4), (''ICMP_UNREACH_SRCFAIL'', 5), (''ICMP_UNREACH_NET_UNKNOWN'', 6),
     (''ICMP_UNREACH_HOST_UNKNOWN'', 7), (''ICMP_UNREACH_ISOLATED'', 8),
     (''ICMP_UNREACH_NET_PROHIB'', 9), (''ICMP_UNREACH_HOST_PROHIB'', 10), (''ICMP_UNREACH_TOSNET'', 11),
     (''ICMP_UNREACH_TOSHOST'', 12), (''ICMP_UNREACH_FILTER_PROHIB'', 13),
     (''ICMP_UNREACH_HOST_PRECEDENCE'', 14), (''ICMP_UNREACH_PRECEDENCE_CUTOFF'', 15)]),
     (''ICMP_SOURCEQUENCH'', 4, []), (''ICMP_REDIRECT'', 5, [(''ICMP_REDIRECT_NET'', 0),
     (''ICMP_REDIRECT_HOST'', 1), (''ICMP_REDIRECT_TOSNET'', 2), (''ICMP_REDIRECT_TOSHOST'', 3)]),
     (''ICMP_ALTHOSTADDR'', 6, []), (''ICMP_ECHO'', 8, []),
     (''ICMP_ROUTERADVERT'', 9, [(''ICMP_ROUTERADVERT_NORMAL'', 0),
     (''ICMP_ROUTERADVERT_NOROUTE_COMMON'', 16)]), (''ICMP_ROUTERSOLICIT'', 10, []),
     (''ICMP_TIMXCEED'', 11, [(''ICMP_TIMXCEED_INTRANS'', 0), (''ICMP_TIMXCEED_REASS'', 1)]),
     (''ICMP_PARAMPROB'', 12, [(''ICMP_PARAMPROB_ERRATPTR'', 0), (''ICMP_PARAMPROB_OPTABSENT'', 1),
     (''ICMP_PARAMPROB_LENGTH'', 2)]), (''ICMP_TSTAMP'', 13, []), (''ICMP_TSTAMPREPLY'', 14, []),
     (''ICMP_IREQ'', 15, []), (''ICMP_IREQREPLY'', 16, []), (''ICMP_MASKREQ'', 17, []),
     (''ICMP_MASKREPLY'', 18, []), (''ICMP_TRACEROUTE'', 30, []), (''ICMP_DATACONVERR'', 31, []),
     (''ICMP_MOBILE_REDIRECT'', 32, []), (''ICMP_IPV6_WHEREAREYOU'', 33, []),
     (''ICMP_IPV6_IAMHERE'', 34, []), (''ICMP_MOBILE_REGREQUEST'', 35, []),
     (''ICMP_MOBILE_REGREPLY'', 36, []), (''ICMP_SKIP'', 39, []),
     (''ICMP_PHOTURIS'', 40, [(''ICMP_PHOTURIS_UNKNOWN_INDEX'', 1), (''ICMP_PHOTURIS_AUTH_FAILED'', 2),
     (''ICMP_PHOTURIS_DECRYPT_FAILED'', 3)])]"

definition ICMP_MAXTYPE :: int where "ICMP_MAXTYPE = 40"

definition icmp_number :: "string \<Rightarrow> int" where
  "icmp_number n = fst (the (map_of icmp_types n))"

definition ICMP_INFOTYPE :: "int \<Rightarrow> bool" where
  "ICMP_INFOTYPE type \<longleftrightarrow>
     type = icmp_number ''ICMP_ECHOREPLY'' \<or> type = icmp_number ''ICMP_ECHO''
     \<or> type = icmp_number ''ICMP_ROUTERADVERT'' \<or> type = icmp_number ''ICMP_ROUTERSOLICIT''
     \<or> type = icmp_number ''ICMP_TSTAMP'' \<or> type = icmp_number ''ICMP_TSTAMPREPLY''
     \<or> type = icmp_number ''ICMP_IREQ'' \<or> type = icmp_number ''ICMP_IREQREPLY''
     \<or> type = icmp_number ''ICMP_MASKREQ'' \<or> type = icmp_number ''ICMP_MASKREPLY''"

section \<open>Sockets\<close>

definition ip_sockopts :: "(string \<times> int) list" where
  "ip_sockopts = [
     (''IP_OPTIONS'', 1), (''IP_HDRINCL'', 2), (''IP_TOS'', 3), (''IP_TTL'', 4), (''IP_RECVOPTS'', 5),
     (''IP_RECVRETOPTS'', 6), (''IP_RECVDSTADDR'', 7), (''IP_RETOPTS'', 8), (''IP_MULTICAST_IF'', 9),
     (''IP_MULTICAST_TTL'', 10), (''IP_MULTICAST_LOOP'', 11), (''IP_ADD_MEMBERSHIP'', 12),
     (''IP_DROP_MEMBERSHIP'', 13), (''IP_PORTRANGE'', 19), (''IP_AUTH_LEVEL'', 20),
     (''IP_ESP_TRANS_LEVEL'', 21), (''IP_ESP_NETWORK_LEVEL'', 22), (''IP_IPSEC_LOCAL_ID'', 23),
     (''IP_IPSEC_REMOTE_ID'', 24), (''IP_IPSEC_LOCAL_CRED'', 25), (''IP_IPSEC_REMOTE_CRED'', 26),
     (''IP_IPSEC_LOCAL_AUTH'', 27), (''IP_IPSEC_REMOTE_AUTH'', 28), (''IP_IPCOMP_LEVEL'', 29),
     (''IP_RECVIF'', 30), (''IP_RECVTTL'', 31), (''IP_MINTTL'', 32), (''IP_RECVDSTPORT'', 33),
     (''IP_PIPEX'', 34), (''IP_RECVRTABLE'', 35), (''IP_IPSECFLOWINFO'', 36), (''IP_IPDEFTTL'', 37),
     (''IP_SENDSRCADDR'', 7), (''IP_RTABLE'', 0x1021)]"

definition ipsec_levels :: "(string \<times> int) list" where
  "ipsec_levels = [
     (''IPSEC_LEVEL_BYPASS'', 0x00), (''IPSEC_LEVEL_NONE'', 0x00), (''IPSEC_LEVEL_AVAIL'', 0x01),
     (''IPSEC_LEVEL_USE'', 0x02), (''IPSEC_LEVEL_REQUIRE'', 0x03), (''IPSEC_LEVEL_UNIQUE'', 0x04),
     (''IPSEC_LEVEL_DEFAULT'', 0x01), (''IPSEC_AUTH_LEVEL_DEFAULT'', 0x01),
     (''IPSEC_ESP_TRANS_LEVEL_DEFAULT'', 0x01), (''IPSEC_ESP_NETWORK_LEVEL_DEFAULT'', 0x01),
     (''IPSEC_IPCOMP_LEVEL_DEFAULT'', 0x01)]"

definition ipv6_sockopts :: "(string \<times> int) list" where
  "ipv6_sockopts = [
     (''IPV6_UNICAST_HOPS'', 4), (''IPV6_MULTICAST_IF'', 9), (''IPV6_MULTICAST_HOPS'', 10),
     (''IPV6_MULTICAST_LOOP'', 11), (''IPV6_JOIN_GROUP'', 12), (''IPV6_LEAVE_GROUP'', 13),
     (''IPV6_PORTRANGE'', 14), (''ICMP6_FILTER'', 18), (''IPV6_CHECKSUM'', 26), (''IPV6_V6ONLY'', 27),
     (''IPV6_RTHDRDSTOPTS'', 35), (''IPV6_RECVPKTINFO'', 36), (''IPV6_RECVHOPLIMIT'', 37),
     (''IPV6_RECVRTHDR'', 38), (''IPV6_RECVHOPOPTS'', 39), (''IPV6_RECVDSTOPTS'', 40),
     (''IPV6_USE_MIN_MTU'', 42), (''IPV6_RECVPATHMTU'', 43), (''IPV6_PATHMTU'', 44),
     (''IPV6_PKTINFO'', 46), (''IPV6_HOPLIMIT'', 47), (''IPV6_NEXTHOP'', 48), (''IPV6_HOPOPTS'', 49),
     (''IPV6_DSTOPTS'', 50), (''IPV6_RTHDR'', 51), (''IPV6_AUTH_LEVEL'', 53),
     (''IPV6_ESP_TRANS_LEVEL'', 54), (''IPV6_ESP_NETWORK_LEVEL'', 55), (''IPSEC6_OUTSA'', 56),
     (''IPV6_RECVTCLASS'', 57), (''IPV6_AUTOFLOWLABEL'', 59), (''IPV6_IPCOMP_LEVEL'', 60),
     (''IPV6_TCLASS'', 61), (''IPV6_DONTFRAG'', 62), (''IPV6_PIPEX'', 63), (''IPV6_RECVDSTPORT'', 64),
     (''IPV6_MINHOPCOUNT'', 65), (''IPV6_RTABLE'', 0x1021)]"

definition arp_hardware :: "(string \<times> int) list" where
  "arp_hardware = [
     (''ARPHRD_ETHER'', 1), (''ARPHRD_IEEE802'', 6), (''ARPHRD_FRELAY'', 15), (''ARPHRD_IEEE1394'', 24)]"

definition arp_operations :: "(string \<times> int) list" where
  "arp_operations = [
     (''ARPOP_REQUEST'', 1), (''ARPOP_REPLY'', 2), (''ARPOP_REVREQUEST'', 3), (''ARPOP_REVREPLY'', 4),
     (''ARPOP_INVREQUEST'', 8), (''ARPOP_INVREPLY'', 9)]"

definition ip_ports :: "(string \<times> int) list" where
  "ip_ports = [
     (''IPPORT_RESERVED'', 1024), (''IPPORT_USERRESERVED'', 49151), (''IPPORT_HIFIRSTAUTO'', 49152),
     (''IPPORT_HILASTAUTO'', 65535)]"

definition ip_defaults :: "(string \<times> int) list" where
  "ip_defaults = [
     (''IP_DEFAULT_MULTICAST_TTL'', 1), (''IP_DEFAULT_MULTICAST_LOOP'', 1), (''IP_MIN_MEMBERSHIPS'', 15),
     (''IP_MAX_MEMBERSHIPS'', 4095)]"

definition ip_portranges :: "(string \<times> int) list" where
  "ip_portranges = [
     (''IP_PORTRANGE_DEFAULT'', 0), (''IP_PORTRANGE_HIGH'', 1), (''IP_PORTRANGE_LOW'', 2)]"

definition ipv6_defaults :: "(string \<times> int) list" where
  "ipv6_defaults = [
     (''IPV6_RTHDR_LOOSE'', 0), (''IPV6_RTHDR_TYPE_0'', 0), (''IPV6_DEFAULT_MULTICAST_HOPS'', 1),
     (''IPV6_DEFAULT_MULTICAST_LOOP'', 1)]"

definition ipv6_portranges :: "(string \<times> int) list" where
  "ipv6_portranges = [
     (''IPV6_PORTRANGE_DEFAULT'', 0), (''IPV6_PORTRANGE_HIGH'', 1), (''IPV6_PORTRANGE_LOW'', 2)]"

definition INET_ADDRSTRLEN :: int where "INET_ADDRSTRLEN = 16"
definition INET6_ADDRSTRLEN :: int where "INET6_ADDRSTRLEN = 46"

text \<open>The size of an address family is a parameter: its type comes from the system's headers.\<close>

definition struct_sockaddr_in :: "nat \<Rightarrow> ctype" where
  "struct_sockaddr_in sa_family = CStruct False
    [(''sin_len'', CInt 1), (''sin_family'', CInt sa_family), (''sin_port'', CInt 2),
     (''sin_addr'', struct_in_addr), (''sin_zero'', CArray 8 (CInt 1))]"

definition struct_in6_addr :: ctype where
  "struct_in6_addr = CStruct False
    [(''u6_addr'', CUnion
      [(''u6_addr8'', CArray 16 (CInt 1)), (''u6_addr16'', CArray 8 (CInt 2)), (''u6_addr32'', CArray 4 (CInt 4))])]"

definition struct_sockaddr_in6 :: "nat \<Rightarrow> ctype" where
  "struct_sockaddr_in6 sa_family = CStruct False
    [(''sin6_len'', CInt 1), (''sin6_family'', CInt sa_family), (''sin6_port'', CInt 2),
     (''sin6_flowinfo'', CInt 4), (''sin6_addr'', struct_in6_addr), (''sin6_scope_id'', CInt 4)]"

definition struct_sockaddr_inarp :: ctype where
  "struct_sockaddr_inarp = CStruct False
    [(''sin_len'', CInt 1), (''sin_family'', CInt 1), (''sin_port'', CInt 2), (''sin_addr'', struct_in_addr),
     (''sin_srcaddr'', struct_in_addr), (''sin_tos'', CInt 2), (''sin_other'', CInt 2)]"

definition struct_ip_opts :: ctype where
  "struct_ip_opts = CStruct False [(''ip_dst'', struct_in_addr), (''ip_opts'', CArray 40 (CInt 1))]"

definition struct_ip_mreq :: ctype where
  "struct_ip_mreq = CStruct False [(''imr_multiaddr'', struct_in_addr), (''imr_interface'', struct_in_addr)]"

definition struct_ip_mreqn :: ctype where
  "struct_ip_mreqn = CStruct False
    [(''imr_multiaddr'', struct_in_addr), (''imr_address'', struct_in_addr), (''imr_ifindex'', CInt 4)]"

definition struct_ipv6_mreq :: ctype where
  "struct_ipv6_mreq = CStruct False [(''ipv6mr_multiaddr'', struct_in6_addr), (''ipv6mr_interface'', CInt 4)]"

definition struct_in6_pktinfo :: ctype where
  "struct_in6_pktinfo = CStruct False [(''ipi6_addr'', struct_in6_addr), (''ipi6_ifindex'', CInt 4)]"

definition struct_ip6_mtuinfo :: "nat \<Rightarrow> ctype" where
  "struct_ip6_mtuinfo sa_family = CStruct False
    [(''ip6m_addr'', struct_sockaddr_in6 sa_family), (''ip6m_mtu'', CInt 4)]"

section \<open>What they promise\<close>

lemma message_layouts:
  "sizeof struct_ip_timestamp = 12" "sizeof struct_icmp_ra_addr = 8" "sizeof struct_icmp_ext_hdr = 4"
  "sizeof struct_icmp_ext_obj_hdr = 4" "sizeof (struct_sockaddr_in 1) = 16" "sizeof struct_in6_addr = 16"
  "sizeof (struct_sockaddr_in6 1) = 28" "sizeof struct_sockaddr_inarp = 16" "sizeof struct_ip_opts = 44"
  "sizeof struct_ip_mreq = 8" "sizeof struct_ip_mreqn = 12" "sizeof struct_ipv6_mreq = 20"
  "sizeof struct_in6_pktinfo = 20" "sizeof (struct_ip6_mtuinfo 1) = 32"
  by (simp_all add: layout_defs struct_ip_timestamp_def struct_icmp_ra_addr_def struct_icmp_ext_hdr_def
      struct_icmp_ext_obj_hdr_def struct_sockaddr_in_def struct_in6_addr_def struct_sockaddr_in6_def
      struct_sockaddr_inarp_def struct_ip_opts_def struct_ip_mreq_def struct_ip_mreqn_def struct_ipv6_mreq_def
      struct_in6_pktinfo_def struct_ip6_mtuinfo_def)

text \<open>The sockets' addresses of both versions, and of ARP, begin alike.\<close>

lemma sockaddr_common:
  "offsetof (struct_sockaddr_in 1) ''sin_port'' = offsetof (struct_sockaddr_in6 1) ''sin6_port''"
  "offsetof (struct_sockaddr_in 1) ''sin_port'' = offsetof struct_sockaddr_inarp ''sin_port''"
  "offsetof (struct_sockaddr_in 1) ''sin_addr'' = offsetof struct_sockaddr_inarp ''sin_addr''"
  by (simp_all add: layout_defs struct_sockaddr_in_def struct_in6_addr_def struct_sockaddr_in6_def struct_sockaddr_inarp_def)

text \<open>
  An ICMP error that quotes a well-formed header is at least as long as its minimum, and no header
  makes it longer than its maximum.
\<close>

lemma icmp_advice_length:
  "ICMP_ADVLENMIN \<le> ICMP_ADVLEN m p \<longleftrightarrow> 5 \<le> icmp_ip_hl m p" "ICMP_ADVLEN m p \<le> ICMP_ADVLENMAX"
  "ICMP_V6ADVLENMIN \<le> ICMP_V6ADVLEN m p \<longleftrightarrow> 5 \<le> icmp_ip_hl m p" "ICMP_V6ADVLEN m p \<le> ICMP_ADVLENMAX"
proof -
  have "m (p + offsetof struct_icmp ''icmp_dun'') AND 0x0F \<le> 0x0F" by (rule word_and_le1)
  then have "icmp_ip_hl m p \<le> 15" by (simp add: icmp_ip_hl_def word_le_nat_alt)
  then show "ICMP_ADVLENMIN \<le> ICMP_ADVLEN m p \<longleftrightarrow> 5 \<le> icmp_ip_hl m p" "ICMP_ADVLEN m p \<le> ICMP_ADVLENMAX"
    "ICMP_V6ADVLENMIN \<le> ICMP_V6ADVLEN m p \<longleftrightarrow> 5 \<le> icmp_ip_hl m p" "ICMP_V6ADVLEN m p \<le> ICMP_ADVLENMAX"
    by (simp_all add: ICMP_ADVLENMIN_def ICMP_ADVLEN_def ICMP_ADVLENMAX_def ICMP_V6ADVLENMIN_def ICMP_V6ADVLEN_def
        header_sizes push_bit_eq_mult; presburger)+
qed

lemma icmp_numbers_increasing:
  "increasing (- 1) (map (\<lambda>(n, t, cs). t) icmp_types)" "list_all (\<lambda>(n, t, cs). increasing (- 1) (map snd cs)) icmp_types"
  "(\<lambda>(n, t, cs). t) (last icmp_types) = ICMP_MAXTYPE"
  by (code_simp, code_simp, code_simp)

lemma icmp_infotypes: "filter ICMP_INFOTYPE (map (\<lambda>(n, t, cs). t) icmp_types) = [0, 8, 9, 10, 13, 14, 15, 16, 17, 18]"
  by code_simp

text \<open>
  The codepoints leave the two bits of congestion notification free, as their comment asks, and
  class selectors are the precedences of old.
\<close>

lemma service_octets:
  "list_all (\<lambda>(n, v). v mod 4 = 0 \<and> v < 256) dscp" "list_all (\<lambda>(n, v). v \<le> 3) ecn"
  "map (number dscp) [''IPTOS_DSCP_CS0'', ''IPTOS_DSCP_CS1'', ''IPTOS_DSCP_CS2'', ''IPTOS_DSCP_CS3'', ''IPTOS_DSCP_CS4'',
      ''IPTOS_DSCP_CS5'', ''IPTOS_DSCP_CS6'', ''IPTOS_DSCP_CS7'']
   = map (number ip_tos) [''IPTOS_PREC_ROUTINE'', ''IPTOS_PREC_PRIORITY'', ''IPTOS_PREC_IMMEDIATE'', ''IPTOS_PREC_FLASH'',
      ''IPTOS_PREC_FLASHOVERRIDE'', ''IPTOS_PREC_CRITIC_ECP'', ''IPTOS_PREC_INTERNETCONTROL'', ''IPTOS_PREC_NETCONTROL'']"
  by (code_simp, code_simp, code_simp)

lemma option_parts: "IPOPT_COPIED opt OR IPOPT_CLASS opt OR IPOPT_NUMBER opt = opt"
proof -
  have "(0x80 OR 0x60 OR 0x1F :: u8) = - 1" by simp
  then show ?thesis
    unfolding IPOPT_COPIED_def IPOPT_CLASS_def IPOPT_NUMBER_def
    by (metis bit.conj_disj_distrib and.right_neutral)
qed

text \<open>
  The ports that are chosen automatically follow the reserved ones, and the longest addresses in
  text, with the character that ends a string, have the lengths of their buffers.
\<close>

lemma ports_and_strings:
  "number ip_ports ''IPPORT_HIFIRSTAUTO'' = number ip_ports ''IPPORT_USERRESERVED'' + 1"
  "number ip_ports ''IPPORT_HILASTAUTO'' = 2 ^ 16 - 1"
  "int (length ''255.255.255.255'') + 1 = INET_ADDRSTRLEN"
  "int (length ''ffff:ffff:ffff:ffff:ffff:ffff:255.255.255.255'') + 1 = INET6_ADDRSTRLEN"
  by (code_simp, code_simp, code_simp, code_simp)

lemma fragment_fields: "IP_RF OR IP_DF OR IP_MF = NOT IP_OFFMASK" "IP_RF AND IP_DF = 0" "IP_DF AND IP_MF = 0" "IP_RF AND IP_MF = 0"
  by (simp_all add: IP_RF_def IP_DF_def IP_MF_def IP_OFFMASK_def)

end
