(* ===== verification/Inet_Addresses.thy ===== *)
theory Inet_Addresses
  imports Ip_Messages Ethaddr Packet
begin

text \<open>
  The addresses of the network headers under \<open>src/include\<close>: the tests on IPv4 addresses of
  \<open>netinet/in.h\<close>, those on IPv6 addresses of \<open>netinet6/in6.h\<close>, and those on Ethernet addresses and
  VLAN tags of \<open>netinet/if_ether.h\<close>, with the structures these headers declare.  An IPv4 address is
  the word the macros take; IPv6 and Ethernet addresses lie in memory.  Of the parts for an
  operating system's kernel (\<open>_KERNEL\<close>), which are not compiled, only the maps of multicast groups to
  Ethernet addresses are here.
\<close>

section \<open>Bytes and leading bits\<close>

text \<open>The byte order of the network, on a little-endian processor.\<close>

definition htonl :: "u32 \<Rightarrow> u32" where
  "htonl x = push_bit 24 x OR push_bit 8 (x AND 0xFF00) OR (drop_bit 8 x AND 0xFF00) OR drop_bit 24 x"

text \<open>A mask of leading ones compares the leading bits.\<close>

lemma unat_drop_bit: "unat (drop_bit k (i :: 'a::len word)) = unat i div 2 ^ k"
  unfolding unat_drop_bit_eq by (rule drop_bit_eq_div)

lemma leading_bits:
  fixes i c :: "'a::len word"
  assumes "k < LENGTH('a)" "unat c < 2 ^ (LENGTH('a) - k)"
  shows "i AND push_bit k (mask (LENGTH('a) - k)) = push_bit k c \<longleftrightarrow> unat i div 2 ^ k = unat c"
proof -
  have *: "drop_bit k (push_bit k x) = take_bit (LENGTH('a) - k) x" for x :: "'a word"
    by (rule bit_word_eqI) (auto simp: bit_simps dest: bit_imp_le_length)
  have "unat (take_bit (LENGTH('a) - k) c) = unat c"
    unfolding unsigned_take_bit_eq using assms(2) by (rule take_bit_nat_eq_self)
  then have c: "take_bit (LENGTH('a) - k) c = c" by (simp add: word_unat_eq_iff)
  have i: "take_bit (LENGTH('a) - k) (drop_bit k i) = drop_bit k i"
    by (rule bit_word_eqI) (auto simp: bit_simps dest: bit_imp_le_length)
  have "i AND push_bit k (mask (LENGTH('a) - k)) = push_bit k (drop_bit k i)"
    by (rule bit_word_eqI) (use assms in \<open>auto simp: bit_simps dest: bit_imp_le_length\<close>)
  moreover have "push_bit k (drop_bit k i) = push_bit k c \<longleftrightarrow> drop_bit k i = c"
    using * [of c] * [of "drop_bit k i"] c i by metis
  ultimately show ?thesis by (simp only: word_unat_eq_iff unat_drop_bit)
qed

section \<open>IPv4 addresses\<close>

definition IPADDR :: "u32 \<Rightarrow> u32" where "IPADDR x = x"

definition IN_CLASSA :: "u32 \<Rightarrow> bool" where "IN_CLASSA i \<longleftrightarrow> i AND IPADDR 0x80000000 = IPADDR 0x00000000"
definition IN_CLASSA_NET :: u32 where "IN_CLASSA_NET = IPADDR 0xFF000000"
definition IN_CLASSA_NSHIFT :: nat where "IN_CLASSA_NSHIFT = 24"
definition IN_CLASSA_HOST :: u32 where "IN_CLASSA_HOST = IPADDR 0x00FFFFFF"
definition IN_CLASSA_MAX :: nat where "IN_CLASSA_MAX = 128"

definition IN_CLASSB :: "u32 \<Rightarrow> bool" where "IN_CLASSB i \<longleftrightarrow> i AND IPADDR 0xC0000000 = IPADDR 0x80000000"
definition IN_CLASSB_NET :: u32 where "IN_CLASSB_NET = IPADDR 0xFFFF0000"
definition IN_CLASSB_NSHIFT :: nat where "IN_CLASSB_NSHIFT = 16"
definition IN_CLASSB_HOST :: u32 where "IN_CLASSB_HOST = IPADDR 0x0000FFFF"
definition IN_CLASSB_MAX :: nat where "IN_CLASSB_MAX = 65536"

definition IN_CLASSC :: "u32 \<Rightarrow> bool" where "IN_CLASSC i \<longleftrightarrow> i AND IPADDR 0xE0000000 = IPADDR 0xC0000000"
definition IN_CLASSC_NET :: u32 where "IN_CLASSC_NET = IPADDR 0xFFFFFF00"
definition IN_CLASSC_NSHIFT :: nat where "IN_CLASSC_NSHIFT = 8"
definition IN_CLASSC_HOST :: u32 where "IN_CLASSC_HOST = IPADDR 0x000000FF"

definition IN_CLASSD :: "u32 \<Rightarrow> bool" where "IN_CLASSD i \<longleftrightarrow> i AND IPADDR 0xF0000000 = IPADDR 0xE0000000"
definition IN_CLASSD_NET :: u32 where "IN_CLASSD_NET = IPADDR 0xF0000000"
definition IN_CLASSD_NSHIFT :: nat where "IN_CLASSD_NSHIFT = 28"
definition IN_CLASSD_HOST :: u32 where "IN_CLASSD_HOST = IPADDR 0x0FFFFFFF"
definition IN_MULTICAST :: "u32 \<Rightarrow> bool" where "IN_MULTICAST i = IN_CLASSD i"

definition IN_RFC3021_NET :: u32 where "IN_RFC3021_NET = IPADDR 0xFFFFFFFE"
definition IN_RFC3021_NSHIFT :: nat where "IN_RFC3021_NSHIFT = 31"
definition IN_RFC3021_HOST :: u32 where "IN_RFC3021_HOST = IPADDR 0x00000001"
definition IN_RFC3021_SUBNET :: "u32 \<Rightarrow> bool" where "IN_RFC3021_SUBNET n \<longleftrightarrow> n AND IN_RFC3021_NET = IN_RFC3021_NET"

definition IN_EXPERIMENTAL :: "u32 \<Rightarrow> bool" where "IN_EXPERIMENTAL i \<longleftrightarrow> i AND IPADDR 0xF0000000 = IPADDR 0xF0000000"
definition IN_BADCLASS :: "u32 \<Rightarrow> bool" where "IN_BADCLASS i \<longleftrightarrow> i AND IPADDR 0xF0000000 = IPADDR 0xF0000000"
definition IN_LOCAL_GROUP :: "u32 \<Rightarrow> bool" where "IN_LOCAL_GROUP i \<longleftrightarrow> i AND IPADDR 0xFFFFFF00 = IPADDR 0xE0000000"

definition INADDR_ANY :: u32 where "INADDR_ANY = IPADDR 0x00000000"
definition INADDR_LOOPBACK :: u32 where "INADDR_LOOPBACK = IPADDR 0x7F000001"
definition INADDR_BROADCAST :: u32 where "INADDR_BROADCAST = IPADDR 0xFFFFFFFF"
definition INADDR_NONE :: u32 where "INADDR_NONE = IPADDR 0xFFFFFFFF"
definition INADDR_UNSPEC_GROUP :: u32 where "INADDR_UNSPEC_GROUP = IPADDR 0xE0000000"
definition INADDR_ALLHOSTS_GROUP :: u32 where "INADDR_ALLHOSTS_GROUP = IPADDR 0xE0000001"
definition INADDR_ALLROUTERS_GROUP :: u32 where "INADDR_ALLROUTERS_GROUP = IPADDR 0xE0000002"
definition INADDR_CARP_GROUP :: u32 where "INADDR_CARP_GROUP = IPADDR 0xE0000012"
definition INADDR_PFSYNC_GROUP :: u32 where "INADDR_PFSYNC_GROUP = IPADDR 0xE00000F0"
definition INADDR_MAX_LOCAL_GROUP :: u32 where "INADDR_MAX_LOCAL_GROUP = IPADDR 0xE00000FF"
definition IN_LOOPBACKNET :: u32 where "IN_LOOPBACKNET = 127"

lemmas ipv4_defs = IPADDR_def IN_CLASSA_def IN_CLASSA_NET_def IN_CLASSA_NSHIFT_def IN_CLASSA_HOST_def IN_CLASSA_MAX_def
  IN_CLASSB_def IN_CLASSB_NET_def IN_CLASSB_NSHIFT_def IN_CLASSB_HOST_def IN_CLASSB_MAX_def
  IN_CLASSC_def IN_CLASSC_NET_def IN_CLASSC_NSHIFT_def IN_CLASSC_HOST_def
  IN_CLASSD_def IN_CLASSD_NET_def IN_CLASSD_NSHIFT_def IN_CLASSD_HOST_def IN_MULTICAST_def
  IN_RFC3021_NET_def IN_RFC3021_NSHIFT_def IN_RFC3021_HOST_def IN_RFC3021_SUBNET_def
  IN_EXPERIMENTAL_def IN_BADCLASS_def IN_LOCAL_GROUP_def INADDR_ANY_def INADDR_LOOPBACK_def INADDR_BROADCAST_def
  INADDR_NONE_def INADDR_UNSPEC_GROUP_def INADDR_ALLHOSTS_GROUP_def INADDR_ALLROUTERS_GROUP_def INADDR_CARP_GROUP_def
  INADDR_PFSYNC_GROUP_def INADDR_MAX_LOCAL_GROUP_def IN_LOOPBACKNET_def

lemma ipv4_tests:
  "IN_CLASSA i \<longleftrightarrow> unat i div 2 ^ 31 = 0" "IN_CLASSB i \<longleftrightarrow> unat i div 2 ^ 30 = 2"
  "IN_CLASSC i \<longleftrightarrow> unat i div 2 ^ 29 = 6" "IN_CLASSD i \<longleftrightarrow> unat i div 2 ^ 28 = 14"
  "IN_EXPERIMENTAL i \<longleftrightarrow> unat i div 2 ^ 28 = 15" "IN_BADCLASS i \<longleftrightarrow> unat i div 2 ^ 28 = 15"
  "IN_LOCAL_GROUP i \<longleftrightarrow> unat i div 2 ^ 8 = 0xE00000" "IN_RFC3021_SUBNET i \<longleftrightarrow> unat i div 2 ^ 1 = 0x7FFFFFFF"
  using leading_bits [of 31 0 i] leading_bits [of 30 2 i] leading_bits [of 29 6 i] leading_bits [of 28 14 i]
    leading_bits [of 28 15 i] leading_bits [of 8 "0xE00000" i] leading_bits [of 1 "0x7FFFFFFF" i]
  by (simp_all add: ipv4_defs mask_eq_exp_minus_1)

text \<open>
  The five classes are ranges of addresses that follow each other, the local groups are among the
  multicast addresses, and a network mask, its host mask and its shift belong together.
\<close>

lemma ipv4_classes:
  "IN_CLASSA i \<longleftrightarrow> unat i < 0x80000000" "IN_CLASSB i \<longleftrightarrow> 0x80000000 \<le> unat i \<and> unat i < 0xC0000000"
  "IN_CLASSC i \<longleftrightarrow> 0xC0000000 \<le> unat i \<and> unat i < 0xE0000000"
  "IN_MULTICAST i \<longleftrightarrow> 0xE0000000 \<le> unat i \<and> unat i < 0xF0000000"
  "IN_EXPERIMENTAL i \<longleftrightarrow> 0xF0000000 \<le> unat i" "IN_BADCLASS i = IN_EXPERIMENTAL i"
  "IN_LOCAL_GROUP i \<longleftrightarrow> INADDR_UNSPEC_GROUP \<le> i \<and> i \<le> INADDR_MAX_LOCAL_GROUP"
  "IN_RFC3021_SUBNET i \<longleftrightarrow> i = IN_RFC3021_NET \<or> i = INADDR_BROADCAST"
proof -
  have b: "unat i < 4294967296" using unsigned_less [of i, where 'a = nat] by simp
  show "IN_CLASSA i \<longleftrightarrow> unat i < 0x80000000" "IN_CLASSB i \<longleftrightarrow> 0x80000000 \<le> unat i \<and> unat i < 0xC0000000"
    "IN_CLASSC i \<longleftrightarrow> 0xC0000000 \<le> unat i \<and> unat i < 0xE0000000"
    "IN_MULTICAST i \<longleftrightarrow> 0xE0000000 \<le> unat i \<and> unat i < 0xF0000000"
    "IN_EXPERIMENTAL i \<longleftrightarrow> 0xF0000000 \<le> unat i" "IN_BADCLASS i = IN_EXPERIMENTAL i"
    using b unfolding IN_MULTICAST_def ipv4_tests by (simp; linarith)+
  show "IN_LOCAL_GROUP i \<longleftrightarrow> INADDR_UNSPEC_GROUP \<le> i \<and> i \<le> INADDR_MAX_LOCAL_GROUP"
    unfolding ipv4_tests by (simp add: ipv4_defs word_le_nat_alt) linarith
  show "IN_RFC3021_SUBNET i \<longleftrightarrow> i = IN_RFC3021_NET \<or> i = INADDR_BROADCAST"
    using b unfolding ipv4_tests by (simp add: ipv4_defs word_unat_eq_iff) linarith
qed

lemma ipv4_masks:
  "list_all (\<lambda>(net, host, k). net = NOT host \<and> host = mask k)
     [(IN_CLASSA_NET, IN_CLASSA_HOST, IN_CLASSA_NSHIFT), (IN_CLASSB_NET, IN_CLASSB_HOST, IN_CLASSB_NSHIFT),
      (IN_CLASSC_NET, IN_CLASSC_HOST, IN_CLASSC_NSHIFT), (IN_CLASSD_NET, IN_CLASSD_HOST, IN_CLASSD_NSHIFT)]"
  "IN_RFC3021_NET = NOT IN_RFC3021_HOST" "IN_RFC3021_HOST = mask (32 - IN_RFC3021_NSHIFT)"
  by (simp_all add: ipv4_defs mask_eq_exp_minus_1)

section \<open>IPv6 addresses\<close>

definition s6_addr :: "mem \<Rightarrow> u32 \<Rightarrow> nat \<Rightarrow> u8" where
  "s6_addr m a i = m (a + offsetof struct_in6_addr ''u6_addr'' + of_nat i)"

text \<open>The tests read four octets at once, through a pointer to a word.\<close>

definition s6_word :: "mem \<Rightarrow> u32 \<Rightarrow> nat \<Rightarrow> u32" where
  "s6_word m a i = ld32 m (a + offsetof struct_in6_addr ''u6_addr'' + of_nat i)"

definition IN6ADDR_ANY_INIT :: "u8 list" where
  "IN6ADDR_ANY_INIT = [0, 0, 0, 0, 0, 0, 0, 0, 0, 0, 0, 0, 0, 0, 0, 0]"
definition IN6ADDR_LOOPBACK_INIT :: "u8 list" where
  "IN6ADDR_LOOPBACK_INIT = [0, 0, 0, 0, 0, 0, 0, 0, 0, 0, 0, 0, 0, 0, 0, 1]"
definition IN6ADDR_NODELOCAL_ALLNODES_INIT :: "u8 list" where
  "IN6ADDR_NODELOCAL_ALLNODES_INIT = [0xFF, 1, 0, 0, 0, 0, 0, 0, 0, 0, 0, 0, 0, 0, 0, 1]"
definition IN6ADDR_INTFACELOCAL_ALLNODES_INIT :: "u8 list" where
  "IN6ADDR_INTFACELOCAL_ALLNODES_INIT = [0xFF, 1, 0, 0, 0, 0, 0, 0, 0, 0, 0, 0, 0, 0, 0, 1]"
definition IN6ADDR_LINKLOCAL_ALLNODES_INIT :: "u8 list" where
  "IN6ADDR_LINKLOCAL_ALLNODES_INIT = [0xFF, 2, 0, 0, 0, 0, 0, 0, 0, 0, 0, 0, 0, 0, 0, 1]"
definition IN6ADDR_LINKLOCAL_ALLROUTERS_INIT :: "u8 list" where
  "IN6ADDR_LINKLOCAL_ALLROUTERS_INIT = [0xFF, 2, 0, 0, 0, 0, 0, 0, 0, 0, 0, 0, 0, 0, 0, 2]"

definition IN6_ARE_ADDR_EQUAL :: "mem \<Rightarrow> u32 \<Rightarrow> u32 \<Rightarrow> bool" where
  "IN6_ARE_ADDR_EQUAL m a b \<longleftrightarrow>
     mem_bytes m (a + offsetof struct_in6_addr ''u6_addr'') (sizeof struct_in6_addr)
     = mem_bytes m (b + offsetof struct_in6_addr ''u6_addr'') (sizeof struct_in6_addr)"

definition IPV6_ADDR_INT32_ONE :: u32 where "IPV6_ADDR_INT32_ONE = htonl 1"
definition IPV6_ADDR_INT32_TWO :: u32 where "IPV6_ADDR_INT32_TWO = htonl 2"
definition IPV6_ADDR_INT32_MNL :: u32 where "IPV6_ADDR_INT32_MNL = htonl 0xFF010000"
definition IPV6_ADDR_INT32_MLL :: u32 where "IPV6_ADDR_INT32_MLL = htonl 0xFF020000"
definition IPV6_ADDR_INT32_SMP :: u32 where "IPV6_ADDR_INT32_SMP = htonl 0x0000FFFF"
definition IPV6_ADDR_INT16_ULL :: u16 where "IPV6_ADDR_INT16_ULL = hton16 0xFE80"
definition IPV6_ADDR_INT16_USL :: u16 where "IPV6_ADDR_INT16_USL = hton16 0xFEC0"
definition IPV6_ADDR_INT16_MLL :: u16 where "IPV6_ADDR_INT16_MLL = hton16 0xFF02"

definition IN6_IS_ADDR_UNSPECIFIED :: "mem \<Rightarrow> u32 \<Rightarrow> bool" where
  "IN6_IS_ADDR_UNSPECIFIED m a \<longleftrightarrow>
     s6_word m a 0 = 0 \<and> s6_word m a 4 = 0 \<and> s6_word m a 8 = 0 \<and> s6_word m a 12 = 0"

definition IN6_IS_ADDR_LOOPBACK :: "mem \<Rightarrow> u32 \<Rightarrow> bool" where
  "IN6_IS_ADDR_LOOPBACK m a \<longleftrightarrow>
     s6_word m a 0 = 0 \<and> s6_word m a 4 = 0 \<and> s6_word m a 8 = 0 \<and> s6_word m a 12 = IPV6_ADDR_INT32_ONE"

definition IN6_IS_ADDR_V4COMPAT :: "mem \<Rightarrow> u32 \<Rightarrow> bool" where
  "IN6_IS_ADDR_V4COMPAT m a \<longleftrightarrow>
     s6_word m a 0 = 0 \<and> s6_word m a 4 = 0 \<and> s6_word m a 8 = 0
     \<and> s6_word m a 12 \<noteq> 0 \<and> s6_word m a 12 \<noteq> IPV6_ADDR_INT32_ONE"

definition IN6_IS_ADDR_V4MAPPED :: "mem \<Rightarrow> u32 \<Rightarrow> bool" where
  "IN6_IS_ADDR_V4MAPPED m a \<longleftrightarrow>
     s6_word m a 0 = 0 \<and> s6_word m a 4 = 0 \<and> s6_word m a 8 = IPV6_ADDR_INT32_SMP"

definition IN6_IS_ADDR_LINKLOCAL :: "mem \<Rightarrow> u32 \<Rightarrow> bool" where
  "IN6_IS_ADDR_LINKLOCAL m a \<longleftrightarrow> s6_addr m a 0 = 0xFE \<and> s6_addr m a 1 AND 0xC0 = 0x80"

definition IN6_IS_ADDR_SITELOCAL :: "mem \<Rightarrow> u32 \<Rightarrow> bool" where
  "IN6_IS_ADDR_SITELOCAL m a \<longleftrightarrow> s6_addr m a 0 = 0xFE \<and> s6_addr m a 1 AND 0xC0 = 0xC0"

definition IPV6_ADDR_MC_SCOPE :: "mem \<Rightarrow> u32 \<Rightarrow> u8" where
  "IPV6_ADDR_MC_SCOPE m a = s6_addr m a 1 AND 0x0F"

definition IN6_IS_ADDR_MULTICAST :: "mem \<Rightarrow> u32 \<Rightarrow> bool" where
  "IN6_IS_ADDR_MULTICAST m a \<longleftrightarrow> s6_addr m a 0 = 0xFF"

definition IPV6_ADDR_SCOPE_NODELOCAL :: u8 where "IPV6_ADDR_SCOPE_NODELOCAL = 0x01"
definition IPV6_ADDR_SCOPE_INTFACELOCAL :: u8 where "IPV6_ADDR_SCOPE_INTFACELOCAL = 0x01"
definition IPV6_ADDR_SCOPE_LINKLOCAL :: u8 where "IPV6_ADDR_SCOPE_LINKLOCAL = 0x02"
definition IPV6_ADDR_SCOPE_SITELOCAL :: u8 where "IPV6_ADDR_SCOPE_SITELOCAL = 0x05"
definition IPV6_ADDR_SCOPE_ORGLOCAL :: u8 where "IPV6_ADDR_SCOPE_ORGLOCAL = 0x08"
definition IPV6_ADDR_SCOPE_GLOBAL :: u8 where "IPV6_ADDR_SCOPE_GLOBAL = 0x0E"

definition IN6_IS_ADDR_MC_NODELOCAL :: "mem \<Rightarrow> u32 \<Rightarrow> bool" where
  "IN6_IS_ADDR_MC_NODELOCAL m a \<longleftrightarrow> IN6_IS_ADDR_MULTICAST m a \<and> IPV6_ADDR_MC_SCOPE m a = IPV6_ADDR_SCOPE_NODELOCAL"
definition IN6_IS_ADDR_MC_INTFACELOCAL :: "mem \<Rightarrow> u32 \<Rightarrow> bool" where
  "IN6_IS_ADDR_MC_INTFACELOCAL m a \<longleftrightarrow> IN6_IS_ADDR_MULTICAST m a \<and> IPV6_ADDR_MC_SCOPE m a = IPV6_ADDR_SCOPE_INTFACELOCAL"
definition IN6_IS_ADDR_MC_LINKLOCAL :: "mem \<Rightarrow> u32 \<Rightarrow> bool" where
  "IN6_IS_ADDR_MC_LINKLOCAL m a \<longleftrightarrow> IN6_IS_ADDR_MULTICAST m a \<and> IPV6_ADDR_MC_SCOPE m a = IPV6_ADDR_SCOPE_LINKLOCAL"
definition IN6_IS_ADDR_MC_SITELOCAL :: "mem \<Rightarrow> u32 \<Rightarrow> bool" where
  "IN6_IS_ADDR_MC_SITELOCAL m a \<longleftrightarrow> IN6_IS_ADDR_MULTICAST m a \<and> IPV6_ADDR_MC_SCOPE m a = IPV6_ADDR_SCOPE_SITELOCAL"
definition IN6_IS_ADDR_MC_ORGLOCAL :: "mem \<Rightarrow> u32 \<Rightarrow> bool" where
  "IN6_IS_ADDR_MC_ORGLOCAL m a \<longleftrightarrow> IN6_IS_ADDR_MULTICAST m a \<and> IPV6_ADDR_MC_SCOPE m a = IPV6_ADDR_SCOPE_ORGLOCAL"
definition IN6_IS_ADDR_MC_GLOBAL :: "mem \<Rightarrow> u32 \<Rightarrow> bool" where
  "IN6_IS_ADDR_MC_GLOBAL m a \<longleftrightarrow> IN6_IS_ADDR_MULTICAST m a \<and> IPV6_ADDR_MC_SCOPE m a = IPV6_ADDR_SCOPE_GLOBAL"

lemmas ipv6_constants = IN6ADDR_ANY_INIT_def IN6ADDR_LOOPBACK_INIT_def IN6ADDR_NODELOCAL_ALLNODES_INIT_def
  IN6ADDR_INTFACELOCAL_ALLNODES_INIT_def IN6ADDR_LINKLOCAL_ALLNODES_INIT_def IN6ADDR_LINKLOCAL_ALLROUTERS_INIT_def
  IPV6_ADDR_SCOPE_NODELOCAL_def IPV6_ADDR_SCOPE_INTFACELOCAL_def IPV6_ADDR_SCOPE_LINKLOCAL_def
  IPV6_ADDR_SCOPE_SITELOCAL_def IPV6_ADDR_SCOPE_ORGLOCAL_def IPV6_ADDR_SCOPE_GLOBAL_def

lemmas ipv6_tests = IN6_IS_ADDR_UNSPECIFIED_def IN6_IS_ADDR_LOOPBACK_def IN6_IS_ADDR_V4COMPAT_def IN6_IS_ADDR_V4MAPPED_def
  IN6_IS_ADDR_LINKLOCAL_def IN6_IS_ADDR_SITELOCAL_def IPV6_ADDR_MC_SCOPE_def IN6_IS_ADDR_MULTICAST_def
  IN6_IS_ADDR_MC_NODELOCAL_def IN6_IS_ADDR_MC_INTFACELOCAL_def IN6_IS_ADDR_MC_LINKLOCAL_def
  IN6_IS_ADDR_MC_SITELOCAL_def IN6_IS_ADDR_MC_ORGLOCAL_def IN6_IS_ADDR_MC_GLOBAL_def

lemma in6_addr_layout: "sizeof struct_in6_addr = 16" "alignof struct_in6_addr = 4" "offsetof struct_in6_addr ''u6_addr'' = 0"
  by (simp_all add: struct_in6_addr_def sizeof_def offsetof_def align_up_def)

lemma ten_bits:
  fixes x y :: u8
  shows "x = 0xFE \<and> y AND 0xC0 = 0x80 \<longleftrightarrow> (256 * unat x + unat y) div 2 ^ 6 = 0xFE80 div 2 ^ 6"
    "x = 0xFE \<and> y AND 0xC0 = 0xC0 \<longleftrightarrow> (256 * unat x + unat y) div 2 ^ 6 = 0xFEC0 div 2 ^ 6"
proof -
  have "y AND 0xC0 = 0x80 \<longleftrightarrow> unat y div 64 = 2" "y AND 0xC0 = 0xC0 \<longleftrightarrow> unat y div 64 = 3"
    using leading_bits [of 6 2 y] leading_bits [of 6 3 y] by (simp_all add: mask_eq_exp_minus_1)
  moreover have "x = 0xFE \<longleftrightarrow> unat x = 254" "unat y < 256" using unsigned_less [of y, where 'a = nat] by (simp_all add: word_unat_eq_iff)
  ultimately show "x = 0xFE \<and> y AND 0xC0 = 0x80 \<longleftrightarrow> (256 * unat x + unat y) div 2 ^ 6 = 0xFE80 div 2 ^ 6"
    "x = 0xFE \<and> y AND 0xC0 = 0xC0 \<longleftrightarrow> (256 * unat x + unat y) div 2 ^ 6 = 0xFEC0 div 2 ^ 6" by (simp; linarith)+
qed
text \<open>The octets of an address, and its words in terms of them.\<close>

lemma s6_nth: "i < 16 \<Longrightarrow> mem_bytes m a 16 = bs \<Longrightarrow> s6_addr m a i = bs ! i"
  using mem_bytes_nth [of i 16 m a] by (simp add: s6_addr_def in6_addr_layout)

lemma ld32_eq: "ld32 m a = v \<longleftrightarrow> mem_bytes m a 4 = bytes32 v"
  by (simp add: bytes32_ld32)

lemma s6_word_eq: "i + 4 \<le> 16 \<Longrightarrow> s6_word m a i = v \<longleftrightarrow> take 4 (drop i (mem_bytes m a 16)) = bytes32 v"
  by (simp add: s6_word_def in6_addr_layout ld32_eq flip: mem_bytes_part [OF refl, of i 4 16 m a])

lemma bytes_htonl:
  "bytes32 0 = [0, 0, 0, 0]" "bytes32 IPV6_ADDR_INT32_ONE = [0, 0, 0, 1]" "bytes32 IPV6_ADDR_INT32_TWO = [0, 0, 0, 2]"
  "bytes32 IPV6_ADDR_INT32_MNL = [0xFF, 0x01, 0, 0]" "bytes32 IPV6_ADDR_INT32_MLL = [0xFF, 0x02, 0, 0]"
  "bytes32 IPV6_ADDR_INT32_SMP = [0, 0, 0xFF, 0xFF]"
  by (simp_all add: bytes32_def IPV6_ADDR_INT32_ONE_def IPV6_ADDR_INT32_TWO_def IPV6_ADDR_INT32_MNL_def
      IPV6_ADDR_INT32_MLL_def IPV6_ADDR_INT32_SMP_def htonl_def)


lemma s6_words:
  assumes "mem_bytes m a 16 = [b0, b1, b2, b3, b4, b5, b6, b7, b8, b9, b10, b11, b12, b13, b14, b15]"
  shows "s6_word m a 0 = v \<longleftrightarrow> [b0, b1, b2, b3] = bytes32 v" "s6_word m a 4 = v \<longleftrightarrow> [b4, b5, b6, b7] = bytes32 v"
    "s6_word m a 8 = v \<longleftrightarrow> [b8, b9, b10, b11] = bytes32 v" "s6_word m a 12 = v \<longleftrightarrow> [b12, b13, b14, b15] = bytes32 v"
    "s6_addr m a 0 = b0" "s6_addr m a 1 = b1"
  using s6_nth [OF _ assms] s6_nth [of 1, OF _ assms] by (simp_all add: s6_word_eq assms)

lemma octets_16:
  assumes "length bs = 16"
  obtains b0 b1 b2 b3 b4 b5 b6 b7 b8 b9 b10 b11 b12 b13 b14 b15
  where "bs = [b0, b1, b2, b3, b4, b5, b6, b7, b8, b9, b10, b11, b12, b13, b14, b15]"
  using assms by (auto simp: numeral_eq_Suc length_Suc_conv)

text \<open>
  C38. The tests on IPv6 addresses, most of which compare four octets at a time, are the patterns of
  the sixteen octets that they name: the one address, the prefix of 96 bits and the rest, the prefix
  of ten bits, or the first octet and the scope; no address is of two of the seven kinds.
\<close>

theorem in6_kinds:
  "let bs = mem_bytes m a 16 in (IN6_IS_ADDR_UNSPECIFIED m a \<longleftrightarrow> bs = IN6ADDR_ANY_INIT)
    \<and> (IN6_IS_ADDR_LOOPBACK m a \<longleftrightarrow> bs = IN6ADDR_LOOPBACK_INIT)
    \<and> (IN6_IS_ADDR_V4COMPAT m a \<longleftrightarrow> take 12 bs = replicate 12 0 \<and> bs \<notin> {IN6ADDR_ANY_INIT, IN6ADDR_LOOPBACK_INIT})
    \<and> (IN6_IS_ADDR_V4MAPPED m a \<longleftrightarrow> take 12 bs = replicate 10 0 @ [0xFF, 0xFF])
    \<and> (IN6_IS_ADDR_LINKLOCAL m a \<longleftrightarrow> (256 * unat (bs ! 0) + unat (bs ! 1)) div 2 ^ 6 = 0xFE80 div 2 ^ 6)
    \<and> (IN6_IS_ADDR_SITELOCAL m a \<longleftrightarrow> (256 * unat (bs ! 0) + unat (bs ! 1)) div 2 ^ 6 = 0xFEC0 div 2 ^ 6)
    \<and> (IN6_IS_ADDR_MULTICAST m a \<longleftrightarrow> bs ! 0 = 0xFF)
    \<and> sum_list (map of_bool [IN6_IS_ADDR_UNSPECIFIED m a, IN6_IS_ADDR_LOOPBACK m a, IN6_IS_ADDR_V4COMPAT m a,
          IN6_IS_ADDR_V4MAPPED m a, IN6_IS_ADDR_LINKLOCAL m a, IN6_IS_ADDR_SITELOCAL m a, IN6_IS_ADDR_MULTICAST m a])
        \<le> (1 :: nat)"
proof -
  define bs where assms: "bs = mem_bytes m a 16"
  have "length bs = 16" by (simp add: assms)
  then obtain b0 b1 b2 b3 b4 b5 b6 b7 b8 b9 b10 b11 b12 b13 b14 b15
    where b: "bs = [b0, b1, b2, b3, b4, b5, b6, b7, b8, b9, b10, b11, b12, b13, b14, b15]" by (rule octets_16)
  note w = s6_words [OF trans [OF assms [symmetric] b]]
  have local: "IN6_IS_ADDR_LINKLOCAL m a \<longleftrightarrow> (256 * unat (bs ! 0) + unat (bs ! 1)) div 2 ^ 6 = 0xFE80 div 2 ^ 6"
    "IN6_IS_ADDR_SITELOCAL m a \<longleftrightarrow> (256 * unat (bs ! 0) + unat (bs ! 1)) div 2 ^ 6 = 0xFEC0 div 2 ^ 6"
    unfolding ipv6_tests w ten_bits by (simp_all only: b nth_Cons_0 nth_Cons_numeral One_nat_def nth_Cons_Suc)
  have "IN6_IS_ADDR_UNSPECIFIED m a \<longleftrightarrow> bs = IN6ADDR_ANY_INIT" "IN6_IS_ADDR_LOOPBACK m a \<longleftrightarrow> bs = IN6ADDR_LOOPBACK_INIT"
    "IN6_IS_ADDR_V4COMPAT m a \<longleftrightarrow> take 12 bs = replicate 12 0 \<and> bs \<notin> {IN6ADDR_ANY_INIT, IN6ADDR_LOOPBACK_INIT}"
    "IN6_IS_ADDR_V4MAPPED m a \<longleftrightarrow> take 12 bs = replicate 10 0 @ [0xFF, 0xFF]" "IN6_IS_ADDR_MULTICAST m a \<longleftrightarrow> bs ! 0 = 0xFF"
    unfolding ipv6_tests w by (auto simp: b bytes_htonl ipv6_constants numeral_eq_Suc)
  moreover have "sum_list (map of_bool [IN6_IS_ADDR_UNSPECIFIED m a, IN6_IS_ADDR_LOOPBACK m a, IN6_IS_ADDR_V4COMPAT m a,
          IN6_IS_ADDR_V4MAPPED m a, IN6_IS_ADDR_LINKLOCAL m a, IN6_IS_ADDR_SITELOCAL m a, IN6_IS_ADDR_MULTICAST m a])
        \<le> (1 :: nat)"
    unfolding ipv6_tests w by (auto simp: bytes_htonl)
  ultimately show ?thesis using local by (simp add: Let_def assms)
qed
section \<open>Ethernet addresses and VLAN tags\<close>

definition ETHER_MIN_LEN :: nat where "ETHER_MIN_LEN = 64"
definition ETHER_MAX_DIX_LEN :: nat where "ETHER_MAX_DIX_LEN = 1536"
definition ETHER_VLAN_ENCAP_LEN :: nat where "ETHER_VLAN_ENCAP_LEN = 4"
definition ETHER_MAX_HARDMTU_LEN :: nat where "ETHER_MAX_HARDMTU_LEN = 65435"
definition ETHERMIN :: nat where "ETHERMIN = ETHER_MIN_LEN - ETHER_HDR_LEN - ETHER_CRC_LEN"
definition ETHER_CRC_POLY_LE :: u32 where "ETHER_CRC_POLY_LE = 0xEDB88320"
definition ETHER_CRC_POLY_BE :: u32 where "ETHER_CRC_POLY_BE = 0x04C11DB6"

definition struct_ether_addr :: ctype where
  "struct_ether_addr = CStruct False [(''ether_addr_octet'', CArray ETHER_ADDR_LEN (CInt 1))]"

definition struct_ether_vlan_header :: ctype where
  "struct_ether_vlan_header = CStruct False
    [(''evl_dhost'', CArray ETHER_ADDR_LEN (CInt 1)),
     (''evl_shost'', CArray ETHER_ADDR_LEN (CInt 1)),
     (''evl_encap_proto'', CInt 2), (''evl_tag'', CInt 2), (''evl_proto'', CInt 2)]"

definition EVL_VLID_MASK :: u16 where "EVL_VLID_MASK = 0xFFF"
definition EVL_VLID_NULL :: u16 where "EVL_VLID_NULL = 0x000"
definition EVL_VLID_MIN :: u16 where "EVL_VLID_MIN = 0x001"
definition EVL_VLID_MAX :: u16 where "EVL_VLID_MAX = 0xFFE"
definition EVL_VLANOFTAG :: "u16 \<Rightarrow> u16" where "EVL_VLANOFTAG tag = tag AND EVL_VLID_MASK"
definition EVL_PRIO_MAX :: u16 where "EVL_PRIO_MAX = 7"
definition EVL_PRIO_BITS :: nat where "EVL_PRIO_BITS = 13"
definition EVL_PRIOFTAG :: "u16 \<Rightarrow> u16" where "EVL_PRIOFTAG tag = drop_bit EVL_PRIO_BITS tag AND 7"
definition EVL_ENCAPLEN :: nat where "EVL_ENCAPLEN = 4"

definition ETHER_IS_MULTICAST :: "mem \<Rightarrow> u32 \<Rightarrow> bool" where
  "ETHER_IS_MULTICAST m addr \<longleftrightarrow> m addr AND 0x01 \<noteq> 0"

definition ETHER_IS_BROADCAST :: "mem \<Rightarrow> u32 \<Rightarrow> bool" where
  "ETHER_IS_BROADCAST m addr \<longleftrightarrow>
     m addr AND m (addr + 1) AND m (addr + 2) AND m (addr + 3) AND m (addr + 4) AND m (addr + 5) = 0xFF"

definition ETHER_IS_ANYADDR :: "mem \<Rightarrow> u32 \<Rightarrow> bool" where
  "ETHER_IS_ANYADDR m addr \<longleftrightarrow>
     m addr OR m (addr + 1) OR m (addr + 2) OR m (addr + 3) OR m (addr + 4) OR m (addr + 5) = 0x00"

definition ETHER_IS_EQ :: "mem \<Rightarrow> u32 \<Rightarrow> u32 \<Rightarrow> bool" where
  "ETHER_IS_EQ m a1 a2 \<longleftrightarrow> mem_bytes m a1 ETHER_ADDR_LEN = mem_bytes m a2 ETHER_ADDR_LEN"

definition ETH64_IS_MULTICAST :: "u64 \<Rightarrow> bool" where "ETH64_IS_MULTICAST e64 \<longleftrightarrow> e64 AND 0x010000000000 \<noteq> 0"
definition ETH64_IS_BROADCAST :: "u64 \<Rightarrow> bool" where "ETH64_IS_BROADCAST e64 \<longleftrightarrow> e64 = 0xFFFFFFFFFFFF"
definition ETH64_IS_ANYADDR :: "u64 \<Rightarrow> bool" where "ETH64_IS_ANYADDR e64 \<longleftrightarrow> e64 = 0x000000000000"
definition ETH64_8021_RSVD_PREFIX :: u64 where "ETH64_8021_RSVD_PREFIX = 0x0180C2000000"
definition ETH64_8021_RSVD_MASK :: u64 where "ETH64_8021_RSVD_MASK = 0xFFFFFFFFFFF0"
definition ETH64_IS_8021_RSVD :: "u64 \<Rightarrow> bool" where
  "ETH64_IS_8021_RSVD e64 \<longleftrightarrow> e64 AND ETH64_8021_RSVD_MASK = ETH64_8021_RSVD_PREFIX"

text \<open>The Ethernet addresses of multicast groups, written at \<open>enaddr\<close>.\<close>

definition ETHER_MAP_IP_MULTICAST :: "u32 \<Rightarrow> u32 \<Rightarrow> mem \<Rightarrow> mem" where
  "ETHER_MAP_IP_MULTICAST ipaddr enaddr m =
     (let m = m(enaddr := 0x01);
          m = m(enaddr + 1 := 0x00);
          m = m(enaddr + 2 := 0x5E);
          m = m(enaddr + 3 := m (ipaddr + 1) AND 0x7F);
          m = m(enaddr + 4 := m (ipaddr + 2))
      in m(enaddr + 5 := m (ipaddr + 3)))"

definition ETHER_MAP_IPV6_MULTICAST :: "u32 \<Rightarrow> u32 \<Rightarrow> mem \<Rightarrow> mem" where
  "ETHER_MAP_IPV6_MULTICAST ip6addr enaddr m =
     (let m = m(enaddr := 0x33);
          m = m(enaddr + 1 := 0x33);
          m = m(enaddr + 2 := m (ip6addr + 12));
          m = m(enaddr + 3 := m (ip6addr + 13));
          m = m(enaddr + 4 := m (ip6addr + 14))
      in m(enaddr + 5 := m (ip6addr + 15)))"

lemmas ether_tests = ETHER_IS_MULTICAST_def ETHER_IS_BROADCAST_def ETHER_IS_ANYADDR_def ETHER_IS_EQ_def
  ETH64_IS_MULTICAST_def ETH64_IS_BROADCAST_def ETH64_IS_ANYADDR_def ETH64_IS_8021_RSVD_def
  ETH64_8021_RSVD_PREFIX_def ETH64_8021_RSVD_MASK_def

text \<open>An address as a number: its octets, the first of them highest.\<close>

definition octet_in :: "u64 \<Rightarrow> u8 \<Rightarrow> u64" where
  "octet_in e b = push_bit 8 e OR ucast b"

definition e64 :: "u8 list \<Rightarrow> u64" where
  "e64 bs = foldl octet_in 0 bs"

lemma bit_octet_in: "bit (octet_in e b) n \<longleftrightarrow> (if n < 8 then bit b n else n < 64 \<and> bit e (n - 8))"
  by (auto simp: octet_in_def bit_simps dest: bit_imp_le_length)

lemma octet_in_and: "octet_in e b AND octet_in f c = octet_in (e AND f) (b AND c)"
  by (rule bit_word_eqI) (simp add: bit_octet_in bit_and_iff)

lemma e64_and:
  "e64 [b0, b1, b2, b3, b4, b5] AND e64 [c0, c1, c2, c3, c4, c5]
   = e64 [b0 AND c0, b1 AND c1, b2 AND c2, b3 AND c3, b4 AND c4, b5 AND c5]"
  by (simp add: e64_def octet_in_and)

lemma e64_octets:
  "ucast (drop_bit 40 (e64 [b0, b1, b2, b3, b4, b5])) = b0" "ucast (drop_bit 32 (e64 [b0, b1, b2, b3, b4, b5])) = b1"
  "ucast (drop_bit 24 (e64 [b0, b1, b2, b3, b4, b5])) = b2" "ucast (drop_bit 16 (e64 [b0, b1, b2, b3, b4, b5])) = b3"
  "ucast (drop_bit 8 (e64 [b0, b1, b2, b3, b4, b5])) = b4" "ucast (e64 [b0, b1, b2, b3, b4, b5]) = b5"
  by (rule bit_word_eqI, simp add: e64_def bit_octet_in bit_simps)+

lemma e64_inject:
  "e64 [b0, b1, b2, b3, b4, b5] = e64 [c0, c1, c2, c3, c4, c5] \<longleftrightarrow>
   [b0, b1, b2, b3, b4, b5] = [c0, c1, c2, c3, c4, c5]"
  using e64_octets [of b0 b1 b2 b3 b4 b5] e64_octets [of c0 c1 c2 c3 c4 c5] by auto

lemma e64_constants:
  "0x010000000000 = e64 [1, 0, 0, 0, 0, 0]" "0xFFFFFFFFFFFF = e64 [0xFF, 0xFF, 0xFF, 0xFF, 0xFF, 0xFF]"
  "0 = e64 [0, 0, 0, 0, 0, 0]" "0x0180C2000000 = e64 [0x01, 0x80, 0xC2, 0, 0, 0]"
  "0xFFFFFFFFFFF0 = e64 [0xFF, 0xFF, 0xFF, 0xFF, 0xFF, 0xF0]"
  by (simp_all add: e64_def octet_in_def)

lemma e64_mem: "e64 (mem_bytes m a 6) = e64 [m a, m (a + 1), m (a + 2), m (a + 3), m (a + 4), m (a + 5)]"
  by (simp add: mem_bytes_simps add.assoc)

lemma minus_1_octet: "- 1 = (0xFF :: u8)"
  by simp

lemma octet_all_ones: "(x :: u8) AND y = 0xFF \<longleftrightarrow> x = 0xFF \<and> y = 0xFF"
  using and_eq_minus_1_iff [of x y] minus_1_octet by simp

lemma octet_and_all: "(x :: u8) AND 0xFF = x"
  by (metis minus_1_octet and.right_neutral)

lemma octet_high_nibble: "(x :: u8) AND 0xF0 = 0 \<longleftrightarrow> x < 16"
  using leading_bits [of 4 0 x] by (simp add: mask_eq_exp_minus_1 word_less_nat_alt div_eq_0_iff)

text \<open>
  C39. The tests on an Ethernet address in memory agree with those on the address as a 64-bit number
  (multicast, broadcast, any, equality), a reserved address is one of the sixteen that begin with
  01-80-C2-00-00-0, and a broadcast address is a multicast one; the address that the firmware
  derives for itself is never multicast, the address its DHCP client sends to is broadcast, and the
  addresses made from groups are multicast.
\<close>

theorem ether_address_kinds:
  "let e = e64 (mem_bytes m a ETHER_ADDR_LEN) in
     ETHER_IS_MULTICAST m a = ETH64_IS_MULTICAST e \<and> ETHER_IS_BROADCAST m a = ETH64_IS_BROADCAST e
     \<and> ETHER_IS_ANYADDR m a = ETH64_IS_ANYADDR e
     \<and> ETHER_IS_EQ m a b = (e = e64 (mem_bytes m b ETHER_ADDR_LEN))
     \<and> ETH64_IS_8021_RSVD e = (mem_bytes m a 5 = [0x01, 0x80, 0xC2, 0, 0] \<and> m (a + 5) < 16)
     \<and> \<not> (ETHER_IS_BROADCAST m a \<and> \<not> ETHER_IS_MULTICAST m a)
     \<and> \<not> ETHER_IS_MULTICAST (mem_put m a (MacAddressInitialize m' d0 d1 index)) a
     \<and> ETHER_IS_BROADCAST (mem_put m a kBroadcastMACAddress) a
     \<and> ETHER_IS_MULTICAST (ETHER_MAP_IP_MULTICAST ip a m) a
     \<and> ETHER_IS_MULTICAST (ETHER_MAP_IPV6_MULTICAST ip a m) a"
proof -
  note tests = ether_tests ETHER_ADDR_LEN_def e64_mem
  have same: "ETHER_IS_MULTICAST m a = ETH64_IS_MULTICAST (e64 (mem_bytes m a ETHER_ADDR_LEN))"
    "ETHER_IS_BROADCAST m a = ETH64_IS_BROADCAST (e64 (mem_bytes m a ETHER_ADDR_LEN))"
    "ETHER_IS_ANYADDR m a = ETH64_IS_ANYADDR (e64 (mem_bytes m a ETHER_ADDR_LEN))"
    "ETHER_IS_EQ m a b = (e64 (mem_bytes m a ETHER_ADDR_LEN) = e64 (mem_bytes m b ETHER_ADDR_LEN))"
    "ETH64_IS_8021_RSVD (e64 (mem_bytes m a ETHER_ADDR_LEN)) = (mem_bytes m a 5 = [0x01, 0x80, 0xC2, 0, 0] \<and> m (a + 5) < 16)"
    unfolding tests e64_constants e64_and e64_inject
    by (simp_all add: octet_all_ones or_eq_0_iff mem_bytes_simps add.assoc octet_high_nibble octet_and_all)
  have own: "bs ! 0 = x \<Longrightarrow> length bs = 6 \<Longrightarrow> mem_put m a bs a = x" for bs x
    by (simp add: mem_put_apply)
  have "\<not> ETHER_IS_MULTICAST (mem_put m a (MacAddressInitialize m' d0 d1 index)) a"
    using own [OF refl length_MacAddressInitialize] MacAddress_unicast_local [of m' d0 d1 index]
    by (simp add: ETHER_IS_MULTICAST_def bit_0 and_one_eq odd_iff_mod_2_eq_one)
  moreover have "ETHER_IS_BROADCAST (mem_put m a kBroadcastMACAddress) a"
    by (simp add: ETHER_IS_BROADCAST_def kBroadcastMACAddress_def mem_put_apply)
  moreover have "ETHER_IS_MULTICAST (ETHER_MAP_IP_MULTICAST ip a m) a" "ETHER_IS_MULTICAST (ETHER_MAP_IPV6_MULTICAST ip a m) a"
    by (simp_all add: ETHER_IS_MULTICAST_def ETHER_MAP_IP_MULTICAST_def ETHER_MAP_IPV6_MULTICAST_def Let_def)
  moreover have "\<not> (ETHER_IS_BROADCAST m a \<and> \<not> ETHER_IS_MULTICAST m a)"
    by (auto simp: ETHER_IS_BROADCAST_def ETHER_IS_MULTICAST_def octet_all_ones)
  ultimately show ?thesis using same by (simp add: Let_def)
qed
end
