(* ===== verification/Spec2Isabelle.thy ===== *)
theory Spec2Isabelle
  imports Stale_Descriptor Pcg_Unbiased Firmware_Types Header_Properties Console Pcg_Initializers Inet_Addresses
begin

text \<open>
  A verification library for the firmware of a CH32V307 board (RISC-V, 32 bits, little endian)
  with an internal 10 Mbit Ethernet PHY: the C sources under \<open>src/src/\<close> of the repository.  The
  board answers echo, character generator and ARP requests from its interrupt handler, with
  numbers of a true and two pseudo-random generators, and the main loop stirs entropy into the
  generators and asks for an address with DHCP.

  \<^bold>\<open>The program and its model.\<close>  Machine integers are words of their width (\<open>u8\<close>, \<open>u16\<close>, \<open>u32\<close>,
  \<open>u64\<close>, and 128 bits for the widest PCGs), memory is a function from addresses to bytes, and C
  structures in memory are laid out from descriptions of their declarations.  Variables of a file
  are a record.  A loop that waits for the
  hardware is a partial function that is \<open>None\<close> when it never ends.

  \<^item> \<open>Prelude\<close>: the types, memory with its frame rules, and facts on words and lists.
  \<^item> \<open>C_Layout\<close>: C types under the calling convention of the target, with their sizes and the
    places of their members, and what holds of every well-formed type; \<open>Net_Headers\<close>: the
    structures of the network headers, of \<open>packet.h\<close>, \<open>dhcp.c\<close> and \<open>prdk.h\<close> as such types, and the
    named numbers; \<open>Header_Properties\<close>: what is written through the structures of \<open>packet.h\<close> is read
    through those of \<open>src/include\<close>, and accesses are aligned.
  \<^item> \<open>Inline\<close>: the helpers of \<open>inline.h\<close>.
  \<^item> \<open>Chaskey\<close>: the block cipher of \<open>chaskey.c\<close>; the locale \<open>block_cipher\<close> derives from one
    invertible round that the cipher is a permutation.
  \<^item> \<open>Lcg\<close>: linear congruential generators modulo a power of two, and their period.
  \<^item> \<open>Pcg_Variants\<close>, \<open>Pcg_Output\<close>, \<open>Pcg_Random\<close>, \<open>Pcg_Bounded\<close>: the functions of
    \<open>pcg_variants.h\<close> that step, permute, draw and draw below a bound; \<open>Pcg_Period\<close>: what is
    proved of them; \<open>Pcg_Unbiased\<close>: the results of bounded draws over a whole period;
    \<open>Pcg_Initializers\<close>: the static initial states; \<open>Pcg_Aliases\<close>: the short names.
    \<open>pcg_advance_lcg_*\<close>, which the header only declares, is a parameter with its contract as
    hypothesis.
  \<^item> \<open>Trng\<close>: the devices as the record \<open>board\<close> and the generator of \<open>random.c\<close>, with the locale
    \<open>number_source\<close> of what draws from a generator rely on; \<open>SysTick\<close>: the 64-bit counter of
    \<open>systick.h\<close> and the report of \<open>systick.c\<close>; \<open>Prng\<close>: the generators of \<open>prng.c\<close>.
  \<^item> \<open>Ethaddr\<close>: the MAC address of \<open>ethaddr.c\<close> and \<open>esig.h\<close>.
  \<^item> \<open>Packet\<close>: the header writers of \<open>packet.c\<close>, with the locale \<open>header_writer\<close>; \<open>Dhcp\<close>: the
    client of \<open>dhcp.c\<close>.
  \<^item> \<open>Prdk\<close>: the handler of received frames of \<open>prdk.c\<close> and its specification;
    \<open>Prdk_Safety\<close>: what follows from it.
  \<^item> \<open>Ethernet\<close>: the descriptor rings of \<open>ethernet.c\<close> and the functions on them; \<open>Eth_Queues\<close>: the
    rings as four queues, with the locale \<open>frame_handler\<close> of what the receive interrupt relies
    on; \<open>Eth_System\<close>: the driver with the DMA engine as a step relation; \<open>Eth_Properties\<close>: its
    properties; \<open>Eth_Init\<close>: initialisation; \<open>Eth_Irq\<close>: the interrupt handler and the link;
    \<open>Irq_Steps\<close>: the handler cut into the steps between which the engine may act.
  \<^item> \<open>Bench\<close>: the benchmark of \<open>main.c\<close>; \<open>Main_Steps\<close>: an iteration of the main loop and the steps
    between which an interrupt may come, with the locale \<open>trng_poll\<close> of its two waiting loops;
    \<open>Main_Loop\<close>: boot and the whole firmware as a step
    relation; \<open>Firmware_Types\<close>: the bounds of its arrays; \<open>Races\<close>: interrupts in the middle of an
    update.
  \<^item> \<open>Answers\<close>: the answers to frames as a function of their bytes; \<open>Post_Office\<close>: an abstract
    machine of four queues and the memory that every step of the firmware follows; \<open>Service\<close>: what
    a host that sends frames to the board can rely on; \<open>Stale_Descriptor\<close>: what the receive
    interrupt owes to the DMA engine's habit.
  \<^item> \<open>Console\<close>: what is printed, as strings, and the fault handler.
  \<^item> \<open>Net_Tables\<close>, \<open>Ip_Messages\<close>, \<open>Inet_Addresses\<close>: the other declarations of the headers under
    \<open>src/include\<close>: types, protocols and configuration tables; values and structures of IP, ICMP and
    sockets; the tests on IPv4, IPv6 and Ethernet addresses.

  \<^bold>\<open>Parameters.\<close>  The vendor library \<open>ch32v30x\<close> is not in the repository.  Its masks and the
  addresses that the linker chooses are the records \<open>platform\<close> and \<open>mac_consts\<close>; what a register
  or a flag reads is a function of the history of accesses, as the record \<open>board\<close> and the fields
  \<open>reg_value\<close>, \<open>phy_value\<close> and \<open>PLL3RDY\<close> say; the calls of the library are entries of a log.
  The hypotheses are \<open>platform_ok\<close> (the ownership bit is the same in both rings and apart from
  the transmit flags, the pool of buffers does not wrap), \<open>trng_live\<close> (the random number
  generator, once switched on, keeps setting its flag) and \<open>hardware_wakes\<close> (a PLL that was set
  while it was off, and then switched on, locks; and a controller that has this clock and its bus
  clock, is out of reset and has its transceiver enabled ends its software reset: what the accesses
  have done so far is the record \<open>mac_power\<close>, and nothing is assumed before it is all done).

  \<^bold>\<open>What is proved.\<close>
  \<^item> Buffers: the two rings are queues in which each of the eight buffers is exactly once, in
    every state that the DMA engine, the interrupt and the main loop reach in any order; the
    loops of the interrupt end; the overruns provided for never happen; the interrupts are
    operations on the queues.  The engine's habit of keeping back one descriptor, which the
    source describes, is a premise of its receive step; without it, for every sequence of frames
    of a certain kind, a buffer ends up in both rings.
  \<^item> The firmware: boot returns and establishes all invariants, and afterwards every
    interleaving is a run of the system of buffers, in which the interrupt handler and the main
    loop can always go on; every index is within its array; the handler and the loop are the runs
    of their steps; the handler does what the status asks for and acknowledges just that; it can
    lose an interrupt of a frame that arrives before the acknowledgement; an interrupt in the
    middle of an update of the main loop loses the entropy it injects, and one between the poll
    and the read of the random number generator makes the loop read what is not ready; the link.
  \<^item> The service: every step of the firmware is a step of the post office, where frames arrive,
    are answered in place or dropped, and answers leave, in order.  So a frame that waits stays as
    it is, nothing but answers of the board leaves it, and when reception is reported every
    request that waits is answered by the handler.
  \<^item> Frames: the handler does what its specification says for every frame, writes only the
    frame's own buffer, never answers an answer, and where it is careless (unchecked length,
    unknown selector) what it leaks.
  \<^item> Generators: full periods, equidistribution, bounded draws that return every result equally
    often over a period, jumping ahead, the cipher as a permutation, seeding, and that an
    injection of entropy loses none.
  \<^item> The rest: the consistency of the counter read in halves, the DHCP message byte by byte, the
    MAC address, the agreement of the two descriptions of the headers, the alignment of the accesses
    to a frame, and that the dump of a frame on the console can be read back.
  \<^item> The headers: the tests on addresses that read words or numbers are the patterns of octets they
    name, the kinds of addresses exclude each other, and the addresses of the firmware are of the
    right kind.

  \<^bold>\<open>Bounds.\<close>  No fuel is used: loops with a count are recursive on it, waiting loops and the loops
  of the interrupt are partial functions whose termination is proved.

  \<^bold>\<open>Not modelled.\<close>  The console messages are strings on their own and not part of the state of
  the firmware; the floating-point figure of the benchmark and the prints of the rings while they
  are debugged; delays; the code between \<open>#if 0\<close> and \<open>#endif\<close> and the other PHY modes, which are not
  compiled; the parts of the vendored OpenBSD headers under \<open>src/include\<close> for that system's kernel
  (\<open>_KERNEL\<close>), apart from the maps of multicast groups to Ethernet addresses, and the prototypes in
  them; the functions of \<open>pcg_variants.h\<close> that are declared only; the host scripts under \<open>src/bin\<close>.  The engine
  steps between two rounds of the handler's loops, not inside one (it owns other descriptors and
  buffers than those the round works on).  The main loop is interrupted between any two of its
  accesses to what it shares with the handler, which are the steps of \<open>main_pc\<close>; where C leaves the
  order of a load and a call open, the load comes after the call.
\<close>

end
